(* ===== verification/Nex_Prelude.thy ===== *)
theory Nex_Prelude
  imports Main "HOL-Library.Word" "HOL-Library.AList" "HOL-Library.State_Monad"
begin

section \<open>Prelude: bytes, little-endian words, strings, Go maps\<close>

text \<open>
  What every component shares: the names of Go's fixed-width integers, the little-endian
  layout of \<open>encoding/binary\<close>, Go strings as byte strings, Go maps as association lists
  with distinct keys, and the collections of facts the component proofs use.

  A Go map is an association list whose keys are distinct.  The order of the list is the
  order in which a \<open>range\<close> loop visits the entries; Go leaves that order open, so no
  invariant of the development constrains it and every theorem is about all orders.
\<close>

unbundle bit_operations_syntax

type_synonym byte = "8 word"
type_synonym u8 = "8 word"
type_synonym u16 = "16 word"
type_synonym u32 = "32 word"
type_synonym u64 = "64 word"
type_synonym bytes = "8 word list"

text \<open>IEEE-754 values are carried by their bit pattern: the program only moves them.\<close>

type_synonym float64 = "64 word"
type_synonym float32 = "32 word"

named_theorems wire_simps \<open>unfolding of the wire encoders\<close>
named_theorems rd_roundtrip \<open>a reader applied to the bytes of its writer\<close>
named_theorems inv_intros \<open>an operation keeps the invariant of its component\<close>

subsection \<open>Little-endian words\<close>

primrec le_bytes :: "nat \<Rightarrow> 'a::len word \<Rightarrow> bytes" where
  "le_bytes 0 w = []"
| "le_bytes (Suc n) w = ucast w # le_bytes n (drop_bit 8 w)"

primrec le_word :: "bytes \<Rightarrow> 'a::len word" where
  "le_word [] = 0"
| "le_word (b # bs) = ucast b OR push_bit 8 (le_word bs)"

lemma length_le_bytes [simp]: "length (le_bytes n w) = n"
  by (induction n arbitrary: w) simp_all

lemma bit_ucast_byte: "bit (ucast (b :: byte) :: 'a::len word) n \<longleftrightarrow> n < LENGTH('a) \<and> n < 8 \<and> bit b n"
  by (auto simp: bit_simps dest: bit_imp_le_length)

lemma le_word_le_bytes_take: "le_word (le_bytes n w) = take_bit (8 * n) (w :: 'a::len word)"
proof (induction n arbitrary: w)
  case 0
  then show ?case by simp
next
  case (Suc n)
  show ?case
  proof (rule bit_word_eqI)
    fix k assume k: "k < LENGTH('a)"
    show "bit (le_word (le_bytes (Suc n) w) :: 'a word) k = bit (take_bit (8 * Suc n) w) k"
      using k by (cases "k < 8") (auto simp: Suc bit_simps)
  qed
qed

lemma le_word_le_bytes [simp]: "LENGTH('a) \<le> 8 * n \<Longrightarrow> le_word (le_bytes n w) = (w :: 'a::len word)"
  by (simp add: le_word_le_bytes_take take_bit_word_eq_self)

lemma le_bytes_le_word [simp]:
  "length bs = n \<Longrightarrow> 8 * n \<le> LENGTH('a) \<Longrightarrow> le_bytes n (le_word bs :: 'a::len word) = bs"
proof (induction bs arbitrary: n)
  case Nil
  then show ?case by simp
next
  case (Cons b bs)
  then obtain m where n: "n = Suc m" by (cases n) auto
  have low: "ucast (ucast b OR push_bit 8 (le_word bs) :: 'a word) = b"
    by (rule bit_word_eqI) (use Cons.prems n in \<open>auto simp: bit_simps\<close>)
  have high: "le_bytes m (drop_bit 8 (ucast b OR push_bit 8 (le_word bs :: 'a word))) = bs"
  proof -
    have eq: "drop_bit 8 (ucast b OR push_bit 8 (le_word bs :: 'a word)) = take_bit (LENGTH('a) - 8) (le_word bs)"
      by (rule bit_word_eqI) (use Cons.prems n in \<open>auto simp: bit_simps dest: bit_imp_le_length\<close>)
    have cut: "le_bytes k (take_bit j w) = le_bytes k w" if "8 * k \<le> j" for k j and w :: "'a word"
      using that
    proof (induction k arbitrary: j w)
      case 0
      then show ?case by simp
    next
      case (Suc k)
      have "drop_bit 8 (take_bit j w) = take_bit (j - 8) (drop_bit 8 w)"
        by (rule bit_word_eqI) (auto simp: bit_simps)
      moreover have "ucast (take_bit j w) = (ucast w :: byte)"
        by (rule bit_word_eqI) (use Suc.prems in \<open>auto simp: bit_simps\<close>)
      ultimately show ?case using Suc by simp
    qed
    show ?thesis
      unfolding eq using Cons.prems n by (subst cut) (auto intro: Cons.IH)
  qed
  show ?case using n low high by simp
qed

subsection \<open>Go strings\<close>

text \<open>A Go string is a sequence of bytes; a character of the model is one byte.\<close>

definition byte_of_char :: "char \<Rightarrow> byte" where
  "byte_of_char c = of_nat (of_char c)"

definition char_of_byte :: "byte \<Rightarrow> char" where
  "char_of_byte b = char_of (unat b)"

definition string_bytes :: "string \<Rightarrow> bytes" where
  "string_bytes s = map byte_of_char s"

definition bytes_string :: "bytes \<Rightarrow> string" where
  "bytes_string bs = map char_of_byte bs"

lemma char_of_byte_of_char [simp]: "char_of_byte (byte_of_char c) = c"
proof -
  have "(of_char c :: nat) < 256" by simp
  then show ?thesis
    by (simp add: char_of_byte_def byte_of_char_def unat_of_nat)
qed

lemma byte_of_char_of_byte [simp]: "byte_of_char (char_of_byte b) = b"
proof -
  have "unat b < 256" using unsigned_less [where w = b] by simp
  then show ?thesis
    by (simp add: char_of_byte_def byte_of_char_def)
qed

lemma bytes_string_bytes [simp]: "bytes_string (string_bytes s) = s"
  by (simp add: bytes_string_def string_bytes_def comp_def)

lemma string_bytes_string [simp]: "string_bytes (bytes_string b) = b"
  by (simp add: bytes_string_def string_bytes_def comp_def)

lemma length_string_bytes [simp]: "length (string_bytes s) = length s"
  by (simp add: string_bytes_def)

lemma length_bytes_string [simp]: "length (bytes_string s) = length s"
  by (simp add: bytes_string_def)

lemma string_bytes_eq_Nil [simp]: "string_bytes s = [] \<longleftrightarrow> s = []"
  by (simp add: string_bytes_def)

lemma string_bytes_inject [simp]: "string_bytes s = string_bytes t \<longleftrightarrow> s = t"
  by (metis bytes_string_bytes)

subsection \<open>Go maps\<close>

type_synonym ('k, 'v) gomap = "('k \<times> 'v) list"

definition gomap_wf :: "('k, 'v) gomap \<Rightarrow> bool" where
  "gomap_wf m \<longleftrightarrow> distinct (map fst m)"

lemma gomap_wf_Nil [simp, intro]: "gomap_wf []"
  by (simp add: gomap_wf_def)

lemma gomap_wf_update [simp, intro]: "gomap_wf m \<Longrightarrow> gomap_wf (AList.update k v m)"
  by (simp add: gomap_wf_def distinct_update)

lemma gomap_wf_delete [simp, intro]: "gomap_wf m \<Longrightarrow> gomap_wf (AList.delete k m)"
  by (simp add: gomap_wf_def distinct_delete)

lemma gomap_wf_filter [simp, intro]: "gomap_wf m \<Longrightarrow> gomap_wf (filter P m)"
  by (simp add: gomap_wf_def distinct_map_filter)

lemma gomap_lookup [simp]: "gomap_wf m \<Longrightarrow> map_of m k = Some v \<longleftrightarrow> (k, v) \<in> set m"
  by (auto simp: gomap_wf_def dest: map_of_SomeD)

lemma map_of_delete [simp]: "map_of (AList.delete k m) j = (if j = k then None else map_of m j)"
  by (simp add: delete_conv)

lemma map_of_update [simp]: "map_of (AList.update k v m) j = (if j = k then Some v else map_of m j)"
  by (simp add: update_conv)

lemma update_fresh: "k \<notin> fst ` set m \<Longrightarrow> AList.update k v m = m @ [(k, v)]"
  by (induction m) auto

lemma set_delete [simp]: "p \<in> set (AList.delete k m) \<longleftrightarrow> p \<in> set m \<and> fst p \<noteq> k"
  by (auto simp: AList.delete_eq)

lemma length_update_present: "k \<in> fst ` set m \<Longrightarrow> length (AList.update k v m) = length m"
  by (induction m) auto

lemma set_update:
  assumes "gomap_wf m"
  shows "p \<in> set (AList.update k v m) \<longleftrightarrow> p = (k, v) \<or> (p \<in> set m \<and> fst p \<noteq> k)"
proof -
  obtain j u where p: "p = (j, u)" by (cases p)
  have "(j, u) \<in> set (AList.update k v m) \<longleftrightarrow> map_of (AList.update k v m) j = Some u"
    by (rule gomap_lookup [symmetric, OF gomap_wf_update [OF assms]])
  also have "\<dots> \<longleftrightarrow> (j, u) = (k, v) \<or> ((j, u) \<in> set m \<and> j \<noteq> k)"
    using gomap_lookup [OF assms, of j u] by (auto simp: update_conv)
  finally show ?thesis by (simp add: p)
qed

lemma keys_update: "fst ` set (AList.update k v m) = insert k (fst ` set m)"
  by (induction m) auto

text \<open>Every entry of a map satisfies a predicate: the form of the invariants of the stores.\<close>

definition gomap_all :: "('k \<Rightarrow> 'v \<Rightarrow> bool) \<Rightarrow> ('k, 'v) gomap \<Rightarrow> bool" where
  "gomap_all P m \<longleftrightarrow> gomap_wf m \<and> (\<forall>p \<in> set m. P (fst p) (snd p))"

lemma gomap_all_Nil [simp, intro]: "gomap_all P []"
  by (simp add: gomap_all_def)

lemma gomap_all_wf: "gomap_all P m \<Longrightarrow> gomap_wf m"
  by (simp add: gomap_all_def)

lemma gomap_allD: "gomap_all P m \<Longrightarrow> (k, v) \<in> set m \<Longrightarrow> P k v"
  by (auto simp: gomap_all_def)

lemma gomap_all_lookup: "gomap_all P m \<Longrightarrow> map_of m k = Some v \<Longrightarrow> P k v"
  by (rule gomap_allD) (auto dest: map_of_SomeD)

lemma gomap_all_update [simp]: "gomap_all P m \<Longrightarrow> P k v \<Longrightarrow> gomap_all P (AList.update k v m)"
  by (auto simp: gomap_all_def set_update)

lemma gomap_all_delete [simp]: "gomap_all P m \<Longrightarrow> gomap_all P (AList.delete k m)"
  by (auto simp: gomap_all_def)

lemma update_nonempty [simp]: "AList.update k v m \<noteq> []"
  by (cases m) auto

subsection \<open>Sums as error results\<close>

text \<open>A Go function that returns \<open>(value, error)\<close> returns \<open>Inr\<close> the value or \<open>Inl\<close> the error.\<close>

datatype go_error =
    ErrUnexpectedEOF
  | ErrRmcSize int int
  | ErrInvalidMagic
  | ErrTruncatedOption
  | ErrShortPacket
  | ErrVersion byte
  | ErrTruncatedPacket
  | ErrKerberosShort
  | ErrKerberosChecksum
  | ErrKerberosKeySize
  | ErrTicketless
  | ErrCheckSize
  | ErrPidMismatch
  | GoPanic

end
