(* ===== verification/Nex_Crypto.thy ===== *)
theory Nex_Crypto
  imports Nex_Prelude
begin

section \<open>MD5, HMAC-MD5 and RC4\<close>

text \<open>
  The three functions of Go's \<open>crypto\<close> packages the program calls, as their standards give
  them: MD5 (RFC 1321), HMAC (RFC 2104) with block size 64, and RC4.  They are executable, so
  the tickets and signatures of the model are the bytes of the code; the lemmas need only
  the lengths of the digests and that RC4 with one key undoes itself.
\<close>

subsection \<open>Cutting a list into blocks\<close>

function chunks :: "nat \<Rightarrow> 'a list \<Rightarrow> 'a list list" where
  "chunks n xs = (if n = 0 \<or> xs = [] then [] else take n xs # chunks n (drop n xs))"
  by pat_completeness auto
termination by (relation "measure (\<lambda>(n, xs). length xs)") auto

declare chunks.simps [simp del]

lemma chunks_Nil [simp]: "chunks n [] = []"
  by (subst chunks.simps) simp

lemma concat_chunks: "0 < n \<Longrightarrow> concat (chunks n xs) = xs"
proof (induction n xs rule: chunks.induct)
  case (1 n xs)
  then show ?case by (subst chunks.simps) auto
qed

subsection \<open>MD5\<close>

definition md5_K :: "u32 list" where
  "md5_K = [0xD76AA478, 0xE8C7B756, 0x242070DB, 0xC1BDCEEE, 0xF57C0FAF, 0x4787C62A, 0xA8304613, 0xFD469501,
   0x698098D8, 0x8B44F7AF, 0xFFFF5BB1, 0x895CD7BE, 0x6B901122, 0xFD987193, 0xA679438E, 0x49B40821,
   0xF61E2562, 0xC040B340, 0x265E5A51, 0xE9B6C7AA, 0xD62F105D, 0x02441453, 0xD8A1E681, 0xE7D3FBC8,
   0x21E1CDE6, 0xC33707D6, 0xF4D50D87, 0x455A14ED, 0xA9E3E905, 0xFCEFA3F8, 0x676F02D9, 0x8D2A4C8A,
   0xFFFA3942, 0x8771F681, 0x6D9D6122, 0xFDE5380C, 0xA4BEEA44, 0x4BDECFA9, 0xF6BB4B60, 0xBEBFBC70,
   0x289B7EC6, 0xEAA127FA, 0xD4EF3085, 0x04881D05, 0xD9D4D039, 0xE6DB99E5, 0x1FA27CF8, 0xC4AC5665,
   0xF4292244, 0x432AFF97, 0xAB9423A7, 0xFC93A039, 0x655B59C3, 0x8F0CCC92, 0xFFEFF47D, 0x85845DD1,
   0x6FA87E4F, 0xFE2CE6E0, 0xA3014314, 0x4E0811A1, 0xF7537E82, 0xBD3AF235, 0x2AD7D2BB, 0xEB86D391]"

definition md5_shifts :: "nat list" where
  "md5_shifts = concat (map (\<lambda>row. row @ row @ row @ row) [[7, 12, 17, 22], [5, 9, 14, 20], [4, 11, 16, 23], [6, 10, 15, 21]])"

type_synonym md5_state = "u32 \<times> u32 \<times> u32 \<times> u32"

definition md5_step :: "u32 list \<Rightarrow> nat \<Rightarrow> md5_state \<Rightarrow> md5_state" where
  "md5_step M i = (\<lambda>(a, b, c, d).
     let (f, g) = (if i < 16 then ((b AND c) OR (NOT b AND d), i)
                   else if i < 32 then ((d AND b) OR (NOT d AND c), (5 * i + 1) mod 16)
                   else if i < 48 then (b XOR c XOR d, (3 * i + 5) mod 16)
                   else (c XOR (b OR NOT d), (7 * i) mod 16))
     in (d, b + word_rotl (md5_shifts ! i) (a + f + md5_K ! i + M ! g), b, c))"

definition md5_block :: "md5_state \<Rightarrow> bytes \<Rightarrow> md5_state" where
  "md5_block st blk = (let M = map le_word (chunks 4 blk) in
     case (fold (md5_step M) [0..<64] st, st) of
       ((a, b, c, d), (a0, b0, c0, d0)) \<Rightarrow> (a0 + a, b0 + b, c0 + c, d0 + d))"

definition md5_pad :: "bytes \<Rightarrow> bytes" where
  "md5_pad bs = bs @ [0x80] @ replicate ((119 - length bs mod 64) mod 64) 0 @ le_bytes 8 (of_nat (8 * length bs) :: u64)"

definition md5_init :: md5_state where
  "md5_init = (0x67452301, 0xEFCDAB89, 0x98BADCFE, 0x10325476)"

definition md5 :: "bytes \<Rightarrow> bytes" where
  "md5 bs = (case fold (\<lambda>blk st. md5_block st blk) (chunks 64 (md5_pad bs)) md5_init of
     (a, b, c, d) \<Rightarrow> le_bytes 4 a @ le_bytes 4 b @ le_bytes 4 c @ le_bytes 4 d)"

lemma length_md5 [simp]: "length (md5 bs) = 16"
  by (simp add: md5_def split: prod.split)

lemma md5_not_Nil [simp]: "md5 bs \<noteq> []"
  using length_md5 [of bs] by (metis list.size(3) zero_neq_numeral)

subsection \<open>HMAC-MD5\<close>

definition hmac_key :: "bytes \<Rightarrow> bytes" where
  "hmac_key key = (let k = (if length key > 64 then md5 key else key) in k @ replicate (64 - length k) 0)"

definition hmacMD5 :: "bytes \<Rightarrow> bytes \<Rightarrow> bytes" where
  "hmacMD5 key data = md5 (map (\<lambda>b. b XOR 0x5C) (hmac_key key) @ md5 (map (\<lambda>b. b XOR 0x36) (hmac_key key) @ data))"

lemma length_hmacMD5 [simp]: "length (hmacMD5 key data) = 16"
  by (simp add: hmacMD5_def)

subsection \<open>RC4\<close>

definition swap_at :: "nat \<Rightarrow> nat \<Rightarrow> 'a list \<Rightarrow> 'a list" where
  "swap_at i j xs = xs[i := xs ! j, j := xs ! i]"

definition rc4_schedule :: "bytes \<Rightarrow> bytes" where
  "rc4_schedule key = fst (fold (\<lambda>i (S, j).
       let j' = j + S ! i + key ! (i mod length key) in (swap_at i (unat j') S, j'))
     [0..<256] (map of_nat [0..<256], 0 :: u8))"

primrec rc4_stream :: "nat \<Rightarrow> bytes \<Rightarrow> u8 \<Rightarrow> u8 \<Rightarrow> bytes" where
  "rc4_stream 0 S i j = []"
| "rc4_stream (Suc n) S i j =
     (let i' = i + 1; x = S ! unat i'; j' = j + x; y = S ! unat j'; S' = swap_at (unat i') (unat j') S
      in S' ! unat (x + y) # rc4_stream n S' i' j')"

definition xor_bytes :: "bytes \<Rightarrow> bytes \<Rightarrow> bytes" where
  "xor_bytes = map2 (XOR)"

text \<open>\<open>rc4.NewCipher\<close> refuses an empty key and one above 256 bytes and returns a nil cipher;
  the callers drop that error, and \<open>XORKeyStream\<close> on the nil cipher panics unless the input
  is empty.\<close>

definition rc4Crypt :: "bytes \<Rightarrow> bytes \<Rightarrow> go_error + bytes" where
  "rc4Crypt key data =
     (if data = [] then Inr []
      else if key = [] \<or> length key > 256 then Inl GoPanic
      else Inr (xor_bytes data (rc4_stream (length data) (rc4_schedule key) 0 0)))"

lemma length_rc4_stream [simp]: "length (rc4_stream n S i j) = n"
  by (induction n arbitrary: S i j) (simp_all add: Let_def)

lemma length_xor_bytes [simp]: "length (xor_bytes a b) = min (length a) (length b)"
  by (simp add: xor_bytes_def)

lemma xor_bytes_twice: "length a = length b \<Longrightarrow> xor_bytes (xor_bytes a b) b = a"
  unfolding xor_bytes_def by (induction a b rule: list_induct2) (simp_all add: xor.assoc)

lemma rc4_length: "rc4Crypt key data = Inr c \<Longrightarrow> length c = length data"
  by (auto simp: rc4Crypt_def split: if_splits)

lemma rc4_twice:
  assumes "rc4Crypt key data = Inr c"
  shows "rc4Crypt key c = Inr data"
proof (cases "data = []")
  case True
  then show ?thesis using assms by (simp add: rc4Crypt_def)
next
  case False
  then have "c \<noteq> []" using rc4_length [OF assms] by auto
  with False assms show ?thesis
    by (auto simp: rc4Crypt_def xor_bytes_twice split: if_splits)
qed

lemma rc4_total: "key \<noteq> [] \<Longrightarrow> length key \<le> 256 \<Longrightarrow> \<exists>c. rc4Crypt key data = Inr c"
  by (auto simp: rc4Crypt_def)

end
