(* ===== verification/Nex_Stream.thy ===== *)
theory Nex_Stream
  imports Nex_Prelude
begin

section \<open>Settings and byte streams (settings.go, stream.go)\<close>

text \<open>
  \<open>StreamOut\<close> is an append-only buffer, so a writer method is modelled by the bytes it
  appends and a sequence of calls by their concatenation: \<open>w_U32 v\<close> is what \<open>out.U32(v)\<close>
  adds.  \<open>StreamIn\<close> is a state (data, position, sticky error), so a reader method is a
  \<open>state\<close> action on it: \<open>r_U32\<close> is \<open>in.U32()\<close>.  The settings a stream carries are an
  argument of the methods that consult them.

  A reader and its writer meet the locale \<open>codec\<close>: on a stream positioned at the bytes of
  a value the reader returns the value and leaves the position right after it.  The list,
  map and structure codecs are proved once inside the locales, from the element's law.
\<close>

subsection \<open>Settings\<close>

record settings =
  NexVersion :: int
  ClientVersion :: int
  StructHeader :: bool
  PIDSize :: int
  AccessKey :: string
  PrudpVersion :: int
  PrudpMinorVersion :: int
  SupportedFunctions :: int
  Transport :: int
  Compression :: int
  Encryption :: int
  ResendTimeout :: float64
  ResendLimit :: int
  PingTimeout :: float64
  FragmentSize :: int
  MaxSubstreamID :: int
  KerberosKeySize :: int
  KerberosKeyDerivation :: int
  KerberosTicketVersion :: int
  PIDPublic :: "(u64 \<Rightarrow> u64) option"
  PIDInterne :: "(u64 \<Rightarrow> u64) option"

definition TransportWebSocket :: int where "TransportWebSocket = 2"
definition CompressionNone :: int where "CompressionNone = 0"
definition EncryptionNone :: int where "EncryptionNone = 0"
definition KeyDerivationNew :: int where "KeyDerivationNew = 1"

definition Publique :: "settings \<Rightarrow> u64 \<Rightarrow> u64" where
  "Publique s pid = (case PIDPublic s of None \<Rightarrow> pid | Some f \<Rightarrow> f pid)"

definition Interne :: "settings \<Rightarrow> u64 \<Rightarrow> u64" where
  "Interne s pid = (case PIDInterne s of None \<Rightarrow> pid | Some f \<Rightarrow> f pid)"

text \<open>The constant 5.0 of the two timeouts, as its IEEE-754 bits.\<close>

definition NewSwitchSettings :: "string \<Rightarrow> int \<Rightarrow> settings" where
  "NewSwitchSettings accessKey nexVersion =
     \<lparr> NexVersion = nexVersion, ClientVersion = 0, StructHeader = True, PIDSize = 8,
       AccessKey = accessKey, PrudpVersion = 2, PrudpMinorVersion = 5, SupportedFunctions = 0,
       Transport = TransportWebSocket, Compression = CompressionNone, Encryption = EncryptionNone,
       ResendTimeout = 0x4014000000000000, ResendLimit = 0, PingTimeout = 0x4014000000000000,
       FragmentSize = 1300, MaxSubstreamID = 0,
       KerberosKeySize = 32, KerberosKeyDerivation = KeyDerivationNew, KerberosTicketVersion = 1,
       PIDPublic = None, PIDInterne = None \<rparr>"

text \<open>The principal ids a stream can carry: the two translations undo each other on it and
  it fits the configured width.\<close>

definition pid_ok :: "settings \<Rightarrow> u64 \<Rightarrow> bool" where
  "pid_ok s v \<longleftrightarrow> Interne s (Publique s v) = v \<and> (PIDSize s = 8 \<or> unat (Publique s v) < 2 ^ 32)"

lemma pid_ok_switch [simp]: "pid_ok (NewSwitchSettings k n) v"
  by (simp add: pid_ok_def NewSwitchSettings_def Publique_def Interne_def)

subsection \<open>StreamOut\<close>

definition w_U8 :: "u8 \<Rightarrow> bytes" where "w_U8 v = [v]"
definition w_U16 :: "u16 \<Rightarrow> bytes" where "w_U16 v = le_bytes 2 v"
definition w_U32 :: "u32 \<Rightarrow> bytes" where "w_U32 v = le_bytes 4 v"
definition w_U64 :: "u64 \<Rightarrow> bytes" where "w_U64 v = le_bytes 8 v"

text \<open>The signed methods convert to the unsigned type of the same width, which keeps the bits:
  a signed integer is the same word, read with \<open>sint\<close>.\<close>

definition w_S64 :: "64 word \<Rightarrow> bytes" where "w_S64 v = w_U64 v"
definition w_Double :: "float64 \<Rightarrow> bytes" where "w_Double v = w_U64 v"
definition w_Bool :: "bool \<Rightarrow> bytes" where "w_Bool v = (if v then w_U8 1 else w_U8 0)"

definition w_PID :: "settings \<Rightarrow> u64 \<Rightarrow> bytes" where
  "w_PID s v = (let v = Publique s v in if PIDSize s = 8 then w_U64 v else w_U32 (ucast v))"

definition w_String :: "string \<Rightarrow> bytes" where
  "w_String str = (let d = string_bytes str @ [0] in w_U16 (of_nat (length d)) @ d)"

definition w_StringVideZero :: "string \<Rightarrow> bytes" where
  "w_StringVideZero str = (if str = [] then w_U16 0 else w_String str)"

definition w_Buffer :: "bytes \<Rightarrow> bytes" where "w_Buffer b = w_U32 (of_nat (length b)) @ b"
definition w_QBuffer :: "bytes \<Rightarrow> bytes" where "w_QBuffer b = w_U16 (of_nat (length b)) @ b"
definition w_Result :: "u32 \<Rightarrow> bytes" where "w_Result c = w_U32 c"
definition w_DateTime :: "u64 \<Rightarrow> bytes" where "w_DateTime v = w_U64 v"

definition WriteList :: "('a \<Rightarrow> bytes) \<Rightarrow> 'a list \<Rightarrow> bytes" where
  "WriteList f xs = w_U32 (of_nat (length xs)) @ concat (map f xs)"

definition WriteMap :: "('k \<Rightarrow> bytes) \<Rightarrow> ('v \<Rightarrow> bytes) \<Rightarrow> ('k, 'v) gomap \<Rightarrow> bytes" where
  "WriteMap kf vf m = w_U32 (of_nat (length m)) @ concat (map (\<lambda>(k, v). kf k @ vf v) m)"

subsection \<open>StreamIn\<close>

record stream_in =
  si_data :: bytes
  si_pos :: nat
  si_err :: "go_error option"

type_synonym 'a reader = "(stream_in, 'a) state"

definition NewStreamIn :: "bytes \<Rightarrow> stream_in" where
  "NewStreamIn d = \<lparr>si_data = d, si_pos = 0, si_err = None\<rparr>"

definition Err :: "stream_in \<Rightarrow> go_error option" where "Err s = si_err s"
definition EOF :: "stream_in \<Rightarrow> bool" where "EOF s \<longleftrightarrow> si_pos s \<ge> length (si_data s)"

definition Remaining :: "stream_in \<Rightarrow> int" where
  "Remaining s = int (length (si_data s)) - int (si_pos s)"

text \<open>A nil slice and an empty slice have the same length and no bytes; both are \<open>[]\<close>.\<close>

definition r_Read :: "int \<Rightarrow> bytes reader" where
  "r_Read n = State (\<lambda>s.
     if si_err s \<noteq> None \<or> n < 0 \<or> int (si_pos s) + n > int (length (si_data s))
     then ([], if si_err s = None \<and> n \<noteq> 0 then s\<lparr>si_err := Some ErrUnexpectedEOF\<rparr> else s)
     else (take (nat n) (drop (si_pos s) (si_data s)), s\<lparr>si_pos := si_pos s + nat n\<rparr>))"

definition r_ReadAll :: "bytes reader" where
  "r_ReadAll = do { s \<leftarrow> State_Monad.get; r_Read (Remaining s) }"

definition r_U8 :: "u8 reader" where
  "r_U8 = do { b \<leftarrow> r_Read 1; State_Monad.return (if length b < 1 then 0 else b ! 0) }"

definition r_U16 :: "u16 reader" where
  "r_U16 = do { b \<leftarrow> r_Read 2; State_Monad.return (if length b < 2 then 0 else le_word b) }"

definition r_U32 :: "u32 reader" where
  "r_U32 = do { b \<leftarrow> r_Read 4; State_Monad.return (if length b < 4 then 0 else le_word b) }"

definition r_U64 :: "u64 reader" where
  "r_U64 = do { b \<leftarrow> r_Read 8; State_Monad.return (if length b < 8 then 0 else le_word b) }"

definition r_S32 :: "32 word reader" where "r_S32 = r_U32"
definition r_S64 :: "64 word reader" where "r_S64 = r_U64"
definition r_Double :: "float64 reader" where "r_Double = r_U64"
definition r_Bool :: "bool reader" where
  "r_Bool = do { b \<leftarrow> r_U8; State_Monad.return (b \<noteq> 0) }"

definition r_PID :: "settings \<Rightarrow> u64 reader" where
  "r_PID s = (if PIDSize s = 8
     then do { v \<leftarrow> r_U64; State_Monad.return (Interne s v) }
     else do { v \<leftarrow> r_U32; State_Monad.return (Interne s (ucast v)) })"

definition strip_nul :: "bytes \<Rightarrow> bytes" where
  "strip_nul b = (if b \<noteq> [] \<and> last b = 0 then butlast b else b)"

definition r_String :: "string reader" where
  "r_String = do {
     n \<leftarrow> r_U16;
     if n = 0 then State_Monad.return ''''
     else do {
       b \<leftarrow> r_Read (uint n);
       State_Monad.return (if int (length b) < uint n then '''' else bytes_string (strip_nul b))
     } }"

definition r_Buffer :: "bytes reader" where
  "r_Buffer = do { n \<leftarrow> r_U32; r_Read (uint n) }"

definition r_QBuffer :: "bytes reader" where
  "r_QBuffer = do { n \<leftarrow> r_U16; r_Read (uint n) }"

definition r_Result :: "u32 reader" where "r_Result = r_U32"
definition r_DateTime :: "u64 reader" where "r_DateTime = r_U64"

definition r_Substream :: "stream_in reader" where
  "r_Substream = do { b \<leftarrow> r_Buffer; State_Monad.return (NewStreamIn b) }"

text \<open>The loops of \<open>ReadList\<close> and \<open>ReadMap\<close>, and their common guard on the count.\<close>

primrec r_repeat :: "nat \<Rightarrow> 'a reader \<Rightarrow> 'a list reader" where
  "r_repeat 0 f = State_Monad.return []"
| "r_repeat (Suc n) f = do { x \<leftarrow> f; xs \<leftarrow> r_repeat n f; State_Monad.return (x # xs) }"

definition r_fail :: "'a \<Rightarrow> 'a reader" where
  "r_fail v = State (\<lambda>s. (v, if si_err s = None then s\<lparr>si_err := Some ErrUnexpectedEOF\<rparr> else s))"

definition ReadList :: "'a reader \<Rightarrow> 'a list reader" where
  "ReadList f = do {
     n \<leftarrow> r_U32;
     s \<leftarrow> State_Monad.get;
     if uint n > Remaining s then r_fail [] else r_repeat (unat n) f }"

primrec r_map_loop :: "nat \<Rightarrow> 'k reader \<Rightarrow> 'v reader \<Rightarrow> ('k, 'v) gomap \<Rightarrow> ('k, 'v) gomap reader" where
  "r_map_loop 0 kf vf m = State_Monad.return m"
| "r_map_loop (Suc n) kf vf m = do {
     k \<leftarrow> kf; v \<leftarrow> vf; r_map_loop n kf vf (AList.update k v m) }"

definition ReadMap :: "'k reader \<Rightarrow> 'v reader \<Rightarrow> ('k, 'v) gomap reader" where
  "ReadMap kf vf = do {
     n \<leftarrow> r_U32;
     s \<leftarrow> State_Monad.get;
     if uint n > Remaining s then r_fail [] else r_map_loop (unat n) kf vf [] }"

end
