(* ===== verification/Nex_Codec.thy ===== *)
theory Nex_Codec
  imports Nex_Stream
begin

section \<open>Stream laws: codecs, sticky errors, bounded allocation\<close>

text \<open>
  The laws of \<open>StreamOut\<close> and \<open>StreamIn\<close>.  A stream without an error is a \<open>cursor\<close>: the
  bytes already read and the bytes still to come.  The locale \<open>codec\<close> is the interface
  between a writer and its reader; its extension \<open>codec_nonempty\<close> carries the list codec
  and \<open>map_codec\<close> the map codec.  The second half shows what a reader does on arbitrary
  bytes: it never moves past the end, keeps the first error, and returns at most as many
  list elements as bytes were left.
\<close>

subsection \<open>Cursors\<close>

definition cursor :: "bytes \<Rightarrow> bytes \<Rightarrow> stream_in" where
  "cursor pre post = \<lparr>si_data = pre @ post, si_pos = length pre, si_err = None\<rparr>"

lemma NewStreamIn_cursor: "NewStreamIn d = cursor [] d"
  by (simp add: NewStreamIn_def cursor_def)

lemma cursor_sel [simp]:
  "si_err (cursor pre post) = None" "si_pos (cursor pre post) = length pre"
  "si_data (cursor pre post) = pre @ post" "Err (cursor pre post) = None"
  by (simp_all add: cursor_def Err_def)

lemma EOF_cursor [simp]: "EOF (cursor pre post) \<longleftrightarrow> post = []"
  by (simp add: EOF_def)

lemma Remaining_cursor [simp]: "Remaining (cursor pre post) = int (length post)"
  by (simp add: Remaining_def)

lemma cursor_inject: "cursor p x = cursor q y \<Longrightarrow> p = q \<and> x = y"
  by (auto simp: cursor_def)

lemma run_Read [rd_roundtrip]:
  "n = int (length b) \<Longrightarrow> run_state (r_Read n) (cursor pre (b @ post)) = (b, cursor (pre @ b) post)"
  by (simp add: r_Read_def cursor_def)

lemma run_Read_end [rd_roundtrip]:
  "n = int (length b) \<Longrightarrow> run_state (r_Read n) (cursor pre b) = (b, cursor (pre @ b) [])"
  using run_Read [of n b pre "[]"] by simp

lemma run_ReadAll [rd_roundtrip]: "run_state r_ReadAll (cursor pre post) = (post, cursor (pre @ post) [])"
  by (simp add: r_ReadAll_def run_Read_end)

lemma run_Read_short:
  "int (length post) < n \<Longrightarrow> run_state (r_Read n) (cursor pre post)
     = ([], (cursor pre post)\<lparr>si_err := Some ErrUnexpectedEOF\<rparr>)"
  by (auto simp: r_Read_def cursor_def)

subsection \<open>The codec interface\<close>

locale codec =
  fixes enc :: "'a \<Rightarrow> bytes" and dec :: "'a reader" and ok :: "'a \<Rightarrow> bool"
  assumes dec_enc: "ok v \<Longrightarrow> run_state dec (cursor pre (enc v @ post)) = (v, cursor (pre @ enc v) post)"
begin

lemma dec_enc_end: "ok v \<Longrightarrow> run_state dec (cursor pre (enc v)) = (v, cursor (pre @ enc v) [])"
  using dec_enc [of v pre "[]"] by simp

text \<open>No encoding is a prefix of another: a stream of values splits in one way only.\<close>

lemma prefix_free:
  assumes "ok v" "ok w" "enc v @ x = enc w @ y"
  shows "v = w \<and> x = y"
proof -
  have "(v, cursor (enc v) x) = (w, cursor (enc w) y)"
    using dec_enc [OF assms(1), of "[]" x] dec_enc [OF assms(2), of "[]" y] assms(3) by simp
  then show ?thesis by (auto dest: cursor_inject)
qed

lemma repeat_enc:
  "(\<And>v. v \<in> set vs \<Longrightarrow> ok v) \<Longrightarrow>
   run_state (r_repeat (length vs) dec) (cursor pre (concat (map enc vs) @ post))
     = (vs, cursor (pre @ concat (map enc vs)) post)"
  by (induction vs arbitrary: pre) (auto simp: dec_enc)

end

locale codec_nonempty = codec +
  assumes enc_nonempty: "enc v \<noteq> []"
begin

lemma length_concat_enc: "length vs \<le> length (concat (map enc vs))"
proof (induction vs)
  case (Cons v vs)
  have "1 \<le> length (enc v)" using enc_nonempty [of v] by (cases "enc v") auto
  with Cons.IH have "1 + length vs \<le> length (enc v) + length (concat (map enc vs))" by (simp only: add_mono)
  then show ?case by simp
qed simp

end

lemma unat_of_nat_len [simp]: "k < 2 ^ LENGTH('a) \<Longrightarrow> unat (of_nat k :: 'a::len word) = k"
  by (simp add: unat_of_nat take_bit_eq_mod)

lemma uint_of_nat_len [simp]: "k < 2 ^ LENGTH('a) \<Longrightarrow> uint (of_nat k :: 'a::len word) = int k"
  by (simp add: uint_nat)

subsection \<open>The primitive codecs\<close>

lemma run_U8 [rd_roundtrip]: "run_state r_U8 (cursor pre (w_U8 v @ post)) = (v, cursor (pre @ w_U8 v) post)"
  by (simp add: r_U8_def w_U8_def run_Read [of 1 "[v]", simplified])

lemma run_U16 [rd_roundtrip]: "run_state r_U16 (cursor pre (w_U16 v @ post)) = (v, cursor (pre @ w_U16 v) post)"
  by (simp add: r_U16_def w_U16_def run_Read)

lemma run_U32 [rd_roundtrip]: "run_state r_U32 (cursor pre (w_U32 v @ post)) = (v, cursor (pre @ w_U32 v) post)"
  by (simp add: r_U32_def w_U32_def run_Read)

lemma run_U64 [rd_roundtrip]: "run_state r_U64 (cursor pre (w_U64 v @ post)) = (v, cursor (pre @ w_U64 v) post)"
  by (simp add: r_U64_def w_U64_def run_Read)

lemma length_w [simp]:
  "length (w_U8 a) = 1" "length (w_U16 b) = 2" "length (w_U32 c) = 4" "length (w_U64 d) = 8"
  by (simp_all add: w_U8_def w_U16_def w_U32_def w_U64_def)

lemma w_nonempty [simp]:
  "w_U8 a \<noteq> []" "w_U16 b \<noteq> []" "w_U32 c \<noteq> []" "w_U64 d \<noteq> []"
  by (simp_all add: w_U8_def w_U16_def w_U32_def w_U64_def numeral_eq_Suc)

interpretation cU8: codec_nonempty w_U8 r_U8 "\<lambda>_. True"
  by unfold_locales (simp_all add: run_U8)
interpretation cU16: codec_nonempty w_U16 r_U16 "\<lambda>_. True"
  by unfold_locales (simp_all add: run_U16)
interpretation cU32: codec_nonempty w_U32 r_U32 "\<lambda>_. True"
  by unfold_locales (simp_all add: run_U32)
interpretation cU64: codec_nonempty w_U64 r_U64 "\<lambda>_. True"
  by unfold_locales (simp_all add: run_U64)

lemmas run_U8_end [rd_roundtrip] = cU8.dec_enc_end [OF TrueI]
lemmas run_U16_end [rd_roundtrip] = cU16.dec_enc_end [OF TrueI]
lemmas run_U32_end [rd_roundtrip] = cU32.dec_enc_end [OF TrueI]
lemmas run_U64_end [rd_roundtrip] = cU64.dec_enc_end [OF TrueI]

lemma run_Bool [rd_roundtrip]: "run_state r_Bool (cursor pre (w_Bool v @ post)) = (v, cursor (pre @ w_Bool v) post)"
  by (simp add: r_Bool_def w_Bool_def run_U8)

lemma length_w_Bool [simp]: "length (w_Bool v) = 1"
  by (simp add: w_Bool_def)

lemma w_Bool_nonempty [simp]: "w_Bool v \<noteq> []"
  by (simp add: w_Bool_def)

interpretation cBool: codec_nonempty w_Bool r_Bool "\<lambda>_. True"
  by unfold_locales (simp_all add: run_Bool w_Bool_nonempty)

lemmas run_Bool_end [rd_roundtrip] = cBool.dec_enc_end [OF TrueI]

lemma ucast_ucast_u32: "unat v < 2 ^ 32 \<Longrightarrow> (ucast (ucast v :: u32) :: u64) = v"
proof -
  assume v: "unat v < 2 ^ 32"
  have "unat (ucast (ucast v :: u32) :: u64) = unat v"
    using v by (simp add: unsigned_ucast_eq unsigned_take_bit_eq take_bit_nat_eq_self)
  then show ?thesis by (simp only: word_unat_eq_iff)
qed

lemma run_PID [rd_roundtrip]:
  "pid_ok s v \<Longrightarrow> run_state (r_PID s) (cursor pre (w_PID s v @ post)) = (v, cursor (pre @ w_PID s v) post)"
  by (auto simp: r_PID_def w_PID_def Let_def run_U64 run_U32 pid_ok_def ucast_ucast_u32)

lemma w_nonempty_var [simp]: "w_PID s v \<noteq> []" "w_String str \<noteq> []" "w_Buffer b \<noteq> []" "w_QBuffer b \<noteq> []"
  by (simp_all add: w_PID_def w_String_def w_Buffer_def w_QBuffer_def Let_def)

lemma w_StringVideZero_nonempty [simp]: "w_StringVideZero str \<noteq> []"
  by (simp add: w_StringVideZero_def)

interpretation cPID: codec_nonempty "w_PID s" "r_PID s" "pid_ok s"
  by unfold_locales (simp_all add: run_PID)

lemmas run_PID_end [rd_roundtrip] = cPID.dec_enc_end

definition string_ok :: "string \<Rightarrow> bool" where "string_ok s \<longleftrightarrow> length s + 1 < 2 ^ 16"

lemma run_String [rd_roundtrip]:
  assumes "string_ok v"
  shows "run_state r_String (cursor pre (w_String v @ post)) = (v, cursor (pre @ w_String v) post)"
proof -
  have n: "uint (of_nat (length (string_bytes v @ [0])) :: u16) = int (length v) + 1"
    using assms by (simp add: string_ok_def uint_of_nat_len flip: of_nat_Suc)
  then have nz: "(of_nat (length (string_bytes v @ [0])) :: u16) \<noteq> 0" by auto
  have rd: "run_state (r_Read (int (length v) + 1)) (cursor p ((string_bytes v @ [0]) @ post))
    = (string_bytes v @ [0], cursor (p @ string_bytes v @ [0]) post)" for p
    by (rule run_Read) simp
  show ?thesis
    using n nz rd unfolding r_String_def w_String_def Let_def
    by (simp add: run_U16 strip_nul_def)
qed

interpretation cString: codec_nonempty w_String r_String string_ok
  by unfold_locales (simp_all add: run_String)

lemmas run_String_end [rd_roundtrip] = cString.dec_enc_end

lemma run_StringVideZero [rd_roundtrip]:
  "string_ok v \<Longrightarrow> run_state r_String (cursor pre (w_StringVideZero v @ post)) = (v, cursor (pre @ w_StringVideZero v) post)"
  by (cases "v = []") (simp_all add: w_StringVideZero_def run_String, simp add: r_String_def run_U16)

interpretation cStringVideZero: codec_nonempty w_StringVideZero r_String string_ok
  by unfold_locales (simp_all add: run_StringVideZero)

lemma run_Buffer [rd_roundtrip]:
  "length b < 2 ^ 32 \<Longrightarrow> run_state r_Buffer (cursor pre (w_Buffer b @ post)) = (b, cursor (pre @ w_Buffer b) post)"
  by (simp add: r_Buffer_def w_Buffer_def run_U32 run_Read)

interpretation cBuffer: codec_nonempty w_Buffer r_Buffer "\<lambda>b. length b < 2 ^ 32"
  by unfold_locales (simp_all add: run_Buffer)

lemmas run_Buffer_end [rd_roundtrip] = cBuffer.dec_enc_end

lemma run_QBuffer [rd_roundtrip]:
  "length b < 2 ^ 16 \<Longrightarrow> run_state r_QBuffer (cursor pre (w_QBuffer b @ post)) = (b, cursor (pre @ w_QBuffer b) post)"
  by (simp add: r_QBuffer_def w_QBuffer_def run_U16 run_Read)

interpretation cQBuffer: codec_nonempty w_QBuffer r_QBuffer "\<lambda>b. length b < 2 ^ 16"
  by unfold_locales (simp_all add: run_QBuffer)

subsection \<open>Lists and maps\<close>

context codec_nonempty begin

lemma list_enc:
  assumes "\<And>v. v \<in> set vs \<Longrightarrow> ok v" "length vs < 2 ^ 32"
  shows "run_state (ReadList dec) (cursor pre (WriteList enc vs @ post)) = (vs, cursor (pre @ WriteList enc vs) post)"
proof -
  have le: "\<not> uint (of_nat (length vs) :: u32) > int (length (concat (map enc vs)) + length post)"
    using length_concat_enc [of vs] assms(2) by simp
  have n: "unat (of_nat (length vs) :: u32) = length vs"
    using assms(2) by simp
  show ?thesis
    using le repeat_enc [of vs "pre @ w_U32 (of_nat (length vs))" post] assms(1)
    by (simp add: ReadList_def WriteList_def run_U32 n)
qed

end

locale map_codec = K: codec_nonempty kenc kdec kok + V: codec venc vdec vok
  for kenc :: "'k \<Rightarrow> bytes" and kdec kok and venc :: "'v \<Rightarrow> bytes" and vdec vok
begin

definition pair_ok :: "('k, 'v) gomap \<Rightarrow> bool" where
  "pair_ok m \<longleftrightarrow> (\<forall>(k, v) \<in> set m. kok k \<and> vok v)"

lemma loop_enc:
  assumes "pair_ok m" "distinct (map fst (acc @ m))"
  shows "run_state (r_map_loop (length m) kdec vdec acc) (cursor pre (concat (map (\<lambda>(k, v). kenc k @ venc v) m) @ post))
       = (acc @ m, cursor (pre @ concat (map (\<lambda>(k, v). kenc k @ venc v) m)) post)"
  using assms
proof (induction m arbitrary: acc pre)
  case Nil
  then show ?case by simp
next
  case (Cons kv m)
  obtain k v where kv: "kv = (k, v)" by force
  have fresh: "AList.update k v acc = acc @ [(k, v)]"
    by (rule update_fresh) (use Cons.prems(2) kv in auto)
  have ok: "kok k" "vok v" "pair_ok m" using Cons.prems(1) kv by (auto simp: pair_ok_def)
  have "distinct (map fst ((acc @ [(k, v)]) @ m))" using Cons.prems(2) kv by simp
  from Cons.IH [OF ok(3) this] show ?case
    by (simp add: kv K.dec_enc V.dec_enc ok fresh)
qed

lemma map_enc:
  assumes "pair_ok m" "gomap_wf m" "length m < 2 ^ 32"
  shows "run_state (ReadMap kdec vdec) (cursor pre (WriteMap kenc venc m @ post))
       = (m, cursor (pre @ WriteMap kenc venc m) post)"
proof -
  have len: "length m \<le> length (concat (map (\<lambda>(k, v). kenc k @ venc v) m))"
  proof (induction m)
    case (Cons a m)
    then show ?case using K.enc_nonempty [of "fst a"] by (cases "kenc (fst a)") (auto split: prod.split)
  qed simp
  have le: "\<not> uint (of_nat (length m) :: u32) > int (length (concat (map (\<lambda>(k, v). kenc k @ venc v) m)) + length post)"
    using len assms(3) by simp
  show ?thesis
    using le loop_enc [OF assms(1), of "[]" "pre @ w_U32 (of_nat (length m))" post] assms(2,3)
    by (simp add: ReadMap_def WriteMap_def run_U32 gomap_wf_def)
qed

end

subsection \<open>Readers on arbitrary bytes\<close>

definition stream_ok :: "stream_in \<Rightarrow> bool" where
  "stream_ok s \<longleftrightarrow> si_pos s \<le> length (si_data s)"

text \<open>A safe reader leaves the data alone, only moves forward, stays inside the data, and does
  nothing at all once an error has been recorded.\<close>

definition safe_step :: "stream_in \<Rightarrow> stream_in \<Rightarrow> bool" where
  "safe_step s s' \<longleftrightarrow> si_data s' = si_data s \<and> si_pos s \<le> si_pos s' \<and> (stream_ok s \<longrightarrow> stream_ok s')
     \<and> (si_err s \<noteq> None \<longrightarrow> s' = s)"

definition safe_reader :: "'a reader \<Rightarrow> bool" where
  "safe_reader r \<longleftrightarrow> (\<forall>s. safe_step s (snd (run_state r s)))"

named_theorems safe_intros \<open>readers built from safe readers are safe\<close>

lemma safe_step_refl [simp]: "safe_step s s"
  by (simp add: safe_step_def)

lemma safe_step_trans: "safe_step s t \<Longrightarrow> safe_step t u \<Longrightarrow> safe_step s u"
  by (auto simp: safe_step_def)

lemma safe_readerD: "safe_reader r \<Longrightarrow> run_state r s = (v, s') \<Longrightarrow> safe_step s s'"
  unfolding safe_reader_def by (metis snd_conv)

lemma safe_return [safe_intros]: "safe_reader (State_Monad.return x)"
  by (simp add: safe_reader_def)

lemma safe_get [safe_intros]: "safe_reader State_Monad.get"
  by (simp add: safe_reader_def)

lemma safe_bind [safe_intros]: "safe_reader r \<Longrightarrow> (\<And>x. safe_reader (f x)) \<Longrightarrow> safe_reader (State_Monad.bind r f)"
  unfolding safe_reader_def run_state_bind by (auto split: prod.split) (metis safe_step_trans snd_conv)

lemma safe_if [safe_intros]: "safe_reader r \<Longrightarrow> safe_reader q \<Longrightarrow> safe_reader (if b then r else q)"
  by simp

lemma safe_Read [safe_intros]: "safe_reader (r_Read n)"
  by (auto simp: safe_reader_def safe_step_def r_Read_def stream_ok_def)

lemma safe_fail [safe_intros]: "safe_reader (r_fail v)"
  by (auto simp: safe_reader_def safe_step_def r_fail_def stream_ok_def)

lemma safe_U8 [safe_intros]: "safe_reader r_U8" unfolding r_U8_def by (intro safe_intros)
lemma safe_U16 [safe_intros]: "safe_reader r_U16" unfolding r_U16_def by (intro safe_intros)
lemma safe_U32 [safe_intros]: "safe_reader r_U32" unfolding r_U32_def by (intro safe_intros)
lemma safe_U64 [safe_intros]: "safe_reader r_U64" unfolding r_U64_def by (intro safe_intros)
lemma safe_Bool [safe_intros]: "safe_reader r_Bool" unfolding r_Bool_def by (intro safe_intros)
lemma safe_PID [safe_intros]: "safe_reader (r_PID s)" unfolding r_PID_def by (intro safe_intros)
lemma safe_String [safe_intros]: "safe_reader r_String" unfolding r_String_def by (intro safe_intros)
lemma safe_Buffer [safe_intros]: "safe_reader r_Buffer" unfolding r_Buffer_def by (intro safe_intros)
lemma safe_Substream [safe_intros]: "safe_reader r_Substream" unfolding r_Substream_def by (intro safe_intros)

lemma safe_repeat [safe_intros]: "safe_reader f \<Longrightarrow> safe_reader (r_repeat n f)"
proof (induction n)
  case 0
  show ?case unfolding r_repeat.simps by (rule safe_return)
next
  case (Suc n)
  then show ?case unfolding r_repeat.simps by (intro safe_intros)
qed

lemma safe_ReadList [safe_intros]: "safe_reader f \<Longrightarrow> safe_reader (ReadList f)"
  unfolding ReadList_def by (intro safe_intros)

lemma safe_map_loop [safe_intros]: "safe_reader kf \<Longrightarrow> safe_reader vf \<Longrightarrow> safe_reader (r_map_loop n kf vf m)"
proof (induction n arbitrary: m)
  case 0
  show ?case unfolding r_map_loop.simps by (rule safe_return)
next
  case (Suc n)
  show ?case unfolding r_map_loop.simps by (intro safe_bind Suc)
qed

lemma safe_ReadMap [safe_intros]: "safe_reader kf \<Longrightarrow> safe_reader vf \<Longrightarrow> safe_reader (ReadMap kf vf)"
  unfolding ReadMap_def by (intro safe_intros)

lemma length_repeat: "run_state (r_repeat n f) s = (xs, s') \<Longrightarrow> length xs = n"
proof (induction n arbitrary: s xs s')
  case (Suc n)
  obtain x s1 where x: "run_state f s = (x, s1)" by force
  obtain ys s2 where ys: "run_state (r_repeat n f) s1 = (ys, s2)" by force
  then show ?case using Suc.IH [OF ys] Suc.prems x by auto
qed simp

lemma Read_err: "si_err s \<noteq> None \<Longrightarrow> run_state (r_Read n) s = ([], s)"
  by (auto simp: r_Read_def)

lemma U32_err: "si_err s \<noteq> None \<Longrightarrow> run_state r_U32 s = (0, s)"
  by (simp add: r_U32_def Read_err)

lemma ReadList_length:
  "run_state (ReadList f) s = (xs, s') \<Longrightarrow> length xs \<le> nat (Remaining s)"
proof -
  assume run: "run_state (ReadList f) s = (xs, s')"
  obtain n s1 where u: "run_state r_U32 s = (n, s1)" by force
  have le: "Remaining s1 \<le> Remaining s"
    using safe_readerD [OF safe_U32 u] by (simp add: safe_step_def Remaining_def)
  show ?thesis
  proof (cases "uint n > Remaining s1")
    case True
    then show ?thesis using run u by (simp add: ReadList_def r_fail_def)
  next
    case False
    then have "length xs = unat n"
      using run u by (auto simp: ReadList_def dest: length_repeat)
    then have "length xs = nat (uint n)" by (simp only: unat_eq_nat_uint)
    also have "nat (uint n) \<le> nat (Remaining s)" using False le by (intro nat_mono) simp
    finally show ?thesis .
  qed
qed

end
