(* ===== verification/Nex_Prudp_Lite.thy ===== *)
theory Nex_Prudp_Lite
  imports Nex_Crypto Nex_Codec
begin

section \<open>PRUDP-Lite packets (prudp_lite.go)\<close>

text \<open>
  The packet of the Lite profile, its encoder and the decoder that takes as many complete
  packets as a buffer holds.  The option area is a sequence of (id, size, value) triples;
  \<open>walk_options\<close> is the loop the Lite and the V1 decoders share, with the meaning of one
  option as its argument.
\<close>

definition PacketSYN :: u8 where "PacketSYN = 0"
definition PacketCONNECT :: u8 where "PacketCONNECT = 1"
definition PacketDATA :: u8 where "PacketDATA = 2"
definition PacketDISCONNECT :: u8 where "PacketDISCONNECT = 3"
definition PacketPING :: u8 where "PacketPING = 4"

lemmas packet_types = PacketSYN_def PacketCONNECT_def PacketDATA_def PacketDISCONNECT_def PacketPING_def

definition FlagACK :: u16 where "FlagACK = 0x001"
definition FlagReliable :: u16 where "FlagReliable = 0x002"
definition FlagNeedACK :: u16 where "FlagNeedACK = 0x004"
definition FlagHasSize :: u16 where "FlagHasSize = 0x008"
definition FlagMultiACK :: u16 where "FlagMultiACK = 0x200"

lemmas packet_flags = FlagACK_def FlagReliable_def FlagNeedACK_def FlagHasSize_def FlagMultiACK_def

definition optSupport :: u8 where "optSupport = 0"
definition optConnectionSig :: u8 where "optConnectionSig = 1"
definition optConnectionSigLite :: u8 where "optConnectionSigLite = 128"

definition liteMagic :: byte where "liteMagic = 0x80"
definition liteHeaderSize :: nat where "liteHeaderSize = 12"

definition liteConnSigKey :: bytes where
  "liteConnSigKey = [0x26, 0xC3, 0x1F, 0x38, 0x1E, 0x46, 0xD6, 0xEB, 0x38, 0xE1, 0xAF, 0x6A, 0xB7, 0x0D, 0x11]"

record packet =
  pk_Type :: u8
  pk_Flags :: u16
  pk_SourceType :: u8
  pk_SourcePort :: u8
  pk_DestType :: u8
  pk_DestPort :: u8
  pk_FragmentID :: u8
  pk_PacketID :: u16
  pk_Signature :: bytes
  pk_ConnectionSig :: bytes
  pk_MinorVersion :: u8
  pk_SupportedFunc :: u32
  pk_Payload :: bytes

definition packet_zero :: packet where
  "packet_zero = \<lparr>pk_Type = 0, pk_Flags = 0, pk_SourceType = 0, pk_SourcePort = 0, pk_DestType = 0, pk_DestPort = 0,
     pk_FragmentID = 0, pk_PacketID = 0, pk_Signature = [], pk_ConnectionSig = [], pk_MinorVersion = 0,
     pk_SupportedFunc = 0, pk_Payload = []\<rparr>"

definition HasFlag :: "packet \<Rightarrow> u16 \<Rightarrow> bool" where
  "HasFlag p f \<longleftrightarrow> pk_Flags p AND f \<noteq> 0"

subsection \<open>Options\<close>

definition put_option :: "u8 \<Rightarrow> bytes \<Rightarrow> bytes" where
  "put_option i val = [i, of_nat (length val)] @ val"

definition support_word :: "u8 \<Rightarrow> u32 \<Rightarrow> u32" where
  "support_word minor func = ucast minor OR push_bit 8 func"

function walk_options :: "(u8 \<Rightarrow> bytes \<Rightarrow> 'p \<Rightarrow> 'p) \<Rightarrow> 'p \<Rightarrow> bytes \<Rightarrow> go_error + 'p" where
  "walk_options f p [] = Inr p"
| "walk_options f p [i] = Inl ErrTruncatedOption"
| "walk_options f p (i # n # rest) =
     (if length rest < unat n then Inl ErrTruncatedOption
      else walk_options f (f i (take (unat n) rest) p) (drop (unat n) rest))"
  by pat_completeness auto
termination by (relation "measure (\<lambda>(f, p, d). length d)") auto

definition encodeLiteOptions :: "packet \<Rightarrow> bytes" where
  "encodeLiteOptions p =
     (if pk_Type p = PacketSYN \<or> pk_Type p = PacketCONNECT
      then put_option optSupport (le_bytes 4 (support_word (pk_MinorVersion p) (pk_SupportedFunc p))) else []) @
     (if pk_Type p = PacketSYN \<and> HasFlag p FlagACK then put_option optConnectionSig (pk_ConnectionSig p) else []) @
     (if pk_Type p = PacketCONNECT \<and> \<not> HasFlag p FlagACK then put_option optConnectionSigLite (pk_Signature p) else [])"

definition lite_option :: "u8 \<Rightarrow> bytes \<Rightarrow> packet \<Rightarrow> packet" where
  "lite_option i val p =
     (if i = optSupport then
        (if length val = 4 then let v = le_word val :: u32 in
           p\<lparr>pk_MinorVersion := ucast (v AND 0xFF), pk_SupportedFunc := drop_bit 8 v\<rparr> else p)
      else if i = optConnectionSig then p\<lparr>pk_ConnectionSig := val\<rparr>
      else if i = optConnectionSigLite then p\<lparr>pk_Signature := val\<rparr>
      else p)"

definition decodeLiteOptions :: "packet \<Rightarrow> bytes \<Rightarrow> go_error + packet" where
  "decodeLiteOptions = walk_options lite_option"

subsection \<open>Packets\<close>

definition EncodePacket :: "packet \<Rightarrow> bytes" where
  "EncodePacket p =
     (let options = encodeLiteOptions p in
      [liteMagic, of_nat (length options)] @ le_bytes 2 (of_nat (length (pk_Payload p)) :: u16) @
      [push_bit 4 (pk_SourceType p) OR (pk_DestType p AND 0xF)] @
      [pk_SourcePort p, pk_DestPort p, pk_FragmentID p] @
      le_bytes 2 (ucast (pk_Type p AND 0xF) OR push_bit 4 (pk_Flags p)) @
      le_bytes 2 (pk_PacketID p) @ options @ pk_Payload p)"

definition header_packet :: "bytes \<Rightarrow> packet" where
  "header_packet buf =
     (let st = buf ! 4; typeFlags = le_word (take 2 (drop 8 buf)) :: u16 in
      packet_zero\<lparr>pk_SourceType := drop_bit 4 st, pk_DestType := st AND 0xF, pk_SourcePort := buf ! 5,
        pk_DestPort := buf ! 6, pk_FragmentID := buf ! 7, pk_Flags := drop_bit 4 typeFlags,
        pk_Type := ucast (typeFlags AND 0xF), pk_PacketID := le_word (take 2 (drop 10 buf))\<rparr>)"

text \<open>The result is (packets, bytes left over, error).\<close>

function DecodePackets :: "bytes \<Rightarrow> packet list \<times> bytes \<times> go_error option" where
  "DecodePackets buf =
     (if length buf < liteHeaderSize then ([], buf, None)
      else if buf ! 0 \<noteq> liteMagic then ([], buf, Some ErrInvalidMagic)
      else let optSize = unat (buf ! 1);
               payloadSize = unat (le_word (take 2 (drop 2 buf)) :: u16);
               total = liteHeaderSize + optSize + payloadSize
           in if length buf < total then ([], buf, None)
              else case decodeLiteOptions (header_packet buf) (take optSize (drop liteHeaderSize buf)) of
                Inl e \<Rightarrow> ([], buf, Some e)
              | Inr p \<Rightarrow> (case DecodePackets (drop total buf) of (ps, rest, e) \<Rightarrow>
                  (p\<lparr>pk_Payload := take payloadSize (drop (liteHeaderSize + optSize) buf)\<rparr> # ps, rest, e)))"
  by pat_completeness auto
termination
  by (relation "measure length") (auto simp: liteHeaderSize_def)

declare DecodePackets.simps [simp del]

text \<open>The connection signature: \<open>peer\<close> is the IPv4 address and port found in the peer's address
  string, \<open>None\<close> when it holds none; then 16 random bytes are used.\<close>

definition ConnectionSignature :: "(bytes \<times> u16) option \<Rightarrow> bytes \<Rightarrow> bytes" where
  "ConnectionSignature peer rnd = (case peer of
     Some (ip, port) \<Rightarrow> hmacMD5 liteConnSigKey (take 4 ip @ rev (le_bytes 2 port))
   | None \<Rightarrow> rnd)"

definition LitePacketSignature :: "string \<Rightarrow> packet \<Rightarrow> bytes \<Rightarrow> bytes" where
  "LitePacketSignature accessKey p connectionSig =
     (if pk_Type p = PacketCONNECT \<and> HasFlag p FlagNeedACK
      then let key = md5 (string_bytes accessKey) in hmacMD5 key (key @ connectionSig)
      else [])"

subsection \<open>Laws of the option area\<close>

lemma walk_put:
  assumes "length val < 256"
  shows "walk_options f p (put_option i val @ rest) = walk_options f (f i val p) rest"
  using assms by (simp add: put_option_def)

lemma walk_put_end: "length val < 256 \<Longrightarrow> walk_options f p (put_option i val) = Inr (f i val p)"
  using walk_put [of val f p i "[]"] by simp

lemma length_put_option [simp]: "length (put_option i val) = 2 + length val"
  by (simp add: put_option_def)

lemma take_bit_eq_self_bits: "take_bit k (w :: 'a::len word) = w \<Longrightarrow> k \<le> n \<Longrightarrow> \<not> bit w n"
  by (metis bit_take_bit_iff linorder_not_less)

lemma small_word_take_bit: "unat (w :: 'a::len word) < 2 ^ k \<Longrightarrow> take_bit k w = w"
  by (metis take_bit_nat_eq_self unsigned_take_bit_eq word_unat_eq_iff)

lemma support_word_fields:
  assumes "unat func < 2 ^ 24"
  shows "ucast (support_word minor func AND 0xFF) = minor" "drop_bit 8 (support_word minor func) = func"
proof -
  have hi: "\<not> bit func n" if "24 \<le> n" for n
    using take_bit_eq_self_bits [OF small_word_take_bit [OF assms] that] .
  have lo: "\<not> bit minor n" if "8 \<le> n" for n
    using that by (auto dest: bit_imp_le_length)
  have ff: "(x :: u32) AND 0xFF = take_bit 8 x" for x
    by (simp add: take_bit_eq_mask mask_eq_exp_minus_1)
  show "ucast (support_word minor func AND 0xFF) = minor"
    unfolding ff by (rule bit_word_eqI) (simp add: support_word_def bit_simps)
  show "drop_bit 8 (support_word minor func) = func"
  proof (rule bit_word_eqI)
    fix n assume "n < LENGTH(32)"
    then show "bit (drop_bit 8 (support_word minor func)) n = bit func n"
      by (cases "n < 24") (simp_all add: support_word_def bit_simps hi lo)
  qed
qed

subsection \<open>Decoding undoes encoding\<close>

definition lite_packet_ok :: "packet \<Rightarrow> bool" where
  "lite_packet_ok p \<longleftrightarrow> unat (pk_Type p) < 2 ^ 4 \<and> unat (pk_Flags p) < 2 ^ 12 \<and>
     unat (pk_SourceType p) < 2 ^ 4 \<and> unat (pk_DestType p) < 2 ^ 4 \<and> length (pk_Payload p) < 2 ^ 16 \<and>
     (if pk_Type p = PacketSYN \<or> pk_Type p = PacketCONNECT then unat (pk_SupportedFunc p) < 2 ^ 24
      else pk_MinorVersion p = 0 \<and> pk_SupportedFunc p = 0) \<and>
     (if pk_Type p = PacketSYN \<and> HasFlag p FlagACK then length (pk_ConnectionSig p) < 240 else pk_ConnectionSig p = []) \<and>
     (if pk_Type p = PacketCONNECT \<and> \<not> HasFlag p FlagACK then length (pk_Signature p) < 240 else pk_Signature p = [])"

lemma and_0xF: "(w :: 'a::len word) AND 0xF = take_bit 4 w"
  by (simp add: take_bit_eq_mask mask_eq_exp_minus_1)

lemma nibble_fields:
  assumes "unat (s :: u8) < 2 ^ 4" "unat (d :: u8) < 2 ^ 4"
  shows "drop_bit 4 (push_bit 4 s OR (d AND 0xF)) = s" "(push_bit 4 s OR (d AND 0xF)) AND 0xF = d"
proof -
  have s: "\<not> bit s n" if "4 \<le> n" for n
    using take_bit_eq_self_bits [OF small_word_take_bit [OF assms(1)] that] .
  have d: "take_bit 4 d = d" by (rule small_word_take_bit [OF assms(2)])
  have db: "\<not> bit d n" if "4 \<le> n" for n using take_bit_eq_self_bits [OF d that] .
  show "drop_bit 4 (push_bit 4 s OR (d AND 0xF)) = s"
  proof (rule bit_word_eqI)
    fix n assume "n < LENGTH(8)"
    then show "bit (drop_bit 4 (push_bit 4 s OR (d AND 0xF))) n = bit s n"
      by (cases "n < 4") (simp_all add: and_0xF bit_drop_bit_eq bit_or_iff bit_push_bit_iff bit_take_bit_iff s)
  qed
  show "(push_bit 4 s OR (d AND 0xF)) AND 0xF = d"
  proof (rule bit_word_eqI)
    fix n assume "n < LENGTH(8)"
    then show "bit ((push_bit 4 s OR (d AND 0xF)) AND 0xF) n = bit d n"
      by (cases "n < 4") (simp_all add: and_0xF bit_or_iff bit_push_bit_iff bit_take_bit_iff db)
  qed
qed

lemma type_flags_fields:
  assumes "unat (t :: u8) < 2 ^ 4" "unat (f :: u16) < 2 ^ 12"
  defines "w \<equiv> ucast (t AND 0xF) OR push_bit 4 f"
  shows "drop_bit 4 w = f" "ucast (w AND 0xF) = t"
proof -
  have tb: "\<not> bit t n" if "4 \<le> n" for n
    using take_bit_eq_self_bits [OF small_word_take_bit [OF assms(1)] that] .
  have fb: "\<not> bit f n" if "12 \<le> n" for n
    using take_bit_eq_self_bits [OF small_word_take_bit [OF assms(2)] that] .
  show "drop_bit 4 w = f"
  proof (rule bit_word_eqI)
    fix n assume "n < LENGTH(16)"
    then show "bit (drop_bit 4 w) n = bit f n"
      by (cases "n < 12") (simp_all add: w_def and_0xF bit_drop_bit_eq bit_or_iff bit_push_bit_iff bit_unsigned_iff bit_take_bit_iff fb)
  qed
  show "ucast (w AND 0xF) = t"
  proof (rule bit_word_eqI)
    fix n assume "n < LENGTH(8)"
    then show "bit (ucast (w AND 0xF) :: u8) n = bit t n"
      by (cases "n < 4") (simp_all add: w_def and_0xF bit_or_iff bit_push_bit_iff bit_unsigned_iff bit_take_bit_iff tb)
  qed
qed

lemma le_bytes_2: "\<exists>a b. le_bytes 2 w = [a, b]"
  by (simp add: numeral_2_eq_2)

lemma decode_lite_options:
  assumes "lite_packet_ok p" "q = p\<lparr>pk_Signature := [], pk_ConnectionSig := [], pk_MinorVersion := 0, pk_SupportedFunc := 0, pk_Payload := []\<rparr>"
  shows "decodeLiteOptions q (encodeLiteOptions p) = Inr (p\<lparr>pk_Payload := []\<rparr>)"
proof -
  note sw = support_word_fields [of "pk_SupportedFunc p" "pk_MinorVersion p"]
  have ne: "PacketSYN \<noteq> PacketCONNECT" "optConnectionSig \<noteq> optSupport" "optConnectionSigLite \<noteq> optSupport"
    "optConnectionSigLite \<noteq> optConnectionSig"
    by (simp_all add: packet_types optSupport_def optConnectionSig_def optConnectionSigLite_def)
  consider (syn) "pk_Type p = PacketSYN" | (con) "pk_Type p = PacketCONNECT" | (other) "pk_Type p \<noteq> PacketSYN" "pk_Type p \<noteq> PacketCONNECT"
    by blast
  then show ?thesis
  proof cases
    case syn
    then show ?thesis using assms sw ne
      by (auto simp: lite_packet_ok_def decodeLiteOptions_def encodeLiteOptions_def walk_put walk_put_end lite_option_def Let_def)
  next
    case con
    then show ?thesis using assms sw ne
      by (auto simp: lite_packet_ok_def decodeLiteOptions_def encodeLiteOptions_def walk_put walk_put_end lite_option_def Let_def)
  next
    case other
    then show ?thesis using assms
      by (auto simp: lite_packet_ok_def decodeLiteOptions_def encodeLiteOptions_def)
  qed
qed

lemma length_encodeLiteOptions: "lite_packet_ok p \<Longrightarrow> length (encodeLiteOptions p) < 256"
  by (auto simp: lite_packet_ok_def encodeLiteOptions_def packet_types split: if_splits)

lemma decode_one:
  assumes ok: "lite_packet_ok p"
  shows "DecodePackets (EncodePacket p @ follow) = (case DecodePackets follow of (ps, rest, e) \<Rightarrow> (p # ps, rest, e))"
proof -
  let ?opt = "encodeLiteOptions p" and ?pl = "pk_Payload p"
  let ?st = "push_bit 4 (pk_SourceType p) OR (pk_DestType p AND 0xF)"
  let ?tf = "ucast (pk_Type p AND 0xF) OR push_bit 4 (pk_Flags p) :: u16"
  obtain a b where pl: "le_bytes 2 (of_nat (length ?pl) :: u16) = [a, b]" using le_bytes_2 by blast
  obtain c d where tf: "le_bytes 2 ?tf = [c, d]" using le_bytes_2 by blast
  obtain i j where pid: "le_bytes 2 (pk_PacketID p) = [i, j]" using le_bytes_2 by blast
  let ?buf = "liteMagic # of_nat (length ?opt) # a # b # ?st # pk_SourcePort p # pk_DestPort p # pk_FragmentID p # c # d # i # j # ?opt @ ?pl @ follow"
  have enc: "EncodePacket p @ follow = ?buf" by (simp add: EncodePacket_def Let_def pl tf pid)
  have "le_word [a, b] = (of_nat (length ?pl) :: u16)" "le_word [c, d] = ?tf" "le_word [i, j] = pk_PacketID p"
    using le_word_le_bytes [of 2 "of_nat (length ?pl) :: u16"] le_word_le_bytes [of 2 ?tf] le_word_le_bytes [of 2 "pk_PacketID p"]
    by (simp_all only: pl tf pid) simp_all
  note w = this
  have len: "unat (of_nat (length ?opt) :: u8) = length ?opt" "unat (of_nat (length ?pl) :: u16) = length ?pl"
    using length_encodeLiteOptions [OF ok] ok by (simp_all add: lite_packet_ok_def)
  have nib: "drop_bit 4 ?st = pk_SourceType p" "?st AND 0xF = pk_DestType p" "drop_bit 4 ?tf = pk_Flags p" "ucast (?tf AND 0xF) = pk_Type p"
    using ok nibble_fields [of "pk_SourceType p" "pk_DestType p"] type_flags_fields [of "pk_Type p" "pk_Flags p"]
    by (auto simp: lite_packet_ok_def)
  have take2: "take 2 (drop 8 ?buf) = [c, d]" "take 2 (drop 10 ?buf) = [i, j]" "take 2 (drop 2 ?buf) = [a, b]"
    by (simp_all add: numeral_eq_Suc)
  have nth: "?buf ! 0 = liteMagic" "?buf ! 1 = of_nat (length ?opt)" "?buf ! 4 = ?st" "?buf ! 5 = pk_SourcePort p" "?buf ! 6 = pk_DestPort p" "?buf ! 7 = pk_FragmentID p"
    by (simp_all add: numeral_eq_Suc)
  have hdr: "header_packet ?buf = p\<lparr>pk_Signature := [], pk_ConnectionSig := [], pk_MinorVersion := 0, pk_SupportedFunc := 0, pk_Payload := []\<rparr>"
    unfolding header_packet_def Let_def take2 nth w nib by (simp add: packet_zero_def)
  have dr: "drop 12 ?buf = ?opt @ ?pl @ follow" "drop (12 + k) ?buf = drop k (?opt @ ?pl @ follow)" for k
    by (simp_all add: numeral_eq_Suc flip: drop_drop)
  have lb: "length ?buf = 12 + length ?opt + length ?pl + length follow" by simp
  have opts: "decodeLiteOptions (header_packet ?buf) (take (length ?opt) (drop 12 ?buf)) = Inr (p\<lparr>pk_Payload := []\<rparr>)"
    unfolding hdr dr using decode_lite_options [OF ok refl] by simp
  have tl: "drop (12 + length ?opt + length ?pl) ?buf = follow" "take (length ?pl) (drop (12 + length ?opt) ?buf) = ?pl"
    unfolding add.assoc dr by simp_all
  show ?thesis
    unfolding enc
    by (subst DecodePackets.simps)
       (simp only: liteHeaderSize_def Let_def nth take2 w len opts tl lb sum.case if_False simp_thms not_less,
        simp split: prod.split)
qed

lemma decode_packets:
  "(\<And>p. p \<in> set ps \<Longrightarrow> lite_packet_ok p) \<Longrightarrow> DecodePackets (concat (map EncodePacket ps)) = (ps, [], None)"
proof (induction ps)
  case Nil
  then show ?case by (simp add: DecodePackets.simps [of "[]"] liteHeaderSize_def)
next
  case (Cons p ps)
  then show ?case by (simp add: decode_one)
qed

subsection \<open>The decoder does not depend on how the bytes were cut\<close>

lemma header_packet_append: "12 \<le> length a \<Longrightarrow> header_packet (a @ b) = header_packet a"
  unfolding header_packet_def by (simp add: nth_append Let_def)

lemma DecodePackets_step:
  assumes "liteHeaderSize \<le> length buf" "buf ! 0 = liteMagic" "unat (buf ! 1) = optSize"
    "unat (le_word (take 2 (drop 2 buf)) :: u16) = paySize" "liteHeaderSize + optSize + paySize = tot"
    "tot \<le> length buf" "decodeLiteOptions (header_packet buf) (take optSize (drop liteHeaderSize buf)) = Inr p"
    "take paySize (drop (liteHeaderSize + optSize) buf) = pl"
  shows "DecodePackets buf = (case DecodePackets (drop tot buf) of (ps, rest, e) \<Rightarrow> (p\<lparr>pk_Payload := pl\<rparr> # ps, rest, e))"
  using assms by (subst DecodePackets.simps) (simp add: Let_def)

lemma DecodePackets_append:
  "DecodePackets a = (ps, rest, None) \<Longrightarrow>
   DecodePackets (a @ b) = (case DecodePackets (rest @ b) of (qs, rest', e) \<Rightarrow> (ps @ qs, rest', e))"
proof (induction a arbitrary: ps rule: DecodePackets.induct)
  case (1 buf)
  define optSize where "optSize = unat (buf ! 1)"
  define paySize where "paySize = unat (le_word (take 2 (drop 2 buf)) :: u16)"
  define total where "total = liteHeaderSize + optSize + paySize"
  show ?case
  proof (cases "length buf < liteHeaderSize \<or> length buf < total")
    case True
    then have "ps = []" "rest = buf"
      using "1.prems" by (auto simp: DecodePackets.simps [of buf] Let_def optSize_def paySize_def total_def split: if_splits)
    then show ?thesis by (simp split: prod.split)
  next
    case False
    then have len: "liteHeaderSize \<le> length buf" "total \<le> length buf" by auto
    from "1.prems" len obtain p qs where mag: "buf ! 0 = liteMagic"
      and opt: "decodeLiteOptions (header_packet buf) (take optSize (drop liteHeaderSize buf)) = Inr p"
      and rec: "DecodePackets (drop total buf) = (qs, rest, None)"
      and ps: "ps = p\<lparr>pk_Payload := take paySize (drop (liteHeaderSize + optSize) buf)\<rparr> # qs"
      by (auto simp: DecodePackets.simps [of buf] Let_def optSize_def paySize_def total_def split: if_splits sum.splits prod.splits)
    have IH: "DecodePackets (drop total buf @ b) = (case DecodePackets (rest @ b) of (qs', rest', e) \<Rightarrow> (qs @ qs', rest', e))"
      by (rule "1.IH") (use len mag opt rec in \<open>auto simp: optSize_def paySize_def total_def\<close>)
    have ne: "buf \<noteq> []" using len by (auto simp: liteHeaderSize_def)
    have same: "(buf @ b) ! 0 = buf ! 0" "(buf @ b) ! 1 = buf ! 1" "take 2 (drop 2 (buf @ b)) = take 2 (drop 2 buf)"
      "header_packet (buf @ b) = header_packet buf"
      using len ne by (simp_all add: nth_append header_packet_append liteHeaderSize_def)
    have cut: "take optSize (drop liteHeaderSize (buf @ b)) = take optSize (drop liteHeaderSize buf)"
      "take paySize (drop (liteHeaderSize + optSize) (buf @ b)) = take paySize (drop (liteHeaderSize + optSize) buf)"
      "drop total (buf @ b) = drop total buf @ b"
      using len by (simp_all add: total_def)
    have "DecodePackets (buf @ b) = (case DecodePackets (drop total (buf @ b)) of (ps', rest', e) \<Rightarrow>
        (p\<lparr>pk_Payload := take paySize (drop (liteHeaderSize + optSize) buf)\<rparr> # ps', rest', e))"
      by (rule DecodePackets_step)
         (use len mag opt in \<open>simp_all only: same cut optSize_def [symmetric] paySize_def [symmetric] total_def, simp_all\<close>)
    then show ?thesis
      unfolding ps cut IH by (simp split: prod.split)
  qed
qed

lemma DecodePackets_short: "length b < liteHeaderSize \<Longrightarrow> DecodePackets b = ([], b, None)"
  by (subst DecodePackets.simps) simp

end
