(* ===== verification/Nex_Prudp_Udp.thy ===== *)
theory Nex_Prudp_Udp
  imports Nex_Prudp_Lite
begin

section \<open>PRUDP V1 packets over UDP (prudp\_udp.go)\<close>

text \<open>
  The V1 packet of the raw UDP transport: two magic bytes, a 12-byte header, a 16-byte
  signature, the options and the payload.  \<open>DecodeUDPPackets\<close> returns the packets it read
  before an error together with the error, as the Go function does.
\<close>

definition udpMagic0 :: byte where "udpMagic0 = 0xEA"
definition udpMagic1 :: byte where "udpMagic1 = 0xD0"
definition udpHeaderSize :: nat where "udpHeaderSize = 12"
definition udpSignatureSize :: nat where "udpSignatureSize = 16"
definition udpConnSigKey :: bytes where "udpConnSigKey = liteConnSigKey"

lemmas udp_sizes = udpMagic0_def udpMagic1_def udpHeaderSize_def udpSignatureSize_def

definition optFragmentID :: u8 where "optFragmentID = 2"
definition optUnreliableSeqID :: u8 where "optUnreliableSeqID = 3"
definition optMaxSubstreamID :: u8 where "optMaxSubstreamID = 4"

lemmas udp_options = optSupport_def optConnectionSig_def optFragmentID_def optUnreliableSeqID_def optMaxSubstreamID_def

record udp_packet =
  u_Type :: u8
  u_Flags :: u16
  u_SourceType :: u8
  u_SourcePort :: u8
  u_DestType :: u8
  u_DestPort :: u8
  u_SessionID :: u8
  u_SubstreamID :: u8
  u_PacketID :: u16
  u_Signature :: bytes
  u_ConnectionSig :: bytes
  u_MinorVersion :: u8
  u_SupportedFunc :: u32
  u_InitialUnreliableID :: u16
  u_MaxSubstreamID :: u8
  u_FragmentID :: u8
  u_Payload :: bytes

definition udp_zero :: udp_packet where
  "udp_zero = \<lparr>u_Type = 0, u_Flags = 0, u_SourceType = 0, u_SourcePort = 0, u_DestType = 0, u_DestPort = 0,
     u_SessionID = 0, u_SubstreamID = 0, u_PacketID = 0, u_Signature = [], u_ConnectionSig = [],
     u_MinorVersion = 0, u_SupportedFunc = 0, u_InitialUnreliableID = 0, u_MaxSubstreamID = 0,
     u_FragmentID = 0, u_Payload = []\<rparr>"

definition u_HasFlag :: "udp_packet \<Rightarrow> u16 \<Rightarrow> bool" where
  "u_HasFlag p f \<longleftrightarrow> u_Flags p AND f \<noteq> 0"

subsection \<open>Encoder\<close>

definition putU :: "u8 \<Rightarrow> u32 \<Rightarrow> nat \<Rightarrow> bytes" where
  "putU i val sz = put_option i (take sz (le_bytes 4 val))"

definition encodeUDPOptions :: "udp_packet \<Rightarrow> bytes" where
  "encodeUDPOptions p =
     (if u_Type p = PacketSYN \<or> u_Type p = PacketCONNECT then
        putU optSupport (support_word (u_MinorVersion p) (u_SupportedFunc p)) 4 @
        put_option optConnectionSig (u_ConnectionSig p) @
        (if u_Type p = PacketCONNECT then putU optUnreliableSeqID (ucast (u_InitialUnreliableID p)) 2 else []) @
        putU optMaxSubstreamID (ucast (u_MaxSubstreamID p)) 1
      else if u_Type p = PacketDATA then putU optFragmentID (ucast (u_FragmentID p)) 1
      else [])"

definition buildUDPHeader12 :: "udp_packet \<Rightarrow> nat \<Rightarrow> bytes" where
  "buildUDPHeader12 p optionSize =
     [1, of_nat optionSize] @ le_bytes 2 (of_nat (length (u_Payload p)) :: u16) @
     [(u_SourcePort p AND 0xF) OR push_bit 4 (u_SourceType p), (u_DestPort p AND 0xF) OR push_bit 4 (u_DestType p)] @
     le_bytes 2 (ucast (u_Type p AND 0xF) OR push_bit 4 (u_Flags p)) @
     [u_SessionID p, u_SubstreamID p] @ le_bytes 2 (u_PacketID p)"

definition EncodeUDPPacket :: "udp_packet \<Rightarrow> bytes" where
  "EncodeUDPPacket p =
     (let options = encodeUDPOptions p;
          sig = (if length (u_Signature p) \<noteq> udpSignatureSize then replicate udpSignatureSize 0 else u_Signature p)
      in [udpMagic0, udpMagic1] @ buildUDPHeader12 p (length options) @ sig @ options @ u_Payload p)"

subsection \<open>Decoder\<close>

definition udp_option :: "u8 \<Rightarrow> bytes \<Rightarrow> udp_packet \<Rightarrow> udp_packet" where
  "udp_option i val p =
     (if i = optSupport then
        (if length val = 4 then let v = le_word val :: u32 in
           p\<lparr>u_MinorVersion := ucast (v AND 0xFF), u_SupportedFunc := drop_bit 8 v\<rparr> else p)
      else if i = optConnectionSig then p\<lparr>u_ConnectionSig := val\<rparr>
      else if i = optUnreliableSeqID then
        (if length val = 2 then p\<lparr>u_InitialUnreliableID := le_word val\<rparr> else p)
      else if i = optMaxSubstreamID then (if 1 \<le> length val then p\<lparr>u_MaxSubstreamID := val ! 0\<rparr> else p)
      else if i = optFragmentID then (if 1 \<le> length val then p\<lparr>u_FragmentID := val ! 0\<rparr> else p)
      else p)"

definition decodeUDPOptions :: "udp_packet \<Rightarrow> bytes \<Rightarrow> go_error + udp_packet" where
  "decodeUDPOptions = walk_options udp_option"

definition udp_header_packet :: "bytes \<Rightarrow> udp_packet" where
  "udp_header_packet buf =
     (let src = buf ! 6; dst = buf ! 7; typeFlags = le_word (take 2 (drop 8 buf)) :: u16 in
      udp_zero\<lparr>u_SourceType := drop_bit 4 src, u_SourcePort := src AND 0xF,
        u_DestType := drop_bit 4 dst, u_DestPort := dst AND 0xF,
        u_Type := ucast (typeFlags AND 0xF), u_Flags := drop_bit 4 typeFlags,
        u_SessionID := buf ! 10, u_SubstreamID := buf ! 11, u_PacketID := le_word (take 2 (drop 12 buf)),
        u_Signature := take udpSignatureSize (drop 14 buf)\<rparr>)"

function DecodeUDPPackets :: "bytes \<Rightarrow> udp_packet list \<times> go_error option" where
  "DecodeUDPPackets buf =
     (if buf = [] then ([], None)
      else if length buf < 2 + udpHeaderSize + udpSignatureSize then ([], Some ErrShortPacket)
      else if buf ! 0 \<noteq> udpMagic0 \<or> buf ! 1 \<noteq> udpMagic1 then ([], Some ErrInvalidMagic)
      else if buf ! 2 \<noteq> 1 then ([], Some (ErrVersion (buf ! 2)))
      else let optSize = unat (buf ! 3);
               payloadSize = unat (le_word (take 2 (drop 4 buf)) :: u16);
               tot = 2 + udpHeaderSize + udpSignatureSize + optSize + payloadSize;
               optStart = 14 + udpSignatureSize;
               payloadStart = optStart + optSize
           in if length buf < tot then ([], Some ErrTruncatedPacket)
              else case decodeUDPOptions (udp_header_packet buf) (take optSize (drop optStart buf)) of
                Inl e \<Rightarrow> ([], Some e)
              | Inr p \<Rightarrow> (case DecodeUDPPackets (drop tot buf) of (ps, e) \<Rightarrow>
                  (p\<lparr>u_Payload := take payloadSize (drop payloadStart buf)\<rparr> # ps, e)))"
  by pat_completeness auto
termination
  by (relation "measure length") (auto simp: udp_sizes)

declare DecodeUDPPackets.simps [simp del]

subsection \<open>Signatures\<close>

definition UDPConnectionSignature :: "(bytes \<times> u16) option \<Rightarrow> bytes \<Rightarrow> bytes" where
  "UDPConnectionSignature addr rnd = (case addr of
     None \<Rightarrow> rnd
   | Some (ip4, port) \<Rightarrow> hmacMD5 udpConnSigKey (take 4 ip4 @ rev (le_bytes 2 port)))"

definition key_sum :: "bytes \<Rightarrow> u32" where
  "key_sum key = sum_list (map (\<lambda>c. ucast c) key)"

definition UDPPacketSignature :: "string \<Rightarrow> udp_packet \<Rightarrow> bytes \<Rightarrow> bytes \<Rightarrow> bytes \<Rightarrow> bytes" where
  "UDPPacketSignature accessKey p options sessionKey connectionSig =
     (let header = buildUDPHeader12 p (length options); key = md5 (string_bytes accessKey) in
      hmacMD5 key (drop 4 header @ sessionKey @ le_bytes 4 (key_sum (string_bytes accessKey)) @
                   connectionSig @ options @ u_Payload p))"

subsection \<open>Decoding undoes encoding\<close>

definition udp_packet_ok :: "udp_packet \<Rightarrow> bool" where
  "udp_packet_ok p \<longleftrightarrow> unat (u_Type p) < 2 ^ 4 \<and> unat (u_Flags p) < 2 ^ 12 \<and>
     unat (u_SourceType p) < 2 ^ 4 \<and> unat (u_DestType p) < 2 ^ 4 \<and>
     unat (u_SourcePort p) < 2 ^ 4 \<and> unat (u_DestPort p) < 2 ^ 4 \<and>
     length (u_Payload p) < 2 ^ 16 \<and> length (u_Signature p) = udpSignatureSize \<and>
     (if u_Type p = PacketSYN \<or> u_Type p = PacketCONNECT
      then unat (u_SupportedFunc p) < 2 ^ 24 \<and> length (u_ConnectionSig p) < 240 \<and> u_FragmentID p = 0
      else u_MinorVersion p = 0 \<and> u_SupportedFunc p = 0 \<and> u_ConnectionSig p = [] \<and> u_MaxSubstreamID p = 0 \<and>
           (u_Type p \<noteq> PacketDATA \<longrightarrow> u_FragmentID p = 0)) \<and>
     (u_Type p \<noteq> PacketCONNECT \<longrightarrow> u_InitialUnreliableID p = 0)"

lemma take_le_bytes: "k \<le> n \<Longrightarrow> take k (le_bytes n w) = le_bytes k w"
proof (induction k arbitrary: n w)
  case 0
  then show ?case by simp
next
  case (Suc k)
  then obtain m where "n = Suc m" "k \<le> m" by (cases n) auto
  then show ?case using Suc.IH by simp
qed

lemma le_bytes_ucast16: "le_bytes 2 (ucast (w :: u16) :: u32) = le_bytes 2 w"
proof -
  have a: "(ucast (ucast w :: u32) :: u8) = ucast w" by (rule bit_word_eqI) (simp add: bit_simps)
  have b: "(ucast (drop_bit 8 (ucast w :: u32)) :: u8) = ucast (drop_bit 8 w)"
    by (rule bit_word_eqI) (auto simp: bit_simps dest: bit_imp_le_length)
  show ?thesis using a b by (simp add: numeral_2_eq_2)
qed

lemma udp_option_values:
  "take 4 (le_bytes 4 (w :: u32)) = le_bytes 4 w"
  "take 2 (le_bytes 4 (ucast (h :: u16) :: u32)) = le_bytes 2 h"
  "take (Suc 0) (le_bytes 4 (ucast (b :: u8) :: u32)) = [b]"
proof -
  have "(ucast (ucast b :: u32) :: u8) = b" by (rule bit_word_eqI) (simp add: bit_simps)
  then show "take (Suc 0) (le_bytes 4 (ucast (b :: u8) :: u32)) = [b]"
    by (subst take_le_bytes) simp_all
qed (simp_all add: take_le_bytes le_bytes_ucast16)

lemma decode_udp_options:
  assumes "udp_packet_ok p"
    "q = p\<lparr>u_ConnectionSig := [], u_MinorVersion := 0, u_SupportedFunc := 0, u_InitialUnreliableID := 0,
           u_MaxSubstreamID := 0, u_FragmentID := 0, u_Payload := []\<rparr>"
  shows "decodeUDPOptions q (encodeUDPOptions p) = Inr (p\<lparr>u_Payload := []\<rparr>)"
proof -
  note sw = support_word_fields [of "u_SupportedFunc p" "u_MinorVersion p"]
  have ne: "optConnectionSig \<noteq> optSupport" "optUnreliableSeqID \<noteq> optSupport" "optUnreliableSeqID \<noteq> optConnectionSig"
    "optMaxSubstreamID \<noteq> optSupport" "optMaxSubstreamID \<noteq> optConnectionSig" "optMaxSubstreamID \<noteq> optUnreliableSeqID"
    "optFragmentID \<noteq> optSupport" "optFragmentID \<noteq> optConnectionSig" "optFragmentID \<noteq> optUnreliableSeqID"
    "optFragmentID \<noteq> optMaxSubstreamID"
    "PacketSYN \<noteq> PacketCONNECT" "PacketDATA \<noteq> PacketSYN" "PacketDATA \<noteq> PacketCONNECT" "PacketSYN \<noteq> PacketDATA"
    "PacketCONNECT \<noteq> PacketDATA"
    by (simp_all add: udp_options packet_types)
  consider (syn) "u_Type p = PacketSYN" | (con) "u_Type p = PacketCONNECT" | (dat) "u_Type p = PacketDATA"
    | (other) "u_Type p \<noteq> PacketSYN" "u_Type p \<noteq> PacketCONNECT" "u_Type p \<noteq> PacketDATA"
    by blast
  then show ?thesis
    using assms sw ne
    by cases
       (simp_all add: udp_packet_ok_def decodeUDPOptions_def encodeUDPOptions_def putU_def udp_option_values
          walk_put walk_put_end udp_option_def Let_def)
qed

lemma length_encodeUDPOptions: "udp_packet_ok p \<Longrightarrow> length (encodeUDPOptions p) < 256"
  by (auto simp: udp_packet_ok_def encodeUDPOptions_def putU_def udp_option_values packet_types)

lemma DecodeUDPPackets_step:
  assumes "2 + udpHeaderSize + udpSignatureSize \<le> length buf" "buf ! 0 = udpMagic0" "buf ! 1 = udpMagic1" "buf ! 2 = 1"
    "unat (buf ! 3) = optSize" "unat (le_word (take 2 (drop 4 buf)) :: u16) = paySize"
    "2 + udpHeaderSize + udpSignatureSize + optSize + paySize = tot" "tot \<le> length buf"
    "decodeUDPOptions (udp_header_packet buf) (take optSize (drop (14 + udpSignatureSize) buf)) = Inr p"
    "take paySize (drop (14 + udpSignatureSize + optSize) buf) = pl"
  shows "DecodeUDPPackets buf = (case DecodeUDPPackets (drop tot buf) of (ps, e) \<Rightarrow> (p\<lparr>u_Payload := pl\<rparr> # ps, e))"
proof -
  have "buf \<noteq> []" using assms(1) by auto
  then show ?thesis using assms by (subst DecodeUDPPackets.simps) (simp add: Let_def)
qed

lemma decode_udp_one:
  assumes ok: "udp_packet_ok p"
  shows "DecodeUDPPackets (EncodeUDPPacket p @ rest) = (case DecodeUDPPackets rest of (ps, e) \<Rightarrow> (p # ps, e))"
proof -
  let ?opt = "encodeUDPOptions p" and ?pl = "u_Payload p" and ?sig = "u_Signature p"
  let ?src = "push_bit 4 (u_SourceType p) OR (u_SourcePort p AND 0xF)"
  let ?dst = "push_bit 4 (u_DestType p) OR (u_DestPort p AND 0xF)"
  let ?tf = "ucast (u_Type p AND 0xF) OR push_bit 4 (u_Flags p) :: u16"
  obtain a b where pl: "le_bytes 2 (of_nat (length ?pl) :: u16) = [a, b]" using le_bytes_2 by blast
  obtain c d where tf: "le_bytes 2 ?tf = [c, d]" using le_bytes_2 by blast
  obtain i j where pid: "le_bytes 2 (u_PacketID p) = [i, j]" using le_bytes_2 by blast
  let ?tail = "?sig @ ?opt @ ?pl @ rest"
  let ?buf = "udpMagic0 # udpMagic1 # 1 # of_nat (length ?opt) # a # b # ?src # ?dst # c # d # u_SessionID p # u_SubstreamID p # i # j # ?tail"
  have sig: "length ?sig = 16" using ok by (simp add: udp_packet_ok_def udpSignatureSize_def)
  have enc: "EncodeUDPPacket p @ rest = ?buf"
    using sig by (simp add: EncodeUDPPacket_def buildUDPHeader12_def Let_def pl tf pid udpSignatureSize_def or.commute [of "_ AND 0xF :: u8"])
  have w: "le_word [a, b] = (of_nat (length ?pl) :: u16)" "le_word [c, d] = ?tf" "le_word [i, j] = u_PacketID p"
    using le_word_le_bytes [of 2 "of_nat (length ?pl) :: u16"] le_word_le_bytes [of 2 ?tf] le_word_le_bytes [of 2 "u_PacketID p"]
    by (simp_all only: pl tf pid) simp_all
  have len: "unat (of_nat (length ?opt) :: u8) = length ?opt" "unat (of_nat (length ?pl) :: u16) = length ?pl"
    using length_encodeUDPOptions [OF ok] ok by (simp_all add: udp_packet_ok_def)
  have nib: "drop_bit 4 ?src = u_SourceType p" "?src AND 0xF = u_SourcePort p" "drop_bit 4 ?dst = u_DestType p" "?dst AND 0xF = u_DestPort p"
    "drop_bit 4 ?tf = u_Flags p" "ucast (?tf AND 0xF) = u_Type p"
    using ok nibble_fields [of "u_SourceType p" "u_SourcePort p"] nibble_fields [of "u_DestType p" "u_DestPort p"]
      type_flags_fields [of "u_Type p" "u_Flags p"]
    by (auto simp: udp_packet_ok_def)
  have take2: "take 2 (drop 4 ?buf) = [a, b]" "take 2 (drop 8 ?buf) = [c, d]" "take 2 (drop 12 ?buf) = [i, j]"
    by (simp_all add: numeral_eq_Suc)
  have nth: "?buf ! 0 = udpMagic0" "?buf ! 1 = udpMagic1" "?buf ! 2 = 1" "?buf ! 3 = of_nat (length ?opt)"
    "?buf ! 6 = ?src" "?buf ! 7 = ?dst" "?buf ! 10 = u_SessionID p" "?buf ! 11 = u_SubstreamID p"
    by (simp_all add: numeral_eq_Suc)
  have dr: "drop 14 ?buf = ?tail" "drop (14 + k) ?buf = drop k ?tail" for k
    by (simp_all add: numeral_eq_Suc flip: drop_drop)
  have hdr: "udp_header_packet ?buf = p\<lparr>u_ConnectionSig := [], u_MinorVersion := 0, u_SupportedFunc := 0,
      u_InitialUnreliableID := 0, u_MaxSubstreamID := 0, u_FragmentID := 0, u_Payload := []\<rparr>"
    unfolding udp_header_packet_def Let_def take2 nth w nib dr by (simp add: udp_zero_def udpSignatureSize_def sig)
  have opts: "decodeUDPOptions (udp_header_packet ?buf) (take (length ?opt) (drop (14 + udpSignatureSize) ?buf)) = Inr (p\<lparr>u_Payload := []\<rparr>)"
    unfolding hdr dr udpSignatureSize_def using decode_udp_options [OF ok refl] sig by simp
  have payload: "take (length ?pl) (drop (14 + udpSignatureSize + length ?opt) ?buf) = ?pl"
    unfolding udpSignatureSize_def add.assoc dr using sig by simp
  let ?tot = "2 + udpHeaderSize + udpSignatureSize + length ?opt + length ?pl"
  have tot: "?tot = 14 + (16 + length ?opt + length ?pl)" by (simp add: udp_sizes)
  have rest: "drop ?tot ?buf = rest" unfolding tot dr using sig by simp
  have lb: "2 + udpHeaderSize + udpSignatureSize \<le> length ?buf" "?tot \<le> length ?buf"
    using sig by (simp_all add: udp_sizes)
  have "DecodeUDPPackets ?buf = (case DecodeUDPPackets (drop ?tot ?buf) of
      (ps, e) \<Rightarrow> (p\<lparr>u_Payload := []\<rparr>\<lparr>u_Payload := ?pl\<rparr> # ps, e))"
    by (rule DecodeUDPPackets_step [OF lb(1) nth(1,2,3) _ _ refl lb(2) opts payload])
       (simp_all only: nth take2 w len)
  then show ?thesis unfolding enc rest by simp
qed

lemma decode_udp_packets:
  "(\<And>p. p \<in> set ps \<Longrightarrow> udp_packet_ok p) \<Longrightarrow> DecodeUDPPackets (concat (map EncodeUDPPacket ps)) = (ps, None)"
proof (induction ps)
  case Nil
  then show ?case by (simp add: DecodeUDPPackets.simps [of "[]"])
next
  case (Cons p ps)
  then show ?case by (simp add: decode_udp_one)
qed

text \<open>A datagram shorter than the 30 bytes of an empty packet yields nothing but an error.\<close>

lemma DecodeUDPPackets_short:
  "buf \<noteq> [] \<Longrightarrow> length buf < 30 \<Longrightarrow> DecodeUDPPackets buf = ([], Some ErrShortPacket)"
  by (subst DecodeUDPPackets.simps) (simp add: udp_sizes)

text \<open>The signature covers every field of the header the decoder uses except the sizes.\<close>

lemma length_buildUDPHeader12 [simp]: "length (buildUDPHeader12 p n) = udpHeaderSize"
  by (simp add: buildUDPHeader12_def udpHeaderSize_def)

end
