(* ===== verification/Nex_Kerberos.thy ===== *)
theory Nex_Kerberos
  imports Nex_Crypto Nex_Codec
begin

section \<open>Kerberos tickets (kerberos.go)\<close>

text \<open>
  Key derivation and the two tickets.  A ticket is serialised with the stream writers, then
  encrypted with RC4 and followed by an HMAC-MD5 of the ciphertext.  The random per-ticket
  key of a version-1 server ticket is an argument (\<open>crypto/rand\<close> does not fail here).
\<close>

definition deriveKeyOld :: "bytes \<Rightarrow> u64 \<Rightarrow> nat \<Rightarrow> nat \<Rightarrow> bytes" where
  "deriveKeyOld password pid baseCount pidCount = (md5 ^^ (baseCount + unat pid mod pidCount)) password"

definition deriveKeyNew :: "bytes \<Rightarrow> u64 \<Rightarrow> nat \<Rightarrow> nat \<Rightarrow> bytes" where
  "deriveKeyNew password pid baseCount pidCount =
     (let key = (md5 ^^ baseCount) password in (md5 ^^ pidCount) (key @ le_bytes 8 pid))"

definition DeriveKey :: "settings \<Rightarrow> bytes \<Rightarrow> u64 \<Rightarrow> bytes" where
  "DeriveKey s password pid =
     (if KerberosKeyDerivation s = KeyDerivationNew then deriveKeyNew password pid 1 1
      else deriveKeyOld password pid 65000 1024)"

definition kerberosEncrypt :: "bytes \<Rightarrow> bytes \<Rightarrow> go_error + bytes" where
  "kerberosEncrypt key data = (case rc4Crypt key data of Inl e \<Rightarrow> Inl e | Inr enc \<Rightarrow> Inr (enc @ hmacMD5 key enc))"

definition kerberosDecrypt :: "bytes \<Rightarrow> bytes \<Rightarrow> go_error + bytes" where
  "kerberosDecrypt key buffer =
     (if length buffer < 16 then Inl ErrKerberosShort
      else let data = take (length buffer - 16) buffer; checksum = drop (length buffer - 16) buffer
       in if checksum \<noteq> hmacMD5 key data then Inl ErrKerberosChecksum else rc4Crypt key data)"

record client_ticket =
  ct_SessionKey :: bytes
  ct_Target :: u64
  ct_Internal :: bytes

definition ClientTicket_Encrypt :: "client_ticket \<Rightarrow> bytes \<Rightarrow> settings \<Rightarrow> go_error + bytes" where
  "ClientTicket_Encrypt t key s =
     (if int (length (ct_SessionKey t)) \<noteq> KerberosKeySize s then Inl ErrKerberosKeySize
      else kerberosEncrypt key (ct_SessionKey t @ w_PID s (ct_Target t) @ w_Buffer (ct_Internal t)))"

definition DecryptClientTicket :: "bytes \<Rightarrow> bytes \<Rightarrow> settings \<Rightarrow> go_error + client_ticket" where
  "DecryptClientTicket data key s =
     (case kerberosDecrypt key data of
        Inl e \<Rightarrow> Inl e
      | Inr dec \<Rightarrow>
          (case run_state (do { k \<leftarrow> r_Read (KerberosKeySize s); t \<leftarrow> r_PID s; i \<leftarrow> r_Buffer;
                   State_Monad.return \<lparr>ct_SessionKey = k, ct_Target = t, ct_Internal = i\<rparr> }) (NewStreamIn dec) of
             (t, st) \<Rightarrow> (case Err st of None \<Rightarrow> Inr t | Some e \<Rightarrow> Inl e)))"

record server_ticket =
  tk_Timestamp :: u64
  tk_Source :: u64
  tk_SessionKey :: bytes

definition ServerTicket_Encrypt :: "bytes \<Rightarrow> server_ticket \<Rightarrow> bytes \<Rightarrow> settings \<Rightarrow> go_error + bytes" where
  "ServerTicket_Encrypt ticketKey t key s =
     (if int (length (tk_SessionKey t)) \<noteq> KerberosKeySize s then Inl ErrKerberosKeySize
      else let data = w_DateTime (tk_Timestamp t) @ w_PID s (tk_Source t) @ tk_SessionKey t
       in if KerberosTicketVersion s = 1
          then (case kerberosEncrypt (md5 (key @ ticketKey)) data of
                  Inl e \<Rightarrow> Inl e | Inr enc \<Rightarrow> Inr (w_Buffer ticketKey @ w_Buffer enc))
          else kerberosEncrypt key data)"

definition server_ticket_reader :: "settings \<Rightarrow> server_ticket reader" where
  "server_ticket_reader s = do { ts \<leftarrow> r_DateTime; src \<leftarrow> r_PID s; k \<leftarrow> r_Read (KerberosKeySize s);
     State_Monad.return \<lparr>tk_Timestamp = ts, tk_Source = src, tk_SessionKey = k\<rparr> }"

definition decrypt_ticket_body :: "bytes \<Rightarrow> bytes \<Rightarrow> settings \<Rightarrow> go_error + server_ticket" where
  "decrypt_ticket_body data key s =
     (case kerberosDecrypt key data of
        Inl e \<Rightarrow> Inl e
      | Inr dec \<Rightarrow> (case run_state (server_ticket_reader s) (NewStreamIn dec) of
             (t, st) \<Rightarrow> (case Err st of None \<Rightarrow> Inr t | Some e \<Rightarrow> Inl e)))"

definition DecryptServerTicket :: "bytes \<Rightarrow> bytes \<Rightarrow> settings \<Rightarrow> go_error + server_ticket" where
  "DecryptServerTicket data key s =
     (if KerberosTicketVersion s = 1
      then (case run_state (do { k \<leftarrow> r_Buffer; i \<leftarrow> r_Buffer; State_Monad.return (k, i) }) (NewStreamIn data) of
          ((ticketKey, inner), st) \<Rightarrow>
             (case Err st of
                Some e \<Rightarrow> Inl e
              | None \<Rightarrow> decrypt_ticket_body inner (md5 (key @ ticketKey)) s))
      else decrypt_ticket_body data key s)"

subsection \<open>Laws\<close>

lemma decrypt_encrypt: "kerberosEncrypt key data = Inr c \<Longrightarrow> kerberosDecrypt key c = Inr data"
proof -
  assume "kerberosEncrypt key data = Inr c"
  then obtain enc where "rc4Crypt key data = Inr enc" "c = enc @ hmacMD5 key enc"
    by (auto simp: kerberosEncrypt_def split: sum.splits)
  then show ?thesis using rc4_twice [of key data enc] by (simp add: kerberosDecrypt_def)
qed

lemma decrypt_only_authentic:
  assumes "kerberosDecrypt key buffer = Inr data"
  shows "\<exists>enc. buffer = enc @ hmacMD5 key enc \<and> rc4Crypt key data = Inr enc"
proof -
  let ?enc = "take (length buffer - 16) buffer"
  have sum: "drop (length buffer - 16) buffer = hmacMD5 key ?enc" and rc: "rc4Crypt key ?enc = Inr data"
    using assms by (auto simp: kerberosDecrypt_def Let_def split: if_splits)
  have "buffer = ?enc @ drop (length buffer - 16) buffer" by simp
  with sum rc4_twice [OF rc] show ?thesis by metis
qed

lemma decrypt_eq_encrypt: "kerberosDecrypt key buffer = Inr data \<longleftrightarrow> kerberosEncrypt key data = Inr buffer"
proof
  assume "kerberosDecrypt key buffer = Inr data"
  then show "kerberosEncrypt key data = Inr buffer"
    using decrypt_only_authentic by (fastforce simp: kerberosEncrypt_def)
qed (rule decrypt_encrypt)

lemma encrypt_total:
  "key \<noteq> [] \<Longrightarrow> length key \<le> 256 \<Longrightarrow> \<exists>c. kerberosEncrypt key data = Inr c \<and> length c = length data + 16"
  using rc4_total [of key data] by (auto simp: kerberosEncrypt_def dest: rc4_length)

lemma length_derived_key: "length (deriveKeyNew password pid 1 1) = 16"
  by (simp add: deriveKeyNew_def Let_def)

lemmas length_derived_key' [simp] = length_derived_key [simplified One_nat_def]

lemma length_funpow_md5: "0 < n \<Longrightarrow> length ((md5 ^^ n) x) = 16"
  by (cases n) simp_all

lemma DeriveKey_length [simp]: "length (DeriveKey s password pid) = 16"
  by (simp add: DeriveKey_def length_derived_key deriveKeyOld_def length_funpow_md5)

definition server_ticket_ok :: "settings \<Rightarrow> server_ticket \<Rightarrow> bool" where
  "server_ticket_ok s t \<longleftrightarrow> pid_ok s (tk_Source t) \<and> int (length (tk_SessionKey t)) = KerberosKeySize s
     \<and> length (tk_SessionKey t) < 2 ^ 31"

lemma run_server_ticket:
  assumes "server_ticket_ok s t"
  shows "run_state (server_ticket_reader s)
      (cursor pre (w_DateTime (tk_Timestamp t) @ w_PID s (tk_Source t) @ tk_SessionKey t))
    = (t, cursor (pre @ w_DateTime (tk_Timestamp t) @ w_PID s (tk_Source t) @ tk_SessionKey t) [])"
  using assms
  by (simp add: server_ticket_reader_def w_DateTime_def r_DateTime_def run_U64 run_PID run_Read_end server_ticket_ok_def)

lemma length_w_PID: "length (w_PID s v) \<le> 8"
  by (simp add: w_PID_def Let_def)

lemma ticket_body_round_trip:
  assumes "server_ticket_ok s t"
    and "kerberosEncrypt key (w_DateTime (tk_Timestamp t) @ w_PID s (tk_Source t) @ tk_SessionKey t) = Inr c"
  shows "decrypt_ticket_body c key s = Inr t"
  using decrypt_encrypt [OF assms(2)] run_server_ticket [OF assms(1), of "[]"]
  by (simp add: decrypt_ticket_body_def NewStreamIn_cursor)

end
