(* ===== verification/Nex_Types.thy ===== *)
theory Nex_Types
  imports Nex_Codec
begin

section \<open>Structures, results, dates and variants (types.go)\<close>

text \<open>
  \<open>Structure\<close> is a list of levels; each level saves and loads its own fields of one record.
  A level's \<open>Save\<close> and \<open>Load\<close> may be nil.  \<open>Load\<close> fills the fields of an existing object,
  so it takes the object and returns the new one.  With struct headers a level is read from
  a substream of its own, whose error is not passed on to the enclosing stream.
\<close>

subsection \<open>Structure framework\<close>

record 'a level =
  lv_Version :: u8
  lv_Save :: "(settings \<Rightarrow> 'a \<Rightarrow> bytes) option"
  lv_Load :: "(settings \<Rightarrow> 'a \<Rightarrow> 'a reader) option"

definition level_body :: "settings \<Rightarrow> 'a level \<Rightarrow> 'a \<Rightarrow> bytes" where
  "level_body s l v = (case lv_Save l of None \<Rightarrow> [] | Some f \<Rightarrow> f s v)"

definition WriteLevel :: "settings \<Rightarrow> 'a \<Rightarrow> 'a level \<Rightarrow> bytes" where
  "WriteLevel s v l = (if StructHeader s then w_U8 (lv_Version l) @ w_Buffer (level_body s l v)
     else level_body s l v)"

definition WriteStructure :: "settings \<Rightarrow> 'a level list \<Rightarrow> 'a \<Rightarrow> bytes" where
  "WriteStructure s ls v = concat (map (WriteLevel s v) ls)"

definition ReadLevel :: "settings \<Rightarrow> 'a level \<Rightarrow> 'a \<Rightarrow> 'a reader" where
  "ReadLevel s l v = (if StructHeader s
     then do {
       _ \<leftarrow> r_U8;
       sub \<leftarrow> r_Substream;
       State_Monad.return (case lv_Load l of None \<Rightarrow> v | Some f \<Rightarrow> fst (run_state (f s v) sub)) }
     else (case lv_Load l of None \<Rightarrow> State_Monad.return v | Some f \<Rightarrow> f s v))"

fun ReadStructure :: "settings \<Rightarrow> 'a level list \<Rightarrow> 'a \<Rightarrow> 'a reader" where
  "ReadStructure s [] v = State_Monad.return v"
| "ReadStructure s (l # ls) v = do { w \<leftarrow> ReadLevel s l v; ReadStructure s ls w }"

text \<open>\<open>loads l s acc v acc'\<close>: level \<open>l\<close>, reading what \<open>v\<close> saved into \<open>acc\<close>, makes it \<open>acc'\<close>.\<close>

definition loads :: "'a level \<Rightarrow> settings \<Rightarrow> 'a \<Rightarrow> 'a \<Rightarrow> 'a \<Rightarrow> bool" where
  "loads l s acc v acc' \<longleftrightarrow> length (level_body s l v) < 2 ^ 32 \<and>
     (case lv_Load l of
        None \<Rightarrow> level_body s l v = [] \<and> acc' = acc
      | Some f \<Rightarrow> \<forall>pre post. run_state (f s acc) (cursor pre (level_body s l v @ post))
                      = (acc', cursor (pre @ level_body s l v) post))"

lemma ReadLevel_WriteLevel:
  assumes "loads l s acc v acc'"
  shows "run_state (ReadLevel s l acc) (cursor pre (WriteLevel s v l @ post))
       = (acc', cursor (pre @ WriteLevel s v l) post)"
proof (cases "StructHeader s")
  case True
  have len: "length (level_body s l v) < 2 ^ 32" using assms by (simp add: loads_def)
  have sub: "(case lv_Load l of None \<Rightarrow> acc | Some f \<Rightarrow> fst (run_state (f s acc) (NewStreamIn (level_body s l v)))) = acc'"
    using assms by (auto simp: loads_def NewStreamIn_cursor split: option.splits)
       (metis append_Nil append_Nil2 fst_conv)
  show ?thesis
    using True sub len
    by (simp add: ReadLevel_def WriteLevel_def run_U8 r_Substream_def run_Buffer)
next
  case False
  then show ?thesis
    using assms by (auto simp: ReadLevel_def WriteLevel_def loads_def split: option.splits)
qed

lemma ReadStructure_Cons_Write:
  "loads l s acc v acc' \<Longrightarrow>
   run_state (ReadStructure s (l # ls) acc) (cursor pre (WriteStructure s (l # ks) v @ post))
   = run_state (ReadStructure s ls acc') (cursor (pre @ WriteLevel s v l) (WriteStructure s ks v @ post))"
  by (simp add: WriteStructure_def ReadLevel_WriteLevel)

lemma WriteStructure_Cons: "WriteStructure s (l # ls) v = WriteLevel s v l @ WriteStructure s ls v"
  by (simp add: WriteStructure_def)

lemma WriteStructure_Nil [simp]: "WriteStructure s [] v = []"
  by (simp add: WriteStructure_def)

text \<open>The interface of a structure: its levels, read over any object, restore the written one.\<close>

locale structure_codec =
  fixes s :: settings and ls :: "'a level list" and zero :: 'a and ok :: "'a \<Rightarrow> bool"
  assumes read_write: "ok v \<Longrightarrow>
    run_state (ReadStructure s ls zero) (cursor pre (WriteStructure s ls v @ post))
      = (v, cursor (pre @ WriteStructure s ls v) post)"

sublocale structure_codec \<subseteq> codec "WriteStructure s ls" "ReadStructure s ls zero" ok
  by unfold_locales (rule read_write)

text \<open>One level: enough to show its loader.\<close>

lemma single_level_read_write:
  "loads l s zero v v \<Longrightarrow>
   run_state (ReadStructure s [l] zero) (cursor pre (WriteStructure s [l] v @ post))
     = (v, cursor (pre @ WriteStructure s [l] v) post)"
  by (simp add: ReadLevel_WriteLevel WriteStructure_Cons)

lemma two_level_read_write:
  "loads l s zero v w \<Longrightarrow> loads k s w v v \<Longrightarrow>
   run_state (ReadStructure s [l, k] zero) (cursor pre (WriteStructure s [l, k] v @ post))
     = (v, cursor (pre @ WriteStructure s [l, k] v) post)"
  by (simp add: ReadLevel_WriteLevel WriteStructure_Cons)

lemma WriteStructure_nonempty: "StructHeader s \<Longrightarrow> ls \<noteq> [] \<Longrightarrow> WriteStructure s ls v \<noteq> []"
  by (cases ls) (simp_all add: WriteStructure_Cons WriteLevel_def)

subsection \<open>Result\<close>

definition ResultErrorMask :: u32 where "ResultErrorMask = push_bit 31 1"

record nex_result =
  Code :: u32

definition SuccessResult :: "u32 \<Rightarrow> nex_result" where
  "SuccessResult code = \<lparr>Code = code AND NOT ResultErrorMask\<rparr>"
definition ErrorResult :: "u32 \<Rightarrow> nex_result" where
  "ErrorResult code = \<lparr>Code = code OR ResultErrorMask\<rparr>"
definition IsSuccess :: "nex_result \<Rightarrow> bool" where
  "IsSuccess r \<longleftrightarrow> Code r AND ResultErrorMask = 0"
definition IsError :: "nex_result \<Rightarrow> bool" where
  "IsError r \<longleftrightarrow> Code r AND ResultErrorMask \<noteq> 0"

lemma bit_ResultErrorMask [simp]: "bit ResultErrorMask n \<longleftrightarrow> n = 31"
  unfolding ResultErrorMask_def by (simp only: push_bit_of_1 bit_exp_iff possible_bit_word) auto

lemma mask_zero_iff: "c AND ResultErrorMask = 0 \<longleftrightarrow> \<not> bit c 31"
  unfolding bit_eq_iff [of "c AND ResultErrorMask" 0]
  by (auto simp: bit_simps dest: spec [of _ 31])

subsection \<open>DateTime\<close>

definition Second :: "u64 \<Rightarrow> int" where "Second d = uint (d AND 63)"
definition Minute :: "u64 \<Rightarrow> int" where "Minute d = uint (drop_bit 6 d AND 63)"
definition Hour :: "u64 \<Rightarrow> int" where "Hour d = uint (drop_bit 12 d AND 31)"
definition Day :: "u64 \<Rightarrow> int" where "Day d = uint (drop_bit 17 d AND 31)"
definition Month :: "u64 \<Rightarrow> int" where "Month d = uint (drop_bit 22 d AND 15)"
definition Year :: "u64 \<Rightarrow> int" where "Year d = uint (drop_bit 26 d)"

definition MakeDateTime :: "int \<Rightarrow> int \<Rightarrow> int \<Rightarrow> int \<Rightarrow> int \<Rightarrow> int \<Rightarrow> u64" where
  "MakeDateTime year month day hour minute second =
     word_of_int second OR push_bit 6 (word_of_int minute) OR push_bit 12 (word_of_int hour)
     OR push_bit 17 (word_of_int day) OR push_bit 22 (word_of_int month) OR push_bit 26 (word_of_int year)"

subsection \<open>ResultRange\<close>

record result_range =
  rr_Offset :: u32
  rr_Size :: u32

definition ResultRange_levels :: "result_range level list" where
  "ResultRange_levels = [\<lparr> lv_Version = 0,
     lv_Save = Some (\<lambda>s r. w_U32 (rr_Offset r) @ w_U32 (rr_Size r)),
     lv_Load = Some (\<lambda>s r. do { a \<leftarrow> r_U32; b \<leftarrow> r_U32; State_Monad.return (r\<lparr>rr_Offset := a, rr_Size := b\<rparr>) }) \<rparr>]"

subsection \<open>Variant\<close>

definition VariantInt64 :: u8 where "VariantInt64 = 1"
definition VariantDouble :: u8 where "VariantDouble = 2"
definition VariantBool :: u8 where "VariantBool = 3"
definition VariantString :: u8 where "VariantString = 4"
definition VariantDateTime :: u8 where "VariantDateTime = 5"
definition VariantUint64 :: u8 where "VariantUint64 = 6"

lemmas variant_tags = VariantInt64_def VariantDouble_def VariantBool_def VariantString_def
  VariantDateTime_def VariantUint64_def

record variant =
  vr_Type :: u8
  vr_Int :: "64 word"
  vr_Double :: float64
  vr_Bool :: bool
  vr_String :: string
  vr_Date :: u64
  vr_Uint :: u64

definition variant_zero :: "u8 \<Rightarrow> variant" where
  "variant_zero t = \<lparr>vr_Type = t, vr_Int = 0, vr_Double = 0, vr_Bool = False, vr_String = '''', vr_Date = 0, vr_Uint = 0\<rparr>"

definition w_Variant :: "variant \<Rightarrow> bytes" where
  "w_Variant v = w_U8 (vr_Type v) @
     (if vr_Type v = VariantInt64 then w_S64 (vr_Int v)
      else if vr_Type v = VariantDouble then w_Double (vr_Double v)
      else if vr_Type v = VariantBool then w_Bool (vr_Bool v)
      else if vr_Type v = VariantString then w_String (vr_String v)
      else if vr_Type v = VariantDateTime then w_DateTime (vr_Date v)
      else if vr_Type v = VariantUint64 then w_U64 (vr_Uint v)
      else [])"

definition r_Variant :: "variant reader" where
  "r_Variant = do {
     t \<leftarrow> r_U8;
     let v = variant_zero t;
     if t = VariantInt64 then do { x \<leftarrow> r_S64; State_Monad.return (v\<lparr>vr_Int := x\<rparr>) }
     else if t = VariantDouble then do { x \<leftarrow> r_Double; State_Monad.return (v\<lparr>vr_Double := x\<rparr>) }
     else if t = VariantBool then do { x \<leftarrow> r_Bool; State_Monad.return (v\<lparr>vr_Bool := x\<rparr>) }
     else if t = VariantString then do { x \<leftarrow> r_String; State_Monad.return (v\<lparr>vr_String := x\<rparr>) }
     else if t = VariantDateTime then do { x \<leftarrow> r_DateTime; State_Monad.return (v\<lparr>vr_Date := x\<rparr>) }
     else if t = VariantUint64 then do { x \<leftarrow> r_U64; State_Monad.return (v\<lparr>vr_Uint := x\<rparr>) }
     else State_Monad.return v }"

text \<open>A variant carries only the field its tag selects, and a string short enough to frame.\<close>

definition variant_ok :: "variant \<Rightarrow> bool" where
  "variant_ok v \<longleftrightarrow> string_ok (vr_String v) \<and>
     v = (let z = variant_zero (vr_Type v) in
          if vr_Type v = VariantInt64 then z\<lparr>vr_Int := vr_Int v\<rparr>
          else if vr_Type v = VariantDouble then z\<lparr>vr_Double := vr_Double v\<rparr>
          else if vr_Type v = VariantBool then z\<lparr>vr_Bool := vr_Bool v\<rparr>
          else if vr_Type v = VariantString then z\<lparr>vr_String := vr_String v\<rparr>
          else if vr_Type v = VariantDateTime then z\<lparr>vr_Date := vr_Date v\<rparr>
          else if vr_Type v = VariantUint64 then z\<lparr>vr_Uint := vr_Uint v\<rparr>
          else z)"

subsection \<open>DataHolder\<close>

text \<open>\<open>AnyData\<close> writes a named structure; a nil structure is \<open>None\<close>.\<close>

definition w_AnyData :: "settings \<Rightarrow> string \<Rightarrow> ('a level list \<times> 'a) option \<Rightarrow> bytes" where
  "w_AnyData s name d =
     (let body = (case d of None \<Rightarrow> [] | Some (ls, v) \<Rightarrow> WriteStructure s ls v)
      in w_String name @ w_U32 (of_nat (length body + 4)) @ w_Buffer body)"

subsection \<open>Laws of results\<close>

lemma IsError_ErrorResult [simp]: "IsError (ErrorResult c)"
  unfolding IsError_def ErrorResult_def mask_zero_iff by (simp add: bit_or_iff)

lemma IsSuccess_SuccessResult [simp]: "IsSuccess (SuccessResult c)"
  unfolding IsSuccess_def SuccessResult_def mask_zero_iff by (simp add: bit_simps)

lemma IsError_iff: "IsError r \<longleftrightarrow> \<not> IsSuccess r"
  by (simp add: IsError_def IsSuccess_def)

subsection \<open>Laws of dates\<close>

text \<open>The ranges a calendar date keeps to; the year is what fits the remaining 38 bits.\<close>

definition date_ok :: "int \<Rightarrow> int \<Rightarrow> int \<Rightarrow> int \<Rightarrow> int \<Rightarrow> int \<Rightarrow> bool" where
  "date_ok year month day hour minute second \<longleftrightarrow>
     0 \<le> second \<and> second < 64 \<and> 0 \<le> minute \<and> minute < 64 \<and> 0 \<le> hour \<and> hour < 32 \<and>
     0 \<le> day \<and> day < 32 \<and> 0 \<le> month \<and> month < 16 \<and> 0 \<le> year \<and> year < 2 ^ 38"

lemma and_low_bits:
  "(d :: u64) AND 63 = take_bit 6 d" "d AND 31 = take_bit 5 d" "d AND 15 = take_bit 4 d"
  by (simp_all add: take_bit_eq_mask mask_eq_exp_minus_1)

lemma uint_word_of_int_small: "0 \<le> v \<Longrightarrow> v < 2 ^ k \<Longrightarrow> k \<le> 64 \<Longrightarrow> uint (word_of_int v :: u64) = v"
proof -
  assume v: "0 \<le> v" "v < 2 ^ k" and k: "k \<le> 64"
  have "(2 :: int) ^ k \<le> 2 ^ 64" using k by (rule power_increasing) simp
  with v show ?thesis by (simp only: uint_word_of_int) (simp add: mod_pos_pos_trivial)
qed

lemma bit_word_of_int_small:
  "0 \<le> v \<Longrightarrow> v < 2 ^ k \<Longrightarrow> bit (word_of_int v :: u64) n \<Longrightarrow> n < k"
proof (rule ccontr)
  assume v: "0 \<le> v" "v < 2 ^ k" and b: "bit (word_of_int v :: u64) n" and n: "\<not> n < k"
  have "take_bit k v = v" using v by (simp add: take_bit_int_eq_self)
  then have "\<not> bit v n" using n by (metis bit_take_bit_iff)
  with b show False by (simp add: bit_word_of_int_iff)
qed

lemma packed_fields:
  fixes a b c d e f :: u64
  assumes a: "\<And>n. 6 \<le> n \<Longrightarrow> \<not> bit a n" and b: "\<And>n. 6 \<le> n \<Longrightarrow> \<not> bit b n" and c: "\<And>n. 5 \<le> n \<Longrightarrow> \<not> bit c n"
    and d: "\<And>n. 5 \<le> n \<Longrightarrow> \<not> bit d n" and e: "\<And>n. 4 \<le> n \<Longrightarrow> \<not> bit e n" and f: "\<And>n. 38 \<le> n \<Longrightarrow> \<not> bit f n"
  defines "w \<equiv> a OR push_bit 6 b OR push_bit 12 c OR push_bit 17 d OR push_bit 22 e OR push_bit 26 f"
  shows "take_bit 6 w = a" "take_bit 6 (drop_bit 6 w) = b" "take_bit 5 (drop_bit 12 w) = c"
    "take_bit 5 (drop_bit 17 w) = d" "take_bit 4 (drop_bit 22 w) = e" "drop_bit 26 w = f"
proof -
  have w: "bit w n = (n < 64 \<and> (bit a n \<or> 6 \<le> n \<and> bit b (n - 6) \<or> 12 \<le> n \<and> bit c (n - 12)
      \<or> 17 \<le> n \<and> bit d (n - 17) \<or> 22 \<le> n \<and> bit e (n - 22) \<or> 26 \<le> n \<and> bit f (n - 26)))" for n
    unfolding w_def by (auto simp: bit_or_iff bit_push_bit_iff possible_bit_word dest: bit_imp_le_length)
  show "take_bit 6 w = a"
  proof (rule bit_word_eqI)
    fix k assume "k < LENGTH(64)"
    then show "bit (take_bit 6 w) k = bit a k"
      by (cases "k < 6") (simp_all add: a bit_take_bit_iff bit_drop_bit_eq w)
  qed
  show "take_bit 6 (drop_bit 6 w) = b"
  proof (rule bit_word_eqI)
    fix k assume "k < LENGTH(64)"
    then show "bit (take_bit 6 (drop_bit 6 w)) k = bit b k"
      by (cases "k < 6") (simp_all add: a b bit_take_bit_iff bit_drop_bit_eq w)
  qed
  show "take_bit 5 (drop_bit 12 w) = c"
  proof (rule bit_word_eqI)
    fix k assume "k < LENGTH(64)"
    then show "bit (take_bit 5 (drop_bit 12 w)) k = bit c k"
      by (cases "k < 5") (simp_all add: a b c bit_take_bit_iff bit_drop_bit_eq w)
  qed
  show "take_bit 5 (drop_bit 17 w) = d"
  proof (rule bit_word_eqI)
    fix k assume "k < LENGTH(64)"
    then show "bit (take_bit 5 (drop_bit 17 w)) k = bit d k"
      by (cases "k < 5") (simp_all add: a b c d bit_take_bit_iff bit_drop_bit_eq w)
  qed
  show "take_bit 4 (drop_bit 22 w) = e"
  proof (rule bit_word_eqI)
    fix k assume "k < LENGTH(64)"
    then show "bit (take_bit 4 (drop_bit 22 w)) k = bit e k"
      by (cases "k < 4") (simp_all add: a b c d e bit_take_bit_iff bit_drop_bit_eq w)
  qed
  show "drop_bit 26 w = f"
  proof (rule bit_word_eqI)
    fix k assume "k < LENGTH(64)"
    then show "bit (drop_bit 26 w) k = bit f k"
      by (cases "k < 38") (simp_all add: a b c d e f bit_take_bit_iff bit_drop_bit_eq w)
  qed
qed

lemma MakeDateTime_fields:
  assumes "date_ok year month day hour minute second"
  defines "d \<equiv> MakeDateTime year month day hour minute second"
  shows "take_bit 6 d = word_of_int second" and "take_bit 6 (drop_bit 6 d) = word_of_int minute"
    and "take_bit 5 (drop_bit 12 d) = word_of_int hour" and "take_bit 5 (drop_bit 17 d) = word_of_int day"
    and "take_bit 4 (drop_bit 22 d) = word_of_int month" and "drop_bit 26 d = word_of_int year"
proof -
  have hi: "\<not> bit (word_of_int v :: u64) n" if "0 \<le> v" "v < 2 ^ k" "k \<le> n" for v k n
    using bit_word_of_int_small [OF that(1,2), of n] that(3) by linarith
  note r = date_ok_def [THEN iffD1, OF assms(1)]
  note p = packed_fields [OF hi [of second 6] hi [of minute 6] hi [of hour 5] hi [of day 5] hi [of month 4] hi [of year 38],
      folded MakeDateTime_def, folded d_def]
  show "take_bit 6 d = word_of_int second" and "take_bit 6 (drop_bit 6 d) = word_of_int minute"
    and "take_bit 5 (drop_bit 12 d) = word_of_int hour" and "take_bit 5 (drop_bit 17 d) = word_of_int day"
    and "take_bit 4 (drop_bit 22 d) = word_of_int month" and "drop_bit 26 d = word_of_int year"
    by (rule p; use r in simp)+
qed

lemma date_unpack:
  assumes "date_ok year month day hour minute second"
  defines "d \<equiv> MakeDateTime year month day hour minute second"
  shows "Second d = second" "Minute d = minute" "Hour d = hour" "Day d = day" "Month d = month" "Year d = year"
proof -
  note f = MakeDateTime_fields [OF assms(1), folded d_def]
  note u = Second_def Minute_def Hour_def Day_def Month_def Year_def and_low_bits f
  show "Second d = second" "Minute d = minute" "Hour d = hour" "Day d = day" "Month d = month" "Year d = year"
    unfolding u using assms(1) unfolding date_ok_def
    by (auto intro: uint_word_of_int_small [of _ 6] uint_word_of_int_small [of _ 5]
        uint_word_of_int_small [of _ 4] uint_word_of_int_small [of _ 38])
qed

subsection \<open>Laws of variants and ranges\<close>

lemma run_Variant [rd_roundtrip]:
  assumes "variant_ok v"
  shows "run_state r_Variant (cursor pre (w_Variant v @ post)) = (v, cursor (pre @ w_Variant v) post)"
proof -
  have str: "string_ok (vr_String v)" using assms by (simp add: variant_ok_def)
  have v: "(let z = variant_zero (vr_Type v) in
          if vr_Type v = VariantInt64 then z\<lparr>vr_Int := vr_Int v\<rparr>
          else if vr_Type v = VariantDouble then z\<lparr>vr_Double := vr_Double v\<rparr>
          else if vr_Type v = VariantBool then z\<lparr>vr_Bool := vr_Bool v\<rparr>
          else if vr_Type v = VariantString then z\<lparr>vr_String := vr_String v\<rparr>
          else if vr_Type v = VariantDateTime then z\<lparr>vr_Date := vr_Date v\<rparr>
          else if vr_Type v = VariantUint64 then z\<lparr>vr_Uint := vr_Uint v\<rparr>
          else z) = v" using assms unfolding variant_ok_def by simp
  show ?thesis
    unfolding r_Variant_def w_Variant_def w_S64_def r_S64_def w_Double_def r_Double_def w_DateTime_def r_DateTime_def
    using v str by (auto simp: run_U8 run_U64 run_Bool run_String Let_def split: if_splits)
qed

interpretation cVariant: codec_nonempty w_Variant r_Variant variant_ok
  by unfold_locales (simp_all add: run_Variant, simp add: w_Variant_def)

interpretation cParams: map_codec w_String r_String string_ok w_Variant r_Variant variant_ok
  by unfold_locales

interpretation cResultRange: structure_codec s ResultRange_levels "\<lparr>rr_Offset = 0, rr_Size = 0\<rparr>" "\<lambda>_. True"
proof unfold_locales
  fix v :: result_range and pre post
  show "run_state (ReadStructure s ResultRange_levels \<lparr>rr_Offset = 0, rr_Size = 0\<rparr>)
         (cursor pre (WriteStructure s ResultRange_levels v @ post))
       = (v, cursor (pre @ WriteStructure s ResultRange_levels v) post)"
    unfolding ResultRange_levels_def
    by (rule single_level_read_write) (simp add: loads_def level_body_def run_U32)
qed

subsection \<open>The current time\<close>

text \<open>\<open>time.Time.UTC\<close> and the date methods of the standard library, on nanoseconds since 1970: the
  proleptic Gregorian calendar counted from 1 March of year 0, in eras of 400 years.\<close>

definition civil :: "int \<Rightarrow> int \<times> int \<times> int" where
  "civil days =
     (let z = days + 719468; era = z div 146097; doe = z mod 146097;
          yoe = (doe - doe div 1460 + doe div 36524 - doe div 146096) div 365;
          doy = doe - (365 * yoe + yoe div 4 - yoe div 100);
          mp = (5 * doy + 2) div 153;
          d = doy - (153 * mp + 2) div 5 + 1;
          m = (if mp < 10 then mp + 3 else mp - 9)
      in (yoe + era * 400 + (if m \<le> 2 then 1 else 0), m, d))"

definition NowDateTime :: "int \<Rightarrow> u64" where
  "NowDateTime now =
     (let secs = now div 10 ^ 9; (y, m, d) = civil (secs div 86400); t = secs mod 86400
      in MakeDateTime y m d (t div 3600) (t div 60 mod 60) (t mod 60))"

end
