(* ===== verification/Nex_Rmc.thy ===== *)
theory Nex_Rmc
  imports Nex_Codec Nex_Types
begin

section \<open>Remote method calls (rmc.go, resultcodes.go)\<close>

text \<open>
  One RMC message, its encoder and its parser.  The message's pointer to the settings is
  left out: neither function reads a setting.  The parser returns \<open>Inl\<close> the error where the
  source returns a non-nil error.
\<close>

definition RMCRequest :: int where "RMCRequest = 0"
definition RMCResponse :: int where "RMCResponse = 1"

record rmc_message =
  rm_Mode :: int
  rm_Protocol :: u16
  rm_Method :: u32
  rm_CallID :: u32
  rm_Result :: u32
  rm_Body :: bytes
  rm_IsError :: bool

definition rmc_zero :: rmc_message where
  "rmc_zero = \<lparr>rm_Mode = 0, rm_Protocol = 0, rm_Method = 0, rm_CallID = 0, rm_Result = 0, rm_Body = [], rm_IsError = False\<rparr>"

definition NewRMCRequest :: "u16 \<Rightarrow> u32 \<Rightarrow> u32 \<Rightarrow> bytes \<Rightarrow> rmc_message" where
  "NewRMCRequest protocol method callID body =
     rmc_zero\<lparr>rm_Mode := RMCRequest, rm_Protocol := protocol, rm_Method := method, rm_CallID := callID, rm_Body := body\<rparr>"

definition NewRMCSuccess :: "u16 \<Rightarrow> u32 \<Rightarrow> u32 \<Rightarrow> bytes \<Rightarrow> rmc_message" where
  "NewRMCSuccess protocol method callID body =
     rmc_zero\<lparr>rm_Mode := RMCResponse, rm_Protocol := protocol, rm_Method := method, rm_CallID := callID, rm_Body := body\<rparr>"

definition NewRMCError :: "u16 \<Rightarrow> u32 \<Rightarrow> u32 \<Rightarrow> rmc_message" where
  "NewRMCError protocol callID errorCode =
     rmc_zero\<lparr>rm_Mode := RMCResponse, rm_Protocol := protocol, rm_CallID := callID,
              rm_Result := errorCode OR ResultErrorMask, rm_IsError := True\<rparr>"

definition rmc_payload :: "rmc_message \<Rightarrow> bytes" where
  "rmc_payload m =
     (let flag = (if rm_Mode m = RMCRequest then 0x80 else 0 :: u8) in
      (if rm_Protocol m < 0x80 then w_U8 (ucast (rm_Protocol m) OR flag)
       else w_U8 (0x7F OR flag) @ w_U16 (rm_Protocol m)) @
      (if rm_Mode m = RMCRequest then w_U32 (rm_CallID m) @ w_U32 (rm_Method m) @ rm_Body m
       else if rm_IsError m then w_Bool False @ w_U32 (rm_Result m OR ResultErrorMask) @ w_U32 (rm_CallID m)
       else w_Bool True @ w_U32 (rm_CallID m) @ w_U32 (rm_Method m OR 0x8000) @ rm_Body m))"

definition Encode :: "rmc_message \<Rightarrow> bytes" where
  "Encode m = (let payload = rmc_payload m in le_bytes 4 (of_nat (length payload) :: u32) @ payload)"

definition rmc_reader :: "rmc_message reader" where
  "rmc_reader = do {
     proto \<leftarrow> r_U8;
     p \<leftarrow> (if ucast (proto AND NOT 0x80) = (0x7F :: u16) then r_U16
            else State_Monad.return (ucast (proto AND NOT 0x80)));
     if proto AND 0x80 \<noteq> 0
     then do {
       callID \<leftarrow> r_U32; method \<leftarrow> r_U32; body \<leftarrow> r_ReadAll;
       State_Monad.return (rmc_zero\<lparr>rm_Protocol := p, rm_Mode := RMCRequest, rm_CallID := callID,
         rm_Method := method, rm_Body := body\<rparr>) }
     else do {
       success \<leftarrow> r_Bool;
       if success
       then do {
         callID \<leftarrow> r_U32; method \<leftarrow> r_U32; body \<leftarrow> r_ReadAll;
         State_Monad.return (rmc_zero\<lparr>rm_Protocol := p, rm_Mode := RMCResponse, rm_CallID := callID,
           rm_Method := method AND NOT 0x8000, rm_Body := body\<rparr>) }
       else do {
         result \<leftarrow> r_U32; callID \<leftarrow> r_U32;
         State_Monad.return (rmc_zero\<lparr>rm_Protocol := p, rm_Mode := RMCResponse, rm_IsError := True,
           rm_Result := result, rm_CallID := callID\<rparr>) } } }"

definition ParseRMC :: "bytes \<Rightarrow> go_error + rmc_message" where
  "ParseRMC data =
     (case run_state r_U32 (NewStreamIn data) of (n, s1) \<Rightarrow>
        if uint n \<noteq> int (length data) - 4 then Inl (ErrRmcSize (uint n) (int (length data) - 4))
        else case run_state rmc_reader s1 of (m, s2) \<Rightarrow>
          (case Err s2 of None \<Rightarrow> Inr m | Some e \<Rightarrow> Inl e))"

subsection \<open>Result codes and the refusal of a method\<close>

definition ResultCoreUnknown :: u32 where "ResultCoreUnknown = 0x00010001"
definition ResultCoreNotImplemented :: u32 where "ResultCoreNotImplemented = 0x00010002"
definition ResultCoreAccessDenied :: u32 where "ResultCoreAccessDenied = 0x00010006"
definition ResultCoreInvalidArgument :: u32 where "ResultCoreInvalidArgument = 0x0001000A"
definition ResultRendezVousSessionVoid :: u32 where "ResultRendezVousSessionVoid = 0x00030073"
definition ResultRendezVousSessionFull :: u32 where "ResultRendezVousSessionFull = 0x000300C8"

definition notImplemented :: "u16 \<Rightarrow> rmc_message \<Rightarrow> rmc_message" where
  "notImplemented proto req = NewRMCError proto (rm_CallID req) ResultCoreNotImplemented"

subsection \<open>Laws\<close>

text \<open>The messages the constructors build for a protocol other than the escape value, with a
  method below the response bit and a body the length prefix can count.\<close>

definition rmc_ok :: "rmc_message \<Rightarrow> bool" where
  "rmc_ok m \<longleftrightarrow> rm_Protocol m \<noteq> 0x7F \<and> length (rm_Body m) < 2 ^ 32 - 16 \<and>
     (\<exists>p me c b. m = NewRMCRequest p me c b \<or>
        (m = NewRMCSuccess p me c b \<and> \<not> bit me 15) \<or> m = NewRMCError p c me)"

lemma low_protocol:
  assumes "(p :: u16) < 0x80"
  shows "\<not> bit p n \<or> n < 7"
proof (rule ccontr)
  assume "\<not> (\<not> bit p n \<or> n < 7)"
  then have n: "bit p n" "7 \<le> n" by auto
  have "unat p < 2 ^ 7" using assms by (simp add: word_less_nat_alt)
  then have "take_bit 7 (unat p) = unat p" by (simp add: take_bit_nat_eq_self)
  then have "\<not> bit (unat p) n" using n(2) by (metis bit_take_bit_iff linorder_not_less)
  with n(1) show False by (simp add: bit_unsigned_iff)
qed

lemma bit_0x80 [simp]: "bit (0x80 :: u8) n \<longleftrightarrow> n = 7"
proof -
  have "(0x80 :: u8) = 2 ^ 7" by simp
  then show ?thesis by (simp only: bit_exp_iff possible_bit_word) auto
qed

lemma bit_0x80_int [simp]: "bit (0x80 :: int) n \<longleftrightarrow> n = 7"
proof -
  have "(0x80 :: int) = 2 ^ 7" by simp
  then show ?thesis by (simp only: bit_exp_iff possible_bit_int) auto
qed

lemma proto_byte:
  assumes "(p :: u16) < 0x80"
  shows "(ucast p OR 0x80 :: u8) AND NOT 0x80 = ucast p" "(ucast p :: u8) AND NOT 0x80 = ucast p"
    "(ucast p OR 0x80 :: u8) AND 0x80 \<noteq> 0" "(ucast p :: u8) AND 0x80 = 0" "(ucast (ucast p :: u8) :: u16) = p"
proof -
  note lp = low_protocol [OF assms]
  show "(ucast p OR 0x80 :: u8) AND NOT 0x80 = ucast p"
    by (rule bit_word_eqI) (use lp in \<open>auto simp: bit_simps\<close>)
  show "(ucast p :: u8) AND NOT 0x80 = ucast p"
    by (rule bit_word_eqI) (use lp in \<open>auto simp: bit_simps\<close>)
  have "bit ((ucast p OR 0x80 :: u8) AND 0x80) 7" unfolding bit_and_iff bit_or_iff by simp
  then show "(ucast p OR 0x80 :: u8) AND 0x80 \<noteq> 0" by auto
  show "(ucast p :: u8) AND 0x80 = 0"
    by (rule bit_word_eqI) (use lp [of 7] in \<open>auto simp: bit_simps\<close>)
  show "(ucast (ucast p :: u8) :: u16) = p"
  proof (rule bit_word_eqI)
    fix n show "bit (ucast (ucast p :: u8) :: u16) n = bit p n" if "n < LENGTH(16)"
      using lp [of n] that by (auto simp: bit_simps)
  qed
qed

lemma escape_byte:
  "(0x7F OR 0x80 :: u8) AND NOT 0x80 = 0x7F" "(0x7F :: u8) AND NOT 0x80 = 0x7F"
  "(0x7F OR 0x80 :: u8) AND 0x80 \<noteq> 0" "(0x7F :: u8) AND 0x80 = 0"
  by simp_all

text \<open>The protocol head, by the two shapes it takes, followed by whatever the mode reads.\<close>

definition rmc_head :: "u16 \<Rightarrow> u8 \<Rightarrow> bytes" where
  "rmc_head p flag = (if p < 0x80 then w_U8 (ucast p OR flag) else w_U8 (0x7F OR flag) @ w_U16 p)"

definition rmc_tail :: "u8 \<Rightarrow> u16 \<Rightarrow> rmc_message reader" where
  "rmc_tail proto p = (if proto AND 0x80 \<noteq> 0
     then do {
       callID \<leftarrow> r_U32; method \<leftarrow> r_U32; body \<leftarrow> r_ReadAll;
       State_Monad.return (rmc_zero\<lparr>rm_Protocol := p, rm_Mode := RMCRequest, rm_CallID := callID,
         rm_Method := method, rm_Body := body\<rparr>) }
     else do {
       success \<leftarrow> r_Bool;
       if success
       then do {
         callID \<leftarrow> r_U32; method \<leftarrow> r_U32; body \<leftarrow> r_ReadAll;
         State_Monad.return (rmc_zero\<lparr>rm_Protocol := p, rm_Mode := RMCResponse, rm_CallID := callID,
           rm_Method := method AND NOT 0x8000, rm_Body := body\<rparr>) }
       else do {
         result \<leftarrow> r_U32; callID \<leftarrow> r_U32;
         State_Monad.return (rmc_zero\<lparr>rm_Protocol := p, rm_Mode := RMCResponse, rm_IsError := True,
           rm_Result := result, rm_CallID := callID\<rparr>) } })"

lemma rmc_reader_tail: "rmc_reader = do {
     proto \<leftarrow> r_U8;
     p \<leftarrow> (if ucast (proto AND NOT 0x80) = (0x7F :: u16) then r_U16
            else State_Monad.return (ucast (proto AND NOT 0x80)));
     rmc_tail proto p }"
  by (simp add: rmc_reader_def rmc_tail_def)

lemma head_request:
  assumes "p \<noteq> 0x7F"
  shows "\<exists>proto. proto AND 0x80 \<noteq> 0 \<and> run_state rmc_reader (cursor pre (rmc_head p 0x80 @ post))
    = run_state (rmc_tail proto p) (cursor (pre @ rmc_head p 0x80) post)"
proof (cases "p < 0x80")
  case True
  note b = proto_byte [OF True]
  show ?thesis
    by (rule exI [of _ "ucast p OR 0x80"]) (use True b assms in \<open>simp add: rmc_reader_tail rmc_head_def run_U8\<close>)
next
  case False
  show ?thesis
    by (rule exI [of _ "0x7F OR 0x80"]) (use False in \<open>simp add: rmc_reader_tail rmc_head_def run_U8 run_U16\<close>)
qed

lemma head_response:
  assumes "p \<noteq> 0x7F"
  shows "\<exists>proto. proto AND 0x80 = 0 \<and> run_state rmc_reader (cursor pre (rmc_head p 0 @ post))
    = run_state (rmc_tail proto p) (cursor (pre @ rmc_head p 0) post)"
proof (cases "p < 0x80")
  case True
  note b = proto_byte [OF True]
  show ?thesis
    by (rule exI [of _ "ucast p"]) (use True b assms in \<open>simp add: rmc_reader_tail rmc_head_def run_U8\<close>)
next
  case False
  show ?thesis
    by (rule exI [of _ "0x7F"]) (use False in \<open>simp add: rmc_reader_tail rmc_head_def run_U8 run_U16\<close>)
qed

lemma set_clear_bit: "\<not> bit (m :: u32) k \<Longrightarrow> (m OR push_bit k 1) AND NOT (push_bit k 1) = m"
  by (rule bit_word_eqI) (auto simp: bit_or_iff bit_and_iff bit_not_iff bit_push_bit_iff bit_1_iff bit_exp_iff)

lemma method_bit: "\<not> bit (m :: u32) 15 \<Longrightarrow> (m OR 0x8000) AND NOT 0x8000 = m"
  using set_clear_bit [of m 15] by simp

lemma error_mask_idem: "(c OR ResultErrorMask) OR ResultErrorMask = c OR ResultErrorMask"
  by (simp add: or.assoc)

lemma length_rmc_head: "length (rmc_head p f) \<le> 3"
  by (simp add: rmc_head_def)

lemma ParseRMC_framed:
  assumes "length payload < 2 ^ 32"
  shows "ParseRMC (le_bytes 4 (of_nat (length payload) :: u32) @ payload)
    = (case run_state rmc_reader (cursor (w_U32 (of_nat (length payload))) payload) of (m, s) \<Rightarrow>
        (case Err s of None \<Rightarrow> Inr m | Some e \<Rightarrow> Inl e))"
proof -
  have "run_state r_U32 (NewStreamIn (w_U32 (of_nat (length payload)) @ payload))
      = (of_nat (length payload), cursor (w_U32 (of_nat (length payload))) payload)"
    using run_U32 [of "[]"] by (simp add: NewStreamIn_cursor)
  then show ?thesis
    using assms by (simp add: ParseRMC_def w_U32_def)
qed

lemma parse_encode:
  assumes "rmc_ok m"
  shows "ParseRMC (Encode m) = Inr m"
proof -
  let ?pl = "rmc_payload m"
  have p: "rm_Protocol m \<noteq> 0x7F" using assms by (simp add: rmc_ok_def)
  have len: "length ?pl < 2 ^ 32"
    using assms length_rmc_head [of "rm_Protocol m" "0x80"] length_rmc_head [of "rm_Protocol m" 0]
    by (auto simp: rmc_ok_def rmc_payload_def rmc_head_def Let_def)
  have run: "\<exists>s. run_state rmc_reader (cursor pre ?pl) = (m, s) \<and> Err s = None" for pre
  proof -
    from assms obtain pr me c b where
      "m = NewRMCRequest pr me c b \<or> (m = NewRMCSuccess pr me c b \<and> \<not> bit me 15) \<or> m = NewRMCError pr c me"
      unfolding rmc_ok_def by blast
    then consider (req) "m = NewRMCRequest pr me c b"
      | (ok) "m = NewRMCSuccess pr me c b" "\<not> bit me 15" | (err) "m = NewRMCError pr c me" by blast
    then show ?thesis
    proof cases
      case req
      then have pl: "?pl = rmc_head pr 0x80 @ w_U32 c @ w_U32 me @ b"
        by (simp add: rmc_payload_def rmc_head_def NewRMCRequest_def)
      have "pr \<noteq> 0x7F" using p req by (simp add: NewRMCRequest_def)
      from head_request [OF this, of pre "w_U32 c @ w_U32 me @ b"] pl show ?thesis
        by (auto simp: rmc_tail_def run_U32 run_ReadAll req NewRMCRequest_def)
    next
      case ok
      then have pl: "?pl = rmc_head pr 0 @ w_Bool True @ w_U32 c @ w_U32 (me OR 0x8000) @ b"
        by (simp add: rmc_payload_def rmc_head_def NewRMCSuccess_def RMCRequest_def RMCResponse_def rmc_zero_def)
      have "pr \<noteq> 0x7F" using p ok by (simp add: NewRMCSuccess_def)
      from head_response [OF this, of pre "w_Bool True @ w_U32 c @ w_U32 (me OR 0x8000) @ b"] pl show ?thesis
        using method_bit [OF ok(2)]
        by (auto simp: rmc_tail_def run_U32 run_Bool run_ReadAll ok(1) NewRMCSuccess_def)
    next
      case err
      then have pl: "?pl = rmc_head pr 0 @ w_Bool False @ w_U32 (me OR ResultErrorMask) @ w_U32 c"
        by (simp add: rmc_payload_def rmc_head_def NewRMCError_def RMCRequest_def RMCResponse_def rmc_zero_def error_mask_idem)
      have "pr \<noteq> 0x7F" using p err by (simp add: NewRMCError_def)
      from head_response [OF this, of pre "w_Bool False @ w_U32 (me OR ResultErrorMask) @ w_U32 c"] pl show ?thesis
        by (auto simp: rmc_tail_def run_U32 run_U32_end run_Bool err NewRMCError_def)
    qed
  qed
  from run obtain s where s: "run_state rmc_reader (cursor (w_U32 (of_nat (length ?pl))) ?pl) = (m, s)" "Err s = None"
    by blast
  show ?thesis using ParseRMC_framed [OF len] s by (simp add: Encode_def Let_def)
qed

subsection \<open>Protocol 0x7F\<close>

text \<open>The encoder writes protocol 0x7F in the one-byte form, which is the escape of the long form: the
  parser takes two bytes of the call id for the protocol, and everything behind shifts.\<close>

lemma le_bytes_4: "\<exists>a b c d. le_bytes 4 (w :: u32) = [a, b, c, d]"
  by (simp add: numeral_eq_Suc)

lemma run_U32_bytes: "run_state r_U32 (cursor pre (a # b # c # d # post)) = (le_word [a, b, c, d], cursor (pre @ [a, b, c, d]) post)"
  using run_Read [of 4 "[a, b, c, d]" pre post] by (simp add: r_U32_def)

lemma run_U16_bytes: "run_state r_U16 (cursor pre (a # b # post)) = (le_word [a, b], cursor (pre @ [a, b]) post)"
  using run_Read [of 2 "[a, b]" pre post] by (simp add: r_U16_def)

lemma run_U8_byte: "run_state r_U8 (cursor pre (a # post)) = (a, cursor (pre @ [a]) post)"
  using run_U8 [of pre a post] by (simp add: w_U8_def)

lemma run_U32_short:
  "length post < 4 \<Longrightarrow> run_state r_U32 (cursor pre post) = (0, (cursor pre post)\<lparr>si_err := Some ErrUnexpectedEOF\<rparr>)"
  by (simp add: r_U32_def run_Read_short)

lemma parse_7F:
  assumes "length b < 2 ^ 32 - 16"
  shows "if length b < 2 then ParseRMC (Encode (NewRMCRequest 0x7F m c b)) = Inl ErrUnexpectedEOF
    else \<exists>x. ParseRMC (Encode (NewRMCRequest 0x7F m c b)) = Inr x \<and> rm_Body x = drop 2 b"
proof -
  let ?msg = "NewRMCRequest 0x7F m c b"
  have pl: "rmc_payload ?msg = w_U8 0xFF @ w_U32 c @ w_U32 m @ b"
    by (simp add: rmc_payload_def NewRMCRequest_def)
  have len: "length (rmc_payload ?msg) < 2 ^ 32" using assms by (simp add: pl w_U8_def w_U32_def)
  obtain c0 c1 c2 c3 where c: "le_bytes 4 c = [c0, c1, c2, c3]" using le_bytes_4 by blast
  obtain m0 m1 m2 m3 where m: "le_bytes 4 m = [m0, m1, m2, m3]" using le_bytes_4 by blast
  have pl': "rmc_payload ?msg = 0xFF # c0 # c1 # c2 # c3 # m0 # m1 # m2 # m3 # b"
    by (simp add: pl w_U8_def w_U32_def c m)
  have esc: "ucast ((0xFF :: u8) AND NOT 0x80) = (0x7F :: u16)" "(0xFF :: u8) AND 0x80 \<noteq> 0" by simp_all
  let ?p = "w_U32 (of_nat (length (rmc_payload ?msg)))"
  have framed: "ParseRMC (Encode ?msg) = (case run_state rmc_reader (cursor ?p (rmc_payload ?msg)) of (m, s) \<Rightarrow>
        (case Err s of None \<Rightarrow> Inr m | Some e \<Rightarrow> Inl e))"
    using ParseRMC_framed [OF len] by (simp only: Encode_def Let_def)
  show ?thesis
  proof (cases "length b < 2")
    case True
    have "run_state r_ReadAll ((cursor pre post)\<lparr>si_err := Some ErrUnexpectedEOF\<rparr>) = ([], (cursor pre post)\<lparr>si_err := Some ErrUnexpectedEOF\<rparr>)"
      for pre post by (simp add: r_ReadAll_def Read_err)
    note all = this
    have "\<exists>x s. run_state rmc_reader (cursor pre (rmc_payload ?msg)) = (x, s) \<and> Err s = Some ErrUnexpectedEOF" for pre
      using True all
      by (simp add: pl' rmc_reader_def run_U8_byte esc run_U16_bytes run_U32_bytes run_U32_short Err_def del: le_word.simps)
    then obtain x s where "run_state rmc_reader (cursor ?p (rmc_payload ?msg)) = (x, s)" "Err s = Some ErrUnexpectedEOF" by blast
    then show ?thesis using True framed by simp
  next
    case False
    then obtain x y r where b: "b = x # y # r" by (metis One_nat_def Suc_1 length_Cons less_Suc_eq list.exhaust list.size(3) zero_less_Suc)
    have "\<exists>x s. run_state rmc_reader (cursor pre (rmc_payload ?msg)) = (x, s) \<and> Err s = None \<and> rm_Body x = drop 2 b" for pre
      unfolding pl' unfolding b
      by (simp add: rmc_reader_def run_U8_byte esc run_U16_bytes run_U32_bytes run_ReadAll del: le_word.simps)
    then obtain x s where "run_state rmc_reader (cursor ?p (rmc_payload ?msg)) = (x, s)" "Err s = None" "rm_Body x = drop 2 b" by blast
    then show ?thesis using False framed by simp
  qed
qed

end
