(* ===== verification/Nex_Station.thy ===== *)
theory Nex_Station
  imports Nex_Types
begin

section \<open>Strings, numbers and station URLs (types.go)\<close>

text \<open>
  The functions of Go's \<open>strings\<close> and \<open>strconv\<close> packages the program uses, on byte strings,
  and the station URL \<open>scheme:/k=v;k=v\<close> built on them.  A station keeps the order in which
  its keys were first set in \<open>su_keys\<close> and their values in \<open>su_params\<close>; the invariant
  \<open>station_inv\<close> says that the two agree, every operation keeps it, and parsing undoes
  rendering for the URLs whose keys and values avoid the separators.
\<close>

subsection \<open>strings and strconv\<close>

fun cut_scheme :: "string \<Rightarrow> (string \<times> string) option" where
  "cut_scheme (c # d # r) = (if c = CHR '':'' \<and> d = CHR ''/'' then Some ([], r)
     else map_option (\<lambda>(a, b). (c # a, b)) (cut_scheme (d # r)))"
| "cut_scheme _ = None"

fun Split :: "char \<Rightarrow> string \<Rightarrow> string list" where
  "Split c [] = [[]]"
| "Split c (x # xs) = (if x = c then [] # Split c xs
     else (case Split c xs of [] \<Rightarrow> [[x]] | y # ys \<Rightarrow> (x # y) # ys))"

fun Cut :: "char \<Rightarrow> string \<Rightarrow> (string \<times> string) option" where
  "Cut c [] = None"
| "Cut c (x # xs) = (if x = c then Some ([], xs) else map_option (\<lambda>(a, b). (x # a, b)) (Cut c xs))"

fun Join :: "string \<Rightarrow> string list \<Rightarrow> string" where
  "Join sep [] = []"
| "Join sep [x] = x"
| "Join sep (x # xs) = x @ sep @ Join sep xs"

definition is_digit :: "char \<Rightarrow> bool" where
  "is_digit c \<longleftrightarrow> 48 \<le> (of_char c :: nat) \<and> (of_char c :: nat) \<le> 57"

definition digit_val :: "char \<Rightarrow> nat" where "digit_val c = of_char c - 48"
definition digit_char :: "nat \<Rightarrow> char" where "digit_char d = char_of (48 + d)"

fun nat_str :: "nat \<Rightarrow> string" where
  "nat_str n = (if n < 10 then [digit_char n] else nat_str (n div 10) @ [digit_char (n mod 10)])"

declare nat_str.simps [simp del]

definition Itoa :: "int \<Rightarrow> string" where
  "Itoa n = (if n < 0 then ''-'' @ nat_str (nat (- n)) else nat_str (nat n))"

definition FormatUint :: "u64 \<Rightarrow> string" where "FormatUint v = nat_str (unat v)"

definition parse_dec :: "string \<Rightarrow> nat option" where
  "parse_dec s = (if s \<noteq> [] \<and> list_all is_digit s then Some (foldl (\<lambda>n c. 10 * n + digit_val c) 0 s) else None)"

text \<open>\<open>strconv.Atoi\<close>: value and success; out of range it returns the nearest 64-bit value and an error.\<close>

definition Atoi :: "string \<Rightarrow> int \<times> bool" where
  "Atoi s = (let neg = (s \<noteq> [] \<and> hd s = CHR ''-'');
                 body = (if s \<noteq> [] \<and> (hd s = CHR ''-'' \<or> hd s = CHR ''+'') then tl s else s)
     in case parse_dec body of
          None \<Rightarrow> (0, False)
        | Some n \<Rightarrow> (let v = (if neg then - int n else int n) in
            if v < - (2 ^ 63) then (- (2 ^ 63), False)
            else if v > 2 ^ 63 - 1 then (2 ^ 63 - 1, False) else (v, True)))"

text \<open>\<open>strconv.ParseUint(s, 10, 64)\<close>: \<open>None\<close> for a syntax or a range error.\<close>

definition ParseUint :: "string \<Rightarrow> u64 option" where
  "ParseUint s = (case parse_dec s of None \<Rightarrow> None
     | Some n \<Rightarrow> if n < 2 ^ 64 then Some (of_nat n) else None)"

text \<open>The UTF-8 encodings of the code points \<open>unicode.IsSpace\<close> accepts, for \<open>strings.TrimSpace\<close>.\<close>

definition space_encodings :: "string list" where
  "space_encodings = map (map char_of) ([[9], [10], [11], [12], [13], [32], [0xC2, 0x85], [0xC2, 0xA0], [0xE1, 0x9A, 0x80]]
     @ map (\<lambda>b. [0xE2, 0x80, b]) ([0x80..<0x8B] @ [0xA8, 0xA9, 0xAF]) @ [[0xE2, 0x81, 0x9F], [0xE3, 0x80, 0x80 :: nat]])"

definition strip_prefix :: "string \<Rightarrow> string \<Rightarrow> string option" where
  "strip_prefix p s = (if take (length p) s = p then Some (drop (length p) s) else None)"

definition first_prefix :: "string list \<Rightarrow> string \<Rightarrow> string option" where
  "first_prefix ps s = (case List.map_filter (\<lambda>p. if p = [] then None else strip_prefix p s) ps of [] \<Rightarrow> None | r # _ \<Rightarrow> Some r)"

lemma first_prefix_shorter: "first_prefix ps s = Some r \<Longrightarrow> length r < length s"
proof -
  assume "first_prefix ps s = Some r"
  then have "r \<in> set (List.map_filter (\<lambda>p. if p = [] then None else strip_prefix p s) ps)"
    by (auto simp: first_prefix_def split: list.splits)
  then obtain p where p: "p \<noteq> []" "take (length p) s = p" "r = drop (length p) s"
    by (auto simp: List.map_filter_def strip_prefix_def split: if_splits)
  have "length p \<le> length s" using p(2) by (metis length_take min.cobounded1)
  then show ?thesis using p by (cases p) auto
qed

function trim_front :: "string list \<Rightarrow> string \<Rightarrow> string" where
  "trim_front ps s = (case first_prefix ps s of None \<Rightarrow> s | Some r \<Rightarrow> trim_front ps r)"
  by pat_completeness auto
termination by (relation "measure (\<lambda>(ps, s). length s)") (auto dest: first_prefix_shorter)

declare trim_front.simps [simp del]

definition TrimSpace :: "string \<Rightarrow> string" where
  "TrimSpace s = rev (trim_front (map rev space_encodings) (rev (trim_front space_encodings s)))"

subsection \<open>StationURL\<close>

record station_url =
  Scheme :: string
  su_keys :: "string list"
  su_params :: "string \<Rightarrow> string option"

definition station_empty :: "string \<Rightarrow> station_url" where
  "station_empty sch = \<lparr>Scheme = sch, su_keys = [], su_params = Map.empty\<rparr>"

definition NewStationURL :: "string \<Rightarrow> station_url" where
  "NewStationURL sch = station_empty (if sch = '''' then ''prudp'' else sch)"

definition su_Set :: "string \<Rightarrow> string \<Rightarrow> station_url \<Rightarrow> station_url" where
  "su_Set k v u = u\<lparr>su_keys := (if su_params u k = None then su_keys u @ [k] else su_keys u),
                    su_params := (su_params u)(k \<mapsto> v)\<rparr>"

definition su_SetInt :: "string \<Rightarrow> int \<Rightarrow> station_url \<Rightarrow> station_url" where
  "su_SetInt k v u = su_Set k (Itoa v) u"

definition su_Get :: "station_url \<Rightarrow> string \<Rightarrow> string" where
  "su_Get u k = (case su_params u k of None \<Rightarrow> '''' | Some v \<Rightarrow> v)"

definition su_GetInt :: "station_url \<Rightarrow> string \<Rightarrow> int" where
  "su_GetInt u k = fst (Atoi (su_Get u k))"

definition su_Has :: "station_url \<Rightarrow> string \<Rightarrow> bool" where
  "su_Has u k \<longleftrightarrow> su_params u k \<noteq> None"

definition su_Remove :: "string \<Rightarrow> station_url \<Rightarrow> station_url" where
  "su_Remove k u = (if su_params u k = None then u
     else u\<lparr>su_keys := remove1 k (su_keys u), su_params := (su_params u)(k := None)\<rparr>)"

definition su_Copy :: "station_url \<Rightarrow> station_url" where
  "su_Copy u = \<lparr>Scheme = Scheme u, su_keys = su_keys u, su_params = su_params u\<rparr>"

definition kv_str :: "string \<Rightarrow> string \<Rightarrow> string" where
  "kv_str k v = k @ [CHR ''=''] @ v"

definition su_String :: "station_url \<Rightarrow> string" where
  "su_String u = (let joined = Join '';'' (map (\<lambda>k. kv_str k (su_Get u k)) (su_keys u))
     in if Scheme u \<noteq> '''' then Scheme u @ '':/'' @ joined else joined)"

definition parse_field :: "station_url \<Rightarrow> string \<Rightarrow> station_url" where
  "parse_field u f = (case Cut (CHR ''='') f of None \<Rightarrow> u | Some (k, v) \<Rightarrow> su_Set k v u)"

definition ParseStationURL :: "string \<Rightarrow> station_url" where
  "ParseStationURL s =
     (if s = '''' then station_empty ''''
      else case cut_scheme s of
        None \<Rightarrow> station_empty ''''
      | Some (sch, flds) \<Rightarrow>
          if flds = '''' then station_empty sch
          else foldl parse_field (station_empty sch) (Split (CHR '';'') flds))"

definition w_StationURL :: "station_url \<Rightarrow> bytes" where "w_StationURL u = w_String (su_String u)"

definition r_StationURL :: "station_url reader" where
  "r_StationURL = do { s \<leftarrow> r_String; State_Monad.return (ParseStationURL s) }"

subsection \<open>Laws of the string functions\<close>

lemma Split_nonempty [simp]: "Split c xs \<noteq> []"
  by (cases xs) (auto split: list.split)

lemma Split_no_sep: "c \<notin> set xs \<Longrightarrow> Split c xs = [xs]"
  by (induction xs) auto

lemma Split_append_sep: "c \<notin> set xs \<Longrightarrow> Split c (xs @ c # ys) = xs # Split c ys"
  by (induction xs) auto

lemma Split_Join:
  "xs \<noteq> [] \<Longrightarrow> \<forall>x \<in> set xs. c \<notin> set x \<Longrightarrow> Split c (Join [c] xs) = xs"
  by (induction "[c]" xs rule: Join.induct) (auto simp: Split_no_sep Split_append_sep)

lemma Cut_append_sep: "c \<notin> set xs \<Longrightarrow> Cut c (xs @ c # ys) = Some (xs, ys)"
  by (induction xs) auto

lemma cut_scheme_append: "CHR '':'' \<notin> set a \<Longrightarrow> cut_scheme (a @ '':/'' @ b) = Some (a, b)"
proof (induction a)
  case (Cons x a)
  then show ?case by (cases a) auto
qed simp

lemma digit_val_char [simp]: "d < 10 \<Longrightarrow> digit_val (digit_char d) = d"
  by (simp add: digit_val_def digit_char_def)

lemma is_digit_char [simp]: "d < 10 \<Longrightarrow> is_digit (digit_char d)"
  by (simp add: is_digit_def digit_char_def)

lemma nat_str_digits: "list_all is_digit (nat_str n) \<and> nat_str n \<noteq> []"
proof (induction n rule: nat_str.induct)
  case (1 n)
  then show ?case by (subst (1 2) nat_str.simps) auto
qed

lemma nat_str_value: "foldl (\<lambda>n c. 10 * n + digit_val c) 0 (nat_str n) = n"
proof (induction n rule: nat_str.induct)
  case (1 n)
  then show ?case by (subst nat_str.simps) auto
qed

lemma parse_dec_nat_str [simp]: "parse_dec (nat_str n) = Some n"
  by (simp add: parse_dec_def nat_str_digits nat_str_value)

lemma ParseUint_FormatUint [simp]: "ParseUint (FormatUint v) = Some v"
  using unsigned_less [where w = v] by (simp add: ParseUint_def FormatUint_def)

lemma nat_str_head: "hd (nat_str n) \<noteq> CHR ''-'' \<and> hd (nat_str n) \<noteq> CHR ''+''"
proof -
  have "is_digit (hd (nat_str n))"
    using nat_str_digits [of n] by (cases "nat_str n") auto
  then show ?thesis by (auto simp: is_digit_def)
qed

lemma Atoi_Itoa:
  assumes "- (2 ^ 63) \<le> n" "n < 2 ^ 63"
  shows "Atoi (Itoa n) = (n, True)"
  using assms nat_str_head [of "nat n"] nat_str_digits [of "nat n"]
  by (auto simp: Atoi_def Itoa_def Let_def)

subsection \<open>Laws of station URLs\<close>

definition station_inv :: "station_url \<Rightarrow> bool" where
  "station_inv u \<longleftrightarrow> distinct (su_keys u) \<and> set (su_keys u) = dom (su_params u)"

lemma station_inv_empty [inv_intros]: "station_inv (station_empty sch)"
  by (simp add: station_inv_def station_empty_def)

lemma station_inv_New [inv_intros]: "station_inv (NewStationURL sch)"
  by (simp add: NewStationURL_def station_inv_empty)

lemma station_inv_Set [inv_intros]: "station_inv u \<Longrightarrow> station_inv (su_Set k v u)"
  by (auto simp: station_inv_def su_Set_def)

lemma station_inv_SetInt [inv_intros]: "station_inv u \<Longrightarrow> station_inv (su_SetInt k n u)"
  by (simp add: su_SetInt_def station_inv_Set)

lemma station_inv_Remove [inv_intros]: "station_inv u \<Longrightarrow> station_inv (su_Remove k u)"
  by (auto simp: station_inv_def su_Remove_def)

lemma su_Copy_same [simp]: "su_Copy u = u"
  by (simp add: su_Copy_def)

lemma station_inv_fold: "station_inv u \<Longrightarrow> station_inv (foldl parse_field u fs)"
  by (induction fs arbitrary: u) (auto simp: parse_field_def station_inv_Set split: option.split)

lemma station_inv_Parse [inv_intros]: "station_inv (ParseStationURL s)"
  by (simp add: ParseStationURL_def station_inv_empty station_inv_fold split: option.split prod.split)

lemma su_Get_Set [simp]: "su_Get (su_Set k v u) j = (if j = k then v else su_Get u j)"
  by (simp add: su_Get_def su_Set_def)

lemma su_GetInt_SetInt:
  "- (2 ^ 63) \<le> n \<Longrightarrow> n < 2 ^ 63 \<Longrightarrow> su_GetInt (su_SetInt k n u) k = n"
  by (simp add: su_GetInt_def su_SetInt_def Atoi_Itoa)

lemma su_Get_Remove [simp]: "su_Get (su_Remove k u) j = (if j = k then '''' else su_Get u j)"
  by (auto simp: su_Get_def su_Remove_def)

lemma su_Has_Remove [simp]: "su_Has (su_Remove k u) j \<longleftrightarrow> j \<noteq> k \<and> su_Has u j"
  by (auto simp: su_Has_def su_Remove_def)

lemma Cut_kv: "CHR ''='' \<notin> set k \<Longrightarrow> Cut (CHR ''='') (kv_str k v) = Some (k, v)"
  by (simp add: kv_str_def Cut_append_sep)

lemma kv_str_nonempty [simp]: "kv_str k v \<noteq> []"
  by (simp add: kv_str_def)

lemma set_kv_str [simp]: "set (kv_str k v) = set k \<union> {CHR ''=''} \<union> set v"
  by (simp add: kv_str_def)

text \<open>The URLs whose text can be read back: the separators stay out of the parts they separate.\<close>

definition url_ok :: "station_url \<Rightarrow> bool" where
  "url_ok u \<longleftrightarrow> station_inv u \<and> Scheme u \<noteq> '''' \<and> CHR '':'' \<notin> set (Scheme u) \<and>
     (\<forall>k \<in> set (su_keys u). CHR ''='' \<notin> set k \<and> CHR '';'' \<notin> set k \<and> CHR '';'' \<notin> set (su_Get u k))"

lemma fold_fields:
  assumes "distinct (su_keys u @ ks)" "station_inv u" "\<forall>k \<in> set ks. CHR ''='' \<notin> set k"
  shows "foldl parse_field u (map (\<lambda>k. kv_str k (g k)) ks)
       = u\<lparr>su_keys := su_keys u @ ks, su_params := su_params u ++ map_of (map (\<lambda>k. (k, g k)) ks)\<rparr>"
  using assms
proof (induction ks arbitrary: u)
  case Nil
  then show ?case by simp
next
  case (Cons k ks)
  have new: "su_params u k = None" using Cons.prems(1,2) by (auto simp: station_inv_def domIff)
  have step: "parse_field u (kv_str k (g k)) = u\<lparr>su_keys := su_keys u @ [k], su_params := (su_params u)(k \<mapsto> g k)\<rparr>"
    using Cons.prems(3) new by (simp add: parse_field_def Cut_kv su_Set_def)
  have inv: "station_inv (parse_field u (kv_str k (g k)))"
    using station_inv_fold [OF Cons.prems(2), of "[kv_str k (g k)]"] by simp
  have "k \<notin> set ks" using Cons.prems(1) by simp
  then have "(su_params u)(k \<mapsto> g k) ++ map_of (map (\<lambda>k. (k, g k)) ks)
      = su_params u ++ (\<lambda>a. if a = k then Some (g k) else map_of (map (\<lambda>k. (k, g k)) ks) a)"
    by (auto simp: fun_eq_iff map_add_def map_of_map_restrict restrict_map_def split: option.split)
  moreover have "foldl parse_field (parse_field u (kv_str k (g k))) (map (\<lambda>k. kv_str k (g k)) ks)
      = (parse_field u (kv_str k (g k)))\<lparr>su_keys := su_keys (parse_field u (kv_str k (g k))) @ ks,
         su_params := su_params (parse_field u (kv_str k (g k))) ++ map_of (map (\<lambda>k. (k, g k)) ks)\<rparr>"
    by (rule Cons.IH [OF _ inv]) (use Cons.prems step in auto)
  ultimately show ?case by (simp add: step del: map_add_upd)
qed

lemma Join_nonempty: "xs \<noteq> [] \<Longrightarrow> \<forall>x \<in> set xs. x \<noteq> [] \<Longrightarrow> Join sep xs \<noteq> []"
  by (induction sep xs rule: Join.induct) auto

lemma parse_render:
  assumes "url_ok u"
  shows "ParseStationURL (su_String u) = u"
proof -
  let ?part = "\<lambda>k. kv_str k (su_Get u k)"
  let ?j = "Join '';'' (map ?part (su_keys u))"
  have cut: "cut_scheme (su_String u) = Some (Scheme u, ?j)" and ne: "su_String u \<noteq> ''''"
    using assms cut_scheme_append [of "Scheme u" ?j] by (auto simp: url_ok_def su_String_def)
  have inv: "station_inv u" using assms by (simp add: url_ok_def)
  show ?thesis
  proof (cases "su_keys u = []")
    case True
    then have "su_params u = Map.empty" using inv by (auto simp: station_inv_def)
    with True cut ne show ?thesis by (simp add: ParseStationURL_def station_empty_def)
  next
    case False
    have sep: "\<forall>x \<in> set (map ?part (su_keys u)). CHR '';'' \<notin> set x"
      using assms by (auto simp: url_ok_def)
    have split: "Split (CHR '';'') ?j = map ?part (su_keys u)"
      using False sep by (intro Split_Join) auto
    have jne: "?j \<noteq> ''''" using False by (intro Join_nonempty) auto
    have par: "map_of (map (\<lambda>k. (k, su_Get u k)) (su_keys u)) = su_params u"
      using inv by (auto simp: fun_eq_iff map_of_map_restrict restrict_map_def station_inv_def su_Get_def dom_def
          split: option.split)
    show ?thesis
      using fold_fields [of "station_empty (Scheme u)" "su_keys u" "su_Get u"] assms inv
      by (auto simp: ParseStationURL_def ne cut jne split par station_inv_empty station_empty_def url_ok_def station_inv_def)
  qed
qed

definition station_wire_ok :: "station_url \<Rightarrow> bool" where
  "station_wire_ok u \<longleftrightarrow> url_ok u \<and> string_ok (su_String u)"

interpretation cStation: codec_nonempty w_StationURL r_StationURL station_wire_ok
  by unfold_locales
    (simp_all add: w_StationURL_def r_StationURL_def station_wire_ok_def run_String parse_render)

end
