(* ===== verification/Nex_Auth.thy ===== *)
theory Nex_Auth
  imports Nex_Kerberos Nex_Rmc Nex_Types Nex_Station
begin

section \<open>Ticket granting (ticketgranting.go)\<close>

text \<open>
  The auth server: what it remembers of a login (the address to PID recall and the login
  names), the two login methods and their responses.  The game server's callbacks
  \<open>ResolveUser\<close> and \<open>ResolveUserEx\<close> are fields of the configuration; the session key and the
  ticket key drawn from \<open>crypto/rand\<close>, and the clock, are arguments.  The session key is a
  function of the length asked for; \<open>None\<close> is a failure of the random source.  The table starts as
  \<open>authRecallInit\<close> left it; the file it is loaded from and saved to is in Nex\_Recall.
\<close>

definition ProtocolTicketGranting :: u16 where "ProtocolTicketGranting = 0x0A"
definition MethodLogin :: u32 where "MethodLogin = 1"
definition MethodLoginEx :: u32 where "MethodLoginEx = 2"
definition MethodLoginWithContext :: u32 where "MethodLoginWithContext = 6"

definition ResultAuthTokenParseError :: u32 where "ResultAuthTokenParseError = 0x00680002"
definition ResultAuthUnknown :: u32 where "ResultAuthUnknown = 0x0068000E"

subsection \<open>Addresses\<close>

definition last_colon :: "string \<Rightarrow> (string \<times> string) option" where
  "last_colon s = (let r = rev s; p = takeWhile (\<lambda>c. c \<noteq> CHR '':'') r; q = dropWhile (\<lambda>c. c \<noteq> CHR '':'') r in
     if q = [] then None else Some (rev (tl q), rev p))"

text \<open>\<open>net.SplitHostPort\<close> of the standard library; \<open>None\<close> is any of its errors.\<close>

definition SplitHostPort :: "string \<Rightarrow> (string \<times> string) option" where
  "SplitHostPort hp = (case last_colon hp of
     None \<Rightarrow> None
   | Some (front, port) \<Rightarrow>
       if hp ! 0 = CHR ''['' then
         (let host = takeWhile (\<lambda>c. c \<noteq> CHR '']'') (tl hp); after = drop (length host + 2) hp in
          if CHR '']'' \<notin> set hp then None
          else if after \<noteq> CHR '':'' # port then None
          else if CHR ''['' \<in> set (tl hp) \<or> CHR '']'' \<in> set after then None
          else Some (host, port))
       else if CHR '':'' \<in> set front then None
       else if CHR ''['' \<in> set hp \<or> CHR '']'' \<in> set hp then None
       else Some (front, port))"

definition ipHost :: "string \<Rightarrow> string" where
  "ipHost addr = (case SplitHostPort addr of Some (h, _) \<Rightarrow> h | None \<Rightarrow> addr)"

subsection \<open>What a login leaves behind\<close>

record auth_recall =
  ar_pid :: u64
  ar_at :: int

record auth_store =
  authPIDByIP :: "(string, auth_recall) gomap"
  loginNameToPID :: "(string, u64) gomap"
  pidToLoginName :: "(u64, string) gomap"

text \<open>Times are nanoseconds.\<close>

definition authRecallTTL :: int where "authRecallTTL = 24 * 3600 * 10 ^ 9"

definition RememberAuthPID :: "int \<Rightarrow> string \<Rightarrow> u64 \<Rightarrow> auth_store \<Rightarrow> auth_store" where
  "RememberAuthPID now addr pid st =
     st\<lparr>authPIDByIP := AList.update (ipHost addr) \<lparr>ar_pid = pid, ar_at = now\<rparr> (authPIDByIP st)\<rparr>"

definition RecallAuthPID :: "int \<Rightarrow> string \<Rightarrow> auth_store \<Rightarrow> u64 option \<times> auth_store" where
  "RecallAuthPID now addr st =
     (case map_of (authPIDByIP st) (ipHost addr) of
        None \<Rightarrow> (None, st)
      | Some rec \<Rightarrow>
          if ar_pid rec = 0 then (None, st)
          else if now - ar_at rec > authRecallTTL
          then (None, st\<lparr>authPIDByIP := AList.delete (ipHost addr) (authPIDByIP st)\<rparr>)
          else (Some (ar_pid rec), st))"

definition RememberLoginName :: "string \<Rightarrow> u64 \<Rightarrow> auth_store \<Rightarrow> auth_store" where
  "RememberLoginName name pid st =
     (if name = [] \<or> pid = 0 then st
      else st\<lparr>loginNameToPID := AList.update name pid (loginNameToPID st),
              pidToLoginName := AList.update pid name (pidToLoginName st)\<rparr>)"

definition LoginNameForPID :: "u64 \<Rightarrow> auth_store \<Rightarrow> string option" where
  "LoginNameForPID pid st = map_of (pidToLoginName st) pid"

definition PIDForLoginName :: "string \<Rightarrow> auth_store \<Rightarrow> u64 option" where
  "PIDForLoginName name st = map_of (loginNameToPID st) name"

subsection \<open>Connection data\<close>

record rv_connection =
  rv_MainStation :: "station_url option"
  rv_SpecialProtocols :: "u8 list"
  rv_SpecialStation :: "station_url option"
  rv_ServerTime :: u64

definition prudp_scheme :: string where "prudp_scheme = ''prudp''"

definition orEmptyStation :: "station_url option \<Rightarrow> station_url" where
  "orEmptyStation u = (case u of None \<Rightarrow> NewStationURL prudp_scheme | Some v \<Rightarrow> v)"

definition RVConnectionData_levels :: "rv_connection level list" where
  "RVConnectionData_levels = [\<lparr>lv_Version = 1,
     lv_Save = Some (\<lambda>s d. w_StationURL (orEmptyStation (rv_MainStation d)) @ WriteList w_U8 (rv_SpecialProtocols d) @
       w_StationURL (orEmptyStation (rv_SpecialStation d)) @ w_DateTime (rv_ServerTime d)),
     lv_Load = Some (\<lambda>s d. do { m \<leftarrow> r_StationURL; p \<leftarrow> ReadList r_U8; q \<leftarrow> r_StationURL; t \<leftarrow> r_DateTime;
       State_Monad.return (d\<lparr>rv_MainStation := Some m, rv_SpecialProtocols := p, rv_SpecialStation := Some q, rv_ServerTime := t\<rparr>) })\<rparr>]"

subsection \<open>Logins\<close>

record auth_config =
  cfg_Settings :: settings
  SecurePID :: u64
  SecurePassword :: string
  SecureStationURL :: "station_url option"
  SpecialProtocols :: "u8 list"
  ServerName :: string
  SessionKeyLength :: int
  ResolveUser :: "string \<Rightarrow> bytes \<Rightarrow> (u64 \<times> bytes) option"
  ResolveUserEx :: "(string \<Rightarrow> bytes \<Rightarrow> u64 \<times> bytes \<times> u32) option"
  ContextResultTrailingU64 :: bool

definition cfg_resolve :: "auth_config \<Rightarrow> string \<Rightarrow> bytes \<Rightarrow> u64 \<times> bytes \<times> u32" where
  "cfg_resolve cfg username extraData = (case ResolveUserEx cfg of
     Some f \<Rightarrow> f username extraData
   | None \<Rightarrow> (case ResolveUser cfg username extraData of
       None \<Rightarrow> (0, [], ResultAuthTokenParseError)
     | Some (pid, sourceKey) \<Rightarrow> (pid, sourceKey, 0)))"

text \<open>The clock and the random source of one request.\<close>

record auth_env =
  ae_now :: int
  ae_date :: u64
  ae_sessionKey :: "nat \<Rightarrow> bytes option"
  ae_ticketKey :: bytes

definition hex_digit :: "nat \<Rightarrow> char" where
  "hex_digit d = (if d < 10 then char_of (48 + d) else char_of (87 + d))"

definition EncodeToString :: "bytes \<Rightarrow> string" where
  "EncodeToString b = concat (map (\<lambda>x. [hex_digit (unat x div 16), hex_digit (unat x mod 16)]) b)"

text \<open>\<open>keyLen\<close> and the minting of the two tickets, shared by both login methods.  A panic of the
  cipher (an empty key) is the error \<open>GoPanic\<close>; every other failure is answered with a code.\<close>

definition keyLen :: "auth_config \<Rightarrow> int" where
  "keyLen cfg = (if SessionKeyLength cfg = 0 then KerberosKeySize (cfg_Settings cfg) else SessionKeyLength cfg)"

definition mint_tickets :: "auth_config \<Rightarrow> auth_env \<Rightarrow> u64 \<Rightarrow> bytes \<Rightarrow> go_error + bytes" where
  "mint_tickets cfg env pid sourceKey =
     (if keyLen cfg < 0 then Inl GoPanic
      else case ae_sessionKey env (nat (keyLen cfg)) of
        None \<Rightarrow> Inl ErrUnexpectedEOF
      | Some sessionKey \<Rightarrow>
         (let s = cfg_Settings cfg;
              targetKey = DeriveKey s (string_bytes (SecurePassword cfg)) (SecurePID cfg) in
          case ServerTicket_Encrypt (ae_ticketKey env)
                 \<lparr>tk_Timestamp = ae_date env, tk_Source = pid, tk_SessionKey = sessionKey\<rparr> targetKey s of
            Inl e \<Rightarrow> Inl e
          | Inr internal \<Rightarrow>
              ClientTicket_Encrypt \<lparr>ct_SessionKey = sessionKey, ct_Target = SecurePID cfg, ct_Internal = internal\<rparr> sourceKey s))"

definition buildResponse :: "auth_config \<Rightarrow> auth_env \<Rightarrow> rmc_message \<Rightarrow> u32 \<Rightarrow> u64 \<Rightarrow> bytes \<Rightarrow> bytes \<Rightarrow> rmc_message" where
  "buildResponse cfg env req retval pid ticket sourceKey =
     (let s = cfg_Settings cfg;
          rvcd = \<lparr>rv_MainStation = Some (orEmptyStation (SecureStationURL cfg)), rv_SpecialProtocols = SpecialProtocols cfg,
                  rv_SpecialStation = Some (NewStationURL prudp_scheme), rv_ServerTime = ae_date env\<rparr>;
          out = w_U32 retval @ w_PID s pid @ w_Buffer ticket @ WriteStructure s RVConnectionData_levels rvcd @
                w_String (ServerName cfg) @ (if NexVersion s \<ge> 40000 then w_String (EncodeToString sourceKey) else [])
      in NewRMCSuccess ProtocolTicketGranting (rm_Method req) (rm_CallID req) out)"

definition remember_login :: "auth_env \<Rightarrow> string option \<Rightarrow> string \<Rightarrow> u64 \<Rightarrow> auth_store \<Rightarrow> auth_store" where
  "remember_login env conn username pid st =
     RememberLoginName username pid (case conn of None \<Rightarrow> st | Some addr \<Rightarrow> RememberAuthPID (ae_now env) addr pid st)"

definition handleLogin :: "auth_config \<Rightarrow> auth_env \<Rightarrow> string option \<Rightarrow> rmc_message \<Rightarrow> auth_store \<Rightarrow> (go_error + rmc_message) \<times> auth_store" where
  "handleLogin cfg env conn req st =
     (let (username, i1) = run_state r_String (NewStreamIn (rm_Body req));
          (extraData, i2) = run_state r_ReadAll i1;
          fail = (\<lambda>code. buildResponse cfg env req (code OR ResultErrorMask) 0 [] []);
          (pid, sourceKey, rc) = cfg_resolve cfg username extraData
      in if rc \<noteq> 0 then (Inr (fail rc), st)
         else let st' = remember_login env conn username pid st in
           (case mint_tickets cfg env pid sourceKey of
              Inl GoPanic \<Rightarrow> (Inl GoPanic, st')
            | Inl e \<Rightarrow> (Inr (fail ResultAuthUnknown), st')
            | Inr ticket \<Rightarrow> (Inr (buildResponse cfg env req ResultCoreUnknown pid ticket sourceKey), st')))"

definition context_result :: "auth_config \<Rightarrow> auth_env \<Rightarrow> u64 \<Rightarrow> bytes \<Rightarrow> bytes \<Rightarrow> bytes" where
  "context_result cfg env pid ticket sourceKey =
     (let s = cfg_Settings cfg in
      w_PID s pid @ w_Buffer ticket @ w_StationURL (orEmptyStation (SecureStationURL cfg)) @ w_DateTime (ae_date env) @
      w_String (ServerName cfg) @ w_String (EncodeToString sourceKey) @ (if ContextResultTrailingU64 cfg then w_U64 0 else []))"

definition handleLoginWithContext :: "auth_config \<Rightarrow> auth_env \<Rightarrow> string option \<Rightarrow> rmc_message \<Rightarrow> auth_store \<Rightarrow> (go_error + rmc_message) \<times> auth_store" where
  "handleLoginWithContext cfg env conn req st =
     (let (username, i1) = run_state (do { _ \<leftarrow> r_U8; _ \<leftarrow> r_U32; _ \<leftarrow> r_U32; r_String }) (NewStreamIn (rm_Body req));
          (extraData, i2) = run_state r_ReadAll i1;
          fail = (\<lambda>code. NewRMCError ProtocolTicketGranting (rm_CallID req) code);
          (pid, sourceKey, rc) = cfg_resolve cfg username extraData
      in if rc \<noteq> 0 then (Inr (fail rc), st)
         else let st' = remember_login env conn username pid st in
           (case mint_tickets cfg env pid sourceKey of
              Inl GoPanic \<Rightarrow> (Inl GoPanic, st')
            | Inl e \<Rightarrow> (Inr (fail ResultAuthUnknown), st')
            | Inr ticket \<Rightarrow>
                (let body = context_result cfg env pid ticket sourceKey in
                 (Inr (NewRMCSuccess ProtocolTicketGranting (rm_Method req) (rm_CallID req)
                        (w_U8 1 @ w_U32 (of_nat (length body)) @ body)), st'))))"

definition AuthHandler :: "auth_config \<Rightarrow> auth_env \<Rightarrow> string option \<Rightarrow> rmc_message \<Rightarrow> auth_store \<Rightarrow> (go_error + rmc_message) \<times> auth_store" where
  "AuthHandler cfg env conn req st =
     (if rm_Method req = MethodLogin \<or> rm_Method req = MethodLoginEx then handleLogin cfg env conn req st
      else if rm_Method req = MethodLoginWithContext then handleLoginWithContext cfg env conn req st
      else (Inr (NewRMCError ProtocolTicketGranting (rm_CallID req) ResultCoreNotImplemented), st))"

subsection \<open>A minted ticket is what both sides read\<close>

lemma length_kerberosEncrypt: "kerberosEncrypt key data = Inr c \<Longrightarrow> length c = length data + 16"
  by (auto simp: kerberosEncrypt_def split: sum.splits dest: rc4_length)

lemma DecryptServerTicket_Encrypt:
  assumes ok: "server_ticket_ok s t" and tk: "length ticketKey = 16" and enc: "ServerTicket_Encrypt ticketKey t key s = Inr c"
  shows "DecryptServerTicket c key s = Inr t"
proof -
  let ?data = "w_DateTime (tk_Timestamp t) @ w_PID s (tk_Source t) @ tk_SessionKey t"
  have size: "int (length (tk_SessionKey t)) = KerberosKeySize s" using ok by (simp add: server_ticket_ok_def)
  show ?thesis
  proof (cases "KerberosTicketVersion s = 1")
    case True
    with enc size obtain inner where inner: "kerberosEncrypt (md5 (key @ ticketKey)) ?data = Inr inner"
      and c: "c = w_Buffer ticketKey @ w_Buffer inner"
      by (auto simp: ServerTicket_Encrypt_def Let_def split: sum.splits)
    have "length ?data \<le> 16 + length (tk_SessionKey t)"
      using length_w_PID [of s "tk_Source t"] by (simp add: w_DateTime_def w_U64_def)
    then have "length inner < 2 ^ 32"
      using length_kerberosEncrypt [OF inner] ok by (simp add: server_ticket_ok_def)
    then show ?thesis
      using True tk ticket_body_round_trip [OF ok inner]
      by (simp add: DecryptServerTicket_def c NewStreamIn_cursor run_Buffer run_Buffer_end)
  next
    case False
    with enc size have "kerberosEncrypt key ?data = Inr c" by (simp add: ServerTicket_Encrypt_def Let_def)
    with False show ?thesis by (simp add: DecryptServerTicket_def ticket_body_round_trip [OF ok])
  qed
qed

lemma DecryptClientTicket_Encrypt:
  assumes "pid_ok s (ct_Target t)" "length (ct_Internal t) < 2 ^ 32" and enc: "ClientTicket_Encrypt t key s = Inr c"
  shows "DecryptClientTicket c key s = Inr t"
proof -
  have size: "int (length (ct_SessionKey t)) = KerberosKeySize s"
    and k: "kerberosEncrypt key (ct_SessionKey t @ w_PID s (ct_Target t) @ w_Buffer (ct_Internal t)) = Inr c"
    using enc by (auto simp: ClientTicket_Encrypt_def split: if_splits)
  show ?thesis
    using decrypt_encrypt [OF k] assms size
    by (simp add: DecryptClientTicket_def NewStreamIn_cursor run_Read run_PID run_Buffer_end)
qed

definition minted :: "auth_config \<Rightarrow> auth_env \<Rightarrow> u64 \<Rightarrow> bytes \<Rightarrow> bytes \<Rightarrow> bool" where
  "minted cfg env pid sourceKey ticket \<longleftrightarrow> (\<exists>ct tk.
     DecryptClientTicket ticket sourceKey (cfg_Settings cfg) = Inr ct \<and> ct_Target ct = SecurePID cfg \<and>
     DecryptServerTicket (ct_Internal ct) (DeriveKey (cfg_Settings cfg) (string_bytes (SecurePassword cfg)) (SecurePID cfg))
       (cfg_Settings cfg) = Inr tk \<and>
     tk_Source tk = pid \<and> tk_Timestamp tk = ae_date env \<and> tk_SessionKey tk = ct_SessionKey ct \<and>
     int (length (ct_SessionKey ct)) = KerberosKeySize (cfg_Settings cfg) \<and> length (ct_Internal ct) < 2 ^ 32)"

definition auth_ok :: "auth_config \<Rightarrow> auth_env \<Rightarrow> bool" where
  "auth_ok cfg env \<longleftrightarrow> length (ae_ticketKey env) = 16 \<and> KerberosKeySize (cfg_Settings cfg) < 2 ^ 30 \<and>
     pid_ok (cfg_Settings cfg) (SecurePID cfg)"

lemma length_ServerTicket:
  "ServerTicket_Encrypt ticketKey t key s = Inr c \<Longrightarrow> length ticketKey = 16 \<Longrightarrow> length c \<le> 64 + length (tk_SessionKey t)"
  using length_w_PID [of s "tk_Source t"]
  by (auto simp: ServerTicket_Encrypt_def Let_def w_DateTime_def w_U64_def w_Buffer_def w_U32_def
      dest!: length_kerberosEncrypt split: if_splits sum.splits)

lemma mint_tickets_minted:
  assumes ok: "auth_ok cfg env" and pid: "pid_ok (cfg_Settings cfg) pid"
    and mint: "mint_tickets cfg env pid sourceKey = Inr ticket"
  shows "minted cfg env pid sourceKey ticket" "length ticket < 2 ^ 32"
proof -
  let ?s = "cfg_Settings cfg" and ?key = "DeriveKey (cfg_Settings cfg) (string_bytes (SecurePassword cfg)) (SecurePID cfg)"
  from mint obtain sk internal where
    int: "ServerTicket_Encrypt (ae_ticketKey env) \<lparr>tk_Timestamp = ae_date env, tk_Source = pid, tk_SessionKey = sk\<rparr> ?key ?s = Inr internal"
    and ct: "ClientTicket_Encrypt \<lparr>ct_SessionKey = sk, ct_Target = SecurePID cfg, ct_Internal = internal\<rparr> sourceKey ?s = Inr ticket"
    by (auto simp: mint_tickets_def Let_def split: if_splits option.splits sum.splits)
  have size: "int (length sk) = KerberosKeySize ?s"
    using ct by (simp add: ClientTicket_Encrypt_def split: if_splits)
  have short: "length sk < 2 ^ 30" using ok size by (simp add: auth_ok_def)
  have st: "server_ticket_ok ?s \<lparr>tk_Timestamp = ae_date env, tk_Source = pid, tk_SessionKey = sk\<rparr>"
    using pid size short by (simp add: server_ticket_ok_def)
  have len: "length internal \<le> 64 + length sk"
    using length_ServerTicket [OF int] ok by (simp add: auth_ok_def)
  show "minted cfg env pid sourceKey ticket"
    unfolding minted_def
    using DecryptServerTicket_Encrypt [OF st _ int] DecryptClientTicket_Encrypt [OF _ _ ct] len short ok size
    by (intro exI conjI) (auto simp: auth_ok_def)
  have "length ticket \<le> 64 + 2 * length sk + 64"
    using ct len length_w_PID [of ?s "SecurePID cfg"]
    by (auto simp: ClientTicket_Encrypt_def w_Buffer_def w_U32_def dest!: length_kerberosEncrypt split: if_splits)
  then show "length ticket < 2 ^ 32" using short by simp
qed

lemma mint_tickets_total:
  assumes key: "ae_sessionKey env (nat (keyLen cfg)) = Some sk" "int (length sk) = KerberosKeySize (cfg_Settings cfg)" "0 \<le> keyLen cfg"
    and src: "sourceKey \<noteq> []" "length sourceKey \<le> 256"
  shows "\<exists>ticket. mint_tickets cfg env pid sourceKey = Inr ticket"
proof -
  have md: "md5 x \<noteq> []" "length (md5 x) \<le> 256" for x
    by auto
  have dk: "DeriveKey s p q \<noteq> []" "length (DeriveKey s p q) \<le> 256" for s p q
    by (metis DeriveKey_length list.size(3) zero_neq_numeral) simp
  have "\<exists>c. ServerTicket_Encrypt tk t (DeriveKey s p q) s = Inr c" if "int (length (tk_SessionKey t)) = KerberosKeySize s" for tk t s p q
    using that encrypt_total [OF md] encrypt_total [OF dk]
    unfolding ServerTicket_Encrypt_def by (auto simp: Let_def split: sum.split) (metis Inl_Inr_False)+
  then show ?thesis
    unfolding mint_tickets_def Let_def using key encrypt_total [OF src]
    by (auto simp: ClientTicket_Encrypt_def split: sum.split) (metis Inl_Inr_False server_ticket.select_convs(3))+
qed

text \<open>A session key length other than the ticket's key size refuses every login.\<close>

lemma mint_tickets_wrong_size:
  assumes "ae_sessionKey env (nat (keyLen cfg)) = Some sk" "int (length sk) \<noteq> KerberosKeySize (cfg_Settings cfg)" "0 \<le> keyLen cfg"
  shows "mint_tickets cfg env pid sourceKey = Inl ErrKerberosKeySize"
  using assms by (simp add: mint_tickets_def Let_def ServerTicket_Encrypt_def)

subsection \<open>What a client reads in the answers\<close>

definition rv_ok :: "settings \<Rightarrow> rv_connection \<Rightarrow> bool" where
  "rv_ok s d \<longleftrightarrow> (\<exists>m q. rv_MainStation d = Some m \<and> rv_SpecialStation d = Some q \<and> station_wire_ok m \<and> station_wire_ok q)
     \<and> length (rv_SpecialProtocols d) < 2 ^ 31"

definition rv_zero :: rv_connection where
  "rv_zero = \<lparr>rv_MainStation = None, rv_SpecialProtocols = [], rv_SpecialStation = None, rv_ServerTime = 0\<rparr>"

lemma length_concat_map1: "(\<And>x. length (f x) = 1) \<Longrightarrow> length (concat (map f xs)) = length xs"
  by (induction xs) simp_all

lemma length_station: "station_wire_ok u \<Longrightarrow> length (w_StationURL u) \<le> 2 ^ 17"
  by (auto simp: station_wire_ok_def string_ok_def w_StationURL_def w_String_def w_U16_def Let_def)

lemma loads_RVConnectionData:
  assumes "rv_ok s d"
  shows "loads (hd RVConnectionData_levels) s rv_zero d d"
proof -
  obtain m q where st: "rv_MainStation d = Some m" "rv_SpecialStation d = Some q" "station_wire_ok m" "station_wire_ok q"
    and len: "length (rv_SpecialProtocols d) < 2 ^ 31"
    using assms by (auto simp: rv_ok_def)
  note r = cStation.dec_enc cU8.list_enc
  have "length (WriteList w_U8 (rv_SpecialProtocols d)) = 4 + length (rv_SpecialProtocols d)"
    by (simp add: WriteList_def w_U32_def w_U8_def length_concat_map1)
  then have "length (level_body s (hd RVConnectionData_levels) d) < 2 ^ 32"
    using st len length_station [OF st(3)] length_station [OF st(4)]
    by (simp add: level_body_def RVConnectionData_levels_def orEmptyStation_def w_DateTime_def w_U64_def)
  then show ?thesis
    using st len
    by (simp add: loads_def RVConnectionData_levels_def level_body_def orEmptyStation_def r w_DateTime_def r_DateTime_def
        run_U64 cU8.list_enc [where vs = "rv_SpecialProtocols d"])
qed

interpretation cRVConnectionData: structure_codec s RVConnectionData_levels rv_zero "rv_ok s"
proof unfold_locales
  fix v :: rv_connection and pre post
  assume "rv_ok s v"
  then show "run_state (ReadStructure s RVConnectionData_levels rv_zero) (cursor pre (WriteStructure s RVConnectionData_levels v @ post))
       = (v, cursor (pre @ WriteStructure s RVConnectionData_levels v) post)"
    using single_level_read_write [OF loads_RVConnectionData]
    by (simp add: RVConnectionData_levels_def)
qed

definition login_answer :: "settings \<Rightarrow> (u32 \<times> u64 \<times> bytes \<times> rv_connection \<times> string) reader" where
  "login_answer s = do { retval \<leftarrow> r_U32; pid \<leftarrow> r_PID s; ticket \<leftarrow> r_Buffer;
     rvcd \<leftarrow> ReadStructure s RVConnectionData_levels rv_zero; name \<leftarrow> r_String;
     State_Monad.return (retval, pid, ticket, rvcd, name) }"

definition station_cfg_ok :: "auth_config \<Rightarrow> bool" where
  "station_cfg_ok cfg \<longleftrightarrow> station_wire_ok (orEmptyStation (SecureStationURL cfg)) \<and> length (SpecialProtocols cfg) < 2 ^ 31 \<and>
     string_ok (ServerName cfg)"

lemma prudp_station_ok: "station_wire_ok (NewStationURL prudp_scheme)"
  by (simp add: station_wire_ok_def prudp_scheme_def url_ok_def NewStationURL_def station_empty_def string_ok_def su_String_def
      station_inv_def)

lemma login_answer_read:
  assumes "station_cfg_ok cfg" "pid_ok (cfg_Settings cfg) pid" "length ticket < 2 ^ 32"
  shows "fst (run_state (login_answer (cfg_Settings cfg)) (NewStreamIn (rm_Body (buildResponse cfg env req retval pid ticket sourceKey))))
       = (retval, pid, ticket, \<lparr>rv_MainStation = Some (orEmptyStation (SecureStationURL cfg)), rv_SpecialProtocols = SpecialProtocols cfg,
            rv_SpecialStation = Some (NewStationURL prudp_scheme), rv_ServerTime = ae_date env\<rparr>, ServerName cfg)"
  using assms prudp_station_ok
  by (simp add: login_answer_def buildResponse_def Let_def NewRMCSuccess_def NewStreamIn_cursor run_U32 run_PID run_Buffer
      cRVConnectionData.read_write rv_ok_def station_cfg_ok_def run_String)

definition context_answer :: "settings \<Rightarrow> (u8 \<times> u32 \<times> u64 \<times> bytes \<times> station_url \<times> u64 \<times> string \<times> string) reader" where
  "context_answer s = do { v \<leftarrow> r_U8; len \<leftarrow> r_U32; pid \<leftarrow> r_PID s; ticket \<leftarrow> r_Buffer; url \<leftarrow> r_StationURL;
     t \<leftarrow> r_DateTime; name \<leftarrow> r_String; key \<leftarrow> r_String; State_Monad.return (v, len, pid, ticket, url, t, name, key) }"

lemma length_EncodeToString [simp]: "length (EncodeToString b) = 2 * length b"
  by (induction b) (simp_all add: EncodeToString_def)

lemma context_answer_read:
  assumes "station_cfg_ok cfg" "pid_ok (cfg_Settings cfg) pid" "length ticket < 2 ^ 32" "string_ok (EncodeToString sourceKey)"
  shows "fst (run_state (context_answer (cfg_Settings cfg)) (NewStreamIn (w_U8 1 @ w_U32 n @ context_result cfg env pid ticket sourceKey)))
       = (1, n, pid, ticket, orEmptyStation (SecureStationURL cfg), ae_date env, ServerName cfg, EncodeToString sourceKey)"
  using assms
  by (simp add: context_answer_def context_result_def Let_def NewStreamIn_cursor run_U8 run_U32 run_PID run_Buffer
      cStation.dec_enc station_cfg_ok_def run_String w_DateTime_def r_DateTime_def run_U64)

subsection \<open>The recall table over time\<close>

text \<open>The events that touch the table: a login from an address, a recall for an address, each at its time.\<close>

datatype auth_event = Login int string u64 | Recall int string

primrec ev_time :: "auth_event \<Rightarrow> int" where
  "ev_time (Login t a p) = t"
| "ev_time (Recall t a) = t"

primrec auth_step :: "auth_event \<Rightarrow> auth_store \<Rightarrow> auth_store" where
  "auth_step (Login t a p) st = RememberAuthPID t a p st"
| "auth_step (Recall t a) st = snd (RecallAuthPID t a st)"

text \<open>The last login from a host in a history, latest event first.\<close>

fun last_login :: "string \<Rightarrow> auth_event list \<Rightarrow> (u64 \<times> int) option" where
  "last_login h [] = None"
| "last_login h (Login t a p # evs) = (if ipHost a = h then Some (p, t) else last_login h evs)"
| "last_login h (Recall t a # evs) = last_login h evs"

definition auth_empty :: auth_store where
  "auth_empty = \<lparr>authPIDByIP = [], loginNameToPID = [], pidToLoginName = []\<rparr>"

definition auth_run :: "auth_event list \<Rightarrow> auth_store" where
  "auth_run evs = foldr auth_step evs auth_empty"

text \<open>In a history whose clock never goes back, the entry of a host is its last login, or is
  gone when that login is older than the limit.\<close>

lemma auth_run_entry:
  assumes "sorted_wrt (\<lambda>a b. ev_time b \<le> ev_time a) evs" "\<And>e. e \<in> set evs \<Longrightarrow> ev_time e \<le> now"
  shows "case map_of (authPIDByIP (auth_run evs)) h of
      Some rec \<Rightarrow> last_login h evs = Some (ar_pid rec, ar_at rec)
    | None \<Rightarrow> (case last_login h evs of None \<Rightarrow> True | Some (p, t) \<Rightarrow> now - t > authRecallTTL)"
  using assms
proof (induction evs arbitrary: now)
  case Nil
  then show ?case by (simp add: auth_run_def auth_empty_def)
next
  case (Cons e evs)
  have run: "auth_run (f # evs) = auth_step f (auth_run evs)" for f by (simp add: auth_run_def)
  have IH: "case map_of (authPIDByIP (auth_run evs)) h of
      Some rec \<Rightarrow> last_login h evs = Some (ar_pid rec, ar_at rec)
    | None \<Rightarrow> (case last_login h evs of None \<Rightarrow> True | Some (p, t) \<Rightarrow> ev_time e - t > authRecallTTL)"
    using Cons by (intro Cons.IH) auto
  have now: "ev_time e \<le> now" using Cons.prems by simp
  show ?case
  proof (cases e)
    case (Login t a p)
    then show ?thesis using IH now
      by (auto simp: run RememberAuthPID_def split: option.splits)
  next
    case (Recall t a)
    then show ?thesis using IH now
      by (auto simp: run RecallAuthPID_def split: option.splits if_splits)
  qed
qed

lemma recall_last_login:
  assumes "sorted_wrt (\<lambda>a b. ev_time b \<le> ev_time a) evs" "\<And>e. e \<in> set evs \<Longrightarrow> ev_time e \<le> now"
  shows "fst (RecallAuthPID now addr (auth_run evs)) = (case last_login (ipHost addr) evs of
      Some (p, t) \<Rightarrow> if p \<noteq> 0 \<and> now - t \<le> authRecallTTL then Some p else None | None \<Rightarrow> None)"
  using auth_run_entry [OF assms, of "ipHost addr"]
  by (auto simp: RecallAuthPID_def split: option.splits)

end
