(* ===== verification/Nex_Ip.thy ===== *)
theory Nex_Ip
  imports Nex_Auth
begin

section \<open>IP addresses (the parts of Go's net package the program uses)\<close>

text \<open>
  \<open>net.ParseIP\<close>, the class tests of \<open>net.IP\<close> and the printed form of an IPv4 address, and on
  them \<open>isPrivateIP\<close> of secureconnection.go.  \<open>ParseIP\<close> returns the 16-byte form, an IPv4
  address mapped into it, and \<open>None\<close> for any error, a zone included.
\<close>

subsection \<open>Parsing\<close>

text \<open>The fields of a dotted address: \<open>sep\<close> tells that the previous character was a dot or that there is none.\<close>

fun v4_loop :: "string \<Rightarrow> nat \<Rightarrow> nat \<Rightarrow> bytes \<Rightarrow> bool \<Rightarrow> bytes option" where
  "v4_loop [] val digLen fs sep = (if length fs < 3 then None else Some (fs @ [of_nat val]))"
| "v4_loop (c # cs) val digLen fs sep =
     (if is_digit c then
        (if digLen = 1 \<and> val = 0 then None
         else let v = val * 10 + digit_val c in if v > 255 then None else v4_loop cs v (digLen + 1) fs False)
      else if c = CHR ''.'' then
        (if sep \<or> cs = [] \<or> length fs = 3 then None else v4_loop cs 0 0 (fs @ [of_nat val]) True)
      else None)"

definition parseIPv4Fields :: "string \<Rightarrow> bytes option" where
  "parseIPv4Fields s = v4_loop s 0 0 [] True"

definition hex_val :: "char \<Rightarrow> nat option" where
  "hex_val c = (let n = of_char c in
     if 48 \<le> n \<and> n \<le> 57 then Some (n - 48)
     else if 97 \<le> n \<and> n \<le> 102 then Some (n - 97 + 10)
     else if 65 \<le> n \<and> n \<le> 70 then Some (n - 65 + 10) else None)"

fun hex_run :: "nat \<Rightarrow> nat \<Rightarrow> string \<Rightarrow> (nat \<times> nat \<times> string) option" where
  "hex_run off acc [] = Some (off, acc, [])"
| "hex_run off acc (c # cs) = (case hex_val c of
     None \<Rightarrow> Some (off, acc, c # cs)
   | Some d \<Rightarrow> (let acc' = acc * 16 + d in if off > 3 \<or> acc' > 0xFFFF then None else hex_run (off + 1) acc' cs))"

text \<open>The loop over the groups: the bytes so far, the place of the ellipsis, what is left.\<close>

function v6_loop :: "bytes \<Rightarrow> nat option \<Rightarrow> string \<Rightarrow> (bytes \<times> nat option \<times> string) option" where
  "v6_loop ip el s =
     (if length ip < 16 then
        (case hex_run 0 0 s of None \<Rightarrow> None
         | Some (off, acc, r) \<Rightarrow>
            if off = 0 then None
            else if r \<noteq> [] \<and> hd r = CHR ''.'' then
              (if el = None \<and> length ip \<noteq> 12 then None
               else if length ip + 4 > 16 then None
               else case parseIPv4Fields s of None \<Rightarrow> None | Some f \<Rightarrow> Some (ip @ f, el, []))
            else (let ip' = ip @ [of_nat (acc div 256), of_nat acc] in
              if r = [] then Some (ip', el, [])
              else if hd r \<noteq> CHR '':'' then None
              else if length r = 1 then None
              else let s' = tl r in
                if hd s' = CHR '':'' then
                  (if el \<noteq> None then None
                   else let s'' = tl s' in
                     if s'' = [] then Some (ip', Some (length ip'), []) else v6_loop ip' (Some (length ip')) s'')
                else v6_loop ip' el s'))
      else Some (ip, el, s))"
  by pat_completeness auto
termination by (relation "measure (\<lambda>(ip, el, s). 16 - length ip)") auto

declare v6_loop.simps [simp del]

definition parseIPv6 :: "string \<Rightarrow> bytes option" where
  "parseIPv6 s0 =
     (let lead = (length s0 \<ge> 2 \<and> s0 ! 0 = CHR '':'' \<and> s0 ! 1 = CHR '':''); s = (if lead then drop 2 s0 else s0) in
      if lead \<and> s = [] then Some (replicate 16 0)
      else case v6_loop [] (if lead then Some 0 else None) s of None \<Rightarrow> None
        | Some (ip, el, r) \<Rightarrow>
            if r \<noteq> [] then None
            else if length ip < 16 then
              (case el of None \<Rightarrow> None | Some k \<Rightarrow> Some (take k ip @ replicate (16 - length ip) 0 @ drop k ip))
            else if el \<noteq> None then None else Some ip)"

definition map_v4 :: "bytes \<Rightarrow> bytes" where
  "map_v4 f = replicate 10 0 @ [0xFF, 0xFF] @ f"

definition ParseIP :: "string \<Rightarrow> bytes option" where
  "ParseIP s = (case find (\<lambda>c. c = CHR ''.'' \<or> c = CHR '':'' \<or> c = CHR ''%'') s of
     None \<Rightarrow> None
   | Some c \<Rightarrow> if c = CHR ''.'' then map_option map_v4 (parseIPv4Fields s)
              else if c = CHR '':'' then (if CHR ''%'' \<in> set s then None else parseIPv6 s) else None)"

subsection \<open>Classes of addresses\<close>

definition To4 :: "bytes \<Rightarrow> bytes option" where
  "To4 ip = (if length ip = 4 then Some ip
     else if length ip = 16 \<and> list_all (\<lambda>b. b = 0) (take 10 ip) \<and> ip ! 10 = 0xFF \<and> ip ! 11 = 0xFF then Some (drop 12 ip)
     else None)"

definition IsPrivate :: "bytes \<Rightarrow> bool" where
  "IsPrivate ip = (case To4 ip of
     Some v \<Rightarrow> v ! 0 = 10 \<or> (v ! 0 = 172 \<and> v ! 1 AND 0xF0 = 16) \<or> (v ! 0 = 192 \<and> v ! 1 = 168)
   | None \<Rightarrow> length ip = 16 \<and> ip ! 0 AND 0xFE = 0xFC)"

definition IsLoopback :: "bytes \<Rightarrow> bool" where
  "IsLoopback ip = (case To4 ip of Some v \<Rightarrow> v ! 0 = 127 | None \<Rightarrow> ip = replicate 15 0 @ [1])"

definition IsLinkLocalUnicast :: "bytes \<Rightarrow> bool" where
  "IsLinkLocalUnicast ip = (case To4 ip of
     Some v \<Rightarrow> v ! 0 = 169 \<and> v ! 1 = 254
   | None \<Rightarrow> length ip = 16 \<and> ip ! 0 = 0xFE \<and> ip ! 1 AND 0xC0 = 0x80)"

text \<open>\<open>cgnatRange.Contains\<close>: 100.64.0.0/10.\<close>

definition cgnatContains :: "bytes \<Rightarrow> bool" where
  "cgnatContains ip = (case To4 ip of Some v \<Rightarrow> v ! 0 = 100 \<and> v ! 1 AND 0xC0 = 64 | None \<Rightarrow> False)"

definition isPrivateIP :: "string \<Rightarrow> bool" where
  "isPrivateIP addr = (case ParseIP addr of None \<Rightarrow> False
     | Some ip \<Rightarrow> IsPrivate ip \<or> IsLoopback ip \<or> IsLinkLocalUnicast ip \<or> cgnatContains ip)"

subsection \<open>IPv4 addresses in print\<close>

definition ip4_str :: "bytes \<Rightarrow> string" where
  "ip4_str v = Join ''.'' (map (\<lambda>b. nat_str (unat b)) v)"

lemma nat_str_byte:
  assumes "n < 256"
  shows "nat_str n = (if n < 10 then [digit_char n] else if n < 100 then [digit_char (n div 10), digit_char (n mod 10)]
     else [digit_char (n div 100), digit_char (n div 10 mod 10), digit_char (n mod 10)])"
proof -
  have "n div 10 div 10 = n div 100" by (simp add: div_mult2_eq [symmetric])
  moreover have "n div 100 < 10" "n div 10 < 10 \<longleftrightarrow> n < 100" using assms by (simp, linarith)
  ultimately show ?thesis
    by (simp add: nat_str.simps [of n] nat_str.simps [of "n div 10"] nat_str.simps [of "n div 100"])
qed

lemma v4_loop_number:
  assumes "n < 256"
  shows "v4_loop (nat_str n @ rest) 0 0 fs sep = v4_loop rest n (length (nat_str n)) fs False"
proof -
  have three: "n div 100 * 10 + n div 10 mod 10 = n div 10" using div_mult_mod_eq [of "n div 10" 10] by (simp add: div_mult2_eq [symmetric])
  have two: "n div 10 * 10 + n mod 10 = n" by simp
  have le: "n div 10 \<le> 255" "n div 100 \<le> 255" "n div 100 < 10" using assms by simp_all
  show ?thesis
    unfolding nat_str_byte [OF assms] using assms le three two by (auto simp: Let_def)
qed

lemma ParseIP_ip4_str:
  "ParseIP (ip4_str [a, b, c, d]) = Some (map_v4 [a, b, c, d])"
proof -
  have lt: "unat x < 256" for x :: byte using unsigned_less [where w = x and 'a = nat] by simp
  have dig: "c \<noteq> CHR ''.'' \<and> c \<noteq> CHR '':'' \<and> c \<noteq> CHR ''%''" if "is_digit c" for c
    using that by (auto simp: is_digit_def)
  have nodot: "find (\<lambda>c. c = CHR ''.'' \<or> c = CHR '':'' \<or> c = CHR ''%'') (nat_str n @ ''.'' @ r) = Some (CHR ''.'')" for n r
  proof -
    have "find P (xs @ y # ys) = Some y" if "\<forall>x \<in> set xs. \<not> P x" "P y" for P and xs ys :: string and y
      using that by (induction xs) auto
    then show ?thesis using nat_str_digits [of n] dig by (simp add: list_all_iff)
  qed
  have str: "ip4_str [a, b, c, d] = nat_str (unat a) @ ''.'' @ nat_str (unat b) @ ''.'' @ nat_str (unat c) @ ''.'' @ nat_str (unat d)"
    by (simp add: ip4_str_def)
  have dot: "\<not> is_digit (CHR ''.'')" by (simp add: is_digit_def)
  have ne: "nat_str n \<noteq> []" for n using nat_str_digits by simp
  have "parseIPv4Fields (ip4_str [a, b, c, d]) = Some [a, b, c, d]"
    unfolding parseIPv4Fields_def str
    using v4_loop_number [OF lt, of d "[]"] by (simp add: v4_loop_number [OF lt] dot ne)
  then show ?thesis unfolding ParseIP_def str nodot by simp
qed

end
