(* ===== verification/Nex_Connection.thy ===== *)
theory Nex_Connection
  imports Nex_Prudp_Lite Nex_Station
begin

section \<open>One PRUDP-Lite connection (endpoint.go)\<close>

text \<open>
  The state of a \<open>Connection\<close> and what it does by itself: the handshake's first half, acks,
  fragmentation, reassembly, the window of received sequence numbers and retransmission.
  \<open>c_sent\<close> is the record of the calls of the transport's \<open>send\<close>, in order.  A message of
  several fragments is sent by a goroutine of its own; \<open>c_senders\<close> holds the goroutines that
  still run, each with the bytes left and its next fragment id, and \<open>sender_step\<close> is one turn
  of the loop of one of them.  The pauses between fragments are not modelled: a step may
  happen at any time.  \<open>c_peer\<close> is the IPv4 address and port of \<open>RemoteAddr\<close>.
\<close>

definition stateConnecting :: nat where "stateConnecting = 0"
definition stateConnected :: nat where "stateConnected = 1"
definition stateClosed :: nat where "stateClosed = 2"

lemmas conn_states = stateConnecting_def stateConnected_def stateClosed_def

record connection =
  c_RemoteAddr :: string
  c_peer :: "(bytes \<times> u16) option"
  c_ID :: u32
  c_PID :: u64
  c_CID :: u32
  c_stationURLs :: "station_url option list"
  c_natMap :: u32
  c_natFilter :: u32
  c_sessionKey :: bytes
  c_connectionSig :: bytes
  c_minorVersion :: u8
  c_supportedFunc :: u32
  c_srcType :: u8
  c_srcPort :: u8
  c_dstType :: u8
  c_dstPort :: u8
  c_recvBuf :: bytes
  c_fragBuf :: bytes
  c_recus :: "u16 list"
  c_recusVus :: "bool list"
  c_recusPos :: nat
  c_outReliable :: u16
  c_outPing :: u16
  c_pending :: "(u16, bytes) gomap"
  c_state :: nat
  c_lastSeen :: int
  c_senders :: "(bytes \<times> u8) list"
  c_sent :: "bytes list"

definition window_size :: nat where "window_size = 128"

definition NewConnection :: "string \<Rightarrow> (bytes \<times> u16) option \<Rightarrow> connection" where
  "NewConnection addr peer =
     \<lparr>c_RemoteAddr = addr, c_peer = peer, c_ID = 0, c_PID = 0, c_CID = 0, c_stationURLs = [],
      c_natMap = 0, c_natFilter = 0, c_sessionKey = [], c_connectionSig = [], c_minorVersion = 0, c_supportedFunc = 0,
      c_srcType = 0, c_srcPort = 0, c_dstType = 0, c_dstPort = 0, c_recvBuf = [], c_fragBuf = [],
      c_recus = replicate window_size 0, c_recusVus = replicate window_size False, c_recusPos = 0,
      c_outReliable = 1, c_outPing = 1, c_pending = [], c_state = stateConnecting, c_lastSeen = 0,
      c_senders = [], c_sent = []\<rparr>"

definition c_send :: "bytes \<Rightarrow> connection \<Rightarrow> connection" where
  "c_send b c = c\<lparr>c_sent := c_sent c @ [b]\<rparr>"

definition min8 :: "int \<Rightarrow> u8 \<Rightarrow> u8" where
  "min8 a b = (if a < uint b then word_of_int a else b)"

definition equalBytes :: "bytes \<Rightarrow> bytes \<Rightarrow> bool" where
  "equalBytes a b \<longleftrightarrow> length a = length b \<and> (\<forall>i < length a. a ! i = b ! i)"

definition IdleFor :: "int \<Rightarrow> connection \<Rightarrow> int" where
  "IdleFor now c = (if c_lastSeen c = 0 then 0 else now - c_lastSeen c)"

definition SetNATProps :: "u32 \<Rightarrow> u32 \<Rightarrow> connection \<Rightarrow> connection" where
  "SetNATProps m f c = c\<lparr>c_natMap := m, c_natFilter := f\<rparr>"

definition NATProps :: "connection \<Rightarrow> u32 \<times> u32" where
  "NATProps c = (c_natMap c, c_natFilter c)"

fun station_nat :: "station_url option list \<Rightarrow> u32 \<times> u32" where
  "station_nat [] = (0, 0)"
| "station_nat (None # us) = station_nat us"
| "station_nat (Some u # us) =
     (let nm = su_GetInt u ''natm''; nf = su_GetInt u ''natf'' in
      if nm \<noteq> 0 \<or> nf \<noteq> 0 then (word_of_int nm, word_of_int nf) else station_nat us)"

definition NATBehaviour :: "connection \<Rightarrow> u32 \<times> u32" where
  "NATBehaviour c =
     (if c_natMap c \<noteq> 0 then (c_natMap c, c_natFilter c)
      else if c_natFilter c \<noteq> 0 then (0, c_natFilter c)
      else station_nat (c_stationURLs c))"

definition Stations :: "connection \<Rightarrow> station_url option list" where
  "Stations c = c_stationURLs c"

definition SetStations :: "station_url option list \<Rightarrow> connection \<Rightarrow> connection" where
  "SetStations urls c = c\<lparr>c_stationURLs := urls\<rparr>"

subsection \<open>Acks and the SYN\<close>

definition sendAck :: "packet \<Rightarrow> connection \<Rightarrow> connection" where
  "sendAck p c = c_send (EncodePacket (packet_zero\<lparr>pk_Type := pk_Type p, pk_Flags := FlagACK,
       pk_SourceType := c_srcType c, pk_SourcePort := c_srcPort c, pk_DestType := c_dstType c, pk_DestPort := c_dstPort c,
       pk_FragmentID := pk_FragmentID p, pk_PacketID := pk_PacketID p\<rparr>)) c"

definition processSYN :: "settings \<Rightarrow> bytes \<Rightarrow> packet \<Rightarrow> connection \<Rightarrow> connection" where
  "processSYN s rnd p c0 =
     (let c = c0\<lparr>c_srcType := pk_DestType p, c_srcPort := pk_DestPort p, c_dstType := pk_SourceType p, c_dstPort := pk_SourcePort p,
            c_connectionSig := ConnectionSignature (c_peer c0) rnd,
            c_minorVersion := min8 (PrudpMinorVersion s) (pk_MinorVersion p),
            c_recusVus := replicate window_size False, c_recusPos := 0,
            c_supportedFunc := word_of_int (SupportedFunctions s) AND pk_SupportedFunc p\<rparr>
      in c_send (EncodePacket (packet_zero\<lparr>pk_Type := PacketSYN, pk_Flags := FlagACK OR FlagHasSize,
            pk_SourceType := c_srcType c, pk_SourcePort := c_srcPort c, pk_DestType := c_dstType c, pk_DestPort := c_dstPort c,
            pk_ConnectionSig := c_connectionSig c, pk_MinorVersion := c_minorVersion c, pk_SupportedFunc := c_supportedFunc c\<rparr>)) c)"

definition processPing :: "packet \<Rightarrow> connection \<Rightarrow> connection" where
  "processPing p c =
     (if HasFlag p FlagACK then c else if HasFlag p FlagNeedACK then sendAck p c else c)"

definition ackPackets :: "u16 \<Rightarrow> u16 list \<Rightarrow> connection \<Rightarrow> connection" where
  "ackPackets base extra c =
     c\<lparr>c_pending := filter (\<lambda>(pid, _). pid \<notin> set extra) (filter (\<lambda>(pid, _). \<not> pid \<le> base) (c_pending c))\<rparr>"

text \<open>The sequence numbers a MULTI-ACK lists after its base.\<close>

fun multi_extra :: "nat \<Rightarrow> bytes \<Rightarrow> u16 list" where
  "multi_extra (Suc n) (a # b # bs) = le_word [a, b] # multi_extra n bs"
| "multi_extra _ _ = []"

subsection \<open>Sending\<close>

definition fragSize :: "settings \<Rightarrow> nat" where
  "fragSize s = (if FragmentSize s \<le> 0 then 1300 else nat (FragmentSize s))"

definition data_packet :: "bytes \<Rightarrow> u8 \<Rightarrow> connection \<Rightarrow> packet" where
  "data_packet chunk fragmentID c = packet_zero\<lparr>pk_Type := PacketDATA, pk_Flags := FlagReliable OR FlagNeedACK,
       pk_SourceType := c_srcType c, pk_SourcePort := c_srcPort c, pk_DestType := c_dstType c, pk_DestPort := c_dstPort c,
       pk_FragmentID := fragmentID, pk_PacketID := c_outReliable c, pk_Payload := chunk\<rparr>"

text \<open>The two critical sections of \<open>sendOneFragment\<close>: the first under \<open>mu\<close>, the second under
  \<open>pendingMu\<close>.\<close>

definition emit_fragment :: "bytes \<Rightarrow> u8 \<Rightarrow> connection \<Rightarrow> connection" where
  "emit_fragment chunk fragmentID c =
     c_send (EncodePacket (data_packet chunk fragmentID c)) (c\<lparr>c_outReliable := c_outReliable c + 1\<rparr>)"

definition remember_fragment :: "u16 \<Rightarrow> bytes \<Rightarrow> connection \<Rightarrow> connection" where
  "remember_fragment pid encoded c = c\<lparr>c_pending := AList.update pid encoded (c_pending c)\<rparr>"

definition sendOneFragment :: "bytes \<Rightarrow> u8 \<Rightarrow> connection \<Rightarrow> connection" where
  "sendOneFragment chunk fragmentID c =
     remember_fragment (c_outReliable c) (EncodePacket (data_packet chunk fragmentID c)) (emit_fragment chunk fragmentID c)"

definition sendData :: "settings \<Rightarrow> bytes \<Rightarrow> connection \<Rightarrow> connection" where
  "sendData s data c =
     (if length data \<le> fragSize s then sendOneFragment data 0 c
      else c\<lparr>c_senders := c_senders c @ [(data, 1)]\<rparr>)"

text \<open>One turn of the loop of sender \<open>i\<close>.\<close>

definition sender_step :: "settings \<Rightarrow> nat \<Rightarrow> connection \<Rightarrow> connection" where
  "sender_step s i c =
     (if i \<ge> length (c_senders c) then c
      else let (rest, fid) = c_senders c ! i;
               finish = (\<lambda>d. d\<lparr>c_senders := take i (c_senders d) @ drop (Suc i) (c_senders d)\<rparr>)
           in if c_state c = stateClosed then finish c
              else let chunk = (if length rest > fragSize s then take (fragSize s) rest else rest);
                       fid' = (if length rest > fragSize s then fid else 0);
                       c' = sendOneFragment chunk fid' c
                   in if fid' = 0 then finish c'
                      else c'\<lparr>c_senders := (c_senders c')[i := (drop (fragSize s) rest, fid' + 1)]\<rparr>)"

text \<open>One tick of \<open>retransmitLoop\<close>.\<close>

definition retransmit_tick :: "connection \<Rightarrow> connection" where
  "retransmit_tick c =
     (if c_state c = stateClosed \<or> c_pending c = [] then c else foldl (\<lambda>d enc. c_send enc d) c (map snd (c_pending c)))"

subsection \<open>Receiving\<close>

definition dejaRecu :: "u16 \<Rightarrow> connection \<Rightarrow> bool \<times> connection" where
  "dejaRecu seq c =
     (if list_ex (\<lambda>i. c_recusVus c ! i \<and> c_recus c ! i = seq) [0..<length (c_recus c)] then (True, c)
      else (False, c\<lparr>c_recus := (c_recus c)[c_recusPos c := seq], c_recusVus := (c_recusVus c)[c_recusPos c := True],
                     c_recusPos := (c_recusPos c + 1) mod length (c_recus c)\<rparr>))"

definition reassemble :: "packet \<Rightarrow> connection \<Rightarrow> bytes option \<times> connection" where
  "reassemble p c =
     (let buf = c_fragBuf c @ pk_Payload p in
      if pk_FragmentID p = 0 then (Some buf, c\<lparr>c_fragBuf := []\<rparr>) else (None, c\<lparr>c_fragBuf := buf\<rparr>))"

text \<open>\<open>processData\<close> without the dispatch: the message it hands to \<open>dispatchRMC\<close>, if any.\<close>

definition receiveData :: "packet \<Rightarrow> connection \<Rightarrow> bytes option \<times> connection" where
  "receiveData p c =
     (if HasFlag p FlagMultiACK then
        (let pl = pk_Payload p in
         (None, if length pl \<ge> 4
                then ackPackets (le_word (take 2 (drop 2 pl))) (multi_extra (unat (pl ! 1)) (drop 4 pl)) c else c))
      else if HasFlag p FlagACK then (None, ackPackets (pk_PacketID p) [] c)
      else if HasFlag p FlagNeedACK then
        (case dejaRecu (pk_PacketID p) (sendAck p c) of
           (True, c') \<Rightarrow> (None, c')
         | (False, c') \<Rightarrow> reassemble p c')
      else reassemble p c)"

subsection \<open>The window of received sequence numbers is the last 128 accepted ones\<close>

definition last_n :: "nat \<Rightarrow> 'a list \<Rightarrow> 'a list" where
  "last_n k xs = drop (length xs - k) xs"

text \<open>\<open>window_of acc c\<close>: the ring holds the last accepted numbers of \<open>acc\<close>.\<close>

definition window_of :: "u16 list \<Rightarrow> connection \<Rightarrow> bool" where
  "window_of acc c \<longleftrightarrow> length (c_recus c) = window_size \<and> length (c_recusVus c) = window_size \<and>
     c_recusPos c = length acc mod window_size \<and>
     (\<forall>i < window_size. c_recusVus c ! i \<longleftrightarrow> i < length acc) \<and>
     (\<forall>j < length acc. length acc - window_size \<le> j \<longrightarrow> c_recus c ! (j mod window_size) = acc ! j)"

lemma window_of_new: "window_of [] (NewConnection addr peer)"
  by (simp add: window_of_def NewConnection_def window_size_def)

lemma window_of_SYN: "window_of acc c \<Longrightarrow> window_of [] (processSYN s rnd p c)"
  by (simp add: window_of_def processSYN_def Let_def c_send_def)

lemma ring_slot:
  assumes "i < window_size" "i < n"
  obtains j where "j < n" "n - window_size \<le> j" "j mod window_size = i"
proof -
  define j where "j = i + window_size * ((n - 1 - i) div window_size)"
  have "j \<le> i + (n - 1 - i)" unfolding j_def by simp
  then have "j < n" using assms by linarith
  moreover have "n - 1 - i - window_size * ((n - 1 - i) div window_size) < window_size"
    by (simp add: minus_mult_div_eq_mod window_size_def)
  then have "n - window_size \<le> j" using assms unfolding j_def by linarith
  moreover have "j mod window_size = i" using assms unfolding j_def by simp
  ultimately show thesis by (rule that)
qed

lemma in_last_n: "x \<in> set (last_n k xs) \<longleftrightarrow> (\<exists>j < length xs. length xs - k \<le> j \<and> xs ! j = x)"
proof
  assume "x \<in> set (last_n k xs)"
  then obtain i where "i < length xs - (length xs - k)" "xs ! (length xs - k + i) = x"
    by (auto simp: last_n_def in_set_conv_nth)
  then show "\<exists>j < length xs. length xs - k \<le> j \<and> xs ! j = x"
    by (intro exI [of _ "length xs - k + i"]) auto
next
  assume "\<exists>j < length xs. length xs - k \<le> j \<and> xs ! j = x"
  then obtain j where "j < length xs" "length xs - k \<le> j" "xs ! j = x" by blast
  then show "x \<in> set (last_n k xs)"
    unfolding last_n_def in_set_conv_nth
    by (intro exI [of _ "j - (length xs - k)"]) auto
qed

lemma dejaRecu_mem:
  assumes "window_of acc c"
  shows "fst (dejaRecu seq c) \<longleftrightarrow> seq \<in> set (last_n window_size acc)"
proof -
  have "(\<exists>i < window_size. c_recusVus c ! i \<and> c_recus c ! i = seq) \<longleftrightarrow> seq \<in> set (last_n window_size acc)"
  proof
    assume "\<exists>i < window_size. c_recusVus c ! i \<and> c_recus c ! i = seq"
    then obtain i where i: "i < window_size" "c_recusVus c ! i" "c_recus c ! i = seq" by blast
    then have "i < length acc" using assms by (simp add: window_of_def)
    then obtain j where "j < length acc" "length acc - window_size \<le> j" "j mod window_size = i"
      using ring_slot [OF i(1)] by blast
    then show "seq \<in> set (last_n window_size acc)"
      using assms i(3) unfolding in_last_n window_of_def by metis
  next
    assume "seq \<in> set (last_n window_size acc)"
    then obtain j where j: "j < length acc" "length acc - window_size \<le> j" "acc ! j = seq"
      unfolding in_last_n by blast
    have "j mod window_size < window_size" by (simp add: window_size_def)
    moreover have "j mod window_size < length acc" using j(1) mod_less_eq_dividend le_less_trans by blast
    ultimately show "\<exists>i < window_size. c_recusVus c ! i \<and> c_recus c ! i = seq"
      using assms j unfolding window_of_def by (intro exI [of _ "j mod window_size"]) auto
  qed
  then show ?thesis
    using assms by (auto simp: dejaRecu_def window_of_def list_ex_iff)
qed

lemma distinct_slots:
  assumes "j < n" "n < j + k"
  shows "j mod k \<noteq> n mod (k :: nat)"
proof
  assume "j mod k = n mod k"
  then have "k dvd n - j" using assms by (metis less_imp_le mod_eq_dvd_iff_nat)
  then have "k \<le> n - j" using assms by (intro dvd_imp_le) auto
  then show False using assms by linarith
qed

lemma dejaRecu_window:
  assumes w: "window_of acc c" and new: "\<not> fst (dejaRecu seq c)"
  shows "window_of (acc @ [seq]) (snd (dejaRecu seq c))"
proof -
  let ?n = "length acc"
  have c: "snd (dejaRecu seq c) = c\<lparr>c_recus := (c_recus c)[c_recusPos c := seq],
      c_recusVus := (c_recusVus c)[c_recusPos c := True], c_recusPos := (c_recusPos c + 1) mod length (c_recus c)\<rparr>"
    using new unfolding dejaRecu_def by (simp only: if_distrib [of fst] if_distrib [of snd] fst_conv snd_conv if_False simp_thms split: if_split_asm)
  have pos: "?n mod window_size < window_size" by (simp add: window_size_def)
  have seen: "(c_recusVus c)[?n mod window_size := True] ! i \<longleftrightarrow> i < Suc ?n" if i: "i < window_size" for i
  proof (cases "i = ?n mod window_size")
    case True
    then show ?thesis using w pos by (simp add: window_of_def le_imp_less_Suc)
  next
    case False
    then show ?thesis using w i by (auto simp: window_of_def less_Suc_eq)
  qed
  have slot: "(c_recus c)[?n mod window_size := seq] ! (j mod window_size) = (acc @ [seq]) ! j"
    if j: "j < Suc ?n" "Suc ?n - window_size \<le> j" for j
  proof (cases "j = ?n")
    case True
    then show ?thesis using w pos by (simp add: window_of_def)
  next
    case False
    then have lt: "j < ?n" using j by simp
    then have "j mod window_size \<noteq> ?n mod window_size"
      by (intro distinct_slots) (use j lt in linarith)+
    then show ?thesis using w lt j pos by (simp add: window_of_def nth_append)
  qed
  show ?thesis
    unfolding c using w seen slot pos by (simp add: window_of_def mod_Suc_eq)
qed

subsection \<open>Fragmentation\<close>

text \<open>The fragments a sender produces from the bytes left and its next fragment id, when nothing
  interrupts it.\<close>

function fragments :: "nat \<Rightarrow> u8 \<Rightarrow> bytes \<Rightarrow> (bytes \<times> u8) list" where
  "fragments k fid rest =
     (if k = 0 \<or> length rest \<le> k then [(rest, 0)]
      else if fid = 0 then [(take k rest, 0)]
      else (take k rest, fid) # fragments k (fid + 1) (drop k rest))"
  by pat_completeness auto
termination by (relation "measure (\<lambda>(k, f, r). length r)") auto

declare fragments.simps [simp del]

definition frag_cap :: "u8 \<Rightarrow> nat" where
  "frag_cap fid = (if fid = 0 then 1 else 257 - unat fid)"

lemma byte_lt: "unat (b :: u8) < 256"
  using unsigned_less [where w = b] by simp

lemma frag_cap_Suc: "fid \<noteq> 0 \<Longrightarrow> frag_cap fid = Suc (frag_cap (fid + 1))"
proof -
  assume nz: "fid \<noteq> 0"
  have b: "unat fid < 256" by (rule byte_lt)
  show ?thesis
  proof (cases "unat fid = 255")
    case True
    then have "unat (fid + 1) = 0" by (subst unat_word_ariths) simp
    then have "fid + 1 = 0" by (simp add: unat_eq_zero)
    then show ?thesis using True nz by (simp add: frag_cap_def)
  next
    case False
    then have "unat (fid + 1) = unat fid + 1" using b by (subst unat_word_ariths) simp
    moreover from this have "fid + 1 \<noteq> 0" by auto
    ultimately show ?thesis using b nz by (simp add: frag_cap_def)
  qed
qed

lemma fragments_concat:
  "0 < k \<Longrightarrow> concat (map fst (fragments k fid rest)) = take (k * frag_cap fid) rest"
proof (induction k fid rest rule: fragments.induct)
  case (1 k fid rest)
  consider "length rest \<le> k" | "\<not> length rest \<le> k" "fid = 0" | "\<not> length rest \<le> k" "fid \<noteq> 0" by blast
  then show ?case
  proof cases
    case 1
    have "frag_cap fid \<noteq> 0" using byte_lt [of fid] by (auto simp: frag_cap_def)
    then have "length rest \<le> k * frag_cap fid" using 1 by (metis le_trans mult_le_mono2 nat_mult_1_right Suc_leI neq0_conv One_nat_def)
    then show ?thesis using 1 by (simp add: fragments.simps)
  next
    case 2
    then show ?thesis using "1.prems" by (simp add: fragments.simps frag_cap_def)
  next
    case 3
    have "concat (map fst (fragments k fid rest)) = take k rest @ take (k * frag_cap (fid + 1)) (drop k rest)"
      using 3 1 by (subst fragments.simps) simp
    also have "\<dots> = take (k * frag_cap fid) rest"
      unfolding frag_cap_Suc [OF 3(2)] by (simp add: take_add mult_Suc_right)
    finally show ?thesis .
  qed
qed

lemma fragments_ids: "\<exists>init chunk. fragments k fid rest = init @ [(chunk, 0)] \<and> (\<forall>x \<in> set init. snd x \<noteq> 0)"
proof (induction k fid rest rule: fragments.induct)
  case (1 k fid rest)
  show ?case
  proof (cases "k = 0 \<or> length rest \<le> k \<or> fid = 0")
    case True
    then show ?thesis by (subst fragments.simps) auto
  next
    case False
    then obtain init chunk where "fragments k (fid + 1) (drop k rest) = init @ [(chunk, 0)]" "\<forall>x \<in> set init. snd x \<noteq> 0"
      using 1 by auto
    with False show ?thesis
      by (subst fragments.simps) (auto intro!: exI [of _ "(take k rest, fid) # init"])
  qed
qed

lemma fragments_size: "x \<in> set (fragments k fid rest) \<Longrightarrow> 0 < k \<Longrightarrow> length (fst x) \<le> k"
  by (induction k fid rest rule: fragments.induct) (subst (asm) (2) fragments.simps, auto split: if_splits)

text \<open>A list of fragments sent in a row.\<close>

definition send_fragments :: "(bytes \<times> u8) list \<Rightarrow> connection \<Rightarrow> connection" where
  "send_fragments fr c = foldl (\<lambda>d (chunk, fid). sendOneFragment chunk fid d) c fr"

lemma sendOneFragment_senders [simp]:
  "sendOneFragment chunk fid (c\<lparr>c_senders := x\<rparr>) = (sendOneFragment chunk fid c)\<lparr>c_senders := x\<rparr>"
  "c_senders (sendOneFragment chunk fid c) = c_senders c"
  "c_state (sendOneFragment chunk fid c) = c_state c"
  by (simp_all add: sendOneFragment_def remember_fragment_def emit_fragment_def c_send_def data_packet_def)

lemma fragSize_pos: "0 < fragSize s"
  by (simp add: fragSize_def)

lemma sender_runs:
  assumes "c_state c \<noteq> stateClosed" "c_senders c = [(rest, fid)]"
  shows "(sender_step s 0 ^^ length (fragments (fragSize s) fid rest)) c
       = send_fragments (fragments (fragSize s) fid rest) (c\<lparr>c_senders := []\<rparr>)"
  using assms
proof (induction "fragSize s" fid rest arbitrary: c rule: fragments.induct)
  case (1 fid rest)
  let ?k = "fragSize s"
  show ?case
  proof (cases "length rest \<le> ?k \<or> fid = 0")
    case True
    then show ?thesis
      using 1 fragSize_pos [of s]
      by (subst (1 2) fragments.simps) (auto simp: sender_step_def send_fragments_def Let_def)
  next
    case False
    let ?fr = "fragments ?k (fid + 1) (drop ?k rest)" and ?d = "(sendOneFragment (take ?k rest) fid c)\<lparr>c_senders := [(drop ?k rest, fid + 1)]\<rparr>"
    have fr: "fragments ?k fid rest = (take ?k rest, fid) # ?fr"
      using False fragSize_pos [of s] by (subst fragments.simps) auto
    have step: "sender_step s 0 c = ?d"
      using False 1 by (simp add: sender_step_def Let_def)
    have "(sender_step s 0 ^^ length ?fr) ?d = send_fragments ?fr (?d\<lparr>c_senders := []\<rparr>)"
      by (rule "1.hyps") (use False 1 fragSize_pos [of s] in auto)
    then show ?thesis
      unfolding fr by (simp only: list.size funpow_Suc_right o_def step) (simp add: send_fragments_def funpow_swap1 step)
  qed
qed

subsection \<open>Reassembly\<close>

text \<open>The packets of a list of fragments, numbered from \<open>n\<close>.\<close>

fun number_packets :: "connection \<Rightarrow> u16 \<Rightarrow> (bytes \<times> u8) list \<Rightarrow> packet list" where
  "number_packets c n [] = []"
| "number_packets c n ((chunk, fid) # fr) = data_packet chunk fid (c\<lparr>c_outReliable := n\<rparr>) # number_packets c (n + 1) fr"

text \<open>\<open>receive_all\<close>: the messages completed by a list of packets, in order.\<close>

fun receive_all :: "packet list \<Rightarrow> connection \<Rightarrow> bytes list \<times> connection" where
  "receive_all [] c = ([], c)"
| "receive_all (p # ps) c =
     (case receiveData p c of (m, c') \<Rightarrow> (case receive_all ps c' of (ms, c'') \<Rightarrow>
        ((case m of None \<Rightarrow> ms | Some x \<Rightarrow> x # ms), c'')))"

lemma data_packet_ports [simp]:
  "data_packet chunk fid (c\<lparr>c_outReliable := n\<rparr>\<lparr>c_sent := x\<rparr>) = data_packet chunk fid (c\<lparr>c_outReliable := n\<rparr>)"
  by (simp add: data_packet_def)

lemma number_packets_cong:
  "c_srcType c = c_srcType d \<Longrightarrow> c_srcPort c = c_srcPort d \<Longrightarrow> c_dstType c = c_dstType d \<Longrightarrow> c_dstPort c = c_dstPort d \<Longrightarrow>
   number_packets c n fr = number_packets d n fr"
  by (induction fr arbitrary: n) (auto simp: data_packet_def)

lemma send_fragments_sent:
  "c_sent (send_fragments fr c) = c_sent c @ map EncodePacket (number_packets c (c_outReliable c) fr) \<and>
   c_outReliable (send_fragments fr c) = c_outReliable c + of_nat (length fr)"
proof (induction fr arbitrary: c)
  case Nil
  then show ?case by (simp add: send_fragments_def)
next
  case (Cons x fr)
  obtain chunk fid where x: "x = (chunk, fid)" by (cases x)
  let ?d = "sendOneFragment chunk fid c"
  have d: "c_outReliable ?d = c_outReliable c + 1" "c_sent ?d = c_sent c @ [EncodePacket (data_packet chunk fid c)]"
    "c_srcType ?d = c_srcType c" "c_srcPort ?d = c_srcPort c" "c_dstType ?d = c_dstType c" "c_dstPort ?d = c_dstPort c"
    by (simp_all add: sendOneFragment_def remember_fragment_def emit_fragment_def c_send_def)
  have "send_fragments (x # fr) c = send_fragments fr ?d" by (simp add: send_fragments_def x)
  moreover have "number_packets ?d n fr = number_packets c n fr" for n
    by (rule number_packets_cong) (simp_all add: d)
  ultimately show ?case
    using Cons.IH [of ?d] d by (simp add: x ac_simps)
qed

lemma data_packet_flags: "\<not> HasFlag (data_packet chunk fid c) FlagMultiACK" "\<not> HasFlag (data_packet chunk fid c) FlagACK"
  "HasFlag (data_packet chunk fid c) FlagNeedACK"
  by (simp_all add: HasFlag_def data_packet_def packet_flags packet_zero_def)

lemma last_n_subset: "set (last_n k (xs @ ys)) \<subseteq> set (last_n k xs) \<union> set ys"
  by (auto simp: last_n_def dest: in_set_dropD) (metis (no_types, lifting) diff_diff_left diff_le_self add.commute
     diff_le_mono drop_drop le_add_diff_inverse2 in_set_dropD set_drop_subset_set_drop subsetD diff_le_mono2 trans_le_add1 le_add2)

text \<open>A duplicate of a packet received in the window is acknowledged and otherwise ignored.\<close>

lemma window_of_sendAck [simp]: "window_of acc (sendAck p c) = window_of acc c"
  by (simp add: window_of_def sendAck_def c_send_def)

lemma receiveData_duplicate:
  assumes "window_of acc c" "pk_PacketID p \<in> set (last_n window_size acc)"
    "\<not> HasFlag p FlagMultiACK" "\<not> HasFlag p FlagACK" "HasFlag p FlagNeedACK"
  shows "receiveData p c = (None, sendAck p c)"
proof -
  have "fst (dejaRecu (pk_PacketID p) (sendAck p c))"
    using assms dejaRecu_mem [of acc "sendAck p c"] by simp
  then have "dejaRecu (pk_PacketID p) (sendAck p c) = (True, sendAck p c)"
    by (simp add: dejaRecu_def split: if_splits)
  then show ?thesis using assms by (simp add: receiveData_def)
qed

lemma receiveData_fresh:
  assumes "window_of acc c" "pk_PacketID p \<notin> set (last_n window_size acc)"
    "\<not> HasFlag p FlagMultiACK" "\<not> HasFlag p FlagACK" "HasFlag p FlagNeedACK"
  obtains c' where "receiveData p c = reassemble p c'" "window_of (acc @ [pk_PacketID p]) c'" "c_fragBuf c' = c_fragBuf c"
proof -
  let ?d = "dejaRecu (pk_PacketID p) (sendAck p c)"
  have new: "\<not> fst ?d" using assms dejaRecu_mem [of acc "sendAck p c"] by simp
  show thesis
  proof (rule that [of "snd ?d"])
    show "receiveData p c = reassemble p (snd ?d)" using assms new by (auto simp: receiveData_def split: prod.split)
    show "window_of (acc @ [pk_PacketID p]) (snd ?d)" using assms new by (intro dejaRecu_window) simp_all
    show "c_fragBuf (snd ?d) = c_fragBuf c" by (simp add: dejaRecu_def sendAck_def c_send_def)
  qed
qed

lemma seq_distinct: "Suc i < 2 ^ 16 \<Longrightarrow> n + 1 + of_nat i \<noteq> (n :: u16)"
proof
  assume i: "Suc i < 2 ^ 16" and "n + 1 + of_nat i = n"
  then have "(of_nat (Suc i) :: u16) = 0" by (metis add.assoc add_cancel_left_right of_nat_Suc)
  then have "2 ^ 16 dvd Suc i" by (simp only: word_of_nat_eq_0_iff) simp
  then have "2 ^ 16 \<le> Suc i" by (rule dvd_imp_le) simp
  then show False using i by simp
qed

lemma data_packet_id [simp]: "pk_PacketID (data_packet chunk fid (e\<lparr>c_outReliable := n\<rparr>)) = n"
  "pk_Payload (data_packet chunk fid e) = chunk" "pk_FragmentID (data_packet chunk fid e) = fid"
  by (simp_all add: data_packet_def packet_zero_def)

lemma receive_numbered:
  assumes "window_of acc c" "\<And>i. i < length fr \<Longrightarrow> n + of_nat i \<notin> set (last_n window_size acc)" "length fr \<le> 2 ^ 16"
    "fr = init @ [(chunk, 0)]" "\<And>x. x \<in> set init \<Longrightarrow> snd x \<noteq> 0"
  shows "\<exists>c'. receive_all (number_packets e n fr) c = ([c_fragBuf c @ concat (map fst fr)], c') \<and> c_fragBuf c' = []"
  using assms
proof (induction fr arbitrary: acc c n init)
  case Nil
  then show ?case by simp
next
  case (Cons x fr)
  obtain ch fid where x: "x = (ch, fid)" by (cases x)
  let ?p = "data_packet ch fid (e\<lparr>c_outReliable := n\<rparr>)"
  have fresh: "pk_PacketID ?p \<notin> set (last_n window_size acc)" using Cons.prems(2) [of 0] by simp
  obtain c' where r: "receiveData ?p c = reassemble ?p c'" and w: "window_of (acc @ [n]) c'" and fb: "c_fragBuf c' = c_fragBuf c"
    using receiveData_fresh [OF Cons.prems(1) fresh data_packet_flags] by auto
  show ?case
  proof (cases init)
    case Nil
    then show ?thesis using Cons.prems(4) r fb by (simp add: x reassemble_def Let_def)
  next
    case (Cons y ys)
    then have y: "x = y" "fr = ys @ [(chunk, 0)]" using Cons.prems(4) by auto
    then have nz: "fid \<noteq> 0" using Cons.prems(5) [of x] Cons x by auto
    let ?d = "c'\<lparr>c_fragBuf := c_fragBuf c @ ch\<rparr>"
    have w': "window_of (acc @ [n]) ?d" using w by (simp add: window_of_def)
    have fresh': "n + 1 + of_nat i \<notin> set (last_n window_size (acc @ [n]))" if "i < length fr" for i
      using Cons.prems(2) [of "Suc i"] Cons.prems(3) that seq_distinct [of i n] last_n_subset [of window_size acc "[n]"]
      by (auto simp: ac_simps)
    have ok: "snd z \<noteq> 0" if "z \<in> set ys" for z using Cons.prems(5) [of z] that Cons by simp
    have len: "length fr \<le> 2 ^ 16" using Cons.prems(3) by simp
    obtain c'' where "receive_all (number_packets e (n + 1) fr) ?d = ([c_fragBuf ?d @ concat (map fst fr)], c'')" "c_fragBuf c'' = []"
      using Cons.IH [OF w' fresh' len y(2) ok] by blast
    moreover have "receiveData ?p c = (None, ?d)" using r nz fb by (simp add: reassemble_def Let_def)
    ultimately show ?thesis by (simp add: x)
  qed
qed

text \<open>What a lone sender puts on the wire is put together again by the receiver, up to 256 fragments.\<close>

lemma fragments_length: "length (fragments k fid rest) \<le> frag_cap fid"
proof (induction k fid rest rule: fragments.induct)
  case (1 k fid rest)
  have "1 \<le> frag_cap fid" using byte_lt [of fid] by (auto simp: frag_cap_def)
  then show ?case using 1 frag_cap_Suc [of fid] by (subst fragments.simps) auto
qed

lemma fragments_reassembled:
  assumes "window_of acc c" "\<And>i. i < 256 \<Longrightarrow> n + of_nat i \<notin> set (last_n window_size acc)" "c_fragBuf c = []" "0 < k"
  shows "\<exists>c'. receive_all (number_packets e n (fragments k 1 data)) c = ([take (k * 256) data], c') \<and> c_fragBuf c' = []"
proof -
  obtain init chunk where fr: "fragments k 1 data = init @ [(chunk, 0)]" "\<forall>x \<in> set init. snd x \<noteq> 0"
    using fragments_ids by blast
  have cap: "frag_cap 1 = 256" by (simp add: frag_cap_def)
  have "length (fragments k 1 data) \<le> 256" using fragments_length [of k 1 data] cap by simp
  then show ?thesis
    using receive_numbered [OF assms(1) _ _ fr(1), of n e] fr(2) assms(2,3) fragments_concat [OF assms(4), of 1 data] cap
    by auto
qed

lemma data_packet_ok:
  assumes "unat (c_srcType c) < 16" "unat (c_dstType c) < 16" "length chunk < 2 ^ 16"
  shows "lite_packet_ok (data_packet chunk fid c)"
  using assms by (simp add: lite_packet_ok_def data_packet_def packet_zero_def packet_types packet_flags)

lemma number_packets_ok:
  assumes "unat (c_srcType c) < 16" "unat (c_dstType c) < 16" "\<And>x. x \<in> set fr \<Longrightarrow> length (fst x) < 2 ^ 16" "p \<in> set (number_packets c n fr)"
  shows "lite_packet_ok p"
  using assms(3,4)
proof (induction fr arbitrary: n)
  case (Cons x fr)
  then show ?case using assms(1,2) by (cases x) (force intro: data_packet_ok)
qed simp

subsection \<open>Acknowledgement\<close>

lemma map_of_filter_key: "map_of (filter (\<lambda>(k, _). P k) m) k = (if P k then map_of m k else None)"
  by (induction m) auto

lemma ackPackets_pending:
  "map_of (c_pending (ackPackets base extra c)) pid = (if pid \<le> base \<or> pid \<in> set extra then None else map_of (c_pending c) pid)"
  by (simp add: ackPackets_def map_of_filter_key del: filter_filter)

lemma gomap_wf_pending [inv_intros]:
  "gomap_wf (c_pending c) \<Longrightarrow> gomap_wf (c_pending (ackPackets base extra c))"
  "gomap_wf (c_pending c) \<Longrightarrow> gomap_wf (c_pending (sendOneFragment chunk fid c))"
  by (auto simp: ackPackets_def sendOneFragment_def remember_fragment_def emit_fragment_def c_send_def)

subsection \<open>A whole message\<close>

text \<open>How many turns a lone message needs: none when it fits one fragment.\<close>

definition sender_turns :: "settings \<Rightarrow> bytes \<Rightarrow> nat" where
  "sender_turns s data = (if length data \<le> fragSize s then 0 else length (fragments (fragSize s) 1 data))"

lemma send_whole:
  assumes "c_state c \<noteq> stateClosed" "c_senders c = []"
  shows "(sender_step s 0 ^^ sender_turns s data) (sendData s data c) = send_fragments (fragments (fragSize s) 1 data) c"
proof (cases "length data \<le> fragSize s")
  case True
  then show ?thesis by (simp add: sender_turns_def sendData_def send_fragments_def fragments.simps)
next
  case False
  let ?d = "c\<lparr>c_senders := [(data, 1)]\<rparr>"
  have sd: "sendData s data c = ?d" using False assms by (simp add: sendData_def)
  have nil: "c\<lparr>c_senders := []\<rparr> = c" using assms(2) by (metis connection.surjective connection.update_convs(27))
  have "(sender_step s 0 ^^ sender_turns s data) ?d = send_fragments (fragments (fragSize s) 1 data) (?d\<lparr>c_senders := []\<rparr>)"
    using False assms sender_runs [of ?d data 1 s] by (simp add: sender_turns_def)
  moreover have "?d\<lparr>c_senders := []\<rparr> = c" using nil by simp
  ultimately show ?thesis unfolding sd by simp
qed

lemma send_fragments_senders: "c_senders (send_fragments fr c) = c_senders c"
proof (induction fr arbitrary: c)
  case (Cons x fr)
  then show ?case by (cases x) (simp add: send_fragments_def)
qed (simp add: send_fragments_def)

definition fresh_for :: "u16 \<Rightarrow> u16 list \<Rightarrow> bool" where
  "fresh_for n acc \<longleftrightarrow> (\<forall>i < 256. n + of_nat i \<notin> set (last_n window_size acc))"

lemma message_arrives:
  assumes c: "c_state c \<noteq> stateClosed" "c_senders c = []" "unat (c_srcType c) < 16" "unat (c_dstType c) < 16"
    and k: "fragSize s < 2 ^ 16"
    and d: "window_of acc d" "fresh_for (c_outReliable c) acc" "c_fragBuf d = []"
    and c': "c' = (sender_step s 0 ^^ sender_turns s data) (sendData s data c)"
  shows "c_senders c' = []"
    "\<exists>ps d'. c_sent c' = c_sent c @ map EncodePacket ps \<and> DecodePackets (concat (map EncodePacket ps)) = (ps, [], None) \<and>
       receive_all ps d = ([take (fragSize s * 256) data], d') \<and> c_fragBuf d' = []"
proof -
  let ?fr = "fragments (fragSize s) 1 data" and ?n = "c_outReliable c"
  have c'': "c' = send_fragments ?fr c" using send_whole [OF c(1,2)] c' by simp
  show "c_senders c' = []" by (simp add: c'' send_fragments_senders c)
  have sent: "c_sent c' = c_sent c @ map EncodePacket (number_packets c ?n ?fr)"
    using send_fragments_sent [of ?fr c] by (simp add: c'')
  have "lite_packet_ok p" if "p \<in> set (number_packets c ?n ?fr)" for p
    using number_packets_ok [OF c(3,4) _ that] fragments_size [of _ "fragSize s" 1 data] fragSize_pos [of s] k le_less_trans by blast
  then have dec: "DecodePackets (concat (map EncodePacket (number_packets c ?n ?fr))) = (number_packets c ?n ?fr, [], None)"
    by (rule decode_packets)
  obtain d' where "receive_all (number_packets c ?n ?fr) d = ([take (fragSize s * 256) data], d')" "c_fragBuf d' = []"
    using fragments_reassembled [OF d(1) _ d(3) fragSize_pos] d(2) unfolding fresh_for_def by blast
  with sent dec show "\<exists>ps d'. c_sent c' = c_sent c @ map EncodePacket ps \<and> DecodePackets (concat (map EncodePacket ps)) = (ps, [], None) \<and>
       receive_all ps d = ([take (fragSize s * 256) data], d') \<and> c_fragBuf d' = []" by blast
qed

end
