(* ===== verification/Nex_Relay.thy ===== *)
theory Nex_Relay
  imports Nex_Ip Nex_Connection
begin

section \<open>The relay of player pairs (relaypair.go, relaybesoin.go, relayvu.go, relayvolontaires.go)\<close>

text \<open>
  Two players who cannot reach each other directly are given a UDP port of the server that
  forwards whatever one of them sends to the other.  Who may be relayed
  (relayvolontaires.go), who needs it (relaybesoin.go), which pairs were relayed lately
  (relayvu.go) and the open ports (relaypair.go) are the package variables; they are the
  record \<open>relay_state\<close>.  A port forwards in a goroutine of its own: \<open>boucle_step\<close> is one turn
  of its loop.  Opening a UDP socket can fail, so \<open>PairRelayFor\<close> takes the outcome for each
  port as the argument \<open>listens\<close>.  Times are nanoseconds and \<open>None\<close> is Go's zero time, from
  which every duration is the greatest one.  A pair socket is udp4, so its peers have IPv4
  addresses, four bytes.
\<close>

definition minute :: int where "minute = 60 * 10 ^ 9"

definition since :: "int \<Rightarrow> int option \<Rightarrow> int" where
  "since now t = (case t of None \<Rightarrow> 2 ^ 63 - 1 | Some x \<Rightarrow> now - x)"

subsection \<open>State\<close>

record udp_addr =
  ua_IP :: bytes
  ua_Port :: int

definition udp_addr_str :: "udp_addr \<Rightarrow> string" where
  "udp_addr_str a = ip4_str (ua_IP a) @ '':'' @ Itoa (ua_Port a)"

definition same_addr :: "udp_addr \<Rightarrow> udp_addr \<Rightarrow> bool" where
  "same_addr a b \<longleftrightarrow> ua_Port a = ua_Port b \<and> ua_IP a = ua_IP b"

record pair_totaux =
  tt_Recus :: u64
  tt_Relayes :: u64
  tt_Rejets :: u64
  tt_Remaps :: u64
  tt_PairesOuvertes :: u64
  tt_PairesMuettes :: u64

record pair_socket =
  ps_port :: int
  ps_pidLo :: u64
  ps_pidHi :: u64
  ps_attendus :: "string list"
  ps_vus :: "udp_addr option list"
  ps_dernier :: "int option"
  ps_recus :: u64
  ps_relayes :: u64
  ps_relayesVers :: "u64 list"
  ps_rejets :: u64
  ps_remaps :: u64
  ps_rejetVu :: "(string, u64) gomap option"

record besoin_etat =
  be_echecs :: int
  be_dernier :: "int option"
  be_essais :: int
  be_reussites :: int

record relay_state =
  rl_host :: string
  rl_portBase :: int
  rl_portSpan :: int
  rl_socks :: "(int, pair_socket) gomap"
  rl_ports :: "(u64 \<times> u64, int) gomap"
  rl_reaping :: bool
  rl_total :: pair_totaux
  rl_volontaires :: "(u64, bool) gomap"
  rl_forces :: "(u64, bool) gomap"
  rl_ouvert :: bool
  rl_vues :: "(u64 \<times> u64, int) gomap"
  rl_vuMenage :: "int option"
  rl_besoins :: "(u64, besoin_etat) gomap"
  rl_besoinNet :: "int option"

definition relay_start :: relay_state where
  "relay_start = \<lparr>rl_host = [], rl_portBase = 0, rl_portSpan = 0, rl_socks = [], rl_ports = [], rl_reaping = False,
     rl_total = \<lparr>tt_Recus = 0, tt_Relayes = 0, tt_Rejets = 0, tt_Remaps = 0, tt_PairesOuvertes = 0, tt_PairesMuettes = 0\<rparr>,
     rl_volontaires = [], rl_forces = [], rl_ouvert = False, rl_vues = [], rl_vuMenage = None, rl_besoins = [], rl_besoinNet = None\<rparr>"

subsection \<open>Who may be relayed (relayvolontaires.go)\<close>

definition pid_flags :: "u64 list \<Rightarrow> (u64, bool) gomap \<Rightarrow> (u64, bool) gomap" where
  "pid_flags pids m = foldl (\<lambda>m p. if p \<noteq> 0 then AList.update p True m else m) m pids"

definition SetRelayVolontaires :: "u64 list \<Rightarrow> u64 list \<Rightarrow> bool \<Rightarrow> relay_state \<Rightarrow> relay_state" where
  "SetRelayVolontaires pids forces ouvert st =
     st\<lparr>rl_volontaires := pid_flags forces (pid_flags pids []), rl_forces := pid_flags forces [], rl_ouvert := ouvert\<rparr>"

definition RelayVolontaire :: "u64 \<Rightarrow> relay_state \<Rightarrow> bool" where
  "RelayVolontaire pid st \<longleftrightarrow> rl_ouvert st \<or> map_of (rl_volontaires st) pid = Some True"

definition RelayForce :: "u64 \<Rightarrow> relay_state \<Rightarrow> bool" where
  "RelayForce pid st \<longleftrightarrow> map_of (rl_forces st) pid = Some True"

definition RelayVolontairesStats :: "relay_state \<Rightarrow> nat \<times> bool" where
  "RelayVolontairesStats st = (length (rl_volontaires st), rl_ouvert st)"

definition RelayVolontairesListe :: "relay_state \<Rightarrow> u64 list" where
  "RelayVolontairesListe st = sort (map fst (rl_volontaires st))"

subsection \<open>Who needs it (relaybesoin.go)\<close>

definition besoinFenetre :: int where "besoinFenetre = 15 * minute"
definition besoinSeuil :: int where "besoinSeuil = 2"
definition jamaisConnecteSeuil :: int where "jamaisConnecteSeuil = 10"

definition NotePercage :: "int \<Rightarrow> u64 \<Rightarrow> bool \<Rightarrow> relay_state \<Rightarrow> relay_state" where
  "NotePercage now pid reussi st =
     (if pid = 0 then st
      else let st1 = (if since now (rl_besoinNet st) > minute
                then st\<lparr>rl_besoins := filter (\<lambda>(_, v). since now (be_dernier v) \<le> besoinFenetre \<or> \<not> be_reussites v > 0) (rl_besoins st),
                        rl_besoinNet := Some now\<rparr>
                else st);
               fond = (case map_of (rl_besoins st1) pid of Some b \<Rightarrow> b
                       | None \<Rightarrow> \<lparr>be_echecs = 0, be_dernier = None, be_essais = 0, be_reussites = 0\<rparr>);
               f1 = fond\<lparr>be_essais := be_essais fond + 1\<rparr>;
               f2 = (if reussi then f1\<lparr>be_reussites := be_reussites f1 + 1, be_echecs := 0, be_dernier := Some now\<rparr>
                     else f1\<lparr>be_echecs := (if since now (be_dernier f1) > besoinFenetre then 0 else be_echecs f1) + 1, be_dernier := Some now\<rparr>)
           in st1\<lparr>rl_besoins := AList.update pid f2 (rl_besoins st1)\<rparr>)"

definition eligible :: "int \<Rightarrow> besoin_etat \<Rightarrow> bool" where
  "eligible now b \<longleftrightarrow> be_echecs b \<ge> besoinSeuil \<and> since now (be_dernier b) \<le> besoinFenetre"

definition BesoinDeRelais :: "int \<Rightarrow> u64 \<Rightarrow> relay_state \<Rightarrow> bool" where
  "BesoinDeRelais now pid st = (case map_of (rl_besoins st) pid of None \<Rightarrow> False | Some b \<Rightarrow> eligible now b)"

definition BesoinStats :: "int \<Rightarrow> relay_state \<Rightarrow> nat" where
  "BesoinStats now st = length (filter (\<lambda>(_, b). eligible now b) (rl_besoins st))"

definition BesoinListe :: "int \<Rightarrow> relay_state \<Rightarrow> u64 list" where
  "BesoinListe now st = sort (map fst (filter (\<lambda>(_, b). eligible now b) (rl_besoins st)))"

definition CandidatsRelais :: "relay_state \<Rightarrow> u64 list" where
  "CandidatsRelais st = sort (map fst (filter (\<lambda>(_, b). be_essais b \<ge> jamaisConnecteSeuil \<and> be_reussites b = 0) (rl_besoins st)))"

subsection \<open>Which pairs were relayed (relayvu.go)\<close>

definition relayVuTTL :: int where "relayVuTTL = 5 * minute"

definition clePaire :: "u64 \<Rightarrow> u64 \<Rightarrow> u64 \<times> u64" where
  "clePaire a b = (if a > b then (b, a) else (a, b))"

definition NoterPaireRelayee :: "int \<Rightarrow> u64 \<Rightarrow> u64 \<Rightarrow> relay_state \<Rightarrow> relay_state" where
  "NoterPaireRelayee now a b st =
     (if a = 0 \<or> b = 0 then st
      else let st1 = (if since now (rl_vuMenage st) > minute
                then st\<lparr>rl_vues := filter (\<lambda>(_, t). now - t \<le> relayVuTTL) (rl_vues st), rl_vuMenage := Some now\<rparr> else st)
           in st1\<lparr>rl_vues := AList.update (clePaire a b) now (rl_vues st1)\<rparr>)"

definition PaireRelayee :: "int \<Rightarrow> u64 \<Rightarrow> u64 \<Rightarrow> relay_state \<Rightarrow> bool" where
  "PaireRelayee now a b st = (case map_of (rl_vues st) (clePaire a b) of None \<Rightarrow> False | Some t \<Rightarrow> now - t \<le> relayVuTTL)"

subsection \<open>The ports (relaypair.go)\<close>

definition pairRelayTTL :: int where "pairRelayTTL = 2 * minute"

definition PairRelayActive :: "relay_state \<Rightarrow> bool" where
  "PairRelayActive st \<longleftrightarrow> rl_host st \<noteq> [] \<and> rl_portSpan st > 0"

text \<open>FNV-1a over the eight bytes of a PID, least significant first.\<close>

definition fnv :: "u64 \<Rightarrow> u64 \<Rightarrow> u64" where
  "fnv h v = foldl (\<lambda>h i. (h XOR (drop_bit (8 * i) v AND 0xFF)) * 1099511628211) h [0..<8]"

definition pairPortFor :: "u64 \<Rightarrow> u64 \<Rightarrow> relay_state \<Rightarrow> int option" where
  "pairPortFor a b st =
     (if \<not> PairRelayActive st then None
      else let (lo, hi) = clePaire a b; h = fnv (fnv 14695981039346656037 lo) hi
           in Some (rl_portBase st + uint h mod rl_portSpan st))"

text \<open>The first of eight ports, from the wished one, that is free or the pair's own.\<close>

definition free_port :: "(u64 \<times> u64) \<Rightarrow> int \<Rightarrow> relay_state \<Rightarrow> int option" where
  "free_port cle souhaite st = find (\<lambda>cand. case map_of (rl_socks st) cand of None \<Rightarrow> True
        | Some occupant \<Rightarrow> ps_pidLo occupant = fst cle \<and> ps_pidHi occupant = snd cle)
      (map (\<lambda>i. rl_portBase st + (souhaite - rl_portBase st + int i) mod rl_portSpan st) [0..<8])"

definition new_socket :: "int \<Rightarrow> u64 \<times> u64 \<Rightarrow> pair_socket" where
  "new_socket port cle = \<lparr>ps_port = port, ps_pidLo = fst cle, ps_pidHi = snd cle, ps_attendus = [[], []], ps_vus = [None, None],
     ps_dernier = None, ps_recus = 0, ps_relayes = 0, ps_relayesVers = [0, 0], ps_rejets = 0, ps_remaps = 0, ps_rejetVu = None\<rparr>"

text \<open>Finding or opening the socket of the pair, with \<open>pairSocksMu\<close> held.\<close>

definition claim_socket :: "(int \<Rightarrow> bool) \<Rightarrow> u64 \<times> u64 \<Rightarrow> int \<Rightarrow> relay_state \<Rightarrow> (int \<times> pair_socket) option \<times> relay_state" where
  "claim_socket listens cle souhaite st =
     (case (case map_of (rl_ports st) cle of Some p \<Rightarrow> Some p | None \<Rightarrow> free_port cle souhaite st) of
        None \<Rightarrow> (None, st)
      | Some port \<Rightarrow>
         (case map_of (rl_socks st) port of
            None \<Rightarrow>
              if \<not> listens port then (None, st)
              else let ps = new_socket port cle in
                (Some (port, ps), st\<lparr>rl_socks := AList.update port ps (rl_socks st), rl_ports := AList.update cle port (rl_ports st),
                   rl_reaping := True,
                   rl_total := (rl_total st)\<lparr>tt_PairesOuvertes := tt_PairesOuvertes (rl_total st) + 1\<rparr>\<rparr>)
          | Some ps \<Rightarrow>
              if ps_pidLo ps \<noteq> fst cle \<or> ps_pidHi ps \<noteq> snd cle then (None, st)
              else (Some (port, ps), st\<lparr>rl_reaping := True\<rparr>)))"

text \<open>The conditions of the detour, and what arming the socket sets.\<close>

definition may_relay :: "int \<Rightarrow> u64 \<Rightarrow> u64 \<Rightarrow> relay_state \<Rightarrow> bool" where
  "may_relay now pidA pidB st =
     (if \<not> RelayVolontaire pidA st \<or> \<not> RelayVolontaire pidB st then False
      else if \<not> BesoinDeRelais now pidA st \<and> \<not> BesoinDeRelais now pidB st \<and> \<not> RelayForce pidA st \<and> \<not> RelayForce pidB st then False
      else True)"

definition arm_socket :: "int \<Rightarrow> u64 \<Rightarrow> u64 \<Rightarrow> string \<Rightarrow> string \<Rightarrow> pair_socket \<Rightarrow> pair_socket" where
  "arm_socket now pidA pidB ipA ipB ps =
     ps\<lparr>ps_attendus := (if pidA > pidB then [ipB, ipA] else [ipA, ipB]), ps_dernier := Some now,
        ps_rejetVu := (case ps_rejetVu ps of None \<Rightarrow> Some [] | m \<Rightarrow> m)\<rparr>"

definition PairRelayFor :: "(int \<Rightarrow> bool) \<Rightarrow> int \<Rightarrow> u64 \<Rightarrow> u64 \<Rightarrow> string \<Rightarrow> string \<Rightarrow> relay_state \<Rightarrow> (string \<times> int) option \<times> relay_state" where
  "PairRelayFor listens now pidA pidB ipA ipB st =
     (if \<not> PairRelayActive st \<or> ipA = [] \<or> ipB = [] then (None, st)
      else if \<not> may_relay now pidA pidB st then (None, st)
      else case pairPortFor pidA pidB st of None \<Rightarrow> (None, st)
        | Some souhaite \<Rightarrow>
           (case claim_socket listens (clePaire pidA pidB) souhaite st of
              (None, st1) \<Rightarrow> (None, st1)
            | (Some (port, ps), st1) \<Rightarrow>
                (Some (rl_host st, port), NoterPaireRelayee now pidA pidB
                   (st1\<lparr>rl_socks := AList.update port (arm_socket now pidA pidB ipA ipB ps) (rl_socks st1)\<rparr>))))"

subsection \<open>Forwarding\<close>

definition memeReseau :: "string \<Rightarrow> string \<Rightarrow> bool" where
  "memeReseau a b = (case (ParseIP a, ParseIP b) of
     (Some x, Some y) \<Rightarrow> (case (To4 x, To4 y) of (Some v, Some w) \<Rightarrow> v ! 0 = w ! 0 \<and> v ! 1 = w ! 1 \<and> v ! 2 = w ! 2 | _ \<Rightarrow> False)
   | _ \<Rightarrow> False)"

definition admis :: "string \<Rightarrow> string \<Rightarrow> bool" where
  "admis attendu src \<longleftrightarrow> attendu = src \<or> memeReseau attendu src"

definition sits :: "udp_addr \<Rightarrow> pair_socket \<Rightarrow> nat \<Rightarrow> bool" where
  "sits a ps i = (case ps_vus ps ! i of None \<Rightarrow> False | Some vu \<Rightarrow> same_addr vu a)"

text \<open>The endpoint a packet from \<open>src\<close> goes to, and the socket after learning of \<open>src\<close>.\<close>

definition apparier :: "int \<Rightarrow> udp_addr \<Rightarrow> pair_socket \<Rightarrow> udp_addr option \<times> pair_socket" where
  "apparier now src ps0 =
     (let ps = ps0\<lparr>ps_dernier := Some now\<rparr>; att = ps_attendus ps; ip = ip4_str (ua_IP src) in
      case find (sits src ps) [0, 1] of
        Some i \<Rightarrow> (ps_vus ps ! (1 - i), ps)
      | None \<Rightarrow>
        (case find (\<lambda>i. admis (att ! i) ip \<and> ps_vus ps ! i = None) [0, 1] of
           Some i \<Rightarrow> (let ps' = ps\<lparr>ps_vus := (ps_vus ps)[i := Some src]\<rparr> in (ps_vus ps' ! (1 - i), ps'))
         | None \<Rightarrow>
           (case (if \<not> memeReseau (att ! 0) (att ! 1) \<and> att ! 0 \<noteq> att ! 1
                  then find (\<lambda>i. admis (att ! i) ip \<and> ps_vus ps ! i \<noteq> None) [0, 1] else None) of
              Some i \<Rightarrow> (let ps' = ps\<lparr>ps_vus := (ps_vus ps)[i := Some src], ps_remaps := ps_remaps ps + 1\<rparr> in (ps_vus ps' ! (1 - i), ps'))
            | None \<Rightarrow> (None, ps\<lparr>ps_rejets := ps_rejets ps + 1,
                 ps_rejetVu := map_option (\<lambda>m. AList.update (udp_addr_str src) ((case map_of m (udp_addr_str src) of None \<Rightarrow> 0 | Some n \<Rightarrow> n) + 1) m)
                    (ps_rejetVu ps)\<rparr>))))"

text \<open>One turn of \<open>boucle\<close> on the socket of \<open>port\<close>: the datagram it writes, and to whom.\<close>

definition boucle_step :: "int \<Rightarrow> int \<Rightarrow> udp_addr \<Rightarrow> bytes \<Rightarrow> relay_state \<Rightarrow> (udp_addr \<times> bytes) option \<times> relay_state" where
  "boucle_step now port src buf st =
     (case map_of (rl_socks st) port of None \<Rightarrow> (None, st)
      | Some ps0 \<Rightarrow>
         (case apparier now src (ps0\<lparr>ps_recus := ps_recus ps0 + 1\<rparr>) of
            (None, ps) \<Rightarrow> (None, st\<lparr>rl_socks := AList.update port ps (rl_socks st)\<rparr>)
          | (Some dst, ps) \<Rightarrow>
             (let vers = (case find (sits dst ps) [0, 1] of None \<Rightarrow> ps_relayesVers ps
                          | Some i \<Rightarrow> (ps_relayesVers ps)[i := ps_relayesVers ps ! i + 1]);
                  ps' = ps\<lparr>ps_relayes := ps_relayes ps + 1, ps_relayesVers := vers\<rparr>
              in (Some (dst, buf), st\<lparr>rl_socks := AList.update port ps' (rl_socks st)\<rparr>))))"

subsection \<open>Closing ports\<close>

definition bilanEtCumul :: "pair_socket \<Rightarrow> pair_totaux \<Rightarrow> pair_totaux" where
  "bilanEtCumul ps t = t\<lparr>tt_Recus := tt_Recus t + ps_recus ps, tt_Relayes := tt_Relayes t + ps_relayes ps,
     tt_Rejets := tt_Rejets t + ps_rejets ps, tt_Remaps := tt_Remaps t + ps_remaps ps,
     tt_PairesMuettes := (if ps_relayes ps = 0 then tt_PairesMuettes t + 1 else tt_PairesMuettes t)\<rparr>"

definition inactifDepuis :: "int \<Rightarrow> int \<Rightarrow> pair_socket \<Rightarrow> bool" where
  "inactifDepuis now d ps \<longleftrightarrow> since now (ps_dernier ps) > d"

fun reap_sockets :: "int \<Rightarrow> (int \<times> pair_socket) list \<Rightarrow> relay_state \<Rightarrow> relay_state" where
  "reap_sockets now [] st = st"
| "reap_sockets now ((port, ps) # l) st = reap_sockets now l
     (if inactifDepuis now pairRelayTTL ps
      then st\<lparr>rl_socks := AList.delete port (rl_socks st), rl_ports := AList.delete (ps_pidLo ps, ps_pidHi ps) (rl_ports st),
              rl_total := bilanEtCumul ps (rl_total st)\<rparr>
      else st)"

text \<open>One round of \<open>reapPairSockets\<close>; the goroutine ends when \<open>rl_reaping\<close> turns off.\<close>

definition reap_round :: "int \<Rightarrow> relay_state \<Rightarrow> relay_state" where
  "reap_round now st = (let st1 = reap_sockets now (rl_socks st) st in if rl_socks st1 = [] then st1\<lparr>rl_reaping := False\<rparr> else st1)"

definition closeAllPairSockets :: "relay_state \<Rightarrow> relay_state" where
  "closeAllPairSockets st = st\<lparr>rl_total := foldl (\<lambda>t (_, ps). bilanEtCumul ps t) (rl_total st) (rl_socks st), rl_socks := [], rl_ports := []\<rparr>"

definition SetPairRelay :: "string \<Rightarrow> int \<Rightarrow> int \<Rightarrow> relay_state \<Rightarrow> relay_state" where
  "SetPairRelay host portBase portSpan st =
     (let st1 = st\<lparr>rl_host := host, rl_portBase := portBase, rl_portSpan := portSpan\<rparr>
      in if host = [] then closeAllPairSockets st1 else st1)"

end
