(* ===== verification/Nex_Udp_Server.thy ===== *)
theory Nex_Udp_Server
  imports Nex_Prudp_Udp Nex_Kerberos Nex_Relay
begin

section \<open>The raw UDP server (prudp\_udp\_server.go)\<close>

text \<open>
  A secure server for titles that speak PRUDP V1 over UDP: SYN opens a session for the sender's
  address, CONNECT hands over the Kerberos ticket, DATA is decrypted with the session key and
  given to \<open>OnData\<close>.  Datagrams are handled in goroutines of their own; the table is locked for
  each access and a handler is one step here.  The socket is udp4, so senders have IPv4
  addresses.  \<open>us_sent\<close> and \<open>us_delivered\<close> record the datagrams written and the calls of
  \<open>OnData\<close>; \<open>us_panic\<close> tells that a handler panicked, which ends the process.
\<close>

record udp_session =
  se_connSig :: bytes
  se_sessionKey :: "bytes option"
  se_callerPID :: u64

record udp_server =
  us_sessions :: "(string, udp_session) gomap"
  us_sent :: "(udp_addr \<times> bytes) list"
  us_delivered :: "(udp_addr \<times> bytes) list"
  us_panic :: bool

record udp_config =
  uc_Settings :: settings
  uc_SecureKey :: bytes
  uc_OnData :: bool

definition udp_start :: udp_server where
  "udp_start = \<lparr>us_sessions = [], us_sent = [], us_delivered = [], us_panic = False\<rparr>"

definition reply_udp :: "udp_config \<Rightarrow> udp_addr \<Rightarrow> udp_packet \<Rightarrow> bytes \<Rightarrow> udp_server \<Rightarrow> udp_server" where
  "reply_udp cfg remote p sessionKey s =
     (let sig = UDPPacketSignature (AccessKey (uc_Settings cfg)) p (encodeUDPOptions p) sessionKey (u_ConnectionSig p)
      in s\<lparr>us_sent := us_sent s @ [(remote, EncodeUDPPacket (p\<lparr>u_Signature := sig\<rparr>))]\<rparr>)"

text \<open>The packet that answers \<open>p\<close>: its addresses swapped, its ids kept.\<close>

definition udp_answer :: "u8 \<Rightarrow> udp_packet \<Rightarrow> udp_packet" where
  "udp_answer ty p = udp_zero\<lparr>u_Type := ty, u_Flags := FlagACK, u_SourceType := u_DestType p, u_SourcePort := u_DestPort p,
     u_DestType := u_SourceType p, u_DestPort := u_SourcePort p, u_SessionID := u_SessionID p, u_PacketID := u_PacketID p\<rparr>"

definition handleSYN_udp :: "udp_config \<Rightarrow> udp_addr \<Rightarrow> udp_packet \<Rightarrow> udp_server \<Rightarrow> udp_server" where
  "handleSYN_udp cfg remote p s =
     (let sig = UDPConnectionSignature (Some (ua_IP remote, word_of_int (ua_Port remote))) [];
          s1 = s\<lparr>us_sessions := AList.update (udp_addr_str remote) \<lparr>se_connSig = sig, se_sessionKey = None, se_callerPID = 0\<rparr> (us_sessions s)\<rparr>
      in reply_udp cfg remote ((udp_answer PacketSYN p)\<lparr>u_ConnectionSig := sig, u_SupportedFunc := 4\<rparr>) [] s1)"

definition handleCONNECT_udp :: "udp_config \<Rightarrow> udp_addr \<Rightarrow> udp_packet \<Rightarrow> udp_server \<Rightarrow> udp_server" where
  "handleCONNECT_udp cfg remote p s =
     (case map_of (us_sessions s) (udp_addr_str remote) of
        None \<Rightarrow> s
      | Some sess0 \<Rightarrow>
          (let sess = (if length (u_Payload p) > 0
                 then (case DecryptServerTicket (u_Payload p) (uc_SecureKey cfg) (uc_Settings cfg) of
                         Inl _ \<Rightarrow> sess0
                       | Inr t \<Rightarrow> sess0\<lparr>se_sessionKey := Some (tk_SessionKey t), se_callerPID := tk_Source t\<rparr>)
                 else sess0);
               s1 = s\<lparr>us_sessions := AList.update (udp_addr_str remote) sess (us_sessions s)\<rparr>
           in reply_udp cfg remote ((udp_answer PacketCONNECT p)\<lparr>u_ConnectionSig := se_connSig sess, u_SupportedFunc := 4\<rparr>)
                (case se_sessionKey sess of None \<Rightarrow> [] | Some k \<Rightarrow> k) s1))"

definition handleDATA_udp :: "udp_config \<Rightarrow> udp_addr \<Rightarrow> udp_packet \<Rightarrow> udp_server \<Rightarrow> udp_server" where
  "handleDATA_udp cfg remote p s =
     (case Option.bind (map_of (us_sessions s) (udp_addr_str remote)) se_sessionKey of
        None \<Rightarrow> s
      | Some key \<Rightarrow>
          (case rc4Crypt key (u_Payload p) of
             Inl _ \<Rightarrow> s\<lparr>us_panic := True\<rparr>
           | Inr plain \<Rightarrow>
               (let s1 = (if u_HasFlag p FlagNeedACK \<or> u_HasFlag p FlagReliable then reply_udp cfg remote (udp_answer PacketDATA p) [] s else s)
                in if uc_OnData cfg then s1\<lparr>us_delivered := us_delivered s1 @ [(remote, plain)]\<rparr> else s1)))"

definition handleOne :: "udp_config \<Rightarrow> udp_addr \<Rightarrow> udp_packet \<Rightarrow> udp_server \<Rightarrow> udp_server" where
  "handleOne cfg remote p s =
     (if us_panic s then s
      else if u_Type p = PacketSYN then handleSYN_udp cfg remote p s
      else if u_Type p = PacketCONNECT then handleCONNECT_udp cfg remote p s
      else if u_Type p = PacketDATA then handleDATA_udp cfg remote p s
      else if u_Type p = PacketPING then reply_udp cfg remote (udp_answer PacketPING p) [] s
      else if u_Type p = PacketDISCONNECT then s\<lparr>us_sessions := AList.delete (udp_addr_str remote) (us_sessions s)\<rparr>
      else s)"

definition handlePacket_udp :: "udp_config \<Rightarrow> udp_addr \<Rightarrow> bytes \<Rightarrow> udp_server \<Rightarrow> udp_server" where
  "handlePacket_udp cfg remote data s = (case DecodeUDPPackets data of
     (_, Some _) \<Rightarrow> s
   | (packets, None) \<Rightarrow> foldl (\<lambda>s p. handleOne cfg remote p s) s packets)"

subsection \<open>A session key comes from a ticket\<close>

text \<open>The packets that arrived, oldest first, and a ticket the secure key opens among them.\<close>

definition ticket_seen :: "udp_config \<Rightarrow> (udp_addr \<times> udp_packet) list \<Rightarrow> string \<Rightarrow> bytes \<Rightarrow> bool" where
  "ticket_seen cfg hist addr key \<longleftrightarrow> (\<exists>(r, p) \<in> set hist. udp_addr_str r = addr \<and> u_Type p = PacketCONNECT \<and>
     (\<exists>t. DecryptServerTicket (u_Payload p) (uc_SecureKey cfg) (uc_Settings cfg) = Inr t \<and> tk_SessionKey t = key))"

definition keys_ok :: "udp_config \<Rightarrow> (udp_addr \<times> udp_packet) list \<Rightarrow> udp_server \<Rightarrow> bool" where
  "keys_ok cfg hist s \<longleftrightarrow>
     (\<forall>addr sess key. map_of (us_sessions s) addr = Some sess \<and> se_sessionKey sess = Some key \<longrightarrow> ticket_seen cfg hist addr key) \<and>
     (\<forall>(r, plain) \<in> set (us_delivered s). \<exists>p \<in> snd ` set hist. \<exists>key. ticket_seen cfg hist (udp_addr_str r) key \<and> rc4Crypt key (u_Payload p) = Inr plain)"

lemma ticket_seen_mono: "ticket_seen cfg hist addr key \<Longrightarrow> ticket_seen cfg (hist @ l) addr key"
  by (auto simp: ticket_seen_def)

lemma keys_ok_mono: "keys_ok cfg hist s \<Longrightarrow> keys_ok cfg (hist @ l) s"
  unfolding keys_ok_def by (fastforce intro: ticket_seen_mono)

lemma reply_udp_sel [simp]: "us_sessions (reply_udp cfg r p k s) = us_sessions s" "us_delivered (reply_udp cfg r p k s) = us_delivered s"
  by (simp_all add: reply_udp_def)

lemma keys_ok_step:
  assumes ok: "keys_ok cfg hist s"
  shows "keys_ok cfg (hist @ [(remote, p)]) (handleOne cfg remote p s)"
proof -
  let ?h = "hist @ [(remote, p)]"
  have old: "keys_ok cfg ?h s" by (rule keys_ok_mono [OF ok])
  have same: "keys_ok cfg ?h s'" if "us_sessions s' = us_sessions s" "us_delivered s' = us_delivered s" for s'
    using old unfolding keys_ok_def that .
  have syn: "keys_ok cfg ?h (handleSYN_udp cfg remote p s)"
    using old by (auto simp: handleSYN_udp_def Let_def keys_ok_def)
  have conn: "keys_ok cfg ?h (handleCONNECT_udp cfg remote p s)" if "u_Type p = PacketCONNECT"
  proof (cases "map_of (us_sessions s) (udp_addr_str remote)")
    case (Some sess0)
    have "ticket_seen cfg ?h (udp_addr_str remote) (tk_SessionKey t)"
      if "DecryptServerTicket (u_Payload p) (uc_SecureKey cfg) (uc_Settings cfg) = Inr t" for t
      using that \<open>u_Type p = PacketCONNECT\<close> by (auto simp: ticket_seen_def)
    then show ?thesis using old Some by (auto simp: handleCONNECT_udp_def Let_def keys_ok_def split: sum.splits if_splits)
  qed (use old in \<open>simp add: handleCONNECT_udp_def\<close>)
  have data: "keys_ok cfg ?h (handleDATA_udp cfg remote p s)"
  proof (cases "Option.bind (map_of (us_sessions s) (udp_addr_str remote)) se_sessionKey")
    case (Some key)
    then have "ticket_seen cfg ?h (udp_addr_str remote) key" using old by (auto simp: keys_ok_def bind_eq_Some_conv)
    then show ?thesis using old Some by (fastforce simp: handleDATA_udp_def Let_def keys_ok_def split: sum.splits)
  qed (use old in \<open>simp add: handleDATA_udp_def\<close>)
  have disc: "keys_ok cfg ?h (s\<lparr>us_sessions := AList.delete (udp_addr_str remote) (us_sessions s)\<rparr>)"
    using old by (auto simp: keys_ok_def)
  show ?thesis using old same syn conn data disc by (simp add: handleOne_def)
qed

lemma keys_ok_run: "keys_ok cfg hist s \<Longrightarrow> keys_ok cfg (hist @ l) (foldl (\<lambda>s (r, p). handleOne cfg r p s) s l)"
proof (induction l arbitrary: hist s)
  case (Cons x l)
  obtain r p where x: "x = (r, p)" by (cases x)
  from Cons.IH [OF keys_ok_step [OF Cons.prems, of r p]] show ?case by (simp add: x)
qed simp

text \<open>C39: The UDP server hands a payload to the game only when its sender's address has presented, in a CONNECT, a
  ticket that opens under the secure server's key, and the payload is the decryption of a packet that arrived under
  the session key of such a ticket.  This holds for every sequence of packets from every sender.\<close>

theorem udp_data_needs_a_ticket:
  assumes "(remote, plain) \<in> set (us_delivered (foldl (\<lambda>s (r, p). handleOne cfg r p s) udp_start arrived))"
  shows "\<exists>p key. p \<in> snd ` set arrived \<and> rc4Crypt key (u_Payload p) = Inr plain \<and>
    (\<exists>(r, c) \<in> set arrived. udp_addr_str r = udp_addr_str remote \<and> u_Type c = PacketCONNECT \<and>
       (\<exists>t. DecryptServerTicket (u_Payload c) (uc_SecureKey cfg) (uc_Settings cfg) = Inr t \<and> tk_SessionKey t = key))"
proof -
  have "keys_ok cfg [] udp_start" by (simp add: keys_ok_def udp_start_def)
  from keys_ok_run [OF this, of arrived] have "keys_ok cfg arrived (foldl (\<lambda>s (r, p). handleOne cfg r p s) udp_start arrived)" by simp
  then have "\<forall>x \<in> set (us_delivered (foldl (\<lambda>s (r, p). handleOne cfg r p s) udp_start arrived)). \<exists>p \<in> snd ` set arrived. \<exists>key.
      ticket_seen cfg arrived (udp_addr_str (fst x)) key \<and> rc4Crypt key (u_Payload p) = Inr (snd x)"
    unfolding keys_ok_def by (simp add: split_beta)
  from bspec [OF this assms] obtain p key where "p \<in> snd ` set arrived" "ticket_seen cfg arrived (udp_addr_str remote) key" "rc4Crypt key (u_Payload p) = Inr plain"
    unfolding fst_conv snd_conv by blast
  then show ?thesis unfolding ticket_seen_def by blast
qed

definition demo_udp :: udp_config where
  "demo_udp = \<lparr>uc_Settings = (NewSwitchSettings ''key'' 40302)\<lparr>KerberosTicketVersion := 0\<rparr>, uc_SecureKey = [1, 2, 3], uc_OnData = True\<rparr>"

definition demo_ticket :: server_ticket where
  "demo_ticket = \<lparr>tk_Timestamp = 0, tk_Source = 7, tk_SessionKey = replicate 32 5\<rparr>"

definition demo_sender :: udp_addr where
  "demo_sender = \<lparr>ua_IP = [192, 0, 2, 1], ua_Port = 9\<rparr>"

lemma demo_ticket_opens: "\<exists>c. DecryptServerTicket c (uc_SecureKey demo_udp) (uc_Settings demo_udp) = Inr demo_ticket \<and> c \<noteq> []"
proof -
  let ?s = "uc_Settings demo_udp"
  have "\<exists>c. kerberosEncrypt [1, 2, 3] (w_DateTime (tk_Timestamp demo_ticket) @ w_PID ?s (tk_Source demo_ticket) @ tk_SessionKey demo_ticket) = Inr c \<and> c \<noteq> []"
    by (auto simp: kerberosEncrypt_def rc4Crypt_def demo_ticket_def dest: arg_cong [where f = length])
  then obtain c where c: "kerberosEncrypt [1, 2, 3] (w_DateTime (tk_Timestamp demo_ticket) @ w_PID ?s (tk_Source demo_ticket) @ tk_SessionKey demo_ticket) = Inr c" "c \<noteq> []"
    by blast
  have "server_ticket_ok ?s demo_ticket"
    by (simp add: server_ticket_ok_def demo_ticket_def demo_udp_def NewSwitchSettings_def pid_ok_def Publique_def Interne_def)
  from ticket_body_round_trip [OF this c(1)] c(2) show ?thesis
    by (auto simp: DecryptServerTicket_def demo_udp_def)
qed

theorem udp_data_needs_a_ticket_witness:
  "\<exists>arrived. us_delivered (foldl (\<lambda>s (r, p). handleOne demo_udp r p s) udp_start arrived) = [(demo_sender, [])] \<and>
     (\<exists>(r, c) \<in> set arrived. u_Type c = PacketCONNECT \<and> (\<exists>t. DecryptServerTicket (u_Payload c) (uc_SecureKey demo_udp) (uc_Settings demo_udp) = Inr t))"
proof -
  obtain c where c: "DecryptServerTicket c (uc_SecureKey demo_udp) (uc_Settings demo_udp) = Inr demo_ticket" "c \<noteq> []"
    using demo_ticket_opens by blast
  let ?arrived = "[(demo_sender, udp_zero\<lparr>u_Type := PacketSYN\<rparr>), (demo_sender, udp_zero\<lparr>u_Type := PacketCONNECT, u_Payload := c\<rparr>),
        (demo_sender, udp_zero\<lparr>u_Type := PacketDATA\<rparr>)]"
  have d: "us_delivered (foldl (\<lambda>s (r, p). handleOne demo_udp r p s) udp_start ?arrived) = [(demo_sender, [])]"
  proof -
    have "uc_OnData demo_udp" by (simp add: demo_udp_def)
    moreover have "us_panic (reply_udp cfg r p k s) = us_panic s" for cfg r p k s by (simp add: reply_udp_def)
    ultimately show ?thesis
      using c by (simp add: handleOne_def packet_types udp_start_def handleSYN_udp_def handleCONNECT_udp_def handleDATA_udp_def Let_def
          udp_zero_def rc4Crypt_def u_HasFlag_def)
  qed
  then have "(demo_sender, []) \<in> set (us_delivered (foldl (\<lambda>s (r, p). handleOne demo_udp r p s) udp_start ?arrived))" by simp
  from udp_data_needs_a_ticket [OF this] d show ?thesis by blast
qed

end
