(* ===== verification/Nex_Endpoint.thy ===== *)
theory Nex_Endpoint
  imports Nex_Connection Nex_Auth "HOL-Library.Multiset"
begin

section \<open>The endpoint: handshake, dispatch, connection table, eviction (endpoint.go, reaper.go)\<close>

text \<open>
  A \<open>Connection\<close> is shared by pointer between the transport, the table \<open>connections\<close> and the
  handlers, so the state has a heap of connections and the table holds handles into it.
  \<open>ep_world\<close> is what the handlers of a game keep besides; the handlers and callbacks
  installed on an endpoint are the record \<open>hooks\<close>, an argument of the operations, so that a
  theorem about the endpoint holds for every set of handlers its hypotheses admit.

  An operation that can panic returns the panic beside the state: the transport recovers it
  and goes on with the next frame, so the rest of the current frame is lost.
\<close>

record 'w endpoint =
  ep_heap :: "nat \<Rightarrow> connection"
  ep_connections :: "(u32, nat) gomap"
  ep_connCounter :: u32
  ep_auth :: auth_store
  ep_now :: int
  ep_world :: 'w

record 'w hooks =
  hk_Settings :: settings
  hk_Secure :: bool
  hk_SecureKey :: bytes
  hk_OnConnect :: "(nat \<Rightarrow> 'w endpoint \<Rightarrow> 'w endpoint) option"
  hk_OnDisconnect :: "(nat \<Rightarrow> 'w endpoint \<Rightarrow> 'w endpoint) option"
  hk_OnRMC :: "(nat \<Rightarrow> rmc_message \<Rightarrow> 'w endpoint \<Rightarrow> 'w endpoint) option"
  hk_handlers :: "(u16, nat \<Rightarrow> rmc_message \<Rightarrow> 'w endpoint \<Rightarrow> rmc_message option \<times> 'w endpoint) gomap"
  hk_fallback :: "(nat \<Rightarrow> rmc_message \<Rightarrow> 'w endpoint \<Rightarrow> rmc_message option \<times> 'w endpoint) option"
  hk_custom :: "(u8, nat \<Rightarrow> packet \<Rightarrow> 'w endpoint \<Rightarrow> 'w endpoint) gomap"

definition NewEndpoint :: "settings \<Rightarrow> 'w hooks" where
  "NewEndpoint s = \<lparr>hk_Settings = s, hk_Secure = False, hk_SecureKey = [], hk_OnConnect = None, hk_OnDisconnect = None,
     hk_OnRMC = None, hk_handlers = [], hk_fallback = None, hk_custom = []\<rparr>"

definition SetSecureAccount :: "string \<Rightarrow> u64 \<Rightarrow> 'w hooks \<Rightarrow> 'w hooks" where
  "SetSecureAccount password pid hk =
     hk\<lparr>hk_Secure := True, hk_SecureKey := DeriveKey (hk_Settings hk) (string_bytes password) pid\<rparr>"

definition Register :: "u16 \<Rightarrow> (nat \<Rightarrow> rmc_message \<Rightarrow> 'w endpoint \<Rightarrow> rmc_message option \<times> 'w endpoint) \<Rightarrow> 'w hooks \<Rightarrow> 'w hooks" where
  "Register protocolID h hk = hk\<lparr>hk_handlers := AList.update protocolID h (hk_handlers hk)\<rparr>"

definition RegisterFallback :: "(nat \<Rightarrow> rmc_message \<Rightarrow> 'w endpoint \<Rightarrow> rmc_message option \<times> 'w endpoint) option \<Rightarrow> 'w hooks \<Rightarrow> 'w hooks" where
  "RegisterFallback h hk = hk\<lparr>hk_fallback := h\<rparr>"

definition RegisterCustomPacketHandler :: "u8 \<Rightarrow> (nat \<Rightarrow> packet \<Rightarrow> 'w endpoint \<Rightarrow> 'w endpoint) \<Rightarrow> 'w hooks \<Rightarrow> 'w hooks" where
  "RegisterCustomPacketHandler packetType h hk = hk\<lparr>hk_custom := AList.update packetType h (hk_custom hk)\<rparr>"

definition find_handler :: "u16 \<Rightarrow> 'w hooks \<Rightarrow> (nat \<Rightarrow> rmc_message \<Rightarrow> 'w endpoint \<Rightarrow> rmc_message option \<times> 'w endpoint) option" where
  "find_handler protocolID hk = (case map_of (hk_handlers hk) protocolID of Some h \<Rightarrow> Some h | None \<Rightarrow> hk_fallback hk)"

definition on_conn :: "nat \<Rightarrow> (connection \<Rightarrow> connection) \<Rightarrow> 'w endpoint \<Rightarrow> 'w endpoint" where
  "on_conn h f e = e\<lparr>ep_heap := (ep_heap e)(h := f (ep_heap e h))\<rparr>"

subsection \<open>The connection table\<close>

definition registerConnection :: "nat \<Rightarrow> 'w endpoint \<Rightarrow> 'w endpoint" where
  "registerConnection h e =
     (let n = ep_connCounter e + 1 in
      on_conn h (\<lambda>c. c\<lparr>c_ID := n\<rparr>) (e\<lparr>ep_connCounter := n, ep_connections := AList.update n h (ep_connections e)\<rparr>))"

definition unregisterConnection :: "nat \<Rightarrow> 'w endpoint \<Rightarrow> 'w endpoint" where
  "unregisterConnection h e =
     (if c_ID (ep_heap e h) = 0 then e
      else e\<lparr>ep_connections := AList.delete (c_ID (ep_heap e h)) (ep_connections e)\<rparr>)"

definition FindConnectionByID :: "u32 \<Rightarrow> 'w endpoint \<Rightarrow> nat option" where
  "FindConnectionByID cid e = map_of (ep_connections e) cid"

fun newest_by_pid :: "(nat \<Rightarrow> connection) \<Rightarrow> u64 \<Rightarrow> nat option \<Rightarrow> (u32 \<times> nat) list \<Rightarrow> nat option" where
  "newest_by_pid hp pid newest [] = newest"
| "newest_by_pid hp pid newest ((_, h) # cs) =
     newest_by_pid hp pid
       (if c_PID (hp h) = pid \<and> (case newest of None \<Rightarrow> True | Some g \<Rightarrow> c_ID (hp h) > c_ID (hp g)) then Some h else newest) cs"

definition FindConnectionByPID :: "u64 \<Rightarrow> 'w endpoint \<Rightarrow> nat option" where
  "FindConnectionByPID pid e = newest_by_pid (ep_heap e) pid None (ep_connections e)"

definition ConnectionIDs :: "'w endpoint \<Rightarrow> u32 list" where
  "ConnectionIDs e = map fst (ep_connections e)"

definition snapshotConns :: "'w endpoint \<Rightarrow> nat list" where
  "snapshotConns e = map snd (ep_connections e)"

subsection \<open>Closing\<close>

definition close_conn :: "'w hooks \<Rightarrow> nat \<Rightarrow> 'w endpoint \<Rightarrow> 'w endpoint" where
  "close_conn hk h e =
     (if c_state (ep_heap e h) = stateClosed then e
      else let e' = unregisterConnection h (on_conn h (\<lambda>c. c\<lparr>c_state := stateClosed\<rparr>) e) in
           case hk_OnDisconnect hk of None \<Rightarrow> e' | Some f \<Rightarrow> f h e')"

fun reap_loop :: "'w hooks \<Rightarrow> int \<Rightarrow> nat list \<Rightarrow> nat \<Rightarrow> 'w endpoint \<Rightarrow> nat \<times> 'w endpoint" where
  "reap_loop hk maxIdle [] n e = (n, e)"
| "reap_loop hk maxIdle (h # hs) n e =
     (let idle = IdleFor (ep_now e) (ep_heap e h) in
      if idle > 0 \<and> idle \<ge> maxIdle then reap_loop hk maxIdle hs (n + 1) (close_conn hk h e)
      else reap_loop hk maxIdle hs n e)"

definition ReapIdle :: "'w hooks \<Rightarrow> int \<Rightarrow> 'w endpoint \<Rightarrow> nat \<times> 'w endpoint" where
  "ReapIdle hk maxIdle e = (if maxIdle \<le> 0 then (0, e) else reap_loop hk maxIdle (snapshotConns e) 0 e)"

fun kick_pid_loop :: "'w hooks \<Rightarrow> u64 \<Rightarrow> nat list \<Rightarrow> nat \<Rightarrow> 'w endpoint \<Rightarrow> nat \<times> 'w endpoint" where
  "kick_pid_loop hk pid [] n e = (n, e)"
| "kick_pid_loop hk pid (h # hs) n e =
     (if c_PID (ep_heap e h) = pid then kick_pid_loop hk pid hs (n + 1) (close_conn hk h e)
      else kick_pid_loop hk pid hs n e)"

definition KickPID :: "'w hooks \<Rightarrow> u64 \<Rightarrow> 'w endpoint \<Rightarrow> nat \<times> 'w endpoint" where
  "KickPID hk pid e = (if pid = 0 then (0, e) else kick_pid_loop hk pid (snapshotConns e) 0 e)"

definition KickConnection :: "'w hooks \<Rightarrow> u32 \<Rightarrow> 'w endpoint \<Rightarrow> bool \<times> 'w endpoint" where
  "KickConnection hk cid e =
     (case find (\<lambda>h. c_ID (ep_heap e h) = cid) (snapshotConns e) of
        None \<Rightarrow> (False, e) | Some h \<Rightarrow> (True, close_conn hk h e))"

subsection \<open>The login request of a CONNECT\<close>

definition processLoginRequest :: "'w hooks \<Rightarrow> nat \<Rightarrow> bytes \<Rightarrow> 'w endpoint \<Rightarrow> (go_error + bytes) \<times> 'w endpoint" where
  "processLoginRequest hk h payload e =
     (let s = hk_Settings hk; c = ep_heap e h in
      if \<not> hk_Secure hk then (Inr [], e)
      else if payload = [] then
        (case RecallAuthPID (ep_now e) (c_RemoteAddr c) (ep_auth e) of
           (None, au) \<Rightarrow> (Inl ErrTicketless, e\<lparr>ep_auth := au\<rparr>)
         | (Some pid, au) \<Rightarrow> (Inr [], on_conn h (\<lambda>c. c\<lparr>c_PID := pid\<rparr>) (e\<lparr>ep_auth := au\<rparr>)))
      else
        (case run_state (do { t \<leftarrow> r_Buffer; r \<leftarrow> r_Buffer; State_Monad.return (t, r) }) (NewStreamIn payload) of
           ((ticketData, requestData), st) \<Rightarrow>
           (case Err st of Some err \<Rightarrow> (Inl err, e) | None \<Rightarrow>
            (case DecryptServerTicket ticketData (hk_SecureKey hk) s of Inl err \<Rightarrow> (Inl err, e) | Inr ticket \<Rightarrow>
             (case kerberosDecrypt (tk_SessionKey ticket) requestData of Inl err \<Rightarrow> (Inl err, e) | Inr decrypted \<Rightarrow>
              if int (length decrypted) \<noteq> PIDSize s + 8 then (Inl ErrCheckSize, e)
              else let (pid, r1) = run_state (r_PID s) (NewStreamIn decrypted) in
                   if pid \<noteq> tk_Source ticket then (Inl ErrPidMismatch, e)
                   else let (cid, r2) = run_state r_U32 r1; (check, r3) = run_state r_U32 r2 in
                     (Inr (w_U32 4 @ w_U32 (check + 1)),
                      on_conn h (\<lambda>c. c\<lparr>c_PID := pid, c_CID := cid, c_sessionKey := tk_SessionKey ticket\<rparr>) e))))))"

definition processCONNECT :: "'w hooks \<Rightarrow> nat \<Rightarrow> packet \<Rightarrow> 'w endpoint \<Rightarrow> go_error option \<times> 'w endpoint" where
  "processCONNECT hk h p e =
     (let expected = LitePacketSignature (AccessKey (hk_Settings hk)) p (c_connectionSig (ep_heap e h)) in
      if \<not> equalBytes expected (pk_Signature p) then (None, e)
      else case processLoginRequest hk h (pk_Payload p) e of
        (Inl GoPanic, e1) \<Rightarrow> (Some GoPanic, e1)
      | (Inl _, e1) \<Rightarrow> (None, e1)
      | (Inr response, e1) \<Rightarrow>
          (let c = ep_heap e1 h;
               ack = packet_zero\<lparr>pk_Type := PacketCONNECT, pk_Flags := FlagACK OR FlagHasSize,
                  pk_SourceType := c_srcType c, pk_SourcePort := c_srcPort c, pk_DestType := c_dstType c, pk_DestPort := c_dstPort c,
                  pk_MinorVersion := c_minorVersion c, pk_SupportedFunc := c_supportedFunc c, pk_PacketID := 1, pk_Payload := response\<rparr>;
               e2 = on_conn h (\<lambda>c. (c_send (EncodePacket ack) c)\<lparr>c_state := stateConnected\<rparr>) e1;
               e3 = registerConnection h e2
           in (None, case hk_OnConnect hk of None \<Rightarrow> e3 | Some f \<Rightarrow> f h e3)))"

subsection \<open>Dispatch\<close>

definition SendRMC :: "settings \<Rightarrow> nat \<Rightarrow> rmc_message \<Rightarrow> 'w endpoint \<Rightarrow> 'w endpoint" where
  "SendRMC s h msg e = on_conn h (sendData s (Encode msg)) e"

definition dispatchRMC :: "'w hooks \<Rightarrow> nat \<Rightarrow> bytes \<Rightarrow> 'w endpoint \<Rightarrow> 'w endpoint" where
  "dispatchRMC hk h payload e = (case ParseRMC payload of
     Inl _ \<Rightarrow> e
   | Inr req \<Rightarrow>
       if rm_Mode req \<noteq> RMCRequest then e
       else let e1 = (case hk_OnRMC hk of None \<Rightarrow> e | Some f \<Rightarrow> f h req e) in
         (case find_handler (rm_Protocol req) hk of
            None \<Rightarrow> SendRMC (hk_Settings hk) h (NewRMCError (rm_Protocol req) (rm_CallID req) ResultCoreNotImplemented) e1
          | Some f \<Rightarrow> (case f h req e1 of
              (None, e2) \<Rightarrow> e2
            | (Some resp, e2) \<Rightarrow> SendRMC (hk_Settings hk) h resp e2)))"

definition processData :: "'w hooks \<Rightarrow> nat \<Rightarrow> packet \<Rightarrow> 'w endpoint \<Rightarrow> 'w endpoint" where
  "processData hk h p e = (case receiveData p (ep_heap e h) of
     (None, c) \<Rightarrow> on_conn h (\<lambda>_. c) e
   | (Some msg, c) \<Rightarrow> dispatchRMC hk h msg (on_conn h (\<lambda>_. c) e))"

definition handlePacket :: "'w hooks \<Rightarrow> bytes \<Rightarrow> nat \<Rightarrow> packet \<Rightarrow> 'w endpoint \<Rightarrow> go_error option \<times> 'w endpoint" where
  "handlePacket hk rnd h p e0 =
     (let e = on_conn h (\<lambda>c. c\<lparr>c_lastSeen := ep_now e0\<rparr>) e0 in
      if pk_Type p = PacketSYN then
        (None, if HasFlag p FlagACK then e else on_conn h (processSYN (hk_Settings hk) rnd p) e)
      else if pk_Type p = PacketCONNECT then
        (if HasFlag p FlagACK then (None, e) else processCONNECT hk h p e)
      else if pk_Type p = PacketDATA then (None, processData hk h p e)
      else if pk_Type p = PacketPING then (None, on_conn h (processPing p) e)
      else if pk_Type p = PacketDISCONNECT then
        (None, if HasFlag p FlagACK then e
               else close_conn hk h (if HasFlag p FlagNeedACK then on_conn h (sendAck p) e else e))
      else (None, case map_of (hk_custom hk) (pk_Type p) of None \<Rightarrow> e | Some f \<Rightarrow> f h p e))"

fun handle_packets :: "'w hooks \<Rightarrow> bytes \<Rightarrow> nat \<Rightarrow> packet list \<Rightarrow> 'w endpoint \<Rightarrow> 'w endpoint" where
  "handle_packets hk rnd h [] e = e"
| "handle_packets hk rnd h (p # ps) e = (case handlePacket hk rnd h p e of
     (Some _, e') \<Rightarrow> e' | (None, e') \<Rightarrow> handle_packets hk rnd h ps e')"

definition Feed :: "'w hooks \<Rightarrow> bytes \<Rightarrow> nat \<Rightarrow> bytes \<Rightarrow> 'w endpoint \<Rightarrow> 'w endpoint" where
  "Feed hk rnd h data e =
     (let buf = c_recvBuf (ep_heap e h) @ data in
      case DecodePackets buf of
        (packets, rest, Some _) \<Rightarrow> on_conn h (\<lambda>c. c\<lparr>c_recvBuf := []\<rparr>) e
      | (packets, rest, None) \<Rightarrow> handle_packets hk rnd h packets (on_conn h (\<lambda>c. c\<lparr>c_recvBuf := rest\<rparr>) e))"

subsection \<open>The login request\<close>

lemma equalBytes_eq [simp]: "equalBytes a b \<longleftrightarrow> a = b"
  by (auto simp: equalBytes_def list_eq_iff_nth_eq)

lemma on_conn_sel [simp]:
  "ep_connections (on_conn h f e) = ep_connections e" "ep_connCounter (on_conn h f e) = ep_connCounter e"
  "ep_auth (on_conn h f e) = ep_auth e" "ep_now (on_conn h f e) = ep_now e" "ep_world (on_conn h f e) = ep_world e"
  "ep_heap (on_conn h f e) k = (if k = h then f (ep_heap e h) else ep_heap e k)"
  by (simp_all add: on_conn_def)

text \<open>What a client with a ticket and its session key sends.\<close>

definition client_request :: "settings \<Rightarrow> u64 \<Rightarrow> u32 \<Rightarrow> u32 \<Rightarrow> bytes" where
  "client_request s pid cid check = w_PID s pid @ w_U32 cid @ w_U32 check"

lemma length_w_PID_eq: "PIDSize s = 4 \<or> PIDSize s = 8 \<Longrightarrow> int (length (w_PID s v)) = PIDSize s"
  by (auto simp: w_PID_def Let_def w_U32_def w_U64_def)

lemma login_accepts:
  assumes sec: "hk_Secure hk" and size: "PIDSize (hk_Settings hk) = 4 \<or> PIDSize (hk_Settings hk) = 8"
    and pid: "pid_ok (hk_Settings hk) (tk_Source tk)"
    and tk: "DecryptServerTicket internal (hk_SecureKey hk) (hk_Settings hk) = Inr tk"
    and enc: "kerberosEncrypt (tk_SessionKey tk) (client_request (hk_Settings hk) (tk_Source tk) cid check) = Inr request"
    and len: "length internal < 2 ^ 32"
  shows "processLoginRequest hk h (w_Buffer internal @ w_Buffer request) e =
     (Inr (w_U32 4 @ w_U32 (check + 1)),
      on_conn h (\<lambda>c. c\<lparr>c_PID := tk_Source tk, c_CID := cid, c_sessionKey := tk_SessionKey tk\<rparr>) e)"
proof -
  have rl: "length request < 2 ^ 32"
    using length_kerberosEncrypt [OF enc] length_w_PID [of "hk_Settings hk" "tk_Source tk"] by (simp add: client_request_def w_U32_def)
  have cl: "int (length (client_request (hk_Settings hk) (tk_Source tk) cid check)) = PIDSize (hk_Settings hk) + 8"
    using length_w_PID_eq [OF size, of "tk_Source tk"] by (simp add: client_request_def w_U32_def)
  have ne: "w_Buffer internal @ w_Buffer request \<noteq> []" by simp
  have two: "run_state (do { t \<leftarrow> r_Buffer; r \<leftarrow> r_Buffer; State_Monad.return (t, r) }) (NewStreamIn (w_Buffer internal @ w_Buffer request))
      = ((internal, request), cursor (w_Buffer internal @ w_Buffer request) [])"
    using len rl by (simp add: NewStreamIn_cursor run_Buffer run_Buffer_end)
  have rd: "run_state (r_PID (hk_Settings hk)) (NewStreamIn (client_request (hk_Settings hk) (tk_Source tk) cid check))
      = (tk_Source tk, cursor (w_PID (hk_Settings hk) (tk_Source tk)) (w_U32 cid @ w_U32 check))"
    using pid run_PID [of "hk_Settings hk" "tk_Source tk" "[]"] by (simp add: client_request_def NewStreamIn_cursor)
  show ?thesis
    unfolding processLoginRequest_def Let_def
    using sec ne tk decrypt_encrypt [OF enc] cl
    by (simp only: two) (simp add: rd run_U32 run_U32_end split: prod.split)
qed

text \<open>\<open>granted\<close>: what a CONNECT must carry to give its connection an identity (PID, CID and session key).  An
  empty payload has to come from the address of a recent login, and only the PID changes.  Any other payload has to begin
  with two buffers: the first a ticket the server's key opens, whose source is the PID and whose session key is the new
  one; the second a request that this session key decrypts to that same PID, the CID and four more bytes.\<close>

definition granted :: "'w hooks \<Rightarrow> 'w endpoint \<Rightarrow> bytes \<Rightarrow> connection \<Rightarrow> u64 \<times> u32 \<times> bytes \<Rightarrow> bool" where
  "granted hk e payload before ident = (case ident of (pid, cid, key) \<Rightarrow>
     if payload = []
     then fst (RecallAuthPID (ep_now e) (c_RemoteAddr before) (ep_auth e)) = Some pid \<and> cid = c_CID before \<and> key = c_sessionKey before
     else (case run_state (do { t \<leftarrow> r_Buffer; r \<leftarrow> r_Buffer; State_Monad.return (t, r) }) (NewStreamIn payload) of
        ((ticket, request), st) \<Rightarrow> Err st = None \<and>
          (case DecryptServerTicket ticket (hk_SecureKey hk) (hk_Settings hk) of Inl _ \<Rightarrow> False | Inr tk \<Rightarrow>
             tk_Source tk = pid \<and> tk_SessionKey tk = key \<and>
             (case kerberosDecrypt key request of Inl _ \<Rightarrow> False | Inr check \<Rightarrow>
                int (length check) = PIDSize (hk_Settings hk) + 8 \<and>
                fst (run_state (do { a \<leftarrow> r_PID (hk_Settings hk); b \<leftarrow> r_U32; State_Monad.return (a, b) }) (NewStreamIn check)) = (pid, cid)))))"

text \<open>Nothing is accepted on a secure endpoint without a ticket of the server's or a recent login
  from the same address.\<close>

lemma login_only_granted:
  assumes "hk_Secure hk" "processLoginRequest hk h payload e = (Inr response, e')"
  shows "granted hk e payload (ep_heap e h) (c_PID (ep_heap e' h), c_CID (ep_heap e' h), c_sessionKey (ep_heap e' h))"
proof (cases "payload = []")
  case True
  then show ?thesis using assms by (auto simp: granted_def processLoginRequest_def Let_def split: option.splits prod.splits)
next
  case False
  then show ?thesis using assms
    by (auto simp: granted_def processLoginRequest_def Let_def run_state_bind split: option.splits prod.splits sum.splits if_splits)
qed

lemma login_fails_unchanged:
  "processLoginRequest hk h payload e = (Inl err, e') \<Longrightarrow> ep_heap e' = ep_heap e \<and> ep_connections e' = ep_connections e"
  by (auto simp: processLoginRequest_def Let_def split: option.splits prod.splits sum.splits if_splits)

lemma login_other_connections:
  "processLoginRequest hk h payload e = (r, e') \<Longrightarrow> k \<noteq> h \<Longrightarrow> ep_heap e' k = ep_heap e k"
  by (auto simp: processLoginRequest_def Let_def split: option.splits prod.splits sum.splits if_splits)

lemma login_keeps_table:
  "processLoginRequest hk h payload e = (r, e') \<Longrightarrow> ep_connections e' = ep_connections e \<and> ep_connCounter e' = ep_connCounter e \<and>
     c_ID (ep_heap e' h) = c_ID (ep_heap e h) \<and> c_state (ep_heap e' h) = c_state (ep_heap e h)"
  by (auto simp: processLoginRequest_def Let_def split: option.splits prod.splits sum.splits if_splits)

subsection \<open>The connection table\<close>

text \<open>\<open>table_ok\<close>: every entry is keyed by the id of the open connection it holds, ids and
  connections occur once, and ids were handed out by the counter.\<close>

definition table_ok :: "'w endpoint \<Rightarrow> bool" where
  "table_ok e \<longleftrightarrow> gomap_wf (ep_connections e) \<and> distinct (map snd (ep_connections e)) \<and>
     (\<forall>(i, h) \<in> set (ep_connections e). c_ID (ep_heap e h) = i \<and> c_state (ep_heap e h) = stateConnected \<and>
        0 < i \<and> i \<le> ep_connCounter e)"

lemma table_okD:
  assumes "table_ok e" "(i, h) \<in> set (ep_connections e)"
  shows "c_ID (ep_heap e h) = i" "c_state (ep_heap e h) = stateConnected" "0 < i" "i \<le> ep_connCounter e"
  using assms unfolding table_ok_def by (auto dest!: bspec [of _ _ "(i, h)"])

lemma table_ok_register:
  assumes "table_ok e" "h \<notin> snd ` set (ep_connections e)" "c_state (ep_heap e h) = stateConnected" "ep_connCounter e + 1 \<noteq> 0"
  shows "table_ok (registerConnection h e)" "FindConnectionByID (ep_connCounter e + 1) (registerConnection h e) = Some h"
proof -
  have gt: "ep_connCounter e < ep_connCounter e + 1" 
    using assms(4) unatSuc [of "ep_connCounter e"] by (simp add: word_less_nat_alt add.commute)
  have fresh: "ep_connCounter e + 1 \<notin> fst ` set (ep_connections e)"
    using assms(1) gt unfolding table_ok_def by (fastforce simp: not_le)
  have upd: "AList.update (ep_connCounter e + 1) h (ep_connections e) = ep_connections e @ [(ep_connCounter e + 1, h)]"
    by (rule update_fresh [OF fresh])
  have pos: "0 < ep_connCounter e + 1" using assms(4) by (simp add: word_gt_0)
  show "table_ok (registerConnection h e)"
    using assms fresh gt pos unfolding table_ok_def registerConnection_def Let_def
    by (auto simp: upd gomap_wf_def image_iff intro: order.strict_implies_order order.trans)
  show "FindConnectionByID (ep_connCounter e + 1) (registerConnection h e) = Some h"
    by (simp add: FindConnectionByID_def registerConnection_def Let_def)
qed

lemma delete_is_filter: "AList.delete k m = filter (\<lambda>(i, _). i \<noteq> k) m"
  by (induction m) auto

lemma table_ok_close:
  assumes ok: "table_ok e" and none: "hk_OnDisconnect hk = None" and mem: "(i, h) \<in> set (ep_connections e)"
  shows "ep_connections (close_conn hk h e) = filter (\<lambda>(j, g). g \<noteq> h) (ep_connections e)" "table_ok (close_conn hk h e)"
    "\<And>g. g \<noteq> h \<Longrightarrow> ep_heap (close_conn hk h e) g = ep_heap e g"
proof -
  have i: "c_ID (ep_heap e h) = i" "0 < i" "c_state (ep_heap e h) \<noteq> stateClosed"
    using ok mem by (auto simp: table_ok_def conn_states)
  have one: "j = i \<longleftrightarrow> g = h" if "(j, g) \<in> set (ep_connections e)" for j g
  proof
    assume "j = i"
    then show "g = h" using ok mem that unfolding table_ok_def gomap_wf_def by (blast dest: eq_key_imp_eq_value)
  next
    assume "g = h"
    then show "j = i" using table_okD(1) [OF ok mem] table_okD(1) [OF ok that] by simp
  qed
  have c: "close_conn hk h e = (on_conn h (\<lambda>c. c\<lparr>c_state := stateClosed\<rparr>) e)\<lparr>ep_connections := AList.delete i (ep_connections e)\<rparr>"
    using i none by (simp add: close_conn_def unregisterConnection_def Let_def)
  have conns: "AList.delete i (ep_connections e) = filter (\<lambda>(j, g). g \<noteq> h) (ep_connections e)"
    unfolding delete_is_filter by (rule filter_cong) (use one in auto)
  show "ep_connections (close_conn hk h e) = filter (\<lambda>(j, g). g \<noteq> h) (ep_connections e)" by (simp add: c conns)
  show "table_ok (close_conn hk h e)"
    using ok unfolding table_ok_def c by (auto simp: conns distinct_map_filter)
  show "ep_heap (close_conn hk h e) g = ep_heap e g" if "g \<noteq> h" for g
    using that by (simp add: c)
qed

subsection \<open>The newest connection of a player\<close>

lemma newest_by_pid_spec:
  assumes "case newest of None \<Rightarrow> True | Some g \<Rightarrow> c_PID (hp g) = pid"
  shows "case newest_by_pid hp pid newest cs of
      None \<Rightarrow> newest = None \<and> (\<forall>(i, h) \<in> set cs. c_PID (hp h) \<noteq> pid)
    | Some g \<Rightarrow> c_PID (hp g) = pid \<and> (newest = Some g \<or> g \<in> snd ` set cs) \<and>
        (\<forall>(i, h) \<in> set cs. c_PID (hp h) = pid \<longrightarrow> c_ID (hp h) \<le> c_ID (hp g)) \<and>
        (\<forall>k. newest = Some k \<longrightarrow> c_ID (hp k) \<le> c_ID (hp g))"
  using assms
proof (induction cs arbitrary: newest)
  case Nil
  then show ?case by (auto split: option.splits)
next
  case (Cons x cs)
  obtain i h where x: "x = (i, h)" by (cases x)
  let ?new = "if c_PID (hp h) = pid \<and> (case newest of None \<Rightarrow> True | Some g \<Rightarrow> c_ID (hp h) > c_ID (hp g)) then Some h else newest"
  have "case ?new of None \<Rightarrow> True | Some g \<Rightarrow> c_PID (hp g) = pid"
    using Cons.prems by (auto split: option.splits)
  from Cons.IH [OF this] show ?case
    by (auto simp: x not_less split: option.splits if_splits)
qed

lemma FindConnectionByPID_newest:
  "case FindConnectionByPID pid e of
     None \<Rightarrow> \<forall>(i, h) \<in> set (ep_connections e). c_PID (ep_heap e h) \<noteq> pid
   | Some g \<Rightarrow> g \<in> snd ` set (ep_connections e) \<and> c_PID (ep_heap e g) = pid \<and>
       (\<forall>(i, h) \<in> set (ep_connections e). c_PID (ep_heap e h) = pid \<longrightarrow> c_ID (ep_heap e h) \<le> c_ID (ep_heap e g))"
  using newest_by_pid_spec [where newest = None and hp = "ep_heap e" and pid = pid and cs = "ep_connections e"]
  by (auto simp: FindConnectionByPID_def split: option.splits)

lemma FindConnectionByPID_order:
  assumes "table_ok e" "mset cs = mset (ep_connections e)"
  shows "FindConnectionByPID pid (e\<lparr>ep_connections := cs\<rparr>) = FindConnectionByPID pid e"
proof -
  let ?e = "e\<lparr>ep_connections := cs\<rparr>"
  have s: "set cs = set (ep_connections e)" using assms(2) by (metis set_mset_mset)
  have inj: "g = h" if gh: "g \<in> snd ` set cs" "h \<in> snd ` set cs" and eq: "c_ID (ep_heap e g) = c_ID (ep_heap e h)" for g h
  proof -
    obtain i j where "(i, g) \<in> set (ep_connections e)" "(j, h) \<in> set (ep_connections e)" using gh s by auto
    moreover from this have "i = j" using eq table_okD(1) [OF assms(1)] by metis
    ultimately show ?thesis using assms(1) unfolding table_ok_def gomap_wf_def by (blast dest: eq_key_imp_eq_value)
  qed
  note spec = FindConnectionByPID_newest [where pid = pid and e = e] FindConnectionByPID_newest [where pid = pid and e = ?e]
  show ?thesis
  proof (cases "FindConnectionByPID pid e")
    case None
    then show ?thesis using spec s by (fastforce split: option.splits)
  next
    case (Some g)
    then obtain h where h: "FindConnectionByPID pid ?e = Some h"
      using spec s by (fastforce split: option.splits)
    from spec(1) Some have g: "g \<in> snd ` set cs" "c_PID (ep_heap e g) = pid"
      and gm: "\<And>i k. (i, k) \<in> set cs \<Longrightarrow> c_PID (ep_heap e k) = pid \<Longrightarrow> c_ID (ep_heap e k) \<le> c_ID (ep_heap e g)"
      unfolding s by auto
    from spec(2) h have k: "h \<in> snd ` set cs" "c_PID (ep_heap e h) = pid"
      and hm: "\<And>i k. (i, k) \<in> set cs \<Longrightarrow> c_PID (ep_heap e k) = pid \<Longrightarrow> c_ID (ep_heap e k) \<le> c_ID (ep_heap e h)"
      by auto
    have "c_ID (ep_heap e g) = c_ID (ep_heap e h)"
      using g k gm hm by (intro order.antisym) fastforce+
    then show ?thesis using inj [OF g(1) k(1)] Some h by simp
  qed
qed

subsection \<open>Eviction\<close>

definition stale :: "int \<Rightarrow> 'w endpoint \<Rightarrow> nat \<Rightarrow> bool" where
  "stale maxIdle e h \<longleftrightarrow> (let idle = IdleFor (ep_now e) (ep_heap e h) in idle > 0 \<and> idle \<ge> maxIdle)"

lemma close_conn_now: "hk_OnDisconnect hk = None \<Longrightarrow> ep_now (close_conn hk h e) = ep_now e"
  by (simp add: close_conn_def unregisterConnection_def Let_def)

text \<open>The loop over a snapshot, with the choice of the connections to close as a parameter.\<close>

fun close_loop :: "'w hooks \<Rightarrow> (nat \<Rightarrow> 'w endpoint \<Rightarrow> bool) \<Rightarrow> nat list \<Rightarrow> nat \<Rightarrow> 'w endpoint \<Rightarrow> nat \<times> 'w endpoint" where
  "close_loop hk P [] n e = (n, e)"
| "close_loop hk P (h # hs) n e = (if P h e then close_loop hk P hs (n + 1) (close_conn hk h e) else close_loop hk P hs n e)"

lemma reap_loop_close: "reap_loop hk m hs n e = close_loop hk (\<lambda>h e. stale m e h) hs n e"
  by (induction hs arbitrary: n e) (simp_all add: stale_def Let_def)

lemma kick_pid_loop_close: "kick_pid_loop hk pid hs n e = close_loop hk (\<lambda>h e. c_PID (ep_heap e h) = pid) hs n e"
  by (induction hs arbitrary: n e) simp_all

lemma close_loop_spec:
  assumes "table_ok e" "hk_OnDisconnect hk = None" "distinct hs" "set hs \<subseteq> snd ` set (ep_connections e)"
    and local: "\<And>h g e. g \<noteq> h \<Longrightarrow> table_ok e \<Longrightarrow> h \<in> snd ` set (ep_connections e) \<Longrightarrow> P g (close_conn hk h e) = P g e"
  shows "close_loop hk P hs n e = (n + length (filter (\<lambda>h. P h e) hs), snd (close_loop hk P hs n e)) \<and>
     ep_connections (snd (close_loop hk P hs n e)) = filter (\<lambda>(i, h). h \<notin> set (filter (\<lambda>h. P h e) hs)) (ep_connections e) \<and>
     table_ok (snd (close_loop hk P hs n e))"
  using assms(1,3,4)
proof (induction hs arbitrary: n e)
  case Nil
  then show ?case by (simp add: case_prod_unfold)
next
  case (Cons h hs)
  show ?case
  proof (cases "P h e")
    case False
    then show ?thesis using Cons by simp
  next
    case True
    let ?e = "close_conn hk h e"
    have mem: "h \<in> snd ` set (ep_connections e)" using Cons.prems by simp
    then obtain i where i: "(i, h) \<in> set (ep_connections e)" by auto
    note cl = table_ok_close [OF Cons.prems(1) assms(2) i]
    have P: "filter (\<lambda>g. P g ?e) hs = filter (\<lambda>g. P g e) hs"
    proof (rule filter_cong [OF refl])
      fix g assume "g \<in> set hs"
      then have "g \<noteq> h" using Cons.prems(2) by auto
      then show "P g ?e = P g e" by (rule local [OF _ Cons.prems(1) mem])
    qed
    have sub: "set hs \<subseteq> snd ` set (ep_connections ?e)"
      using Cons.prems unfolding cl(1) by fastforce
    have fl: "filter (\<lambda>(i, g). g \<notin> set (filter (\<lambda>g. P g e) hs)) (filter (\<lambda>(j, g). g \<noteq> h) (ep_connections e))
        = filter (\<lambda>(i, g). g \<notin> set (filter (\<lambda>g. P g e) (h # hs))) (ep_connections e)"
      unfolding filter_filter by (rule filter_cong) (auto simp: True)
    show ?thesis
      using Cons.IH [OF cl(2) _ sub, of "n + 1"] Cons.prems(2) True fl P by (simp add: cl(1))
  qed
qed

lemma snapshot_ok: "table_ok e \<Longrightarrow> distinct (snapshotConns e)" "set (snapshotConns e) \<subseteq> snd ` set (ep_connections e)"
  by (simp_all add: table_ok_def snapshotConns_def)

lemma ReapIdle_spec:
  assumes "table_ok e" "hk_OnDisconnect hk = None" "0 < maxIdle"
  shows "fst (ReapIdle hk maxIdle e) = length (filter (stale maxIdle e) (snapshotConns e)) \<and>
    ep_connections (snd (ReapIdle hk maxIdle e)) = filter (\<lambda>(i, h). \<not> stale maxIdle e h) (ep_connections e) \<and>
    table_ok (snd (ReapIdle hk maxIdle e))"
proof -
  have loc: "stale maxIdle (close_conn hk h e) g = stale maxIdle e g"
    if "g \<noteq> h" "table_ok e" "h \<in> snd ` set (ep_connections e)" for h g and e :: "'a endpoint"
    using that table_ok_close(3) [OF that(2) assms(2)] by (auto simp: stale_def close_conn_now assms(2))
  note sp = close_loop_spec [OF assms(1,2) snapshot_ok(1) [OF assms(1)] snapshot_ok(2), of "\<lambda>h e. stale maxIdle e h" 0, OF loc]
  have fl: "filter (\<lambda>(i, h). h \<notin> set (filter (stale maxIdle e) (snapshotConns e))) (ep_connections e)
      = filter (\<lambda>(i, h). \<not> stale maxIdle e h) (ep_connections e)"
    by (rule filter_cong) (auto simp: snapshotConns_def intro: rev_image_eqI)
  have r: "ReapIdle hk maxIdle e = close_loop hk (\<lambda>h e. stale maxIdle e h) (snapshotConns e) 0 e"
    using assms(3) by (simp add: ReapIdle_def reap_loop_close)
  show ?thesis unfolding r using sp fl by (metis (no_types, lifting) add_0 fst_conv)
qed

lemma KickPID_spec:
  assumes "table_ok e" "hk_OnDisconnect hk = None" "pid \<noteq> 0"
  shows "fst (KickPID hk pid e) = length (filter (\<lambda>h. c_PID (ep_heap e h) = pid) (snapshotConns e)) \<and>
    ep_connections (snd (KickPID hk pid e)) = filter (\<lambda>(i, h). c_PID (ep_heap e h) \<noteq> pid) (ep_connections e) \<and>
    table_ok (snd (KickPID hk pid e))"
proof -
  have loc: "(c_PID (ep_heap (close_conn hk h e) g) = pid) = (c_PID (ep_heap e g) = pid)"
    if "g \<noteq> h" "table_ok e" "h \<in> snd ` set (ep_connections e)" for h g and e :: "'a endpoint"
    using that table_ok_close(3) [OF that(2) assms(2)] by auto
  note sp = close_loop_spec [OF assms(1,2) snapshot_ok(1) [OF assms(1)] snapshot_ok(2), of "\<lambda>h e. c_PID (ep_heap e h) = pid" 0, OF loc]
  have fl: "filter (\<lambda>(i, h). h \<notin> set (filter (\<lambda>h. c_PID (ep_heap e h) = pid) (snapshotConns e))) (ep_connections e)
      = filter (\<lambda>(i, h). c_PID (ep_heap e h) \<noteq> pid) (ep_connections e)"
    by (rule filter_cong) (auto simp: snapshotConns_def intro: rev_image_eqI)
  have r: "KickPID hk pid e = close_loop hk (\<lambda>h e. c_PID (ep_heap e h) = pid) (snapshotConns e) 0 e"
    using assms(3) by (simp add: KickPID_def kick_pid_loop_close)
  show ?thesis unfolding r using sp fl by (metis (no_types, lifting) add_0 fst_conv)
qed

subsection \<open>What the handlers of a game may touch\<close>

text \<open>A set of hooks that leaves the part \<open>\<pi>\<close> of every connection alone.  Sending is the one
  thing a handler's answer does to its connection, so \<open>\<pi>\<close> must not read what sending writes.\<close>

locale keeping_hooks =
  fixes hk :: "'w hooks" and \<pi> :: "connection \<Rightarrow> 'b"
  assumes on_connect: "hk_OnConnect hk = Some f \<Longrightarrow> \<pi> (ep_heap (f h e) k) = \<pi> (ep_heap e k)"
    and on_disconnect: "hk_OnDisconnect hk = Some f \<Longrightarrow> \<pi> (ep_heap (f h e) k) = \<pi> (ep_heap e k)"
    and on_rmc: "hk_OnRMC hk = Some g \<Longrightarrow> \<pi> (ep_heap (g h m e) k) = \<pi> (ep_heap e k)"
    and handler: "find_handler pr hk = Some r \<Longrightarrow> \<pi> (ep_heap (snd (r h m e)) k) = \<pi> (ep_heap e k)"
    and custom: "map_of (hk_custom hk) ty = Some q \<Longrightarrow> \<pi> (ep_heap (q h p e) k) = \<pi> (ep_heap e k)"
    and sending: "\<pi> (sendData s d c) = \<pi> c"
begin

lemma SendRMC_keeps: "\<pi> (ep_heap (SendRMC s h m e) k) = \<pi> (ep_heap e k)"
  by (simp add: SendRMC_def sending)

lemma dispatch_keeps: "\<pi> (ep_heap (dispatchRMC hk h payload e) k) = \<pi> (ep_heap e k)"
proof (cases "ParseRMC payload")
  case (Inr req)
  let ?e1 = "case hk_OnRMC hk of None \<Rightarrow> e | Some f \<Rightarrow> f h req e"
  have e1: "\<pi> (ep_heap ?e1 k) = \<pi> (ep_heap e k)" by (cases "hk_OnRMC hk") (simp_all add: on_rmc)
  have hd: "\<pi> (ep_heap x k) = \<pi> (ep_heap ?e1 k)"
    if "find_handler (rm_Protocol req) hk = Some f" "f h req ?e1 = (o', x)" for f o' x
    using handler [OF that(1), where h = h and m = req and e = ?e1 and k = k] that(2) by simp
  show ?thesis
  proof (cases "rm_Mode req = RMCRequest")
    case True
    show ?thesis
    proof (cases "find_handler (rm_Protocol req) hk")
      case None
      then show ?thesis using Inr True e1 by (simp add: dispatchRMC_def Let_def SendRMC_keeps)
    next
      case (Some f)
      obtain o' x where fx: "f h req ?e1 = (o', x)" by (cases "f h req ?e1")
      then show ?thesis using Inr True Some hd [OF Some fx] e1
        by (cases o') (simp_all add: dispatchRMC_def Let_def SendRMC_keeps)
    qed
  qed (simp add: dispatchRMC_def Inr)
qed (simp add: dispatchRMC_def)

lemma close_keeps:
  assumes "\<And>c. \<pi> (c\<lparr>c_state := stateClosed\<rparr>) = \<pi> c"
  shows "\<pi> (ep_heap (close_conn hk h e) k) = \<pi> (ep_heap e k)"
proof -
  have u: "ep_heap (unregisterConnection h x) = ep_heap x" for x :: "'w endpoint" by (simp add: unregisterConnection_def)
  show ?thesis
    by (auto simp: close_conn_def Let_def u assms on_disconnect split: option.split)
qed

end

text \<open>The identity of a connection: what the login request alone may write.\<close>

definition identity :: "connection \<Rightarrow> u64 \<times> u32 \<times> bytes" where
  "identity c = (c_PID c, c_CID c, c_sessionKey c)"

lemma identity_ops [simp]:
  "identity (c_send b c) = identity c" "identity (sendAck p c) = identity c"
  "identity (processSYN s rnd p c) = identity c" "identity (processPing p c) = identity c"
  "identity (ackPackets base extra c) = identity c"
  "identity (sendOneFragment chunk fid c) = identity c" "identity (sendData s d c) = identity c"
  "identity (snd (dejaRecu seq c)) = identity c" "identity (snd (reassemble p c)) = identity c"
  "identity (c\<lparr>c_state := v\<rparr>) = identity c" "identity (c\<lparr>c_lastSeen := t\<rparr>) = identity c"
  "identity (c\<lparr>c_ID := i\<rparr>) = identity c" "identity (c\<lparr>c_recvBuf := b'\<rparr>) = identity c"
  by (simp_all add: identity_def c_send_def sendAck_def processSYN_def processPing_def ackPackets_def sendOneFragment_def
      remember_fragment_def emit_fragment_def sendData_def dejaRecu_def reassemble_def Let_def)

lemma identity_receiveData [simp]: "identity (snd (receiveData p c)) = identity c"
proof -
  obtain b c' where d: "dejaRecu (pk_PacketID p) (sendAck p c) = (b, c')" by (cases "dejaRecu (pk_PacketID p) (sendAck p c)")
  have "identity c' = identity (snd (dejaRecu (pk_PacketID p) (sendAck p c)))" by (simp add: d)
  then have c': "identity c' = identity c" by simp
  show ?thesis
    by (cases b) (simp_all add: receiveData_def Let_def d c')
qed

lemma register_heap: "identity (ep_heap (registerConnection h e) k) = identity (ep_heap e k)"
  by (simp add: registerConnection_def Let_def)

lemma processCONNECT_identity:
  assumes kp: "keeping_hooks hk identity" and sec: "hk_Secure hk" and run: "processCONNECT hk h p e = (r, e')"
    and ch: "identity (ep_heap e' k) \<noteq> identity (ep_heap e k)"
  shows "k = h \<and> pk_Signature p = LitePacketSignature (AccessKey (hk_Settings hk)) p (c_connectionSig (ep_heap e h)) \<and>
    granted hk e (pk_Payload p) (ep_heap e h) (identity (ep_heap e' h))"
proof -
  obtain res e1 where lg: "processLoginRequest hk h (pk_Payload p) e = (res, e1)"
    by (cases "processLoginRequest hk h (pk_Payload p) e")
  show ?thesis
  proof (cases "pk_Signature p = LitePacketSignature (AccessKey (hk_Settings hk)) p (c_connectionSig (ep_heap e h))")
    case False
    then have "e' = e" using run by (auto simp: processCONNECT_def Let_def)
    then show ?thesis using ch by simp
  next
    case sig: True
    show ?thesis
    proof (cases res)
      case (Inl err)
      then have "ep_heap e' = ep_heap e"
        using run lg sig login_fails_unchanged [of hk h "pk_Payload p" e err e1]
        by (cases err) (auto simp: processCONNECT_def Let_def)
      then show ?thesis using ch by simp
    next
      case (Inr response)
      have e': "identity (ep_heap e' k) = identity (ep_heap e1 k)" for k
        using run lg sig Inr keeping_hooks.on_connect [OF kp]
        by (auto simp: processCONNECT_def Let_def register_heap split: option.splits)
      have "k = h" using ch e' login_other_connections [OF lg] by metis
      moreover have "granted hk e (pk_Payload p) (ep_heap e h) (identity (ep_heap e1 h))"
        using login_only_granted [OF sec lg [unfolded Inr]] unfolding identity_def .
      ultimately show ?thesis using sig e' by metis
    qed
  qed
qed

lemma handlePacket_identity:
  assumes kp: "keeping_hooks hk identity" and sec: "hk_Secure hk" and run: "handlePacket hk rnd h p e = (r, e')"
    and ch: "identity (ep_heap e' k) \<noteq> identity (ep_heap e k)"
  shows "k = h \<and> pk_Type p = PacketCONNECT \<and>
    pk_Signature p = LitePacketSignature (AccessKey (hk_Settings hk)) p (c_connectionSig (ep_heap e h)) \<and>
    granted hk e (pk_Payload p) (ep_heap e h) (identity (ep_heap e' h))"
proof -
  let ?e = "on_conn h (\<lambda>c. c\<lparr>c_lastSeen := ep_now e\<rparr>) e"
  have same: "identity (ep_heap ?e k) = identity (ep_heap e k)" for k by simp
  have types: "PacketCONNECT \<noteq> PacketSYN" by (simp add: packet_types)
  have data: "identity (ep_heap (processData hk h p x) k) = identity (ep_heap x k)" for x k
  proof -
    obtain m c' where rd: "receiveData p (ep_heap x h) = (m, c')" by (cases "receiveData p (ep_heap x h)")
    then have "identity c' = identity (ep_heap x h)" using identity_receiveData [of p "ep_heap x h"] by simp
    then show ?thesis using keeping_hooks.dispatch_keeps [OF kp] by (cases m) (simp_all add: processData_def rd)
  qed
  have cl: "identity (ep_heap (close_conn hk h x) k) = identity (ep_heap x k)" for x k
    by (rule keeping_hooks.close_keeps [OF kp]) simp
  have cu: "identity (ep_heap (f h p x) k) = identity (ep_heap x k)" if "map_of (hk_custom hk) (pk_Type p) = Some f" for f x k
    by (rule keeping_hooks.custom [OF kp that])
  show ?thesis
  proof (cases "pk_Type p = PacketCONNECT \<and> \<not> HasFlag p FlagACK")
    case True
    then have run': "processCONNECT hk h p ?e = (r, e')" using run types by (simp add: handlePacket_def Let_def)
    have "identity (ep_heap e' k) \<noteq> identity (ep_heap ?e k)" using ch same by simp
    from processCONNECT_identity [OF kp sec run' this] True show ?thesis
      by (auto simp: granted_def)
  next
    case False
    then have "identity (ep_heap e' k) = identity (ep_heap e k)"
      using run data cl cu by (auto simp: handlePacket_def Let_def split: if_splits option.splits)
    then show ?thesis using ch by simp
  qed
qed

subsection \<open>The auth server as an endpoint\<close>

text \<open>The handler \<open>cfg.Handler()\<close> installs; a panic inside it answers nothing.  The clock and the
  random source of a request are read off the endpoint's state.\<close>

definition auth_handler :: "auth_config \<Rightarrow> ('w endpoint \<Rightarrow> auth_env) \<Rightarrow> nat \<Rightarrow> rmc_message \<Rightarrow> 'w endpoint \<Rightarrow> rmc_message option \<times> 'w endpoint" where
  "auth_handler cfg env h req e =
     (case AuthHandler cfg (env e) (Some (c_RemoteAddr (ep_heap e h))) req (ep_auth e) of
        (Inr m, au) \<Rightarrow> (Some m, e\<lparr>ep_auth := au\<rparr>)
      | (Inl _, au) \<Rightarrow> (None, e\<lparr>ep_auth := au\<rparr>))"

definition auth_hooks :: "auth_config \<Rightarrow> ('w endpoint \<Rightarrow> auth_env) \<Rightarrow> 'w hooks" where
  "auth_hooks cfg env = Register ProtocolTicketGranting (auth_handler cfg env) (NewEndpoint (cfg_Settings cfg))"

lemma auth_handler_heap: "ep_heap (snd (auth_handler cfg env h req e)) = ep_heap e"
  by (auto simp: auth_handler_def split: prod.split sum.split)

lemma find_auth_handler: "find_handler pr (auth_hooks cfg env) = (if pr = ProtocolTicketGranting then Some (auth_handler cfg env) else None)"
  by (simp add: find_handler_def auth_hooks_def Register_def NewEndpoint_def)

interpretation auth_identity: keeping_hooks "auth_hooks cfg env" identity
  by unfold_locales
     (auto simp: find_handler_def auth_handler_heap auth_hooks_def Register_def NewEndpoint_def split: if_splits)

text \<open>A secure endpoint with no game installed: the base every secure server starts from.\<close>

interpretation secure_identity: keeping_hooks "SetSecureAccount password pid (NewEndpoint s)" identity
  by unfold_locales (simp_all add: SetSecureAccount_def NewEndpoint_def find_handler_def)

subsection \<open>CONNECT twice on one connection\<close>

lemma connect_insecure:
  assumes "\<not> hk_Secure hk" "hk_OnConnect hk = None" "LitePacketSignature (AccessKey (hk_Settings hk)) p (c_connectionSig (ep_heap e h)) = pk_Signature p"
  shows "\<exists>ack. processCONNECT hk h p e =
     (None, registerConnection h (on_conn h (\<lambda>c. (c_send (EncodePacket ack) c)\<lparr>c_state := stateConnected\<rparr>) e))"
  using assms by (auto simp: processCONNECT_def processLoginRequest_def Let_def)

lemma signature_only_with_need_ack:
  "\<not> HasFlag p FlagNeedACK \<Longrightarrow> LitePacketSignature key p sig = []"
  by (simp add: LitePacketSignature_def)

lemma double_register:
  fixes e :: "'w endpoint"
  assumes "c_state (ep_heap e h) = stateConnected" "hk_OnDisconnect hk = None"
    "ep_connCounter e + 1 \<noteq> 0" "ep_connCounter e + 2 \<noteq> 0"
    and run: "e2 = registerConnection h (on_conn h f (registerConnection h e))" "\<And>c. c_state (f c) = stateConnected"
  shows "FindConnectionByID (ep_connCounter e + 1) (close_conn hk h e2) = Some h"
    "c_state (ep_heap (close_conn hk h e2) h) = stateClosed"
    "close_conn hk h (close_conn hk h e2) = close_conn hk h e2"
proof -
  have st: "c_state (ep_heap e2 h) = stateConnected" by (simp add: run registerConnection_def Let_def)
  have id: "c_ID (ep_heap e2 h) = ep_connCounter e + 2" by (simp add: run registerConnection_def Let_def)
  have look: "map_of (ep_connections e2) (ep_connCounter e + 1) = Some h" by (simp add: run registerConnection_def Let_def)
  have cl: "close_conn hk h e2 = (on_conn h (\<lambda>c. c\<lparr>c_state := stateClosed\<rparr>) e2)\<lparr>ep_connections := AList.delete (ep_connCounter e + 2) (ep_connections e2)\<rparr>"
    using st id assms by (simp add: close_conn_def unregisterConnection_def Let_def conn_states)
  show "FindConnectionByID (ep_connCounter e + 1) (close_conn hk h e2) = Some h"
    by (simp add: FindConnectionByID_def cl look)
  show closed: "c_state (ep_heap (close_conn hk h e2) h) = stateClosed" by (simp add: cl)
  show "close_conn hk h (close_conn hk h e2) = close_conn hk h e2"
    using closed by (subst close_conn_def) simp
qed

subsection \<open>Frames and requests that cannot be read\<close>

lemma Feed_error:
  "DecodePackets (c_recvBuf (ep_heap e h) @ data) = (ps, rest, Some err) \<Longrightarrow>
   Feed hk rnd h data e = on_conn h (\<lambda>c. c\<lparr>c_recvBuf := []\<rparr>) e"
  by (simp add: Feed_def Let_def)

lemma dispatch_malformed: "ParseRMC payload = Inl err \<Longrightarrow> dispatchRMC hk h payload e = e"
  by (simp add: dispatchRMC_def)

lemma dispatch_unregistered:
  assumes "ParseRMC payload = Inr req" "rm_Mode req = RMCRequest" "find_handler (rm_Protocol req) hk = None" "hk_OnRMC hk = None"
  shows "dispatchRMC hk h payload e =
     SendRMC (hk_Settings hk) h (NewRMCError (rm_Protocol req) (rm_CallID req) ResultCoreNotImplemented) e"
  using assms by (simp add: dispatchRMC_def)

end
