(* ===== verification/Nex_Session.thy ===== *)
theory Nex_Session
  imports Nex_Rmc Nex_Types
begin

section \<open>Matchmaking structures (matchmaking.go, matchmaking\_acnh.go, notification.go)\<close>

text \<open>
  The structures of the matchmaking protocols and their levels.  \<open>MatchmakeSession\<close> embeds
  \<open>Gathering\<close>, so its record extends the one of \<open>Gathering\<close> and its first level is the same
  code.  The parameter map of a session is the list of its entries; a nil map and an empty map
  are both \<open>[]\<close>.
\<close>

record gathering_data =
  g_ID :: u32
  g_OwnerPID :: u64
  g_HostPID :: u64
  g_MinParticipants :: u16
  g_MaxParticipants :: u16
  g_ParticipationPolicy :: u32
  g_PolicyArgument :: u32
  g_Flags :: u32
  g_State :: u32
  g_Description :: string

definition gatheringLevel :: "'a gathering_data_scheme level" where
  "gatheringLevel = \<lparr>lv_Version = 0,
     lv_Save = Some (\<lambda>s g. w_U32 (g_ID g) @ w_PID s (g_OwnerPID g) @ w_PID s (g_HostPID g) @ w_U16 (g_MinParticipants g) @
       w_U16 (g_MaxParticipants g) @ w_U32 (g_ParticipationPolicy g) @ w_U32 (g_PolicyArgument g) @ w_U32 (g_Flags g) @
       w_U32 (g_State g) @ w_String (g_Description g)),
     lv_Load = Some (\<lambda>s g. do { i \<leftarrow> r_U32; ow \<leftarrow> r_PID s; ho \<leftarrow> r_PID s; mi \<leftarrow> r_U16; ma \<leftarrow> r_U16; pp \<leftarrow> r_U32; pa \<leftarrow> r_U32;
       fl \<leftarrow> r_U32; st \<leftarrow> r_U32; de \<leftarrow> r_String;
       State_Monad.return (g\<lparr>g_ID := i, g_OwnerPID := ow, g_HostPID := ho, g_MinParticipants := mi, g_MaxParticipants := ma,
         g_ParticipationPolicy := pp, g_PolicyArgument := pa, g_Flags := fl, g_State := st, g_Description := de\<rparr>) })\<rparr>"

definition Gathering_levels :: "gathering_data level list" where
  "Gathering_levels = [gatheringLevel]"

type_synonym matchmake_param = "(string, variant) gomap"

definition MatchmakeParam_levels :: "matchmake_param level list" where
  "MatchmakeParam_levels = [\<lparr>lv_Version = 0,
     lv_Save = Some (\<lambda>s p. WriteMap w_String w_Variant p),
     lv_Load = Some (\<lambda>s p. ReadMap r_String r_Variant)\<rparr>]"

definition MatchmakeBlockListParam_levels :: "u32 level list" where
  "MatchmakeBlockListParam_levels = [\<lparr>lv_Version = 0, lv_Save = Some (\<lambda>s p. w_U32 p), lv_Load = Some (\<lambda>s p. r_U32)\<rparr>]"

record matchmake_session = gathering_data +
  s_GameMode :: u32
  s_Attribs :: "u32 list"
  s_OpenParticipation :: bool
  s_MatchmakeSystem :: u32
  s_ApplicationData :: bytes
  s_NumParticipants :: u32
  s_ProgressScore :: u8
  s_SessionKey :: bytes
  s_Option :: u32
  s_Param :: matchmake_param
  s_StartedTime :: u64
  s_UserPassword :: string
  s_ReferGID :: u32
  s_UserPasswordEnabled :: bool
  s_SystemPasswordEnabled :: bool
  s_Codeword :: string

definition sessionLevel :: "matchmake_session level" where
  "sessionLevel = \<lparr>lv_Version = 0,
     lv_Save = Some (\<lambda>s m. w_U32 (s_GameMode m) @ WriteList w_U32 (s_Attribs m) @ w_Bool (s_OpenParticipation m) @
       w_U32 (s_MatchmakeSystem m) @ w_Buffer (s_ApplicationData m) @ w_U32 (s_NumParticipants m) @ w_U8 (s_ProgressScore m) @
       w_Buffer (s_SessionKey m) @ w_U32 (s_Option m) @ WriteStructure s MatchmakeParam_levels (s_Param m) @
       w_DateTime (s_StartedTime m) @ w_String (s_UserPassword m) @ w_U32 (s_ReferGID m) @ w_Bool (s_UserPasswordEnabled m) @
       w_Bool (s_SystemPasswordEnabled m) @ w_String (s_Codeword m)),
     lv_Load = Some (\<lambda>s m. do { gm \<leftarrow> r_U32; at \<leftarrow> ReadList r_U32; op \<leftarrow> r_Bool; ms \<leftarrow> r_U32; ad \<leftarrow> r_Buffer; np \<leftarrow> r_U32;
       ps \<leftarrow> r_U8; sk \<leftarrow> r_Buffer; opt \<leftarrow> r_U32; pm \<leftarrow> ReadStructure s MatchmakeParam_levels (s_Param m); st \<leftarrow> r_DateTime;
       up \<leftarrow> r_String; rg \<leftarrow> r_U32; ue \<leftarrow> r_Bool; se \<leftarrow> r_Bool; cw \<leftarrow> r_String;
       State_Monad.return (m\<lparr>s_GameMode := gm, s_Attribs := at, s_OpenParticipation := op, s_MatchmakeSystem := ms,
         s_ApplicationData := ad, s_NumParticipants := np, s_ProgressScore := ps, s_SessionKey := sk, s_Option := opt,
         s_Param := pm, s_StartedTime := st, s_UserPassword := up, s_ReferGID := rg, s_UserPasswordEnabled := ue,
         s_SystemPasswordEnabled := se, s_Codeword := cw\<rparr>) })\<rparr>"

definition MatchmakeSession_levels :: "matchmake_session level list" where
  "MatchmakeSession_levels = [gatheringLevel, sessionLevel]"

definition session_zero :: matchmake_session where
  "session_zero = \<lparr>g_ID = 0, g_OwnerPID = 0, g_HostPID = 0, g_MinParticipants = 0, g_MaxParticipants = 0,
     g_ParticipationPolicy = 0, g_PolicyArgument = 0, g_Flags = 0, g_State = 0, g_Description = [],
     s_GameMode = 0, s_Attribs = [], s_OpenParticipation = False, s_MatchmakeSystem = 0, s_ApplicationData = [],
     s_NumParticipants = 0, s_ProgressScore = 0, s_SessionKey = [], s_Option = 0, s_Param = [], s_StartedTime = 0,
     s_UserPassword = [], s_ReferGID = 0, s_UserPasswordEnabled = False, s_SystemPasswordEnabled = False, s_Codeword = []\<rparr>"

subsection \<open>Search criteria\<close>

record search_criteria =
  sc_Attribs :: "string list"
  sc_GameMode :: string
  sc_MinParticipants :: string
  sc_MaxParticipants :: string
  sc_MatchmakeSystem :: string
  sc_VacantOnly :: bool
  sc_ExcludeLocked :: bool
  sc_ExcludeNonHostPID :: bool
  sc_SelectionMethod :: u32
  sc_VacantParticipants :: u16
  sc_Param :: matchmake_param
  sc_ExcludeUserPassword :: bool
  sc_ExcludeSysPassword :: bool
  sc_ReferGID :: u32
  sc_Codeword :: string
  sc_Range :: result_range

definition criteria_zero :: search_criteria where
  "criteria_zero = \<lparr>sc_Attribs = [], sc_GameMode = [], sc_MinParticipants = [], sc_MaxParticipants = [], sc_MatchmakeSystem = [],
     sc_VacantOnly = False, sc_ExcludeLocked = False, sc_ExcludeNonHostPID = False, sc_SelectionMethod = 0, sc_VacantParticipants = 0,
     sc_Param = [], sc_ExcludeUserPassword = False, sc_ExcludeSysPassword = False, sc_ReferGID = 0, sc_Codeword = [],
     sc_Range = \<lparr>rr_Offset = 0, rr_Size = 0\<rparr>\<rparr>"

definition criteria_save :: "settings \<Rightarrow> search_criteria \<Rightarrow> bytes" where
  "criteria_save s c = WriteList w_String (sc_Attribs c) @ w_String (sc_GameMode c) @ w_String (sc_MinParticipants c) @
     w_String (sc_MaxParticipants c) @ w_String (sc_MatchmakeSystem c) @ w_Bool (sc_VacantOnly c) @ w_Bool (sc_ExcludeLocked c) @
     w_Bool (sc_ExcludeNonHostPID c) @ w_U32 (sc_SelectionMethod c) @
     (if NexVersion s \<ge> 30500 then w_U16 (sc_VacantParticipants c) else []) @
     (if NexVersion s \<ge> 40000 then WriteStructure s MatchmakeParam_levels (sc_Param c) @ w_Bool (sc_ExcludeUserPassword c) @
        w_Bool (sc_ExcludeSysPassword c) @ w_U32 (sc_ReferGID c) @ w_String (sc_Codeword c) @
        WriteStructure s ResultRange_levels (sc_Range c) else [])"

definition criteria_load :: "settings \<Rightarrow> search_criteria \<Rightarrow> search_criteria reader" where
  "criteria_load s c = do {
     at \<leftarrow> ReadList r_String; gm \<leftarrow> r_String; mi \<leftarrow> r_String; ma \<leftarrow> r_String; ms \<leftarrow> r_String; vo \<leftarrow> r_Bool; el \<leftarrow> r_Bool; en \<leftarrow> r_Bool;
     sm \<leftarrow> r_U32; vp \<leftarrow> (if NexVersion s \<ge> 30500 then r_U16 else State_Monad.return (sc_VacantParticipants c));
     let c1 = c\<lparr>sc_Attribs := at, sc_GameMode := gm, sc_MinParticipants := mi, sc_MaxParticipants := ma, sc_MatchmakeSystem := ms,
        sc_VacantOnly := vo, sc_ExcludeLocked := el, sc_ExcludeNonHostPID := en, sc_SelectionMethod := sm, sc_VacantParticipants := vp\<rparr>;
     (if NexVersion s \<ge> 40000
      then do { pm \<leftarrow> ReadStructure s MatchmakeParam_levels (sc_Param c1); eu \<leftarrow> r_Bool; es \<leftarrow> r_Bool; rg \<leftarrow> r_U32; cw \<leftarrow> r_String;
        ra \<leftarrow> ReadStructure s ResultRange_levels (sc_Range c1);
        State_Monad.return (c1\<lparr>sc_Param := pm, sc_ExcludeUserPassword := eu, sc_ExcludeSysPassword := es, sc_ReferGID := rg,
          sc_Codeword := cw, sc_Range := ra\<rparr>) }
      else State_Monad.return c1) }"

definition SearchCriteria_levels :: "search_criteria level list" where
  "SearchCriteria_levels = [\<lparr>lv_Version = 0, lv_Save = Some criteria_save, lv_Load = Some criteria_load\<rparr>]"

subsection \<open>The parameter of AutoMatchmake\<close>

record auto_param =
  ap_Session :: matchmake_session
  ap_Criteria :: "search_criteria list"

definition auto_zero :: auto_param where
  "auto_zero = \<lparr>ap_Session = session_zero, ap_Criteria = []\<rparr>"

definition auto_load :: "settings \<Rightarrow> auto_param \<Rightarrow> auto_param reader" where
  "auto_load s a = do {
     se \<leftarrow> ReadStructure s MatchmakeSession_levels (ap_Session a);
     st \<leftarrow> State_Monad.get;
     let a1 = a\<lparr>ap_Session := se\<rparr>;
     (if \<not> StructHeader s \<or> EOF st then State_Monad.return a1
      else do { _ \<leftarrow> ReadList (r_PID s); _ \<leftarrow> r_U32; _ \<leftarrow> r_U32; _ \<leftarrow> r_String; _ \<leftarrow> r_U16;
        criteria \<leftarrow> ReadList (ReadStructure s SearchCriteria_levels criteria_zero);
        st' \<leftarrow> State_Monad.get;
        State_Monad.return (if Err st' = None then a1\<lparr>ap_Criteria := criteria\<rparr> else a1) }) }"

definition AutoMatchmakeParam_levels :: "auto_param level list" where
  "AutoMatchmakeParam_levels = [\<lparr>lv_Version = 0,
     lv_Save = Some (\<lambda>s a. WriteStructure s MatchmakeSession_levels (ap_Session a)), lv_Load = Some auto_load\<rparr>]"

subsection \<open>Parameters and results of the other methods\<close>

record find_param =
  fp_PrincipalIDs :: "u64 list"
  fp_Options :: u32
  fp_BlockList :: u32

definition find_param_zero :: find_param where
  "find_param_zero = \<lparr>fp_PrincipalIDs = [], fp_Options = 0, fp_BlockList = 0\<rparr>"

definition FindByParticipantParam_levels :: "find_param level list" where
  "FindByParticipantParam_levels = [\<lparr>lv_Version = 0,
     lv_Save = Some (\<lambda>s p. WriteList (w_PID s) (fp_PrincipalIDs p) @ w_U32 (fp_Options p) @
       WriteStructure s MatchmakeBlockListParam_levels (fp_BlockList p)),
     lv_Load = Some (\<lambda>s p. do { ids \<leftarrow> ReadList (r_PID s); op \<leftarrow> r_U32; bl \<leftarrow> ReadStructure s MatchmakeBlockListParam_levels (fp_BlockList p);
       State_Monad.return (p\<lparr>fp_PrincipalIDs := ids, fp_Options := op, fp_BlockList := bl\<rparr>) })\<rparr>]"

record find_result =
  fr_PrincipalID :: u64
  fr_Session :: matchmake_session

definition FindByParticipantResult_levels :: "find_result level list" where
  "FindByParticipantResult_levels = [\<lparr>lv_Version = 0,
     lv_Save = Some (\<lambda>s r. w_PID s (fr_PrincipalID r) @ WriteStructure s MatchmakeSession_levels (fr_Session r)),
     lv_Load = Some (\<lambda>s r. do { p \<leftarrow> r_PID s; se \<leftarrow> ReadStructure s MatchmakeSession_levels (fr_Session r);
       State_Monad.return (r\<lparr>fr_PrincipalID := p, fr_Session := se\<rparr>) })\<rparr>]"

record update_param =
  up_GID :: u32
  up_ModificationFlags :: u32
  up_Attributes :: "u32 list"
  up_OpenParticipation :: bool
  up_ApplicationBuffer :: bytes
  up_ProgressScore :: u8
  up_Param :: matchmake_param
  up_StartedTime :: u64
  up_UserPassword :: string
  up_GameMode :: u32
  up_Description :: string
  up_MinParticipants :: u16
  up_MaxParticipants :: u16
  up_MatchmakeSystem :: u32
  up_ParticipationPolicy :: u32
  up_PolicyArgument :: u32
  up_Codeword :: string

definition update_param_zero :: update_param where
  "update_param_zero = \<lparr>up_GID = 0, up_ModificationFlags = 0, up_Attributes = [], up_OpenParticipation = False,
     up_ApplicationBuffer = [], up_ProgressScore = 0, up_Param = [], up_StartedTime = 0, up_UserPassword = [], up_GameMode = 0,
     up_Description = [], up_MinParticipants = 0, up_MaxParticipants = 0, up_MatchmakeSystem = 0, up_ParticipationPolicy = 0,
     up_PolicyArgument = 0, up_Codeword = []\<rparr>"

definition UpdateMatchmakeSessionParam_levels :: "update_param level list" where
  "UpdateMatchmakeSessionParam_levels = [\<lparr>lv_Version = 0,
     lv_Save = Some (\<lambda>s p. w_U32 (up_GID p) @ w_U32 (up_ModificationFlags p) @ WriteList w_U32 (up_Attributes p) @
       w_Bool (up_OpenParticipation p) @ w_Buffer (up_ApplicationBuffer p) @ w_U8 (up_ProgressScore p) @
       WriteStructure s MatchmakeParam_levels (up_Param p) @ w_DateTime (up_StartedTime p) @ w_String (up_UserPassword p) @
       w_U32 (up_GameMode p) @ w_String (up_Description p) @ w_U16 (up_MinParticipants p) @ w_U16 (up_MaxParticipants p) @
       w_U32 (up_MatchmakeSystem p) @ w_U32 (up_ParticipationPolicy p) @ w_U32 (up_PolicyArgument p) @ w_String (up_Codeword p)),
     lv_Load = Some (\<lambda>s p. do { gi \<leftarrow> r_U32; mf \<leftarrow> r_U32; at \<leftarrow> ReadList r_U32; op \<leftarrow> r_Bool; ab \<leftarrow> r_Buffer; ps \<leftarrow> r_U8;
       pm \<leftarrow> ReadStructure s MatchmakeParam_levels (up_Param p); st \<leftarrow> r_DateTime; pw \<leftarrow> r_String; gm \<leftarrow> r_U32; de \<leftarrow> r_String;
       mi \<leftarrow> r_U16; ma \<leftarrow> r_U16; ms \<leftarrow> r_U32; pp \<leftarrow> r_U32; pa \<leftarrow> r_U32; cw \<leftarrow> r_String;
       State_Monad.return (p\<lparr>up_GID := gi, up_ModificationFlags := mf, up_Attributes := at, up_OpenParticipation := op,
         up_ApplicationBuffer := ab, up_ProgressScore := ps, up_Param := pm, up_StartedTime := st, up_UserPassword := pw,
         up_GameMode := gm, up_Description := de, up_MinParticipants := mi, up_MaxParticipants := ma, up_MatchmakeSystem := ms,
         up_ParticipationPolicy := pp, up_PolicyArgument := pa, up_Codeword := cw\<rparr>) })\<rparr>]"

record simple_playing_session =
  sp_PrincipalID :: u64
  sp_GatheringID :: u32
  sp_GameMode :: u32
  sp_Attribute0 :: u32

definition SimplePlayingSession_levels :: "simple_playing_session level list" where
  "SimplePlayingSession_levels = [\<lparr>lv_Version = 0,
     lv_Save = Some (\<lambda>s p. w_PID s (sp_PrincipalID p) @ w_U32 (sp_GatheringID p) @ w_U32 (sp_GameMode p) @ w_U32 (sp_Attribute0 p)),
     lv_Load = Some (\<lambda>s p. do { i \<leftarrow> r_PID s; g \<leftarrow> r_U32; m \<leftarrow> r_U32; a \<leftarrow> r_U32;
       State_Monad.return (p\<lparr>sp_PrincipalID := i, sp_GatheringID := g, sp_GameMode := m, sp_Attribute0 := a\<rparr>) })\<rparr>]"

record participant_details =
  pd_IDParticipant :: u64
  pd_Name :: string
  pd_Message :: string
  pd_Participants :: u16

definition ParticipantDetails_levels :: "participant_details level list" where
  "ParticipantDetails_levels = [\<lparr>lv_Version = 0,
     lv_Save = Some (\<lambda>s p. w_PID s (pd_IDParticipant p) @ w_String (pd_Name p) @ w_String (pd_Message p) @ w_U16 (pd_Participants p)),
     lv_Load = Some (\<lambda>s p. do { i \<leftarrow> r_PID s; n \<leftarrow> r_String; m \<leftarrow> r_String; c \<leftarrow> r_U16;
       State_Monad.return (p\<lparr>pd_IDParticipant := i, pd_Name := n, pd_Message := m, pd_Participants := c\<rparr>) })\<rparr>]"

subsection \<open>Notification events\<close>

definition NotificationParticipate :: u32 where "NotificationParticipate = 3001"
definition NotificationParticipantDisconnected :: u32 where "NotificationParticipantDisconnected = 3007"
definition NotificationEndParticipation :: u32 where "NotificationEndParticipation = 3008"
definition NotificationOwnershipChanged :: u32 where "NotificationOwnershipChanged = 4000"
definition NotificationGatheringUnregistered :: u32 where "NotificationGatheringUnregistered = 109000"
definition NotificationHostChanged :: u32 where "NotificationHostChanged = 110000"

lemmas notification_types = NotificationParticipate_def NotificationParticipantDisconnected_def NotificationEndParticipation_def
  NotificationOwnershipChanged_def NotificationGatheringUnregistered_def NotificationHostChanged_def

record notification_event =
  ne_PIDSource :: u64
  ne_Type :: u32
  ne_Param1 :: u64
  ne_Param2 :: u64
  ne_StrParam :: string
  ne_Param3 :: u64

definition event_zero :: notification_event where
  "event_zero = \<lparr>ne_PIDSource = 0, ne_Type = 0, ne_Param1 = 0, ne_Param2 = 0, ne_StrParam = [], ne_Param3 = 0\<rparr>"

definition param2EstUnPID :: "u32 \<Rightarrow> bool" where
  "param2EstUnPID ty \<longleftrightarrow> ty \<in> {NotificationParticipate, NotificationParticipantDisconnected, NotificationEndParticipation,
     NotificationOwnershipChanged, NotificationHostChanged}"

text \<open>\<open>strVideZero\<close> is the environment switch of the same name.\<close>

definition NotificationEvent_levels :: "bool \<Rightarrow> notification_event level list" where
  "NotificationEvent_levels strVideZero = [\<lparr>lv_Version = 0,
     lv_Save = Some (\<lambda>s n. w_PID s (ne_PIDSource n) @ w_U32 (ne_Type n) @ w_U64 (ne_Param1 n) @
       (if param2EstUnPID (ne_Type n) then w_U64 (Publique s (ne_Param2 n)) else w_U64 (ne_Param2 n)) @
       (if strVideZero then w_StringVideZero (ne_StrParam n) else w_String (ne_StrParam n)) @ w_U64 (ne_Param3 n)),
     lv_Load = Some (\<lambda>s n. do { src \<leftarrow> r_PID s; ty \<leftarrow> r_U32; p1 \<leftarrow> r_U64; p2 \<leftarrow> r_U64; st \<leftarrow> r_String; p3 \<leftarrow> r_U64;
       State_Monad.return (n\<lparr>ne_PIDSource := src, ne_Type := ty, ne_Param1 := p1,
         ne_Param2 := (if param2EstUnPID ty then Interne s p2 else p2), ne_StrParam := st, ne_Param3 := p3\<rparr>) })\<rparr>]"

subsection \<open>The session survives the wire\<close>

definition param_ok :: "matchmake_param \<Rightarrow> bool" where
  "param_ok p \<longleftrightarrow> gomap_wf p \<and> length p < 2 ^ 32 \<and> (\<forall>(k, v) \<in> set p. string_ok k \<and> variant_ok v) \<and>
     length (WriteMap w_String w_Variant p) < 2 ^ 32"

interpretation cMatchmakeParam: structure_codec s MatchmakeParam_levels z param_ok
proof unfold_locales
  fix v :: matchmake_param and pre post
  assume ok: "param_ok v"
  have "loads (hd MatchmakeParam_levels) s z v v"
    using ok by (simp add: loads_def MatchmakeParam_levels_def level_body_def param_ok_def cParams.map_enc cParams.pair_ok_def)
  then show "run_state (ReadStructure s MatchmakeParam_levels z) (cursor pre (WriteStructure s MatchmakeParam_levels v @ post))
       = (v, cursor (pre @ WriteStructure s MatchmakeParam_levels v) post)"
    using single_level_read_write by (simp add: MatchmakeParam_levels_def)
qed

definition session_ok :: "settings \<Rightarrow> matchmake_session \<Rightarrow> bool" where
  "session_ok s m \<longleftrightarrow> pid_ok s (g_OwnerPID m) \<and> pid_ok s (g_HostPID m) \<and> string_ok (g_Description m) \<and>
     length (s_Attribs m) < 2 ^ 32 \<and> length (s_ApplicationData m) < 2 ^ 32 \<and> length (s_SessionKey m) < 2 ^ 32 \<and>
     param_ok (s_Param m) \<and> string_ok (s_UserPassword m) \<and> string_ok (s_Codeword m) \<and>
     length (level_body s sessionLevel m) < 2 ^ 32 \<and> length (level_body s gatheringLevel m) < 2 ^ 32"

lemma loads_gathering:
  fixes m :: "'a gathering_data_scheme"
  assumes "pid_ok s (g_OwnerPID m)" "pid_ok s (g_HostPID m)" "string_ok (g_Description m)" "length (level_body s gatheringLevel m) < 2 ^ 32"
  shows "loads gatheringLevel s acc m (acc\<lparr>g_ID := g_ID m, g_OwnerPID := g_OwnerPID m, g_HostPID := g_HostPID m,
     g_MinParticipants := g_MinParticipants m, g_MaxParticipants := g_MaxParticipants m,
     g_ParticipationPolicy := g_ParticipationPolicy m, g_PolicyArgument := g_PolicyArgument m, g_Flags := g_Flags m,
     g_State := g_State m, g_Description := g_Description m\<rparr>)"
  using assms by (simp add: loads_def gatheringLevel_def level_body_def run_U32 run_PID run_U16 run_String)

lemma loads_session:
  assumes "session_ok s m"
    "acc = session_zero\<lparr>g_ID := g_ID m, g_OwnerPID := g_OwnerPID m, g_HostPID := g_HostPID m,
     g_MinParticipants := g_MinParticipants m, g_MaxParticipants := g_MaxParticipants m,
     g_ParticipationPolicy := g_ParticipationPolicy m, g_PolicyArgument := g_PolicyArgument m, g_Flags := g_Flags m,
     g_State := g_State m, g_Description := g_Description m\<rparr>"
  shows "loads sessionLevel s acc m m"
proof -
  have list: "run_state (ReadList r_U32) (cursor pre (WriteList w_U32 (s_Attribs m) @ post))
      = (s_Attribs m, cursor (pre @ WriteList w_U32 (s_Attribs m)) post)" for pre post
    using assms(1) by (intro cU32.list_enc) (simp_all add: session_ok_def)
  have len: "length (level_body s sessionLevel m) < 2 ^ 32" using assms(1) by (simp add: session_ok_def)
  show ?thesis
    unfolding loads_def
    using assms(1) len
    by (simp add: session_ok_def sessionLevel_def level_body_def run_U32 list run_Bool run_Buffer run_U8
        cMatchmakeParam.read_write run_U64 run_String r_DateTime_def w_DateTime_def assms(2) session_zero_def)
qed

interpretation cMatchmakeSession: structure_codec s MatchmakeSession_levels session_zero "session_ok s"
proof unfold_locales
  fix v :: matchmake_session and pre post
  assume ok: "session_ok s v"
  have "loads gatheringLevel s session_zero v (session_zero\<lparr>g_ID := g_ID v, g_OwnerPID := g_OwnerPID v, g_HostPID := g_HostPID v,
     g_MinParticipants := g_MinParticipants v, g_MaxParticipants := g_MaxParticipants v,
     g_ParticipationPolicy := g_ParticipationPolicy v, g_PolicyArgument := g_PolicyArgument v, g_Flags := g_Flags v,
     g_State := g_State v, g_Description := g_Description v\<rparr>)"
    by (rule loads_gathering) (use ok in \<open>simp_all add: session_ok_def\<close>)
  from two_level_read_write [OF this loads_session [OF ok refl]]
  show "run_state (ReadStructure s MatchmakeSession_levels session_zero) (cursor pre (WriteStructure s MatchmakeSession_levels v @ post))
       = (v, cursor (pre @ WriteStructure s MatchmakeSession_levels v) post)"
    by (simp add: MatchmakeSession_levels_def)
qed

end
