(* ===== verification/Nex_Criteria.thy ===== *)
theory Nex_Criteria
  imports Nex_Session Nex_Station
begin

section \<open>Search criteria of AutoMatchmake (matchmaking\_criteria.go)\<close>

text \<open>
  A filter is a string: blank accepts every value, a number accepts that value, a pair
  \<open>min,max\<close> accepts the range.  The lemmas at the end say so for the decimal texts of numbers
  with any white space around them.
\<close>

definition filterAccepts :: "string \<Rightarrow> u64 \<Rightarrow> bool" where
  "filterAccepts filter0 v =
     (let f = TrimSpace filter0 in
      if f = [] then True
      else let (lo, hi, isRange) = (case Cut (CHR '','') f of None \<Rightarrow> (f, [], False) | Some (a, b) \<Rightarrow> (a, b, True)) in
        (case ParseUint (TrimSpace lo) of
           None \<Rightarrow> True
         | Some mn \<Rightarrow>
             if \<not> isRange then v = mn
             else (case ParseUint (TrimSpace hi) of None \<Rightarrow> v \<ge> mn | Some mx \<Rightarrow> v \<ge> mn \<and> v \<le> mx)))"

definition criterionAccepts :: "search_criteria \<Rightarrow> matchmake_session \<Rightarrow> int \<Rightarrow> bool" where
  "criterionAccepts c s members =
     (if \<not> filterAccepts (sc_GameMode c) (ucast (s_GameMode s)) \<or>
         \<not> filterAccepts (sc_MinParticipants c) (ucast (g_MinParticipants s)) \<or>
         \<not> filterAccepts (sc_MaxParticipants c) (ucast (g_MaxParticipants s)) \<or>
         \<not> filterAccepts (sc_MatchmakeSystem c) (ucast (s_MatchmakeSystem s)) then False
      else if \<not> list_all (\<lambda>(i, f). TrimSpace f = [] \<or> (i < length (s_Attribs s) \<and> filterAccepts f (ucast (s_Attribs s ! i))))
                (List.enumerate 0 (sc_Attribs c)) then False
      else if sc_VacantOnly c \<and>
              uint (g_MaxParticipants s) - members < (if uint (sc_VacantParticipants c) < 1 then 1 else uint (sc_VacantParticipants c)) then False
      else if sc_ExcludeLocked c \<and> \<not> s_OpenParticipation s then False
      else if sc_ExcludeUserPassword c \<and> s_UserPasswordEnabled s then False
      else if sc_ExcludeSysPassword c \<and> s_SystemPasswordEnabled s then False
      else if sc_Codeword c \<noteq> [] \<and> sc_Codeword c \<noteq> s_Codeword s then False
      else True)"

definition criteriaAccept :: "search_criteria list \<Rightarrow> matchmake_session \<Rightarrow> int \<Rightarrow> bool" where
  "criteriaAccept criteria s members \<longleftrightarrow> criteria = [] \<or> list_ex (\<lambda>c. criterionAccepts c s members) criteria"

subsection \<open>White space around a number\<close>

definition ascii_space :: "char \<Rightarrow> bool" where
  "ascii_space c \<longleftrightarrow> (of_char c :: nat) \<in> {9, 10, 11, 12, 13, 32}"

definition graphic :: "char \<Rightarrow> bool" where
  "graphic c \<longleftrightarrow> 32 < (of_char c :: nat) \<and> (of_char c :: nat) < 127"

lemma is_digit_graphic: "is_digit c \<Longrightarrow> graphic c"
  by (simp add: is_digit_def graphic_def)

lemma first_prefix_none: "\<forall>p \<in> set ps. p = [] \<or> hd p \<noteq> c \<Longrightarrow> first_prefix ps (c # r) = None"
  by (induction ps) (auto simp: first_prefix_def map_filter_def strip_prefix_def neq_Nil_conv split: list.splits)

lemma first_prefix_single:
  "[c] \<in> set ps \<Longrightarrow> \<forall>p \<in> set ps. hd p = c \<longrightarrow> p = [c] \<Longrightarrow> first_prefix ps (c # r) = Some r"
proof (induction ps)
  case (Cons p ps)
  show ?case
  proof (cases "p = [c]")
    case False
    then have "p = [] \<or> (\<exists>x y. p = x # y \<and> x \<noteq> c)" using Cons.prems(2) by (cases p) auto
    then have "first_prefix (p # ps) (c # r) = first_prefix ps (c # r)"
      by (elim disjE exE conjE) (simp_all add: first_prefix_def map_filter_def strip_prefix_def)
    moreover have "first_prefix ps (c # r) = Some r" 
    proof (rule Cons.IH)
      show "[c] \<in> set ps" using Cons.prems(1) False by auto
      show "\<forall>p \<in> set ps. hd p = c \<longrightarrow> p = [c]" using Cons.prems(2) by (meson list.set_intros(2))
    qed
    ultimately show ?thesis by simp
  qed (simp add: first_prefix_def map_filter_def strip_prefix_def)
qed simp

text \<open>Both ends of the encodings of white space: a one-byte encoding is the only one that begins
  or ends with its byte, and the bytes of the others are not ASCII.\<close>

lemma space_encodings_ends:
  "\<forall>p \<in> set space_encodings. p \<noteq> [] \<and> (length p = 1 \<or> 128 \<le> (of_char (hd p) :: nat) \<and> 128 \<le> (of_char (last p) :: nat))"
  by (auto simp: space_encodings_def)

lemma eq_char_of: "n < 256 \<Longrightarrow> c = char_of (n :: nat) \<longleftrightarrow> of_char c = n"
  by auto

lemma space_encodings_ascii: "[c] \<in> set space_encodings \<longleftrightarrow> ascii_space c"
  by (simp add: space_encodings_def ascii_space_def eq_char_of image_iff)

lemma ends_of_spaces:
  assumes "ps = space_encodings \<or> ps = map rev space_encodings" "p \<in> set ps" "(of_char (hd p) :: nat) < 128"
  shows "ascii_space (hd p) \<and> p = [hd p]"
proof -
  obtain q where q: "q \<in> set space_encodings" "p = q \<or> p = rev q" using assms(1,2) by auto
  have "length q = 1" using space_encodings_ends q assms(3) by (auto simp: hd_rev)
  moreover from this have "p = q" using q(2) by (auto simp: length_Suc_conv)
  ultimately show ?thesis using space_encodings_ascii [of "hd p"] q(1) by (auto simp: length_Suc_conv)
qed

lemma ascii_space_in: "ascii_space c \<Longrightarrow> ps = space_encodings \<or> ps = map rev space_encodings \<Longrightarrow> [c] \<in> set ps"
  using space_encodings_ascii [of c] imageI [of "[c]" "set space_encodings" rev] by auto

lemma first_prefix_graphic:
  assumes "graphic c" "ps = space_encodings \<or> ps = map rev space_encodings"
  shows "first_prefix ps (c # r) = None"
  by (rule first_prefix_none) (use ends_of_spaces [OF assms(2)] assms(1) in \<open>fastforce simp: graphic_def ascii_space_def\<close>)

lemma first_prefix_space:
  assumes "ascii_space c" "ps = space_encodings \<or> ps = map rev space_encodings"
  shows "first_prefix ps (c # r) = Some r"
  by (rule first_prefix_single [OF ascii_space_in [OF assms]])
     (use ends_of_spaces [OF assms(2)] assms(1) in \<open>auto simp: ascii_space_def\<close>)

lemma trim_front_spaces:
  assumes "ps = space_encodings \<or> ps = map rev space_encodings"
  shows "list_all ascii_space b \<Longrightarrow> trim_front ps (b @ s) = trim_front ps s"
  by (induction b) (simp_all add: trim_front.simps [of ps "_ # _"] first_prefix_space [OF _ assms])

lemma trim_front_graphic: "graphic c \<Longrightarrow> ps = space_encodings \<or> ps = map rev space_encodings \<Longrightarrow> trim_front ps (c # r) = c # r"
  by (subst trim_front.simps) (simp add: first_prefix_graphic)

lemma first_prefix_Nil [simp]: "first_prefix ps [] = None"
  by (induction ps) (auto simp: first_prefix_def map_filter_def strip_prefix_def)

lemma TrimSpace_blank: "list_all ascii_space b \<Longrightarrow> TrimSpace b = []"
  using trim_front_spaces [of space_encodings b "[]"] by (simp add: TrimSpace_def trim_front.simps [of _ "[]"])

lemma TrimSpace_padded:
  assumes "list_all ascii_space b" "list_all ascii_space b'" "s \<noteq> []" "graphic (hd s)" "graphic (last s)"
  shows "TrimSpace (b @ s @ b') = s"
proof -
  obtain c t where s: "s = c # t" using assms(3) by (cases s) auto
  obtain d u where r: "rev s = d # u" using assms(3) by (cases "rev s") auto
  have d: "graphic d" using assms(5) r by (metis hd_rev list.sel(1))
  have "trim_front space_encodings (b @ s @ b') = s @ b'"
    using trim_front_spaces [of space_encodings b "s @ b'"] assms(1,4) by (simp add: s trim_front_graphic)
  moreover have "trim_front (map rev space_encodings) (rev b' @ rev s) = rev s"
    using trim_front_spaces [of "map rev space_encodings" "rev b'" "rev s"] assms(2) d
    by (simp add: r trim_front_graphic list_all_iff)
  ultimately show ?thesis by (simp add: TrimSpace_def)
qed

lemma FormatUint_ends: "FormatUint v \<noteq> []" "graphic (hd (FormatUint v))" "graphic (last (FormatUint v))" "CHR '','' \<notin> set (FormatUint v)"
  using nat_str_digits [of "unat v"]
  by (auto simp: FormatUint_def list_all_iff is_digit_graphic) (auto simp: is_digit_def)

lemma Cut_none: "c \<notin> set xs \<Longrightarrow> Cut c xs = None"
  by (induction xs) auto

lemma filter_exact:
  assumes "list_all ascii_space b" "list_all ascii_space b'"
  shows "filterAccepts (b @ FormatUint n @ b') v \<longleftrightarrow> v = n"
proof -
  have "TrimSpace (b @ FormatUint n @ b') = FormatUint n" "TrimSpace (FormatUint n) = FormatUint n"
    using TrimSpace_padded [OF assms] TrimSpace_padded [of "[]" "[]"] by (simp_all add: FormatUint_ends)
  then show ?thesis by (simp add: filterAccepts_def FormatUint_ends Cut_none)
qed

lemma filter_range:
  assumes "list_all ascii_space b1" "list_all ascii_space b2" "list_all ascii_space b3" "list_all ascii_space b4"
  shows "filterAccepts (b1 @ FormatUint m @ b2 @ '','' @ b3 @ FormatUint n @ b4) v \<longleftrightarrow> m \<le> v \<and> v \<le> n"
proof -
  let ?f = "FormatUint m @ b2 @ '','' @ b3 @ FormatUint n"
  have "TrimSpace (b1 @ ?f @ b4) = ?f"
    using TrimSpace_padded [OF assms(1,4), of ?f] by (simp add: FormatUint_ends)
  moreover have "CHR '','' \<notin> set (FormatUint m @ b2)"
    using assms(2) FormatUint_ends(4) [of m] by (auto simp: list_all_iff ascii_space_def)
  then have "Cut (CHR '','') ?f = Some (FormatUint m @ b2, b3 @ FormatUint n)"
    using Cut_append_sep [of "CHR '',''" "FormatUint m @ b2" "b3 @ FormatUint n"] by simp
  moreover have "TrimSpace (FormatUint m @ b2) = FormatUint m" "TrimSpace (b3 @ FormatUint n) = FormatUint n"
    using TrimSpace_padded [of "[]" b2] TrimSpace_padded [of b3 "[]"] assms by (simp_all add: FormatUint_ends)
  ultimately show ?thesis by (simp add: filterAccepts_def FormatUint_ends)
qed

end
