(* ===== verification/Nex_Tournament.thy ===== *)
theory Nex_Tournament
  imports Nex_Rmc Nex_Station
begin

section \<open>Tournaments (tournament.go)\<close>

text \<open>
  The store of tournaments and its handlers.  A tournament is the creator's structure with
  three places filled in by the server: the id, a mark and the code; the code is found by
  walking the name and the rule properties.  The results of \<open>rand.Read\<close> and the clock are
  arguments.  The file is the list it decodes to: \<open>restore\<close> is the loop that reads it, \<open>tournamentInit\<close> what a process
  does with it before its first request, and \<open>tournamentFlusher\<close> one tick of the writer, taken as one step; JSON text is
  not modelled.
\<close>

definition MethodTournamentSearch :: u32 where "MethodTournamentSearch = 0x39"
definition MethodTournamentCreate :: u32 where "MethodTournamentCreate = 0x3D"
definition MethodTournamentDelete :: u32 where "MethodTournamentDelete = 0x3E"
definition MethodTournamentJoin :: u32 where "MethodTournamentJoin = 0x3F"
definition tournamentCodeLen :: nat where "tournamentCodeLen = 12"
definition tournamentMaxBlob :: nat where "tournamentMaxBlob = 4096"
definition tournamentMax :: nat where "tournamentMax = 2000"
definition tournamentNameLengthOffset :: nat where "tournamentNameLengthOffset = 0x69"
definition ProtocolMatchmakeExtension :: u16 where "ProtocolMatchmakeExtension = 0x6D"

record tournament =
  tn_ID :: u32
  tn_Owner :: u64
  tn_Code :: string
  tn_Mark :: bytes
  tn_Blob :: bytes
  tn_Participants :: "u64 list"
  tn_CreatedAt :: int

record tournament_store =
  ts_byID :: "(u32, tournament) gomap"
  ts_quarantined :: "tournament list"
  ts_nextID :: u32
  ts_dirty :: bool

definition tournaments :: tournament_store where
  "tournaments = \<lparr>ts_byID = [], ts_quarantined = [], ts_nextID = 1000, ts_dirty = False\<rparr>"

definition newTournamentCode :: "bytes \<Rightarrow> string" where
  "newTournamentCode b = map (\<lambda>v. char_of_byte (48 + v mod 10)) b"

function walk_properties :: "bytes \<Rightarrow> nat \<Rightarrow> nat option" where
  "walk_properties b pos =
     (if pos < length b then
        (if b ! pos = 0xFF then (if pos + 5 + 3 \<le> length b then Some (pos + 5) else None)
         else if pos + 2 > length b then None
         else if b ! (pos + 1) = 1 then walk_properties b (pos + 4)
         else if b ! (pos + 1) = 2 then walk_properties b (pos + 5)
         else if b ! (pos + 1) = 4 then walk_properties b (pos + 7)
         else None)
      else None)"
  by pat_completeness auto
termination by (relation "measure (\<lambda>(b, pos). length b - pos)") auto

declare walk_properties.simps [simp del]

definition tournamentCodeOffset :: "bytes \<Rightarrow> nat option" where
  "tournamentCodeOffset b =
     (if length b < tournamentNameLengthOffset + 2 then None
      else let nameLen = unat (le_word (take 2 (drop tournamentNameLengthOffset b)) :: u16) in
        if nameLen < 2 \<or> odd nameLen then None
        else let pos = tournamentNameLengthOffset + 2 + nameLen in
          if pos \<ge> length b then None else walk_properties b pos)"

definition validTournamentCode :: "string \<Rightarrow> bool" where
  "validTournamentCode code \<longleftrightarrow> length code = tournamentCodeLen \<and> list_all is_digit code"

definition tournamentCodeMatches :: "bytes \<Rightarrow> string \<Rightarrow> bool" where
  "tournamentCodeMatches b code = (case tournamentCodeOffset b of None \<Rightarrow> False | Some i \<Rightarrow>
     if \<not> validTournamentCode code then False
     else if i + 2 > length b then False
     else let n = unat (le_word (take 2 (drop i b)) :: u16) in
       if n \<noteq> tournamentCodeLen + 1 \<or> i + 2 + n > length b \<or> b ! (i + 2 + n - 1) \<noteq> 0 then False
       else take tournamentCodeLen (drop (i + 2) b) = string_bytes code)"

definition validStoredTournament :: "tournament \<Rightarrow> bool" where
  "validStoredTournament t =
     (if tn_ID t = 0 \<or> length (tn_Blob t) < 12 \<or> length (tn_Blob t) > tournamentMaxBlob + tournamentCodeLen then False
      else if le_word (take 4 (tn_Blob t)) \<noteq> tn_ID t then False
      else tournamentCodeMatches (tn_Blob t) (tn_Code t))"

definition stamp_head :: "bytes \<Rightarrow> u32 \<Rightarrow> bytes \<Rightarrow> bytes" where
  "stamp_head payload id0 mark = le_bytes 4 id0 @ take 8 mark @ drop (4 + min 8 (length mark)) payload"

definition stampTournament :: "bytes \<Rightarrow> u32 \<Rightarrow> bytes \<Rightarrow> string \<Rightarrow> bytes" where
  "stampTournament payload id0 mark code =
     (if length payload < 12 then payload
      else let out = stamp_head payload id0 mark in
        (case tournamentCodeOffset out of None \<Rightarrow> out | Some i \<Rightarrow>
           if \<not> validTournamentCode code \<or> take 3 (drop i out) \<noteq> [1, 0, 0] then out
           else take i out @ le_bytes 2 (of_nat (length code + 1) :: u16) @ string_bytes code @ [0] @ drop (i + 3) out))"

definition CreateTournament :: "bytes \<Rightarrow> bytes \<Rightarrow> int \<Rightarrow> u64 \<Rightarrow> bytes \<Rightarrow> tournament_store \<Rightarrow> tournament option \<times> tournament_store" where
  "CreateTournament mark codeRand now owner payload ts =
     (if (case tournamentCodeOffset payload of None \<Rightarrow> True
          | Some i \<Rightarrow> payload = [] \<or> length payload > tournamentMaxBlob \<or> take 3 (drop i payload) \<noteq> [1, 0, 0]) then (None, ts)
      else if length (ts_byID ts) \<ge> tournamentMax then (None, ts)
      else let id0 = ts_nextID ts; ts1 = ts\<lparr>ts_nextID := ts_nextID ts + 1\<rparr>; code = newTournamentCode codeRand;
               t = \<lparr>tn_ID = id0, tn_Owner = owner, tn_Code = code, tn_Mark = mark, tn_Blob = stampTournament payload id0 mark code,
                    tn_Participants = [owner], tn_CreatedAt = now div 10 ^ 9\<rparr>
        in if \<not> validStoredTournament t then (None, ts1)
           else (Some t, ts1\<lparr>ts_byID := AList.update id0 t (ts_byID ts1), ts_dirty := True\<rparr>))"

definition tournamentByID :: "u32 \<Rightarrow> tournament_store \<Rightarrow> tournament option" where
  "tournamentByID i ts = (case map_of (ts_byID ts) i of None \<Rightarrow> None | Some t \<Rightarrow> if validStoredTournament t then Some t else None)"

definition allTournaments :: "tournament_store \<Rightarrow> tournament list" where
  "allTournaments ts = filter validStoredTournament (map snd (ts_byID ts))"

definition joinTournament :: "u32 \<Rightarrow> u64 \<Rightarrow> tournament_store \<Rightarrow> bool \<times> tournament_store" where
  "joinTournament i pid ts = (case map_of (ts_byID ts) i of None \<Rightarrow> (False, ts) | Some t \<Rightarrow>
     if \<not> validStoredTournament t then (False, ts)
     else if list_ex (\<lambda>p. p = pid) (tn_Participants t) then (True, ts)
     else (True, ts\<lparr>ts_byID := AList.update i (t\<lparr>tn_Participants := tn_Participants t @ [pid]\<rparr>) (ts_byID ts), ts_dirty := True\<rparr>))"

definition deleteTournament :: "u32 \<Rightarrow> u64 \<Rightarrow> tournament_store \<Rightarrow> bool \<times> tournament_store" where
  "deleteTournament i pid ts = (case map_of (ts_byID ts) i of None \<Rightarrow> (False, ts) | Some t \<Rightarrow>
     if \<not> validStoredTournament t \<or> tn_Owner t \<noteq> pid then (False, ts)
     else (True, ts\<lparr>ts_byID := AList.delete i (ts_byID ts), ts_dirty := True\<rparr>))"

subsection \<open>Restoring and flushing\<close>

fun restore :: "tournament option list \<Rightarrow> tournament_store \<Rightarrow> tournament_store" where
  "restore [] ts = ts"
| "restore (None # l) ts = restore l ts"
| "restore (Some t # l) ts = restore l
     (if tn_ID t = 0 then ts
      else let ts1 = (if tn_ID t \<ge> ts_nextID ts then ts\<lparr>ts_nextID := tn_ID t + 1\<rparr> else ts) in
        if \<not> validStoredTournament t then ts1\<lparr>ts_quarantined := ts_quarantined ts1 @ [t]\<rparr>
        else ts1\<lparr>ts_byID := AList.update (tn_ID t) t (ts_byID ts1)\<rparr>)"

definition flush_list :: "tournament_store \<Rightarrow> (tournament list) option \<times> tournament_store" where
  "flush_list ts = (if \<not> ts_dirty ts then (None, ts)
     else (Some (ts_quarantined ts @ map snd (ts_byID ts)), ts\<lparr>ts_dirty := False\<rparr>))"

text \<open>A process with its store and the file beside it: \<open>td_file\<close> is the list the file decodes to, None when there is no
  file or it cannot be read, and \<open>td_path\<close> whether a path is configured.  \<open>tournamentFlusher\<close> is one tick of the writer, its
  argument whether the temporary file is written and renamed: the mark of a change is taken down before that is known.\<close>

record tournament_disk =
  td_store :: tournament_store
  td_path :: bool
  td_file :: "tournament option list option"

definition tournamentInit :: "tournament_disk \<Rightarrow> tournament_disk" where
  "tournamentInit d =
     (if \<not> td_path d then d
      else case td_file d of None \<Rightarrow> d | Some l \<Rightarrow> d\<lparr>td_store := restore l (td_store d)\<rparr>)"

definition tournamentFlusher :: "bool \<Rightarrow> tournament_disk \<Rightarrow> tournament_disk" where
  "tournamentFlusher written d =
     (if \<not> td_path d then d
      else case flush_list (td_store d) of
        (None, ts) \<Rightarrow> d
      | (Some l, ts) \<Rightarrow> d\<lparr>td_store := ts, td_file := (if written then Some (map Some l) else td_file d)\<rparr>)"

subsection \<open>Handlers\<close>

definition createTournament :: "bytes \<Rightarrow> bytes \<Rightarrow> int \<Rightarrow> u64 \<Rightarrow> rmc_message \<Rightarrow> tournament_store \<Rightarrow> rmc_message \<times> tournament_store" where
  "createTournament mark codeRand now pid req ts =
     (let body = rm_Body req; err = NewRMCError ProtocolMatchmakeExtension (rm_CallID req) ResultCoreInvalidArgument in
      if length body < 5 then (err, ts)
      else let ver = body ! 0; ln = unat (le_word (take 4 (drop 1 body)) :: u32) in
        if ln \<le> 0 \<or> 5 + ln > length body then (err, ts)
        else case CreateTournament mark codeRand now pid (take ln (drop 5 body)) ts of
          (None, ts1) \<Rightarrow> (err, ts1)
        | (Some t, ts1) \<Rightarrow> (NewRMCSuccess ProtocolMatchmakeExtension (rm_Method req) (rm_CallID req)
             (w_U8 ver @ w_U32 (of_nat (length (tn_Blob t))) @ tn_Blob t), ts1))"

definition writeTournamentList :: "tournament list \<Rightarrow> bytes" where
  "writeTournamentList ts =
     (let valid = filter validStoredTournament ts in
      w_U32 (of_nat (length valid)) @ concat (map (\<lambda>t. w_U8 1 @ w_U32 (of_nat (length (tn_Blob t))) @ tn_Blob t) valid))"

fun read_tournaments :: "nat \<Rightarrow> stream_in \<Rightarrow> tournament_store \<Rightarrow> tournament list" where
  "read_tournaments 0 st ts = []"
| "read_tournaments (Suc n) st ts =
     (if Err st \<noteq> None then []
      else let (i, st') = run_state r_U32 st in
        (case tournamentByID i ts of None \<Rightarrow> [] | Some t \<Rightarrow> [t]) @ read_tournaments n st' ts)"

definition tournamentsByIDs :: "rmc_message \<Rightarrow> tournament_store \<Rightarrow> rmc_message" where
  "tournamentsByIDs req ts =
     (let (n, st) = run_state r_U32 (NewStreamIn (rm_Body req)) in
      NewRMCSuccess ProtocolMatchmakeExtension (rm_Method req) (rm_CallID req) (writeTournamentList (read_tournaments (unat n) st ts)))"

definition searchTournaments :: "rmc_message \<Rightarrow> tournament_store \<Rightarrow> rmc_message" where
  "searchTournaments req ts =
     NewRMCSuccess ProtocolMatchmakeExtension (rm_Method req) (rm_CallID req) (writeTournamentList (take 100 (allTournaments ts)))"

definition removeTournament :: "u64 \<Rightarrow> rmc_message \<Rightarrow> tournament_store \<Rightarrow> rmc_message \<times> tournament_store" where
  "removeTournament pid req ts =
     (NewRMCSuccess ProtocolMatchmakeExtension (rm_Method req) (rm_CallID req) [],
      if length (rm_Body req) \<ge> 4 then snd (deleteTournament (le_word (take 4 (rm_Body req))) pid ts) else ts)"

definition registerTournament :: "u64 \<Rightarrow> rmc_message \<Rightarrow> tournament_store \<Rightarrow> rmc_message \<times> tournament_store" where
  "registerTournament pid req ts =
     (NewRMCSuccess ProtocolMatchmakeExtension (rm_Method req) (rm_CallID req) [],
      if length (rm_Body req) \<ge> 4 then snd (joinTournament (le_word (take 4 (rm_Body req))) pid ts) else ts)"

definition TournamentSummaries :: "tournament_store \<Rightarrow> bytes" where
  "TournamentSummaries ts =
     (let l = allTournaments ts in
      le_bytes 4 (of_nat (length l) :: u32) @
      concat (map (\<lambda>t. [1] @ le_bytes 4 (28 :: u32) @ le_bytes 4 (tn_ID t) @ le_bytes 4 (of_nat (length (tn_Participants t)) :: u32) @
         le_bytes 4 (4 :: u32) @ le_bytes 4 (0 :: u32) @ le_bytes 4 (0 :: u32) @ le_bytes 4 (0 :: u32) @ le_bytes 4 (0 :: u32)) l))"

subsection \<open>The code is found again where it was put\<close>

lemma walk_bounds: "walk_properties b pos = Some i \<Longrightarrow> pos + 5 \<le> i \<and> i + 3 \<le> length b"
proof (induction b pos rule: walk_properties.induct)
  case (1 b pos)
  from 1(4) show ?case
    by (subst (asm) walk_properties.simps) (use 1(1-3) in \<open>auto split: if_splits\<close>)
qed

lemma walk_same_prefix:
  assumes "walk_properties b pos = Some i" "i + 3 \<le> length b'" "\<And>k. pos \<le> k \<Longrightarrow> k < i \<Longrightarrow> b' ! k = b ! k"
  shows "walk_properties b' pos = Some i"
  using assms
proof (induction b pos rule: walk_properties.induct)
  case (1 b pos)
  have pos: "pos + 5 \<le> i" "i + 3 \<le> length b" using walk_bounds [OF 1(4)] by auto
  have here: "b' ! pos = b ! pos" "b' ! (pos + 1) = b ! (pos + 1)" using 1(6) pos by simp_all
  from 1(4) have "b ! pos = 0xFF \<and> i = pos + 5 \<or> (\<exists>d \<in> {4, 5, 7}. b ! pos \<noteq> 0xFF \<and>
      b ! (pos + 1) = (if d = 4 then 1 else if d = 5 then 2 else 4) \<and> walk_properties b (pos + d) = Some i)"
    by (subst (asm) walk_properties.simps) (auto split: if_splits)
  then show ?case
  proof (elim disjE bexE conjE)
    assume "b ! pos = 0xFF" "i = pos + 5"
    then show ?thesis using here pos 1(5) by (subst walk_properties.simps) simp
  next
    fix d assume d: "d \<in> {4, 5, 7 :: nat}" "b ! pos \<noteq> 0xFF" "b ! (pos + 1) = (if d = 4 then 1 else if d = 5 then 2 else 4)"
      and rest: "walk_properties b (pos + d) = Some i"
    have "walk_properties b' (pos + d) = Some i"
      using d(1)
    proof (elim insertE emptyE)
      assume "d = 4"
      then show ?thesis using 1(1) 1(5,6) pos d rest by (simp add: le_less_trans)
    next
      assume "d = 5"
      then show ?thesis using 1(2) 1(5,6) pos d rest by (simp add: le_less_trans)
    next
      assume "d = 7"
      then show ?thesis using 1(3) 1(5,6) pos d rest by (simp add: le_less_trans)
    qed
    then show ?thesis using here d pos 1(5) by (subst walk_properties.simps) auto
  qed
qed

lemma offset_bounds:
  assumes "tournamentCodeOffset b = Some i"
  shows "tournamentNameLengthOffset + 9 \<le> i" "i + 3 \<le> length b"
  using assms walk_bounds by (auto simp: tournamentCodeOffset_def Let_def split: if_splits) fastforce

lemma offset_same_prefix:
  assumes off: "tournamentCodeOffset b = Some i" and len: "i + 3 \<le> length b'"
    and same: "\<And>k. tournamentNameLengthOffset \<le> k \<Longrightarrow> k < i \<Longrightarrow> b' ! k = b ! k"
  shows "tournamentCodeOffset b' = Some i"
proof -
  let ?o = tournamentNameLengthOffset
  have i: "?o + 9 \<le> i" "i + 3 \<le> length b" using offset_bounds [OF off] by auto
  have two: "take 2 (drop ?o b') = take 2 (drop ?o b)"
    using same i len by (intro nth_equalityI) (auto simp: less_Suc_eq numeral_2_eq_2)
  let ?n = "unat (le_word (take 2 (drop ?o b)) :: u16)"
  have w: "walk_properties b (?o + 2 + ?n) = Some i" "\<not> (?n < 2 \<or> odd ?n)"
    using off by (auto simp: tournamentCodeOffset_def Let_def split: if_splits)
  have "walk_properties b' (?o + 2 + ?n) = Some i"
    by (rule walk_same_prefix [OF w(1) len]) (simp add: same)
  then show ?thesis
    using i len two w walk_bounds [OF w(1)] by (auto simp: tournamentCodeOffset_def Let_def)
qed

lemma stamp_head_nth:
  assumes "length mark = 8" "12 \<le> length payload"
  shows "length (stamp_head payload tid mark) = length payload" "12 \<le> k \<Longrightarrow> k < length payload \<Longrightarrow> stamp_head payload tid mark ! k = payload ! k"
    "take 4 (stamp_head payload tid mark) = le_bytes 4 tid"
  using assms by (auto simp: stamp_head_def nth_append)

lemma is_digit_code: "is_digit (char_of_byte (48 + v mod 10))"
proof -
  have "unat (v mod 10 :: byte) < 10" by (simp add: unat_mod)
  then have "unat (48 + v mod 10 :: byte) = 48 + unat (v mod 10)" "unat (v mod 10 :: byte) < 10"
    by (auto simp: unat_word_ariths)
  then show ?thesis by (simp add: is_digit_def char_of_byte_def)
qed

lemma newTournamentCode_valid: "length r = tournamentCodeLen \<Longrightarrow> validTournamentCode (newTournamentCode r)"
  by (simp add: validTournamentCode_def newTournamentCode_def list_all_iff is_digit_code)

text \<open>Stamping puts the code at the offset it was found at, after which the structure carries the
  id and the code the server chose and everything else unchanged.\<close>

lemma stamp_shape:
  assumes off: "tournamentCodeOffset payload = Some i" and empty: "take 3 (drop i payload) = [1, 0, 0]"
    and mark: "length mark = 8" and code: "validTournamentCode code"
  shows "stampTournament payload id0 mark code =
     take i (stamp_head payload id0 mark) @ le_bytes 2 (13 :: u16) @ string_bytes code @ [0] @ drop (i + 3) payload"
proof -
  have i: "114 \<le> i" "i + 3 \<le> length payload" using offset_bounds [OF off] by (auto simp: tournamentNameLengthOffset_def)
  have p12: "12 \<le> length payload" using i by simp
  note hd = stamp_head_nth [OF mark p12]
  have "tournamentCodeOffset (stamp_head payload id0 mark) = Some i"
    by (rule offset_same_prefix [OF off]) (use i hd in \<open>auto simp: tournamentNameLengthOffset_def\<close>)
  moreover have tail: "drop j (stamp_head payload id0 mark) = drop j payload" if "12 \<le> j" for j
    using that hd mark by (intro nth_equalityI) auto
  ultimately show ?thesis
    using i code empty by (simp add: stampTournament_def Let_def validTournamentCode_def tournamentCodeLen_def)
qed

lemma stamp_valid:
  assumes off: "tournamentCodeOffset payload = Some i" and empty: "take 3 (drop i payload) = [1, 0, 0]"
    and mark: "length mark = 8" and code: "validTournamentCode code"
    and size: "length payload \<le> tournamentMaxBlob" and id0: "tn_ID t \<noteq> 0"
    and t: "tn_Code t = code" "tn_Blob t = stampTournament payload (tn_ID t) mark code"
  shows "validStoredTournament t"
proof -
  have i: "114 \<le> i" "i + 3 \<le> length payload" using offset_bounds [OF off] by (auto simp: tournamentNameLengthOffset_def)
  have p12: "12 \<le> length payload" using i by simp
  note hd = stamp_head_nth [OF mark p12, where tid = "tn_ID t"]
  have clen: "length code = 12" using code by (simp add: validTournamentCode_def tournamentCodeLen_def)
  let ?h = "take i (stamp_head payload (tn_ID t) mark)"
  have hlen: "length ?h = i" using i hd by simp
  define b where "b = ?h @ le_bytes 2 (13 :: u16) @ string_bytes code @ [0] @ drop (i + 3) payload"
  have blob: "tn_Blob t = b" using t stamp_shape [OF off empty mark code] by (simp add: b_def)
  have off': "tournamentCodeOffset b = Some i"
    by (rule offset_same_prefix [OF off])
       (use i hd hlen clen in \<open>auto simp: nth_append tournamentNameLengthOffset_def b_def\<close>)
  have drops: "drop i b = le_bytes 2 (13 :: u16) @ string_bytes code @ [0] @ drop (i + 3) payload"
    using hlen by (simp add: b_def)
  have d2: "drop (i + 2) b = string_bytes code @ [0] @ drop (i + 3) payload"
    using hlen clen by (simp add: b_def)
  have last: "b ! (14 + i) = 0" "b ! (i + 14) = 0"
    using hlen clen by (simp_all add: nth_append b_def)
  have two: "take 2 (drop i b) = le_bytes 2 (13 :: u16)" by (simp only: drops) simp
  have twelve: "take 12 (drop (i + 2) b) = string_bytes code" by (simp only: d2) (simp add: clen)
  have len: "length b = length payload + 12" using hlen clen i by (simp add: b_def)
  have ident: "take 4 b = le_bytes 4 (tn_ID t)"
    using i hd hlen by (simp add: b_def)
  have "tournamentCodeMatches b code"
    unfolding tournamentCodeMatches_def off' option.case Let_def two
    using code last twelve len i by (simp add: tournamentCodeLen_def)
  then show ?thesis
    unfolding validStoredTournament_def blob ident
    using id0 t(1) len size i by (simp add: tournamentMaxBlob_def tournamentCodeLen_def)
qed

subsection \<open>The store\<close>

definition store_ok :: "tournament_store \<Rightarrow> bool" where
  "store_ok ts \<longleftrightarrow> gomap_wf (ts_byID ts) \<and> length (ts_byID ts) \<le> tournamentMax \<and>
     (\<forall>(i, t) \<in> set (ts_byID ts). tn_ID t = i \<and> validStoredTournament t \<and> i < ts_nextID ts)"

lemma store_okD:
  assumes "store_ok ts" "(i, t) \<in> set (ts_byID ts)"
  shows "tn_ID t = i" "validStoredTournament t" "i < ts_nextID ts"
  using assms unfolding store_ok_def by (auto dest!: bspec [of _ _ "(i, t)"])

lemma store_ok_empty [inv_intros]: "store_ok tournaments"
  by (simp add: store_ok_def tournaments_def)

lemma less_succ_word: "(x :: 'a::len word) + 1 \<noteq> 0 \<Longrightarrow> x < x + 1"
  using unatSuc [of x] by (simp add: word_less_nat_alt add.commute)

definition creatable :: "bytes \<Rightarrow> bool" where
  "creatable payload \<longleftrightarrow> length payload \<le> tournamentMaxBlob \<and>
     (\<exists>i. tournamentCodeOffset payload = Some i \<and> take 3 (drop i payload) = [1, 0, 0])"

lemma creatable_nonempty: "creatable payload \<Longrightarrow> payload \<noteq> []"
  by (auto simp: creatable_def tournamentCodeOffset_def tournamentNameLengthOffset_def)

lemma CreateTournament_refuses:
  "\<not> creatable payload \<or> tournamentMax \<le> length (ts_byID ts) \<Longrightarrow> CreateTournament mark r now owner payload ts = (None, ts)"
  by (auto simp: CreateTournament_def creatable_def split: option.split)

definition created :: "bytes \<Rightarrow> bytes \<Rightarrow> int \<Rightarrow> u64 \<Rightarrow> bytes \<Rightarrow> u32 \<Rightarrow> tournament" where
  "created mark r now owner payload tid = \<lparr>tn_ID = tid, tn_Owner = owner, tn_Code = newTournamentCode r, tn_Mark = mark,
     tn_Blob = stampTournament payload tid mark (newTournamentCode r), tn_Participants = [owner], tn_CreatedAt = now div 10 ^ 9\<rparr>"

lemma created_valid:
  assumes "creatable payload" "length mark = 8" "length r = tournamentCodeLen" "tid \<noteq> 0"
  shows "validStoredTournament (created mark r now owner payload tid)"
proof -
  obtain i where "tournamentCodeOffset payload = Some i" "take 3 (drop i payload) = [1, 0, 0]" "length payload \<le> tournamentMaxBlob"
    using assms(1) by (auto simp: creatable_def)
  then show ?thesis
    using assms by (intro stamp_valid [where i = i and payload = payload and mark = mark and code = "newTournamentCode r"])
      (auto simp: created_def newTournamentCode_valid)
qed

lemma CreateTournament_accepts:
  assumes ok: "creatable payload" "length (ts_byID ts) < tournamentMax" and rnd: "length mark = 8" "length r = tournamentCodeLen"
    and nz: "ts_nextID ts \<noteq> 0"
  shows "CreateTournament mark r now owner payload ts =
     (Some (created mark r now owner payload (ts_nextID ts)),
      ts\<lparr>ts_nextID := ts_nextID ts + 1,
         ts_byID := AList.update (ts_nextID ts) (created mark r now owner payload (ts_nextID ts)) (ts_byID ts), ts_dirty := True\<rparr>)"
proof -
  obtain i where "tournamentCodeOffset payload = Some i" "take 3 (drop i payload) = [1, 0, 0]" "length payload \<le> tournamentMaxBlob"
    using ok(1) by (auto simp: creatable_def)
  then show ?thesis
    using ok(2) creatable_nonempty [OF ok(1)] created_valid [OF ok(1) rnd nz, of now owner]
    by (simp add: CreateTournament_def Let_def created_def)
qed

lemma store_ok_create [inv_intros]:
  assumes ok: "store_ok ts" and rnd: "length mark = 8" "length r = tournamentCodeLen" and nz: "ts_nextID ts \<noteq> 0" "ts_nextID ts + 1 \<noteq> 0"
  shows "store_ok (snd (CreateTournament mark r now owner payload ts))"
proof (cases "creatable payload \<and> length (ts_byID ts) < tournamentMax")
  case True
  let ?t = "created mark r now owner payload (ts_nextID ts)"
  have gt: "ts_nextID ts < ts_nextID ts + 1" by (rule less_succ_word [OF nz(2)])
  have fresh: "ts_nextID ts \<notin> fst ` set (ts_byID ts)" using store_okD(3) [OF ok] by fastforce
  have v: "validStoredTournament ?t" using True created_valid rnd nz by blast
  have "AList.update (ts_nextID ts) ?t (ts_byID ts) = ts_byID ts @ [(ts_nextID ts, ?t)]" by (rule update_fresh [OF fresh])
  then show ?thesis
    using True ok gt v fresh order.strict_trans [OF _ gt]
    by (auto simp: CreateTournament_accepts rnd nz store_ok_def gomap_wf_def created_def)
next
  case False
  then show ?thesis using ok CreateTournament_refuses [of payload ts] by (metis linorder_not_less snd_conv)
qed

lemma store_ok_delete [inv_intros]: "store_ok ts \<Longrightarrow> store_ok (snd (deleteTournament i pid ts))"
  using length_delete_le [of i "ts_byID ts"]
  by (auto simp: store_ok_def deleteTournament_def split: option.split)

lemma validStored_participants [simp]: "validStoredTournament (t\<lparr>tn_Participants := ps\<rparr>) = validStoredTournament t"
  by (simp add: validStoredTournament_def)

lemma store_ok_join [inv_intros]:
  assumes "store_ok ts"
  shows "store_ok (snd (joinTournament i pid ts))"
proof (cases "map_of (ts_byID ts) i")
  case (Some t)
  let ?m = "AList.update i (t\<lparr>tn_Participants := tn_Participants t @ [pid]\<rparr>) (ts_byID ts)"
  have t: "(i, t) \<in> set (ts_byID ts)" using Some by (rule map_of_SomeD)
  have wf: "gomap_wf (ts_byID ts)" using assms by (simp add: store_ok_def)
  have len: "length ?m = length (ts_byID ts)"
    by (rule length_update_present) (use t in force)
  have "tn_ID u = k \<and> validStoredTournament u \<and> k < ts_nextID ts" if "(k, u) \<in> set ?m" for k u
    using that store_okD [OF assms t] store_okD [OF assms, of k u] by (auto simp: set_update [OF wf])
  then have "store_ok (ts\<lparr>ts_byID := ?m, ts_dirty := True\<rparr>)"
    using assms wf len by (auto simp: store_ok_def)
  then show ?thesis
    unfolding joinTournament_def Some using assms by simp
qed (simp add: joinTournament_def assms)

lemma delete_not_owner:
  "map_of (ts_byID ts) i = Some t \<Longrightarrow> tn_Owner t \<noteq> pid \<Longrightarrow> deleteTournament i pid ts = (False, ts)"
  unfolding deleteTournament_def by (simp only: option.case) simp

subsection \<open>A restart\<close>

lemma valid_id: "validStoredTournament t \<Longrightarrow> tn_ID t \<noteq> 0"
  by (auto simp: validStoredTournament_def)

definition restored_next :: "tournament \<Rightarrow> u32 \<Rightarrow> u32" where
  "restored_next t n = (if tn_ID t \<ge> n then tn_ID t + 1 else n)"

lemma restore_Some:
  "tn_ID t \<noteq> 0 \<Longrightarrow> restore (Some t # l) ts = restore l
     (if validStoredTournament t
      then ts\<lparr>ts_nextID := restored_next t (ts_nextID ts), ts_byID := AList.update (tn_ID t) t (ts_byID ts)\<rparr>
      else ts\<lparr>ts_nextID := restored_next t (ts_nextID ts), ts_quarantined := ts_quarantined ts @ [t]\<rparr>)"
  by (simp add: restored_next_def Let_def)

lemma restore_quarantine:
  "\<forall>t \<in> set qs. tn_ID t \<noteq> 0 \<and> \<not> validStoredTournament t \<Longrightarrow>
   restore (map Some qs @ l) ts = restore l (ts\<lparr>ts_nextID := fold restored_next qs (ts_nextID ts), ts_quarantined := ts_quarantined ts @ qs\<rparr>)"
  by (induction qs arbitrary: ts) (simp_all add: restore_Some del: restore.simps(3))

lemma restore_valid:
  "\<forall>(i, t) \<in> set m. tn_ID t = i \<and> i \<noteq> 0 \<and> validStoredTournament t \<Longrightarrow> distinct (map fst (ts_byID ts @ m)) \<Longrightarrow>
   restore (map (Some \<circ> snd) m) ts =
     ts\<lparr>ts_nextID := fold restored_next (map snd m) (ts_nextID ts), ts_byID := ts_byID ts @ m\<rparr>"
proof (induction m arbitrary: ts)
  case (Cons p m)
  obtain i t where p: "p = (i, t)" by (cases p)
  have t: "tn_ID t = i" "i \<noteq> 0" "validStoredTournament t" using Cons.prems(1) p by auto
  have "i \<notin> fst ` set (ts_byID ts)" using Cons.prems(2) p by force
  then have up: "AList.update i t (ts_byID ts) = ts_byID ts @ [(i, t)]" by (rule update_fresh)
  let ?ts = "ts\<lparr>ts_nextID := restored_next t (ts_nextID ts), ts_byID := ts_byID ts @ [(i, t)]\<rparr>"
  have "restore (map (Some \<circ> snd) m) ?ts =
     ?ts\<lparr>ts_nextID := fold restored_next (map snd m) (ts_nextID ?ts), ts_byID := ts_byID ?ts @ m\<rparr>"
    by (rule Cons.IH) (use Cons.prems p in auto)
  then show ?case using t by (simp add: p restore_Some up comp_def del: restore.simps(3))
qed simp

lemma restored_next_above:
  "\<forall>t \<in> set l. tn_ID t + 1 \<noteq> 0 \<Longrightarrow> n \<le> fold restored_next l n \<and> (\<forall>t \<in> set l. tn_ID t < fold restored_next l n)"
proof (induction l arbitrary: n)
  case (Cons t l)
  let ?n = "restored_next t n"
  have "tn_ID t < ?n" "n \<le> ?n"
    using less_succ_word [of "tn_ID t"] Cons.prems by (auto simp: restored_next_def)
  moreover have "?n \<le> fold restored_next l ?n \<and> (\<forall>t \<in> set l. tn_ID t < fold restored_next l ?n)"
    by (rule Cons.IH) (use Cons.prems in simp)
  ultimately show ?case by (auto intro: order.trans order.strict_trans2)
qed simp

lemma unat_suc_le: "unat ((x :: 'a::len word) + 1) \<le> Suc (unat x)"
  by (simp add: unat_word_ariths(1))

lemma restored_next_le:
  "\<forall>t \<in> set l. unat (tn_ID t) < b \<Longrightarrow> unat n \<le> b \<Longrightarrow> unat (fold restored_next l n) \<le> b"
proof (induction l arbitrary: n)
  case (Cons t l)
  have "unat (tn_ID t) < b" using Cons.prems(1) by simp
  then have "unat (tn_ID t + 1) \<le> b" using unat_suc_le [of "tn_ID t"] by linarith
  then have "unat (restored_next t n) \<le> b" using Cons.prems(2) by (simp add: restored_next_def)
  from Cons.IH [OF _ this] show ?case using Cons.prems(1) by simp
qed simp

text \<open>What a list of valid tournaments filed under their ids is restored to.\<close>

lemma restore_saved:
  assumes "\<forall>(i, t) \<in> set m. tn_ID t = i \<and> validStoredTournament t" "distinct (map fst m)"
  shows "restore (map (Some \<circ> snd) m) tournaments =
     tournaments\<lparr>ts_nextID := fold restored_next (map snd m) 1000, ts_byID := m\<rparr>"
proof -
  have "\<forall>(i, t) \<in> set m. tn_ID t = i \<and> i \<noteq> 0 \<and> validStoredTournament t" using assms(1) valid_id by blast
  from restore_valid [OF this, of tournaments] assms(2) show ?thesis by (simp add: tournaments_def)
qed

subsection \<open>A change leaves its mark\<close>

lemma join_marks: "ts_dirty (snd (joinTournament i pid ts)) \<longleftrightarrow> ts_dirty ts \<or> ts_byID (snd (joinTournament i pid ts)) \<noteq> ts_byID ts"
proof (cases "map_of (ts_byID ts) i")
  case (Some t)
  let ?t = "t\<lparr>tn_Participants := tn_Participants t @ [pid]\<rparr>"
  have "tn_Participants ?t \<noteq> tn_Participants t" by simp
  then have "?t \<noteq> t" by metis
  moreover have "map_of (AList.update i ?t (ts_byID ts)) i = Some ?t" by (simp add: update_conv')
  ultimately have "AList.update i ?t (ts_byID ts) \<noteq> ts_byID ts" using Some by (metis option.inject)
  then show ?thesis unfolding joinTournament_def Some by simp
qed (simp add: joinTournament_def)

lemma delete_marks: "ts_dirty (snd (deleteTournament i pid ts)) \<longleftrightarrow> ts_dirty ts \<or> ts_byID (snd (deleteTournament i pid ts)) \<noteq> ts_byID ts"
proof (cases "map_of (ts_byID ts) i")
  case (Some t)
  have "map_of (AList.delete i (ts_byID ts)) i \<noteq> map_of (ts_byID ts) i" using Some by (simp add: delete_conv')
  then have "AList.delete i (ts_byID ts) \<noteq> ts_byID ts" by metis
  then show ?thesis unfolding deleteTournament_def Some by simp
qed (simp add: deleteTournament_def)

lemma create_marks:
  "ts_dirty (snd (CreateTournament mark r now owner payload ts)) \<longleftrightarrow>
     ts_dirty ts \<or> ts_byID (snd (CreateTournament mark r now owner payload ts)) \<noteq> ts_byID ts"
  if "store_ok ts"
proof -
  have "ts_nextID ts \<notin> fst ` set (ts_byID ts)" using store_okD(3) [OF that] by fastforce
  then have "AList.update (ts_nextID ts) t (ts_byID ts) \<noteq> ts_byID ts" for t by (simp add: update_fresh)
  then show ?thesis by (simp add: CreateTournament_def Let_def)
qed

end
