(* ===== verification/Nex_Lobby.thy ===== *)
theory Nex_Lobby
  imports Nex_Endpoint Nex_Criteria Nex_Tournament
begin

section \<open>The matchmaking store (matchmaking\_handlers.go, matchmaking\_hebergement.go, matchmaking\_notifdata.go, notification.go)\<close>

text \<open>
  The state of \<open>Matchmaking\<close> and the package variables it uses is the record \<open>mm_world\<close>, the
  world of an endpoint; the fields of \<open>Matchmaking\<close> a title sets once, and the environment
  switches, are the record \<open>mm_config\<close>.  Gatherings are only reachable through the map
  \<open>gatherings\<close> and are changed under one lock, so the map holds them by value.  Lines that
  only log are left out.

  \<open>mm_draws\<close> counts the calls of \<open>randomBytes\<close>, whose results the configuration lists;
  \<open>mm_timers\<close> are the pending \<open>time.AfterFunc\<close> calls; \<open>mm_pushed\<close> records, besides the bytes
  written to the connections, to whom each notification went.
\<close>

record gathering =
  gt_session :: matchmake_session
  gt_participants :: "u64 list"
  gt_hostConnID :: u32
  gt_code :: string

record participation_timer =
  pt_at :: int
  pt_caller :: nat
  pt_parts :: "u64 list"
  pt_gid :: u32

record mm_world =
  mm_gatherings :: "(u32, gathering) gomap"
  mm_byCode :: "(string, u32) gomap"
  mm_nextGID :: u32
  mm_codeRand :: u32
  mm_notif :: "(u64, (u32, notification_event) gomap) gomap"
  mm_recentKeys :: "(u32, bytes) gomap"
  mm_recentKeysOrder :: "u32 list"
  mm_notifCallCounter :: u32
  mm_draws :: nat
  mm_timers :: "participation_timer list"
  mm_pushed :: "(nat \<times> notification_event) list"
  mm_tournaments :: tournament_store

type_synonym 'a mm_state = "'a mm_world_scheme endpoint"

record 'a mm_config =
  mc_Settings :: settings
  mc_UseSearchCriteria :: bool
  mc_ParticipationNotificationDelay :: int
  mc_CreateSessionNotificationDelay :: int
  mc_NormalizeCreateSessionRV :: bool
  mc_FindByParticipantEnabled :: bool
  mc_FindByParticipantIDResolver :: "(u64 \<Rightarrow> u64) option"
  mc_FindByParticipantHonorOptions :: bool
  mc_FindByParticipantEchoRequestedID :: bool
  mc_FindByParticipantVideVeutDireToutes :: bool
  mc_SessionPartPersists :: bool
  mc_JoinRespExistingCount :: bool
  mc_FriendPIDs :: "(u64 \<Rightarrow> u64 list) option"
  mc_OnFriendSessionCreated :: "(u64 \<Rightarrow> u32 \<Rightarrow> 'a mm_state \<Rightarrow> 'a mm_state) option"
  mc_OnSessionReady :: "(u32 \<Rightarrow> u64 list \<Rightarrow> 'a mm_state \<Rightarrow> 'a mm_state) option"
  mc_NotifierDeparts :: bool
  mc_OwnerLeaveUnregisters :: bool
  mc_Endpoint :: bool
  mc_OpenParticipation :: string
  mc_SoloPIDs :: string
  mc_NotifStrVideZero :: bool
  mc_RelaiInclutSource :: bool
  mc_random :: "nat \<Rightarrow> nat \<Rightarrow> byte"

definition NewMatchmaking :: mm_world where
  "NewMatchmaking = \<lparr>mm_gatherings = [], mm_byCode = [], mm_nextGID = 1, mm_codeRand = 0x1234, mm_notif = [],
     mm_recentKeys = [], mm_recentKeysOrder = [], mm_notifCallCounter = 0, mm_draws = 0, mm_timers = [], mm_pushed = [],
     mm_tournaments = tournaments\<rparr>"

text \<open>\<open>randomBytes\<close>: the bytes of the \<open>k\<close>-th call that fills a slice of length \<open>n\<close>.\<close>

definition randomBytes :: "'a mm_config \<Rightarrow> nat \<Rightarrow> nat \<Rightarrow> bytes" where
  "randomBytes cfg k n = map (mc_random cfg k) [0..<n]"

definition mm_upd :: "('a mm_world_scheme \<Rightarrow> 'a mm_world_scheme) \<Rightarrow> 'a mm_state \<Rightarrow> 'a mm_state" where
  "mm_upd f e = e\<lparr>ep_world := f (ep_world e)\<rparr>"

definition find_gathering :: "u32 \<Rightarrow> 'a mm_state \<Rightarrow> gathering option" where
  "find_gathering gid e = map_of (mm_gatherings (ep_world e)) gid"

definition put_gathering :: "u32 \<Rightarrow> gathering \<Rightarrow> 'a mm_world_scheme \<Rightarrow> 'a mm_world_scheme" where
  "put_gathering gid g w = w\<lparr>mm_gatherings := AList.update gid g (mm_gatherings w)\<rparr>"

definition drop_gathering :: "u32 \<Rightarrow> gathering \<Rightarrow> 'a mm_world_scheme \<Rightarrow> 'a mm_world_scheme" where
  "drop_gathering gid g w = w\<lparr>mm_gatherings := AList.delete gid (mm_gatherings w),
     mm_byCode := (if gt_code g \<noteq> [] then AList.delete (gt_code g) (mm_byCode w) else mm_byCode w)\<rparr>"

definition conn_pid :: "nat \<Rightarrow> 'w endpoint \<Rightarrow> u64" where
  "conn_pid h e = c_PID (ep_heap e h)"

subsection \<open>Notifications\<close>

definition ProtocolNotifications :: u16 where "ProtocolNotifications = 0x0E"
definition MethodProcessNotificationEvent :: u32 where "MethodProcessNotificationEvent = 1"

definition SendNotification :: "'a mm_config \<Rightarrow> nat \<Rightarrow> notification_event \<Rightarrow> 'a mm_state \<Rightarrow> 'a mm_state" where
  "SendNotification cfg target event e =
     (let s = mc_Settings cfg; n = mm_notifCallCounter (ep_world e) + 1;
          body = WriteStructure s (NotificationEvent_levels (mc_NotifStrVideZero cfg)) event
      in SendRMC s target (NewRMCRequest ProtocolNotifications MethodProcessNotificationEvent (0xFFFE0000 + n) body)
           (mm_upd (\<lambda>w. w\<lparr>mm_notifCallCounter := n, mm_pushed := mm_pushed w @ [(target, event)]\<rparr>) e))"

text \<open>The loop that pushes one event to whoever of a list is connected.\<close>

fun notify_pids :: "'a mm_config \<Rightarrow> notification_event \<Rightarrow> u64 list \<Rightarrow> 'a mm_state \<Rightarrow> 'a mm_state" where
  "notify_pids cfg ev [] e = e"
| "notify_pids cfg ev (p # ps) e = notify_pids cfg ev ps
     (case FindConnectionByPID p e of None \<Rightarrow> e | Some target \<Rightarrow> SendNotification cfg target ev e)"

definition participate_event :: "u64 \<Rightarrow> u32 \<Rightarrow> string \<Rightarrow> nat \<Rightarrow> u64 \<Rightarrow> notification_event" where
  "participate_event caller gid joinMessage cnt p2 = event_zero\<lparr>ne_PIDSource := caller, ne_Type := NotificationParticipate,
     ne_Param1 := ucast gid, ne_Param2 := p2, ne_StrParam := joinMessage, ne_Param3 := of_nat cnt\<rparr>"

fun recap :: "'a mm_config \<Rightarrow> nat \<Rightarrow> (u64 \<Rightarrow> notification_event) \<Rightarrow> u64 list \<Rightarrow> 'a mm_state \<Rightarrow> 'a mm_state" where
  "recap cfg caller ev [] e = e"
| "recap cfg caller ev (p # ps) e = recap cfg caller ev ps
     (if p = conn_pid caller e then e else SendNotification cfg caller (ev p) e)"

definition notifyParticipation :: "'a mm_config \<Rightarrow> nat \<Rightarrow> u64 list \<Rightarrow> u32 \<Rightarrow> string \<Rightarrow> 'a mm_state \<Rightarrow> 'a mm_state" where
  "notifyParticipation cfg caller participants gid joinMessage e =
     (let ev = participate_event (conn_pid caller e) gid joinMessage (length participants);
          e1 = notify_pids cfg (ev (conn_pid caller e)) participants e;
          e2 = recap cfg caller ev participants e1
      in case mc_OnSessionReady cfg of None \<Rightarrow> e2 | Some f \<Rightarrow> f gid participants e2)"

definition containsPID :: "u64 list \<Rightarrow> u64 \<Rightarrow> bool" where
  "containsPID xs pid \<longleftrightarrow> list_ex (\<lambda>p. p = pid) xs"

definition removePID :: "u64 list \<Rightarrow> u64 \<Rightarrow> u64 list" where
  "removePID xs pid = filter (\<lambda>p. p \<noteq> pid) xs"

definition notifyParticipationAfter :: "'a mm_config \<Rightarrow> nat \<Rightarrow> u64 list \<Rightarrow> u32 \<Rightarrow> int \<Rightarrow> 'a mm_state \<Rightarrow> 'a mm_state" where
  "notifyParticipationAfter cfg caller participants gid delay e =
     (if delay \<le> 0 then notifyParticipation cfg caller participants gid [] e
      else mm_upd (\<lambda>w. w\<lparr>mm_timers := mm_timers w @
             [\<lparr>pt_at = ep_now e + delay, pt_caller = caller, pt_parts = participants, pt_gid = gid\<rparr>]\<rparr>) e)"

definition notifyParticipationWithDelay :: "'a mm_config \<Rightarrow> nat \<Rightarrow> u64 list \<Rightarrow> u32 \<Rightarrow> 'a mm_state \<Rightarrow> 'a mm_state" where
  "notifyParticipationWithDelay cfg caller participants gid e =
     notifyParticipationAfter cfg caller participants gid (mc_ParticipationNotificationDelay cfg) e"

text \<open>The function a timer runs, and the timer that comes due.\<close>

definition participation_due :: "'a mm_config \<Rightarrow> participation_timer \<Rightarrow> 'a mm_state \<Rightarrow> 'a mm_state" where
  "participation_due cfg t e = (case find_gathering (pt_gid t) e of None \<Rightarrow> e | Some g \<Rightarrow>
     let pid = conn_pid (pt_caller t) e in
     if \<not> containsPID (gt_participants g) pid \<or> FindConnectionByPID pid e \<noteq> Some (pt_caller t) then e
     else notifyParticipation cfg (pt_caller t) (filter (containsPID (gt_participants g)) (pt_parts t)) (pt_gid t) [] e)"

definition fire_timer :: "'a mm_config \<Rightarrow> nat \<Rightarrow> 'a mm_state \<Rightarrow> 'a mm_state" where
  "fire_timer cfg i e =
     (let ts = mm_timers (ep_world e) in
      if i < length ts \<and> pt_at (ts ! i) \<le> ep_now e
      then participation_due cfg (ts ! i) (mm_upd (\<lambda>w. w\<lparr>mm_timers := take i ts @ drop (Suc i) ts\<rparr>) e)
      else e)"

subsection \<open>Creating a gathering\<close>

definition openParticipationDefault :: "'a mm_config \<Rightarrow> bool" where
  "openParticipationDefault cfg \<longleftrightarrow> mc_OpenParticipation cfg = ''1'' \<or> mc_OpenParticipation cfg = ''true''"

fun evict_keys :: "(u32, bytes) gomap \<Rightarrow> u32 list \<Rightarrow> (u32, bytes) gomap \<times> u32 list" where
  "evict_keys keys [] = (keys, [])"
| "evict_keys keys (k # ks) = (if length (k # ks) > 16 then evict_keys (AList.delete k keys) ks else (keys, k # ks))"

definition rememberSessionKey :: "u32 \<Rightarrow> bytes \<Rightarrow> 'a mm_world_scheme \<Rightarrow> 'a mm_world_scheme" where
  "rememberSessionKey gid key w =
     (let (keys, order) = (if map_of (mm_recentKeys w) gid = None
             then evict_keys (mm_recentKeys w) (mm_recentKeysOrder w @ [gid])
             else (mm_recentKeys w, mm_recentKeysOrder w))
      in w\<lparr>mm_recentKeys := AList.update gid key keys, mm_recentKeysOrder := order\<rparr>)"

definition finalizeCreatedSession :: "'a mm_config \<Rightarrow> int \<Rightarrow> bytes \<Rightarrow> u32 \<Rightarrow> u64 \<Rightarrow> matchmake_session \<Rightarrow> matchmake_session" where
  "finalizeCreatedSession cfg now key gid ownerPID s =
     (let s1 = s\<lparr>g_ID := gid, g_OwnerPID := ownerPID, g_HostPID := ownerPID,
            g_MaxParticipants := (if g_MaxParticipants s = 0 then 12 else g_MaxParticipants s),
            s_NumParticipants := 1, s_SessionKey := key, s_StartedTime := NowDateTime now, s_SystemPasswordEnabled := False\<rparr>;
          s2 = (if openParticipationDefault cfg
                then s1\<lparr>s_UserPasswordEnabled := False, g_State := 1, s_OpenParticipation := True\<rparr> else s1)
      in s2\<lparr>s_Attribs := s_Attribs s2 @ replicate (6 - length (s_Attribs s2)) 0,
            s_Param := AList.update ''@GIR'' ((variant_zero VariantInt64)\<lparr>vr_Int := 3\<rparr>)
               (AList.update ''@SR'' ((variant_zero VariantBool)\<lparr>vr_Bool := True\<rparr>) (s_Param s2))\<rparr>)"

fun release_loop :: "u64 \<Rightarrow> u32 \<Rightarrow> (u32 \<times> gathering) list \<Rightarrow> 'a mm_world_scheme \<Rightarrow> 'a mm_world_scheme" where
  "release_loop pid gardeGID [] w = w"
| "release_loop pid gardeGID ((gid, g) # gs) w = release_loop pid gardeGID gs
     (if gid = gardeGID then w
      else if length (gt_participants g) \<noteq> 1 \<or> gt_participants g ! 0 \<noteq> pid then w
      else drop_gathering gid g w)"

definition releaseAbandonedSolo :: "u64 \<Rightarrow> u32 \<Rightarrow> 'a mm_world_scheme \<Rightarrow> 'a mm_world_scheme" where
  "releaseAbandonedSolo pid gardeGID w = (if pid = 0 then w else release_loop pid gardeGID (mm_gatherings w) w)"

text \<open>The result is the gathering, under its id, and the next state.\<close>

definition createGathering :: "'a mm_config \<Rightarrow> nat \<Rightarrow> matchmake_session \<Rightarrow> 'a mm_state \<Rightarrow> (u32 \<times> gathering) \<times> 'a mm_state" where
  "createGathering cfg h src e =
     (let w = ep_world e; gid = mm_nextGID w; pid = conn_pid h e; key = randomBytes cfg (mm_draws w) 32;
          session = finalizeCreatedSession cfg (ep_now e) key gid pid src;
          g = \<lparr>gt_session = session, gt_participants = [pid], gt_hostConnID = c_ID (ep_heap e h), gt_code = []\<rparr>
      in ((gid, g), mm_upd (\<lambda>w. releaseAbandonedSolo pid gid (put_gathering gid g
                (rememberSessionKey gid key (w\<lparr>mm_nextGID := mm_nextGID w + 1, mm_draws := mm_draws w + 1\<rparr>)))) e))"

subsection \<open>NAT classes and passwords\<close>

datatype natClass = natUnknown | natOpen | natModerate | natStrict

definition classifyNAT :: "u32 \<Rightarrow> u32 \<Rightarrow> natClass" where
  "classifyNAT natMap natFilter =
     (if natMap = 0 \<and> natFilter = 0 then natUnknown
      else if natMap \<le> 1 \<and> natFilter \<le> 1 then natOpen
      else if natMap \<le> 1 then natModerate else natStrict)"

definition natCompatible :: "natClass \<Rightarrow> natClass \<Rightarrow> bool" where
  "natCompatible a b =
     (if a = natUnknown \<or> b = natUnknown then True
      else if a = natStrict \<and> (b = natStrict \<or> b = natModerate) then False
      else if b = natStrict \<and> (a = natStrict \<or> a = natModerate) then False
      else True)"

definition pidNATClass :: "'w endpoint \<Rightarrow> u64 \<Rightarrow> natClass" where
  "pidNATClass e pid = (case FindConnectionByPID pid e of None \<Rightarrow> natUnknown
     | Some c \<Rightarrow> (let (m, f) = NATBehaviour (ep_heap e c) in classifyNAT m f))"

definition gatheringNATCompatible :: "'w endpoint \<Rightarrow> natClass \<Rightarrow> u64 list \<Rightarrow> u64 \<Rightarrow> bool" where
  "gatheringNATCompatible e joiner members joinerPID \<longleftrightarrow>
     list_all (\<lambda>pid. pid = joinerPID \<or> natCompatible joiner (pidNATClass e pid)) members"

definition motDePasseCompatible :: "matchmake_session \<Rightarrow> matchmake_session \<Rightarrow> bool" where
  "motDePasseCompatible cand src =
     (if \<not> s_UserPasswordEnabled cand then True
      else if \<not> s_UserPasswordEnabled src \<or> s_UserPassword src = [] \<or> s_UserPassword cand = [] then False
      else s_UserPassword cand = s_UserPassword src)"

definition isSoloPID :: "'a mm_config \<Rightarrow> u64 \<Rightarrow> bool" where
  "isSoloPID cfg pid \<longleftrightarrow> list_ex (\<lambda>tok. TrimSpace tok \<noteq> [] \<and> ParseUint (TrimSpace tok) = Some pid) (Split (CHR '','') (mc_SoloPIDs cfg))"

subsection \<open>Private-room codes\<close>

definition alphabet :: string where "alphabet = ''ABCDEFGHIJKLMNPQRSTUVWXYZ23456789''"

primrec code_chars :: "nat \<Rightarrow> u32 \<Rightarrow> string" where
  "code_chars 0 x = []"
| "code_chars (Suc n) x = alphabet ! unat (x mod of_nat (length alphabet)) # code_chars n (x div of_nat (length alphabet))"

definition makeCode :: "u32 \<Rightarrow> 'a mm_world_scheme \<Rightarrow> string \<times> 'a mm_world_scheme" where
  "makeCode gid w =
     (let x = mm_codeRand w * 1103515245 + 12345 + gid; code = code_chars 5 x;
          w1 = w\<lparr>mm_codeRand := x, mm_byCode := AList.update code gid (mm_byCode w)\<rparr>
      in (code, case map_of (mm_gatherings w1) gid of None \<Rightarrow> w1 | Some g \<Rightarrow> put_gathering gid (g\<lparr>gt_code := code\<rparr>) w1))"

subsection \<open>Notification data (matchmaking\_notifdata.go)\<close>

type_synonym notif_store = "(u64, (u32, notification_event) gomap) gomap"

definition notif_put :: "u64 \<Rightarrow> u32 \<Rightarrow> notification_event \<Rightarrow> notif_store \<Rightarrow> notif_store" where
  "notif_put pid typ ev n =
     AList.update pid (AList.update typ ev (case map_of n pid of None \<Rightarrow> [] | Some byType \<Rightarrow> byType)) n"

definition notif_get :: "u64 \<Rightarrow> u32 \<Rightarrow> notif_store \<Rightarrow> notification_event option" where
  "notif_get pid typ n = (case map_of n pid of None \<Rightarrow> None | Some byType \<Rightarrow> map_of byType typ)"

definition notif_forget :: "u64 \<Rightarrow> notif_store \<Rightarrow> notif_store" where
  "notif_forget pid n = AList.delete pid n"

definition PublishNotification :: "u64 \<Rightarrow> u32 \<Rightarrow> notification_event option \<Rightarrow> 'a mm_state \<Rightarrow> 'a mm_state" where
  "PublishNotification pid typ ev e = (case ev of None \<Rightarrow> e
     | Some v \<Rightarrow> mm_upd (\<lambda>w. w\<lparr>mm_notif := notif_put pid typ v (mm_notif w)\<rparr>) e)"

subsection \<open>Leaving\<close>

record migration =
  mg_gid :: u32
  mg_ancien :: u64
  mg_nouveau :: u64
  mg_participants :: "u64 list"

record removal =
  rv_avis :: "(nat \<times> u32) list"
  rv_migrer :: "migration list"
  rv_orphans :: "migration list"

definition leave_gathering :: "'a mm_config \<Rightarrow> u64 \<Rightarrow> 'a mm_state \<Rightarrow> u32 \<Rightarrow> gathering \<Rightarrow> 'a mm_world_scheme \<times> removal \<Rightarrow> 'a mm_world_scheme \<times> removal" where
  "leave_gathering cfg pid e gid g wr =
     (let (w, r) = wr; parts = removePID (gt_participants g) pid; s = gt_session g in
      if length parts = length (gt_participants g) then (w, r)
      else if parts = [] then (drop_gathering gid g w, r)
      else if g_OwnerPID s = pid \<and> (\<not> mc_NotifierDeparts cfg \<or> g_Flags s AND 0x10 = 0) then
        (drop_gathering gid g w,
         if mc_OwnerLeaveUnregisters cfg
         then r\<lparr>rv_orphans := rv_orphans r @ [\<lparr>mg_gid = gid, mg_ancien = pid, mg_nouveau = 0, mg_participants = parts\<rparr>]\<rparr> else r)
      else
        (let r1 = (if g_OwnerPID s = pid
               then r\<lparr>rv_migrer := rv_migrer r @ [\<lparr>mg_gid = gid, mg_ancien = pid, mg_nouveau = parts ! 0, mg_participants = parts\<rparr>]\<rparr> else r);
             s1 = (if g_OwnerPID s = pid then s\<lparr>g_OwnerPID := parts ! 0, g_HostPID := parts ! 0\<rparr> else s);
             s2 = s1\<lparr>s_NumParticipants := of_nat (length parts)\<rparr>;
             r2 = (if mc_NotifierDeparts cfg \<and> mc_Endpoint cfg
               then (case FindConnectionByPID (g_OwnerPID s2) e of None \<Rightarrow> r1 | Some c \<Rightarrow> r1\<lparr>rv_avis := rv_avis r1 @ [(c, gid)]\<rparr>) else r1)
         in (put_gathering gid (g\<lparr>gt_participants := parts, gt_session := s2\<rparr>) w, r2)))"

fun leave_loop :: "'a mm_config \<Rightarrow> u64 \<Rightarrow> 'a mm_state \<Rightarrow> (u32 \<times> gathering) list \<Rightarrow> 'a mm_world_scheme \<times> removal \<Rightarrow> 'a mm_world_scheme \<times> removal" where
  "leave_loop cfg pid e [] wr = wr"
| "leave_loop cfg pid e ((gid, g) # gs) wr = leave_loop cfg pid e gs (leave_gathering cfg pid e gid g wr)"

fun announce_migrations :: "'a mm_config \<Rightarrow> (migration \<Rightarrow> notification_event) \<Rightarrow> migration list \<Rightarrow> 'a mm_state \<Rightarrow> 'a mm_state" where
  "announce_migrations cfg ev [] e = e"
| "announce_migrations cfg ev (m # ms) e = announce_migrations cfg ev ms
     (if mc_Endpoint cfg then notify_pids cfg (ev m) (mg_participants m) e else e)"

definition ownership_event :: "u32 \<Rightarrow> u64 \<Rightarrow> u64 \<Rightarrow> notification_event" where
  "ownership_event gid ancien nouveau = event_zero\<lparr>ne_PIDSource := ancien, ne_Type := NotificationOwnershipChanged,
     ne_Param1 := ucast gid, ne_Param2 := nouveau\<rparr>"

definition unregistered_event :: "u32 \<Rightarrow> u64 \<Rightarrow> notification_event" where
  "unregistered_event gid ancien = event_zero\<lparr>ne_PIDSource := ancien, ne_Type := NotificationGatheringUnregistered, ne_Param1 := ucast gid\<rparr>"

definition disconnected_event :: "u32 \<Rightarrow> u64 \<Rightarrow> notification_event" where
  "disconnected_event gid pid = event_zero\<lparr>ne_PIDSource := pid, ne_Type := NotificationParticipantDisconnected,
     ne_Param1 := ucast gid, ne_Param2 := pid\<rparr>"

definition RemovePlayer :: "'a mm_config \<Rightarrow> u64 \<Rightarrow> 'a mm_state \<Rightarrow> 'a mm_state" where
  "RemovePlayer cfg pid e0 =
     (if pid = 0 then e0
      else let e = mm_upd (\<lambda>w. w\<lparr>mm_notif := notif_forget pid (mm_notif w)\<rparr>) e0;
               (w, r) = leave_loop cfg pid e (mm_gatherings (ep_world e))
                          (ep_world e, \<lparr>rv_avis = [], rv_migrer = [], rv_orphans = []\<rparr>);
               e1 = mm_upd (\<lambda>_. w) e;
               e2 = announce_migrations cfg (\<lambda>m. ownership_event (mg_gid m) (mg_ancien m) (mg_nouveau m)) (rv_migrer r) e1;
               e3 = announce_migrations cfg (\<lambda>m. unregistered_event (mg_gid m) (mg_ancien m)) (rv_orphans r) e2
           in foldl (\<lambda>e (c, gid). SendNotification cfg c (disconnected_event gid pid) e) e3 (rv_avis r))"

subsection \<open>Handing over the host role (matchmaking\_hebergement.go)\<close>

definition repreneur :: "u64 \<Rightarrow> u64 list \<Rightarrow> 'w endpoint \<Rightarrow> nat option" where
  "repreneur pid participants e =
     (case List.map_filter (\<lambda>p. if p = pid then None else FindConnectionByPID p e) participants of [] \<Rightarrow> None | c # _ \<Rightarrow> Some c)"

definition migrate_gathering :: "u64 \<Rightarrow> 'a mm_state \<Rightarrow> u32 \<Rightarrow> gathering \<Rightarrow> 'a mm_world_scheme \<times> migration list \<Rightarrow> 'a mm_world_scheme \<times> migration list" where
  "migrate_gathering pid e gid g acc =
     (let (w, faits) = acc; s = gt_session g in
      if g_HostPID s \<noteq> pid \<and> g_OwnerPID s \<noteq> pid then (w, faits)
      else case repreneur pid (gt_participants g) e of None \<Rightarrow> (w, faits)
        | Some c \<Rightarrow>
           (let np = conn_pid c e in
            (put_gathering gid (g\<lparr>gt_session := s\<lparr>g_HostPID := np, g_OwnerPID := np\<rparr>, gt_hostConnID := c_ID (ep_heap e c),
                gt_participants := np # filter (\<lambda>p. p \<noteq> np) (gt_participants g)\<rparr>) w,
             faits @ [\<lparr>mg_gid = gid, mg_ancien = pid, mg_nouveau = np, mg_participants = []\<rparr>])))"

fun migrate_loop :: "u64 \<Rightarrow> 'a mm_state \<Rightarrow> (u32 \<times> gathering) list \<Rightarrow> 'a mm_world_scheme \<times> migration list \<Rightarrow> 'a mm_world_scheme \<times> migration list" where
  "migrate_loop pid e [] acc = acc"
| "migrate_loop pid e ((gid, g) # gs) acc = migrate_loop pid e gs (migrate_gathering pid e gid g acc)"

fun announce_hosts :: "'a mm_config \<Rightarrow> migration list \<Rightarrow> 'a mm_state \<Rightarrow> 'a mm_state" where
  "announce_hosts cfg [] e = e"
| "announce_hosts cfg (f # fs) e = announce_hosts cfg fs
     (case find_gathering (mg_gid f) e of None \<Rightarrow> e
      | Some g \<Rightarrow> notify_pids cfg (ownership_event (mg_gid f) (mg_ancien f) (mg_nouveau f)) (gt_participants g) e)"

definition MigrerHebergementDepuis :: "'a mm_config \<Rightarrow> u64 \<Rightarrow> 'a mm_state \<Rightarrow> nat \<times> 'a mm_state" where
  "MigrerHebergementDepuis cfg pid e =
     (if pid = 0 then (0, e)
      else let (w, faits) = migrate_loop pid e (mm_gatherings (ep_world e)) (ep_world e, [])
           in (length faits, announce_hosts cfg faits (mm_upd (\<lambda>_. w) e)))"

subsection \<open>Queries\<close>

definition GatheringIDByPID :: "u64 \<Rightarrow> 'a mm_state \<Rightarrow> u32 \<times> bool" where
  "GatheringIDByPID pid e = (case find (\<lambda>(_, g). containsPID (gt_participants g) pid) (mm_gatherings (ep_world e)) of
     None \<Rightarrow> (0, False) | Some (_, g) \<Rightarrow> (g_ID (gt_session g), True))"

definition GidDuParticipant :: "u64 \<Rightarrow> 'a mm_state \<Rightarrow> u32" where
  "GidDuParticipant pid e = (case find (\<lambda>(_, g). containsPID (gt_participants g) pid) (mm_gatherings (ep_world e)) of
     None \<Rightarrow> 0 | Some (gid, _) \<Rightarrow> gid)"

definition SessionByPID :: "u64 \<Rightarrow> 'a mm_state \<Rightarrow> u64 list option" where
  "SessionByPID pid e = (case find (\<lambda>(_, g). containsPID (gt_participants g) pid) (mm_gatherings (ep_world e)) of
     None \<Rightarrow> None | Some (_, g) \<Rightarrow> Some (gt_participants g))"

definition SessionKeyForGID :: "u32 \<Rightarrow> 'a mm_state \<Rightarrow> bytes option" where
  "SessionKeyForGID gid e = (case find_gathering gid e of
     Some g \<Rightarrow> (if length (s_SessionKey (gt_session g)) > 0 then Some (s_SessionKey (gt_session g))
                else map_of (mm_recentKeys (ep_world e)) gid)
   | None \<Rightarrow> map_of (mm_recentKeys (ep_world e)) gid)"

fun newest_session :: "u64 \<Rightarrow> gathering option \<Rightarrow> (u32 \<times> gathering) list \<Rightarrow> gathering option" where
  "newest_session pid best [] = best"
| "newest_session pid best ((_, g) # gs) = newest_session pid
     (if containsPID (gt_participants g) pid \<and>
         (case best of None \<Rightarrow> True | Some b \<Rightarrow> s_StartedTime (gt_session g) > s_StartedTime (gt_session b))
      then Some g else best) gs"

definition sessionOfParticipant :: "u64 \<Rightarrow> 'a mm_state \<Rightarrow> gathering option" where
  "sessionOfParticipant pid e = newest_session pid None (mm_gatherings (ep_world e))"

end
