(* ===== verification/Nex_Matchmaking.thy ===== *)
theory Nex_Matchmaking
  imports Nex_Lobby
begin

section \<open>The matchmaking handlers (matchmaking\_handlers.go, matchmaking\_acnh.go, matchmaking\_notifdata.go, messagedelivery.go)\<close>

text \<open>
  One definition per handler, in the order of the source.  A handler takes the handle of the
  caller's connection and the request, and returns the answer and the next state.  Each
  handler holds the lock of the store for the part that reads and changes it, so a handler is
  one step of the model; the notifications it pushes after releasing the lock belong to the
  same step.  Fields are read with the sticky error of the stream, as in the source.
\<close>

definition ProtocolMatchMaking :: u16 where "ProtocolMatchMaking = 0x15"
definition ProtocolMatchMakingExt :: u16 where "ProtocolMatchMakingExt = 0x32"

definition MethodUnregisterGathering :: u32 where "MethodUnregisterGathering = 0x02"
definition MethodFindBySingleID15 :: u32 where "MethodFindBySingleID15 = 0x15"
definition MethodUpdateSessionURL :: u32 where "MethodUpdateSessionURL = 0x1B"
definition MethodUpdateSessionHostV1 :: u32 where "MethodUpdateSessionHostV1 = 0x28"
definition MethodGetDetailedParticipants :: u32 where "MethodGetDetailedParticipants = 0x0F"
definition MethodGetSessionURLs :: u32 where "MethodGetSessionURLs = 0x29"
definition MethodUpdateSessionHost :: u32 where "MethodUpdateSessionHost = 0x2A"
definition MethodMigrateGatheringOwnershipV1 :: u32 where "MethodMigrateGatheringOwnershipV1 = 0x24"
definition MethodUpdateGatheringOwnership :: u32 where "MethodUpdateGatheringOwnership = 0x2B"
definition MethodMigrateGatheringOwnership :: u32 where "MethodMigrateGatheringOwnership = 0x2C"
definition MethodCloseParticipation :: u32 where "MethodCloseParticipation = 0x01"
definition MethodOpenParticipation :: u32 where "MethodOpenParticipation = 0x02"
definition MethodCreateMatchmakeSessionWithParam :: u32 where "MethodCreateMatchmakeSessionWithParam = 0x26"
definition MethodJoinMatchmakeSessionWithParam :: u32 where "MethodJoinMatchmakeSessionWithParam = 0x27"
definition MethodAutoMatchmakeWithParamPostpone :: u32 where "MethodAutoMatchmakeWithParamPostpone = 0x28"
definition MethodUpdateApplicationBuffer :: u32 where "MethodUpdateApplicationBuffer = 0x0B"
definition MethodModifyCurrentGameAttribute :: u32 where "MethodModifyCurrentGameAttribute = 0x08"
definition MethodUpdateMatchmakeSessionAttribute :: u32 where "MethodUpdateMatchmakeSessionAttribute = 0x0C"
definition MethodUpdateMatchmakeSessionPart :: u32 where "MethodUpdateMatchmakeSessionPart = 0x2C"
definition MethodUpdateProgressScore :: u32 where "MethodUpdateProgressScore = 0x22"
definition MethodFindMatchmakeSessionBySingleID :: u32 where "MethodFindMatchmakeSessionBySingleID = 0x31"
definition MethodFindMatchmakeSessionByGatheringIDDetail :: u32 where "MethodFindMatchmakeSessionByGatheringIDDetail = 0x29"
definition MethodCustomPlayingSession :: u32 where "MethodCustomPlayingSession = 0x3C"
definition MethodCustomFriendsQuery :: u32 where "MethodCustomFriendsQuery = 0x41"
definition MethodCustomPrivateRoomCreate :: u32 where "MethodCustomPrivateRoomCreate = 0x44"
definition MethodCustomResolveCode :: u32 where "MethodCustomResolveCode = 0x45"
definition MethodFindByParticipant :: u32 where "MethodFindByParticipant = 0x33"
definition MethodBrowseNoHolder :: u32 where "MethodBrowseNoHolder = 0x34"
definition MethodSSBUArenaCode :: u32 where "MethodSSBUArenaCode = 0x37"
definition MethodSSBUArenaResolve :: u32 where "MethodSSBUArenaResolve = 0x38"
definition MethodFindByGidList :: u32 where "MethodFindByGidList = 0x30"
definition MethodSSBUPreMatch :: u32 where "MethodSSBUPreMatch = 0x3A"
definition MethodEndParticipation :: u32 where "MethodEndParticipation = 1"
definition MethodUpdateNotificationData :: u32 where "MethodUpdateNotificationData = 9"
definition MethodGetFriendNotificationData :: u32 where "MethodGetFriendNotificationData = 10"
definition MethodGetFriendNotificationDataList :: u32 where "MethodGetFriendNotificationDataList = 13"
definition ProtocolMessageDelivery :: u16 where "ProtocolMessageDelivery = 0x1B"
definition MethodDeliverMessage :: u32 where "MethodDeliverMessage = 1"

text \<open>The answers: \<open>NewRMCSuccess\<close> and \<open>NewRMCError\<close> with the method and call id of the request.\<close>

definition reply :: "u16 \<Rightarrow> rmc_message \<Rightarrow> bytes \<Rightarrow> rmc_message" where
  "reply proto req body = NewRMCSuccess proto (rm_Method req) (rm_CallID req) body"

definition refuse :: "u16 \<Rightarrow> rmc_message \<Rightarrow> u32 \<Rightarrow> rmc_message" where
  "refuse proto req code = NewRMCError proto (rm_CallID req) code"

definition boolResponse :: "u16 \<Rightarrow> rmc_message \<Rightarrow> bool \<Rightarrow> rmc_message" where
  "boolResponse proto req v = reply proto req (w_Bool v)"

definition emptyList :: "u16 \<Rightarrow> rmc_message \<Rightarrow> rmc_message" where
  "emptyList proto req = reply proto req (w_U32 0)"

definition w_Session :: "'a mm_config \<Rightarrow> matchmake_session \<Rightarrow> bytes" where
  "w_Session cfg s = WriteStructure (mc_Settings cfg) MatchmakeSession_levels s"

definition w_Sessions :: "'a mm_config \<Rightarrow> matchmake_session list \<Rightarrow> bytes" where
  "w_Sessions cfg ss = w_U32 (of_nat (length ss)) @ concat (map (w_Session cfg) ss)"

text \<open>\<open>NewStreamIn(req.Body).U32()\<close>, how most handlers read the gathering id.\<close>

definition req_gid :: "rmc_message \<Rightarrow> u32" where
  "req_gid req = fst (run_state r_U32 (NewStreamIn (rm_Body req)))"

definition scrub :: "matchmake_session \<Rightarrow> matchmake_session" where
  "scrub s = s\<lparr>s_SessionKey := [], s_UserPassword := []\<rparr>"

subsection \<open>Which gathering a friend is in\<close>

definition playing_entry :: "u64 \<Rightarrow> 'a mm_state \<Rightarrow> simple_playing_session option" where
  "playing_entry pid e = (case find (\<lambda>(_, g). containsPID (gt_participants g) pid) (mm_gatherings (ep_world e)) of
     None \<Rightarrow> None
   | Some (gid, g) \<Rightarrow> Some \<lparr>sp_PrincipalID = pid, sp_GatheringID = gid, sp_GameMode = s_GameMode (gt_session g),
        sp_Attribute0 = (case s_Attribs (gt_session g) of [] \<Rightarrow> 0 | a # _ \<Rightarrow> a)\<rparr>)"

definition playingSession :: "'a mm_config \<Rightarrow> nat \<Rightarrow> rmc_message \<Rightarrow> 'a mm_state \<Rightarrow> rmc_message" where
  "playingSession cfg h req e =
     (let s = mc_Settings cfg;
          (pids, includeSelf) = fst (run_state (do { ps \<leftarrow> ReadList (r_PID s); b \<leftarrow> r_Bool; State_Monad.return (ps, b) }) (NewStreamIn (rm_Body req)));
          sessions = List.map_filter (\<lambda>pid. if pid = conn_pid h e \<and> \<not> includeSelf then None else playing_entry pid e) pids
      in reply ProtocolMatchmakeExtension req (WriteList (WriteStructure s SimplePlayingSession_levels) sessions))"

subsection \<open>AutoMatchmake\<close>

definition read_auto :: "'a mm_config \<Rightarrow> rmc_message \<Rightarrow> auto_param \<times> stream_in" where
  "read_auto cfg req = run_state (ReadStructure (mc_Settings cfg) AutoMatchmakeParam_levels auto_zero) (NewStreamIn (rm_Body req))"

text \<open>The conditions of the search loop, without the preference for a connected owner.\<close>

definition candidate :: "'a mm_config \<Rightarrow> 'a mm_state \<Rightarrow> auto_param \<Rightarrow> natClass \<Rightarrow> u64 \<Rightarrow> gathering \<Rightarrow> bool" where
  "candidate cfg e param joinerClass pid cand =
     (let s = gt_session cand; src = ap_Session param in
      if s_GameMode s = s_GameMode src \<and> s_OpenParticipation s \<and> motDePasseCompatible s src \<and>
         (of_nat (length (gt_participants cand)) :: u16) < g_MaxParticipants s
      then (if mc_UseSearchCriteria cfg \<and> \<not> criteriaAccept (ap_Criteria param) s (int (length (gt_participants cand))) then False
            else gatheringNATCompatible e joinerClass (gt_participants cand) pid)
      else False)"

fun search_lobby :: "'a mm_config \<Rightarrow> 'a mm_state \<Rightarrow> auto_param \<Rightarrow> natClass \<Rightarrow> u64 \<Rightarrow> (u32 \<times> gathering) option \<Rightarrow> (u32 \<times> gathering) list \<Rightarrow> (u32 \<times> gathering) option" where
  "search_lobby cfg e param jc pid repli [] = repli"
| "search_lobby cfg e param jc pid repli ((gid, cand) # gs) =
     (if candidate cfg e param jc pid cand then
        (if FindConnectionByPID (g_OwnerPID (gt_session cand)) e = None
         then search_lobby cfg e param jc pid (if repli = None then Some (gid, cand) else repli) gs
         else Some (gid, cand))
      else search_lobby cfg e param jc pid repli gs)"

definition joiner_class :: "nat \<Rightarrow> 'w endpoint \<Rightarrow> natClass" where
  "joiner_class h e = (let (m, f) = NATBehaviour (ep_heap e h) in classifyNAT m f)"

definition count_participants :: "gathering \<Rightarrow> gathering" where
  "count_participants g = g\<lparr>gt_session := (gt_session g)\<lparr>s_NumParticipants := of_nat (length (gt_participants g))\<rparr>\<rparr>"

definition add_participant :: "u64 \<Rightarrow> gathering \<Rightarrow> gathering" where
  "add_participant pid g = (if containsPID (gt_participants g) pid then g else g\<lparr>gt_participants := gt_participants g @ [pid]\<rparr>)"

definition autoMatchmake :: "'a mm_config \<Rightarrow> nat \<Rightarrow> rmc_message \<Rightarrow> 'a mm_state \<Rightarrow> rmc_message \<times> 'a mm_state" where
  "autoMatchmake cfg h req e =
     (let (param, st) = read_auto cfg req in
      if Err st \<noteq> None then (refuse ProtocolMatchmakeExtension req ResultCoreInvalidArgument, e)
      else let pid = conn_pid h e; soloForced = isSoloPID cfg pid;
               found = (if soloForced then None
                        else search_lobby cfg e param (joiner_class h e) pid None (mm_gatherings (ep_world e)));
               ((gid, g), e1) = (case found of
                  None \<Rightarrow> (let ((gid, g), e1) = createGathering cfg h (ap_Session param) e in
                     ((gid, if soloForced then g\<lparr>gt_session := (gt_session g)\<lparr>g_MinParticipants := 1\<rparr>\<rparr> else g), e1))
                | Some (gid, g) \<Rightarrow> ((gid, add_participant pid g), e));
               g' = count_participants g;
               e2 = mm_upd (put_gathering gid g') e1
           in (reply ProtocolMatchmakeExtension req (w_Session cfg (gt_session g')),
               notifyParticipationWithDelay cfg h (gt_participants g') (g_ID (gt_session g')) e2))"

subsection \<open>Creating and joining\<close>

definition normalize_rv :: "matchmake_session \<Rightarrow> matchmake_session" where
  "normalize_rv s = (case map_of (s_Param s) ''@RV'' of None \<Rightarrow> s
     | Some rv \<Rightarrow> if vr_Type rv = VariantUint64 \<and> uint (vr_Uint rv) \<le> 2 ^ 63 - 1
                 then s\<lparr>s_Param := AList.update ''@RV'' ((variant_zero VariantInt64)\<lparr>vr_Int := vr_Uint rv\<rparr>) (s_Param s)\<rparr> else s)"

definition createSession :: "'a mm_config \<Rightarrow> nat \<Rightarrow> rmc_message \<Rightarrow> 'a mm_state \<Rightarrow> rmc_message \<times> 'a mm_state" where
  "createSession cfg h req e =
     (let (param, st) = read_auto cfg req in
      if Err st \<noteq> None then (refuse ProtocolMatchmakeExtension req ResultCoreInvalidArgument, e)
      else let ((gid, g), e1) = createGathering cfg h (ap_Session param) e;
               s = (if mc_NormalizeCreateSessionRV cfg then normalize_rv (gt_session g) else gt_session g);
               e2 = mm_upd (put_gathering gid (g\<lparr>gt_session := s\<rparr>)) e1;
               e3 = (case mc_OnFriendSessionCreated cfg of None \<Rightarrow> e2 | Some f \<Rightarrow> f (conn_pid h e) (g_ID s) e2);
               delay = (if mc_CreateSessionNotificationDelay cfg > 0 then mc_CreateSessionNotificationDelay cfg
                        else mc_ParticipationNotificationDelay cfg)
           in (reply ProtocolMatchmakeExtension req (w_Session cfg s),
               notifyParticipationAfter cfg h (gt_participants g) (g_ID s) delay e3))"

definition join_gid :: "rmc_message \<Rightarrow> u32" where
  "join_gid req = (let sub = fst (run_state (do { _ \<leftarrow> r_U8; r_Substream }) (NewStreamIn (rm_Body req))) in fst (run_state r_U32 sub))"

definition joinSession :: "'a mm_config \<Rightarrow> nat \<Rightarrow> rmc_message \<Rightarrow> 'a mm_state \<Rightarrow> rmc_message \<times> 'a mm_state" where
  "joinSession cfg h req e =
     (let gid = join_gid req; pid = conn_pid h e in
      case find_gathering gid e of
        None \<Rightarrow> (refuse ProtocolMatchmakeExtension req ResultRendezVousSessionVoid, e)
      | Some g \<Rightarrow>
          (let existing = length (gt_participants g); joined = \<not> containsPID (gt_participants g) pid in
           if joined \<and> g_MaxParticipants (gt_session g) > 0 \<and> (of_nat existing :: u16) \<ge> g_MaxParticipants (gt_session g)
           then (refuse ProtocolMatchmakeExtension req ResultRendezVousSessionFull, e)
           else let g' = count_participants (add_participant pid g);
                    e1 = mm_upd (put_gathering gid g') e;
                    result = (if mc_JoinRespExistingCount cfg \<and> joined
                              then (gt_session g')\<lparr>s_NumParticipants := of_nat existing\<rparr> else gt_session g')
                in (reply ProtocolMatchmakeExtension req (w_Session cfg result),
                    if joined then notifyParticipationWithDelay cfg h (gt_participants g') gid e1 else e1)))"

subsection \<open>Reading sessions\<close>

definition findByGatheringIDDetail :: "'a mm_config \<Rightarrow> rmc_message \<Rightarrow> 'a mm_state \<Rightarrow> rmc_message" where
  "findByGatheringIDDetail cfg req e = (case find_gathering (req_gid req) e of
     None \<Rightarrow> refuse ProtocolMatchmakeExtension req ResultRendezVousSessionVoid
   | Some g \<Rightarrow> reply ProtocolMatchmakeExtension req (w_Session cfg (gt_session g)))"

definition findBySingleID :: "'a mm_config \<Rightarrow> rmc_message \<Rightarrow> 'a mm_state \<Rightarrow> rmc_message" where
  "findBySingleID cfg req e = (case find_gathering (req_gid req) e of
     None \<Rightarrow> refuse ProtocolMatchmakeExtension req ResultRendezVousSessionVoid
   | Some g \<Rightarrow> reply ProtocolMatchmakeExtension req (w_Session cfg (scrub (gt_session g))))"

definition findByGidList :: "'a mm_config \<Rightarrow> rmc_message \<Rightarrow> 'a mm_state \<Rightarrow> rmc_message" where
  "findByGidList cfg req e =
     (let gids = fst (run_state (ReadList r_U32) (NewStreamIn (rm_Body req)));
          sessions = List.map_filter (\<lambda>gid. map_option (\<lambda>g. scrub (gt_session g)) (find_gathering gid e)) gids
      in reply ProtocolMatchmakeExtension req (w_Sessions cfg sessions))"

definition wanted_code :: "'a mm_config \<Rightarrow> rmc_message \<Rightarrow> string" where
  "wanted_code cfg req = (if length (rm_Body req) > 0
     then (case run_state (ReadStructure (mc_Settings cfg) SearchCriteria_levels criteria_zero) (NewStreamIn (rm_Body req)) of
             (c, st) \<Rightarrow> if Err st \<noteq> None then [] else sc_Codeword c)
     else [])"

definition browse_entry :: "string \<Rightarrow> gathering \<Rightarrow> matchmake_session option" where
  "browse_entry wantCode g =
     (let s = gt_session g in
      if \<not> s_OpenParticipation s then None
      else if wantCode \<noteq> [] \<and> s_Codeword s \<noteq> wantCode \<and> gt_code g \<noteq> wantCode then None
      else if wantCode = [] \<and> s_UserPasswordEnabled s then None
      else Some ((if wantCode = [] then s\<lparr>s_SessionKey := []\<rparr> else s)\<lparr>s_UserPassword := []\<rparr>))"

definition browseNoHolder :: "'a mm_config \<Rightarrow> rmc_message \<Rightarrow> 'a mm_state \<Rightarrow> rmc_message" where
  "browseNoHolder cfg req e =
     (let sessions = List.map_filter (\<lambda>(_, g). browse_entry (wanted_code cfg req) g) (mm_gatherings (ep_world e))
      in reply ProtocolMatchmakeExtension req (w_Sessions cfg sessions))"

definition findBySingleID15 :: "'a mm_config \<Rightarrow> rmc_message \<Rightarrow> 'a mm_state \<Rightarrow> rmc_message" where
  "findBySingleID15 cfg req e = reply ProtocolMatchMaking req (case find_gathering (req_gid req) e of
     None \<Rightarrow> w_Bool False | Some g \<Rightarrow> w_Bool True @ w_Session cfg (gt_session g))"

subsection \<open>Codes\<close>

definition privateRoomCreate :: "rmc_message \<Rightarrow> 'a mm_state \<Rightarrow> rmc_message \<times> 'a mm_state" where
  "privateRoomCreate req e =
     (let (code, w) = makeCode (req_gid req) (ep_world e)
      in (reply ProtocolMatchmakeExtension req (w_U8 0 @ w_Buffer (w_String code @ w_U64 0)), mm_upd (\<lambda>_. w) e))"

definition read_code :: "rmc_message \<Rightarrow> string" where
  "read_code req =
     (let code = fst (run_state r_String (NewStreamIn (rm_Body req))) in
      if length code \<noteq> 5 \<and> length (rm_Body req) > 5 then fst (run_state r_String (NewStreamIn (drop 5 (rm_Body req)))) else code)"

definition resolveCode :: "rmc_message \<Rightarrow> 'a mm_state \<Rightarrow> rmc_message" where
  "resolveCode req e = reply ProtocolMatchmakeExtension req
     (w_U32 (case map_of (mm_byCode (ep_world e)) (read_code req) of None \<Rightarrow> 0 | Some gid \<Rightarrow> gid))"

subsection \<open>The owner's operations\<close>

definition unregister :: "nat \<Rightarrow> rmc_message \<Rightarrow> 'a mm_state \<Rightarrow> 'a mm_state" where
  "unregister h req e = (case find_gathering (req_gid req) e of None \<Rightarrow> e
     | Some g \<Rightarrow> if g_OwnerPID (gt_session g) = conn_pid h e
         then mm_upd (\<lambda>w. w\<lparr>mm_gatherings := AList.delete (req_gid req) (mm_gatherings w)\<rparr>) e else e)"

definition setParticipation :: "nat \<Rightarrow> rmc_message \<Rightarrow> bool \<Rightarrow> 'a mm_state \<Rightarrow> rmc_message \<times> 'a mm_state" where
  "setParticipation h req open0 e =
     (let gid = req_gid req in
      (reply ProtocolMatchmakeExtension req [],
       case find_gathering gid e of None \<Rightarrow> e
       | Some g \<Rightarrow>
          (let g1 = g\<lparr>gt_session := (gt_session g)\<lparr>s_OpenParticipation := open0\<rparr>\<rparr>;
               vivants = filter (\<lambda>pid. pid = conn_pid h e \<or> FindConnectionByPID pid e \<noteq> None) (gt_participants g);
               elagues = filter (\<lambda>pid. \<not> (pid = conn_pid h e \<or> FindConnectionByPID pid e \<noteq> None)) (gt_participants g);
               g2 = (if \<not> open0 \<and> length elagues > 0
                     then g1\<lparr>gt_participants := vivants, gt_session := (gt_session g1)\<lparr>s_NumParticipants := of_nat (length vivants)\<rparr>\<rparr>
                     else g1)
           in mm_upd (put_gathering gid g2) e)))"

definition modFlagOpenParticipation :: u32 where "modFlagOpenParticipation = 0x2"
definition modFlagCodeword :: u32 where "modFlagCodeword = 0x4000"

definition part_session :: "update_param \<Rightarrow> matchmake_session \<Rightarrow> matchmake_session" where
  "part_session p s =
     (let s1 = (if up_ModificationFlags p AND modFlagCodeword \<noteq> 0 \<or> up_Codeword p \<noteq> [] then s\<lparr>s_Codeword := up_Codeword p\<rparr> else s);
          s2 = (if length (up_Attributes p) > 0 then s1\<lparr>s_Attribs := up_Attributes p\<rparr> else s1);
          s3 = (if length (up_ApplicationBuffer p) > 0 then s2\<lparr>s_ApplicationData := up_ApplicationBuffer p\<rparr> else s2);
          s4 = (if up_GameMode p \<noteq> 0 then s3\<lparr>s_GameMode := up_GameMode p\<rparr> else s3);
          s5 = (if up_MaxParticipants p \<noteq> 0 then s4\<lparr>g_MaxParticipants := up_MaxParticipants p\<rparr> else s4)
      in if up_ModificationFlags p AND modFlagOpenParticipation \<noteq> 0 then s5\<lparr>s_OpenParticipation := up_OpenParticipation p\<rparr> else s5)"

definition applySessionPart :: "update_param \<Rightarrow> 'a mm_world_scheme \<Rightarrow> bool \<times> 'a mm_world_scheme" where
  "applySessionPart p w = (case map_of (mm_gatherings w) (up_GID p) of None \<Rightarrow> (False, w)
     | Some g \<Rightarrow>
        (let coded = (up_ModificationFlags p AND modFlagCodeword \<noteq> 0 \<or> up_Codeword p \<noteq> []);
             g' = g\<lparr>gt_session := part_session p (gt_session g), gt_code := (if coded then up_Codeword p else gt_code g)\<rparr>;
             w1 = (if up_Codeword p \<noteq> [] then w\<lparr>mm_byCode := AList.update (up_Codeword p) (up_GID p) (mm_byCode w)\<rparr> else w)
         in (True, put_gathering (up_GID p) g' w1)))"

definition updateSessionPart :: "'a mm_config \<Rightarrow> rmc_message \<Rightarrow> 'a mm_state \<Rightarrow> rmc_message \<times> 'a mm_state" where
  "updateSessionPart cfg req e =
     (reply ProtocolMatchmakeExtension req [],
      if mc_SessionPartPersists cfg
      then (case run_state (ReadStructure (mc_Settings cfg) UpdateMatchmakeSessionParam_levels update_param_zero) (NewStreamIn (rm_Body req)) of
              (p, st) \<Rightarrow> if Err st = None then mm_upd (\<lambda>w. snd (applySessionPart p w)) e else e)
      else e)"

text \<open>Who may write the shared data of a gathering: its first participant.\<close>

definition leads :: "u64 \<Rightarrow> gathering \<Rightarrow> bool" where
  "leads pid g \<longleftrightarrow> length (gt_participants g) > 0 \<and> gt_participants g ! 0 = pid"

definition updateApplicationBuffer :: "nat \<Rightarrow> rmc_message \<Rightarrow> 'a mm_state \<Rightarrow> rmc_message \<times> 'a mm_state" where
  "updateApplicationBuffer h req e =
     (let (gid, buf) = fst (run_state (do { g \<leftarrow> r_U32; b \<leftarrow> r_Buffer; State_Monad.return (g, b) }) (NewStreamIn (rm_Body req))) in
      case find_gathering gid e of
        None \<Rightarrow> (refuse ProtocolMatchmakeExtension req ResultRendezVousSessionVoid, e)
      | Some g \<Rightarrow>
          (let owner = (if length (gt_participants g) > 0 then gt_participants g ! 0 else 0) in
           if owner \<noteq> conn_pid h e then (refuse ProtocolMatchmakeExtension req ResultCoreAccessDenied, e)
           else (reply ProtocolMatchmakeExtension req [],
                 mm_upd (put_gathering gid (g\<lparr>gt_session := (gt_session g)\<lparr>s_ApplicationData := buf\<rparr>\<rparr>)) e)))"

text \<open>The loop that grows the attribute list compares 32-bit lengths and may not end.\<close>

partial_function (option) grow_attribs :: "u32 \<Rightarrow> u32 list \<Rightarrow> u32 list option" where
  "grow_attribs attribIndex xs =
     (if (of_nat (length xs) :: u32) \<le> attribIndex then grow_attribs attribIndex (xs @ [0]) else Some xs)"

text \<open>\<open>None\<close>: the call never returns, with the lock of the store held.\<close>

definition modifyCurrentGameAttribute :: "nat \<Rightarrow> rmc_message \<Rightarrow> 'a mm_state \<Rightarrow> (rmc_message \<times> 'a mm_state) option" where
  "modifyCurrentGameAttribute h req e =
     (let (gid, attribIndex, newValue) = fst (run_state
            (do { a \<leftarrow> r_U32; b \<leftarrow> r_U32; c \<leftarrow> r_U32; State_Monad.return (a, b, c) }) (NewStreamIn (rm_Body req)));
          ack = reply ProtocolMatchmakeExtension req []
      in case find_gathering gid e of
           None \<Rightarrow> Some (ack, e)
         | Some g \<Rightarrow>
             if leads (conn_pid h e) g
             then (case grow_attribs attribIndex (s_Attribs (gt_session g)) of
                     None \<Rightarrow> None
                   | Some xs \<Rightarrow> Some (ack, mm_upd (put_gathering gid
                        (g\<lparr>gt_session := (gt_session g)\<lparr>s_Attribs := xs[unat attribIndex := newValue]\<rparr>\<rparr>)) e))
             else Some (ack, e))"

definition updateMatchmakeSessionAttribute :: "nat \<Rightarrow> rmc_message \<Rightarrow> 'a mm_state \<Rightarrow> rmc_message \<times> 'a mm_state" where
  "updateMatchmakeSessionAttribute h req e =
     (case run_state (do { g \<leftarrow> r_U32; a \<leftarrow> ReadList r_U32; State_Monad.return (g, a) }) (NewStreamIn (rm_Body req)) of
        ((gid, attribs), st) \<Rightarrow>
      (reply ProtocolMatchmakeExtension req [],
       case find_gathering gid e of None \<Rightarrow> e
       | Some g \<Rightarrow> if leads (conn_pid h e) g \<and> Err st = None
                  then mm_upd (put_gathering gid (g\<lparr>gt_session := (gt_session g)\<lparr>s_Attribs := attribs\<rparr>\<rparr>)) e else e))"

definition swap_front :: "u64 \<Rightarrow> u64 list \<Rightarrow> u64 list" where
  "swap_front c ps = (let idx = length (takeWhile (\<lambda>p. p \<noteq> c) ps) in ps[0 := ps ! idx, idx := ps ! 0])"

definition migrateGatheringOwnership :: "'a mm_config \<Rightarrow> nat \<Rightarrow> rmc_message \<Rightarrow> bool \<Rightarrow> 'a mm_state \<Rightarrow> rmc_message \<times> 'a mm_state" where
  "migrateGatheringOwnership cfg h req hasParticipantsOnly e =
     (let (gid, candidates) = fst (run_state (do { g \<leftarrow> r_U32; cs \<leftarrow> ReadList (r_PID (mc_Settings cfg)); State_Monad.return (g, cs) })
                                  (NewStreamIn (rm_Body req))) in
      (reply ProtocolMatchMaking req [],
       case find_gathering gid e of None \<Rightarrow> e
       | Some g \<Rightarrow>
          if length (gt_participants g) > 0
          then (let parts = (case find (\<lambda>c. containsPID (gt_participants g) c) candidates of
                       None \<Rightarrow> gt_participants g | Some c \<Rightarrow> swap_front c (gt_participants g))
                in notifyParticipation cfg h parts gid [] (mm_upd (put_gathering gid (g\<lparr>gt_participants := parts\<rparr>)) e))
          else e))"

definition updateGatheringOwnership :: "rmc_message \<Rightarrow> rmc_message" where
  "updateGatheringOwnership req = reply ProtocolMatchMaking req (w_Bool True)"

definition endParticipation :: "nat \<Rightarrow> rmc_message \<Rightarrow> 'a mm_state \<Rightarrow> 'a mm_state" where
  "endParticipation h req e =
     (let gid = req_gid req in
      case find_gathering gid e of None \<Rightarrow> e
      | Some g \<Rightarrow>
         (let parts = removePID (gt_participants g) (conn_pid h e) in
          if parts = [] then mm_upd (\<lambda>w. w\<lparr>mm_gatherings := AList.delete gid (mm_gatherings w)\<rparr>) e
          else mm_upd (put_gathering gid (count_participants (g\<lparr>gt_participants := parts\<rparr>))) e))"

definition getDetailedParticipants :: "'a mm_config \<Rightarrow> rmc_message \<Rightarrow> 'a mm_state \<Rightarrow> rmc_message" where
  "getDetailedParticipants cfg req e =
     (let pids = (case find_gathering (req_gid req) e of None \<Rightarrow> [] | Some g \<Rightarrow> gt_participants g) in
      reply ProtocolMatchMaking req (w_U32 (of_nat (length pids)) @
        concat (map (\<lambda>pid. WriteStructure (mc_Settings cfg) ParticipantDetails_levels
          \<lparr>pd_IDParticipant = pid, pd_Name = [], pd_Message = [], pd_Participants = 1\<rparr>) pids)))"

subsection \<open>Finding the session of a participant (matchmaking\_acnh.go)\<close>

definition findSessionForOptions :: "matchmake_session \<Rightarrow> u32 \<Rightarrow> matchmake_session" where
  "findSessionForOptions src options =
     (let r = (if options AND 1 = 0 then src\<lparr>s_ApplicationData := []\<rparr> else src)
      in if options AND 2 = 0 then r\<lparr>s_Param := []\<rparr> else r)"

definition sessionTrouvee :: "'a mm_config \<Rightarrow> matchmake_session \<Rightarrow> u32 \<Rightarrow> matchmake_session" where
  "sessionTrouvee cfg src options = (if \<not> mc_FindByParticipantHonorOptions cfg then src else findSessionForOptions src options)"

definition any_session :: "'a mm_config \<Rightarrow> u64 \<Rightarrow> u32 \<Rightarrow> gathering \<Rightarrow> find_result option" where
  "any_session cfg caller options g =
     (if length (gt_participants g) = 0 \<or> containsPID (gt_participants g) caller then None
      else Some \<lparr>fr_PrincipalID = gt_participants g ! 0,
             fr_Session = (sessionTrouvee cfg (gt_session g) options)\<lparr>s_UserPassword := []\<rparr>\<rparr>)"

definition session_of :: "'a mm_config \<Rightarrow> 'a mm_state \<Rightarrow> u32 \<Rightarrow> u64 \<Rightarrow> find_result option" where
  "session_of cfg e options demande =
     (let lookup = (case mc_FindByParticipantIDResolver cfg of None \<Rightarrow> demande | Some f \<Rightarrow> f demande) in
      case sessionOfParticipant lookup e of None \<Rightarrow> None
      | Some g \<Rightarrow>
         (let r = (sessionTrouvee cfg (gt_session g) options)\<lparr>s_UserPassword := []\<rparr> in
          Some (if mc_FindByParticipantEchoRequestedID cfg \<and> demande \<noteq> lookup
                then \<lparr>fr_PrincipalID = demande,
                      fr_Session = r\<lparr>g_OwnerPID := (if g_OwnerPID r = lookup then demande else g_OwnerPID r),
                                     g_HostPID := (if g_HostPID r = lookup then demande else g_HostPID r)\<rparr>\<rparr>
                else \<lparr>fr_PrincipalID = lookup, fr_Session = r\<rparr>)))"

definition findByParticipant :: "'a mm_config \<Rightarrow> nat \<Rightarrow> rmc_message \<Rightarrow> 'a mm_state \<Rightarrow> rmc_message" where
  "findByParticipant cfg h req e =
     (let s = mc_Settings cfg;
          param = fst (run_state (ReadStructure s FindByParticipantParam_levels find_param_zero) (NewStreamIn (rm_Body req)));
          results = (if fp_PrincipalIDs param = [] \<and> mc_FindByParticipantVideVeutDireToutes cfg
             then List.map_filter (\<lambda>(_, g). any_session cfg (conn_pid h e) (fp_Options param) g) (mm_gatherings (ep_world e))
             else List.map_filter (session_of cfg e (fp_Options param)) (fp_PrincipalIDs param))
      in reply ProtocolMatchmakeExtension req
           (w_U32 (of_nat (length results)) @ concat (map (WriteStructure s FindByParticipantResult_levels) results)))"

subsection \<open>Notification data between friends (matchmaking\_notifdata.go)\<close>

text \<open>What is pushed for a published event: its type times 1000, without the third parameter.\<close>

definition pushed_event :: "notification_event \<Rightarrow> notification_event" where
  "pushed_event ev = event_zero\<lparr>ne_PIDSource := ne_PIDSource ev, ne_Type := ne_Type ev * 1000, ne_Param1 := ne_Param1 ev,
     ne_Param2 := ne_Param2 ev, ne_StrParam := ne_StrParam ev\<rparr>"

definition pushNotifDataToFriends :: "'a mm_config \<Rightarrow> nat \<Rightarrow> notification_event \<Rightarrow> 'a mm_state \<Rightarrow> 'a mm_state" where
  "pushNotifDataToFriends cfg h ev e = (case mc_FriendPIDs cfg of None \<Rightarrow> e
     | Some friends \<Rightarrow> notify_pids cfg (pushed_event ev) (friends (conn_pid h e)) e)"

definition updateNotificationData :: "'a mm_config \<Rightarrow> nat \<Rightarrow> rmc_message \<Rightarrow> 'a mm_state \<Rightarrow> rmc_message \<times> 'a mm_state" where
  "updateNotificationData cfg h req e =
     (let s = mc_Settings cfg in
      case run_state (do { t \<leftarrow> r_U32; a \<leftarrow> r_PID s; b \<leftarrow> r_PID s; c \<leftarrow> r_String; State_Monad.return (t, a, b, c) }) (NewStreamIn (rm_Body req)) of
        ((typ, p1, p2, str), st) \<Rightarrow>
      if Err st \<noteq> None then (refuse ProtocolMatchmakeExtension req ResultCoreInvalidArgument, e)
      else let pid = conn_pid h e;
               ev = event_zero\<lparr>ne_PIDSource := pid, ne_Type := typ, ne_Param1 := p1, ne_Param2 := p2, ne_StrParam := str\<rparr>;
               e1 = mm_upd (\<lambda>w. w\<lparr>mm_notif := notif_put pid typ ev (mm_notif w)\<rparr>) e
           in (reply ProtocolMatchmakeExtension req [], pushNotifDataToFriends cfg h ev e1))"

definition friendNotificationsFor :: "'a mm_config \<Rightarrow> u64 \<Rightarrow> u32 list \<Rightarrow> 'a mm_state \<Rightarrow> notification_event list" where
  "friendNotificationsFor cfg pid types e = (case mc_FriendPIDs cfg of None \<Rightarrow> []
     | Some friends \<Rightarrow> concat (map (\<lambda>friend. List.map_filter (\<lambda>typ. case notif_get friend typ (mm_notif (ep_world e)) of
          None \<Rightarrow> None | Some ev \<Rightarrow> if ne_Param2 ev = 0 then None else Some ev) types) (friends pid)))"

definition getFriendNotificationData :: "'a mm_config \<Rightarrow> nat \<Rightarrow> rmc_message \<Rightarrow> bool \<Rightarrow> 'a mm_state \<Rightarrow> rmc_message \<times> 'a mm_state" where
  "getFriendNotificationData cfg h req is_list e =
     (let s = mc_Settings cfg in
      case run_state (if is_list then ReadList r_U32 else do { t \<leftarrow> r_S32; State_Monad.return [t] }) (NewStreamIn (rm_Body req)) of
        (types, st) \<Rightarrow>
      if Err st \<noteq> None then (refuse ProtocolMatchmakeExtension req ResultCoreInvalidArgument, e)
      else let events = friendNotificationsFor cfg (conn_pid h e) types e in
        (reply ProtocolMatchmakeExtension req (w_U32 (of_nat (length events)) @
           concat (map (WriteStructure s (NotificationEvent_levels (mc_NotifStrVideZero cfg))) events)),
         foldl (\<lambda>e ev. SendNotification cfg h (pushed_event ev) e) e events))"

subsection \<open>Message delivery (messagedelivery.go)\<close>

fun best_room :: "u64 \<Rightarrow> u64 list \<times> u32 \<Rightarrow> (u32 \<times> gathering) list \<Rightarrow> u64 list \<times> u32" where
  "best_room pid best [] = best"
| "best_room pid (destinataires, meilleurGID) ((gid, g) # gs) = best_room pid
     (if \<not> list_ex (\<lambda>p. p = pid) (gt_participants g) then (destinataires, meilleurGID)
      else if length (gt_participants g) > length destinataires \<or>
              (length (gt_participants g) = length destinataires \<and> gid > meilleurGID)
      then (gt_participants g, gid) else (destinataires, meilleurGID)) gs"

fun relay_message :: "'a mm_config \<Rightarrow> nat \<Rightarrow> rmc_message \<Rightarrow> u64 list \<Rightarrow> 'a mm_state \<Rightarrow> 'a mm_state" where
  "relay_message cfg h req [] e = e"
| "relay_message cfg h req (pid # pids) e = relay_message cfg h req pids
     (if pid = conn_pid h e \<and> \<not> mc_RelaiInclutSource cfg then e
      else case FindConnectionByPID pid e of None \<Rightarrow> e
        | Some c \<Rightarrow> SendRMC (mc_Settings cfg) c (NewRMCRequest ProtocolMessageDelivery MethodDeliverMessage (rm_CallID req) (rm_Body req)) e)"

definition MessageDeliveryHandler :: "'a mm_config \<Rightarrow> nat \<Rightarrow> rmc_message \<Rightarrow> 'a mm_state \<Rightarrow> rmc_message option \<times> 'a mm_state" where
  "MessageDeliveryHandler cfg h req e =
     (None, relay_message cfg h req (fst (best_room (conn_pid h e) ([], 0) (mm_gatherings (ep_world e)))) e)"

subsection \<open>Dispatch by method\<close>

definition isTournamentIDList :: "bytes \<Rightarrow> bool" where
  "isTournamentIDList body =
     (if length body < 8 \<or> length body mod 4 \<noteq> 0 then False
      else let n = (le_word (take 4 body) :: u32) in n > 0 \<and> n \<le> 4096 \<and> unat n * 4 + 4 = length body)"

text \<open>A call that creates a tournament is given two draws of random bytes, the mark and the code,
  whether it uses them or not.\<close>

definition mm_createTournament :: "'a mm_config \<Rightarrow> nat \<Rightarrow> rmc_message \<Rightarrow> 'a mm_state \<Rightarrow> rmc_message \<times> 'a mm_state" where
  "mm_createTournament cfg h req e =
     (let w = ep_world e; k = mm_draws w;
          (resp, ts) = createTournament (randomBytes cfg k 8) (randomBytes cfg (k + 1) tournamentCodeLen) (ep_now e) (conn_pid h e) req (mm_tournaments w)
      in (resp, mm_upd (\<lambda>w. w\<lparr>mm_draws := k + 2, mm_tournaments := ts\<rparr>) e))"

definition ExtensionHandler :: "'a mm_config \<Rightarrow> nat \<Rightarrow> rmc_message \<Rightarrow> 'a mm_state \<Rightarrow> (rmc_message \<times> 'a mm_state) option" where
  "ExtensionHandler cfg h req e =
     (let m = rm_Method req; ts = mm_tournaments (ep_world e); pid = conn_pid h e in
      if m = MethodCloseParticipation \<or> m = MethodOpenParticipation
        then Some (setParticipation h req (m = MethodOpenParticipation) e)
      else if m = MethodAutoMatchmakeWithParamPostpone then Some (autoMatchmake cfg h req e)
      else if m = MethodCreateMatchmakeSessionWithParam then Some (createSession cfg h req e)
      else if m = MethodJoinMatchmakeSessionWithParam then Some (joinSession cfg h req e)
      else if m = MethodFindMatchmakeSessionBySingleID then Some (findBySingleID cfg req e, e)
      else if m = MethodFindMatchmakeSessionByGatheringIDDetail then Some (findByGatheringIDDetail cfg req e, e)
      else if m = MethodCustomPrivateRoomCreate then Some (privateRoomCreate req e)
      else if m = MethodCustomResolveCode then Some (resolveCode req e, e)
      else if m = MethodCustomPlayingSession then Some (playingSession cfg h req e, e)
      else if m = MethodFindByParticipant then
        Some (if mc_FindByParticipantEnabled cfg then findByParticipant cfg h req e else emptyList ProtocolMatchmakeExtension req, e)
      else if m = MethodCustomFriendsQuery then Some (emptyList ProtocolMatchmakeExtension req, e)
      else if m = MethodUpdateNotificationData then Some (updateNotificationData cfg h req e)
      else if m = MethodGetFriendNotificationData then Some (getFriendNotificationData cfg h req False e)
      else if m = MethodGetFriendNotificationDataList then Some (getFriendNotificationData cfg h req True e)
      else if m = MethodUpdateMatchmakeSessionPart then Some (updateSessionPart cfg req e)
      else if m = MethodUpdateApplicationBuffer then Some (updateApplicationBuffer h req e)
      else if m = MethodModifyCurrentGameAttribute then modifyCurrentGameAttribute h req e
      else if m = MethodUpdateMatchmakeSessionAttribute then Some (updateMatchmakeSessionAttribute h req e)
      else if m = MethodSSBUArenaCode then Some (privateRoomCreate req e)
      else if m = MethodSSBUArenaResolve then Some (resolveCode req e, e)
      else if m = MethodFindByGidList then Some (findByGidList cfg req e, e)
      else if m = MethodBrowseNoHolder then Some (browseNoHolder cfg req e, e)
      else if m = MethodSSBUPreMatch then
        Some (if isTournamentIDList (rm_Body req) then tournamentsByIDs req ts else reply ProtocolMatchmakeExtension req (w_U32 2), e)
      else if m = MethodTournamentSearch then Some (searchTournaments req ts, e)
      else if m = MethodTournamentCreate then Some (mm_createTournament cfg h req e)
      else if m = MethodTournamentDelete then
        Some (let (resp, ts') = removeTournament pid req ts in (resp, mm_upd (\<lambda>w. w\<lparr>mm_tournaments := ts'\<rparr>) e))
      else if m = MethodTournamentJoin then
        Some (let (resp, ts') = registerTournament pid req ts in (resp, mm_upd (\<lambda>w. w\<lparr>mm_tournaments := ts'\<rparr>) e))
      else if m = MethodUpdateProgressScore then Some (reply ProtocolMatchmakeExtension req [], e)
      else Some (notImplemented ProtocolMatchmakeExtension req, e))"

text \<open>\<open>getSessionURLs\<close> is the handler of that method, of the component that knows the stations.\<close>

definition MatchMakingHandler ::
  "(nat \<Rightarrow> rmc_message \<Rightarrow> 'a mm_state \<Rightarrow> rmc_message option \<times> 'a mm_state) \<Rightarrow> 'a mm_config \<Rightarrow> nat \<Rightarrow> rmc_message \<Rightarrow> 'a mm_state \<Rightarrow> rmc_message option \<times> 'a mm_state" where
  "MatchMakingHandler getSessionURLs cfg h req e =
     (let m = rm_Method req in
      if m = MethodGetSessionURLs then getSessionURLs h req e
      else if m = MethodGetDetailedParticipants then (Some (getDetailedParticipants cfg req e), e)
      else if m = MethodUnregisterGathering then (Some (boolResponse ProtocolMatchMaking req True), unregister h req e)
      else if m = MethodUpdateSessionURL then (Some (boolResponse ProtocolMatchMaking req True), e)
      else if m = MethodUpdateSessionHost \<or> m = MethodUpdateSessionHostV1 then (Some (reply ProtocolMatchMaking req []), e)
      else if m = MethodMigrateGatheringOwnership then apfst Some (migrateGatheringOwnership cfg h req True e)
      else if m = MethodMigrateGatheringOwnershipV1 then apfst Some (migrateGatheringOwnership cfg h req False e)
      else if m = MethodUpdateGatheringOwnership then (Some (updateGatheringOwnership req), e)
      else if m = MethodFindBySingleID15 then (Some (findBySingleID15 cfg req e), e)
      else (Some (notImplemented ProtocolMatchMaking req), e))"

definition MatchMakingExtHandler :: "nat \<Rightarrow> rmc_message \<Rightarrow> 'a mm_state \<Rightarrow> rmc_message option \<times> 'a mm_state" where
  "MatchMakingExtHandler h req e =
     (if rm_Method req = MethodEndParticipation
      then (Some (boolResponse ProtocolMatchMakingExt req True), endParticipation h req e)
      else (Some (notImplemented ProtocolMatchMakingExt req), e))"

end
