(* ===== verification/Nex_Nat.thy ===== *)
theory Nex_Nat
  imports Nex_Relay Nex_Matchmaking
begin

section \<open>Stations and NAT traversal (secureconnection.go, natbridge.go, nattraversal.go, matchmaking\_local.go)\<close>

text \<open>
  How a console's addresses are registered, rebuilt for a joiner and pushed for a hole punch.
  A station is shared by pointer only while \<open>handleRegister\<close> works on the list it just read,
  where a pointer is a position of that list; the lists kept on a connection hold each object
  once, or the same object twice, and two different objects in one list always differ (in
  their address or in the presence of \<open>type\<close>), so equality of values stands for equality of
  pointers there.  No function of the package stores a nil station.

  The state adds to the matchmaking state the relay, the observations of the NAT responder
  (the content of its file is the environment) with their cache, and the joiners whose answer
  waits for the host.  What a title configures is the record \<open>net_config\<close>.
\<close>

record net_world = mm_world +
  nw_relay :: relay_state
  nw_natFile :: "string option"
  nw_natCache :: "(string, int) gomap option"
  nw_natCacheRead :: "int option"
  nw_waiting :: "(nat \<times> rmc_message \<times> nat \<times> int) list"
  nw_stationRelay :: "string \<times> int"

type_synonym 'b net_state = "'b net_world_scheme endpoint"

record 'b net_config =
  nc_Settings :: settings
  nc_SessionStations :: "(nat \<Rightarrow> nat \<Rightarrow> 'b net_state \<Rightarrow> station_url list) option"
  nc_OwnerLeaveUnregisters :: bool
  nc_PreservePiaStationIdentity :: bool
  nc_PublicStationFirst :: bool
  nc_LocalLoopbackStations :: bool
  nc_UseReportedUDPPort :: bool
  nc_ProbeRepoint :: string
  nc_RelaySigChaineVideZero :: bool
  nc_RelaySigGameServerID :: u32
  nc_listens :: "int \<Rightarrow> bool"
  nc_OnNATProperties :: "(u64 \<Rightarrow> u32 \<Rightarrow> u32 \<Rightarrow> u32 \<Rightarrow> 'b net_state \<Rightarrow> 'b net_state) option"

definition nw_upd :: "('b net_world_scheme \<Rightarrow> 'b net_world_scheme) \<Rightarrow> 'b net_state \<Rightarrow> 'b net_state" where
  "nw_upd f e = e\<lparr>ep_world := f (ep_world e)\<rparr>"

definition stations_of :: "connection \<Rightarrow> station_url list" where
  "stations_of c = List.map_filter (\<lambda>u. u) (Stations c)"

subsection \<open>Choosing the local and the public station\<close>

definition StationURLFlagBehindNAT :: u8 where "StationURLFlagBehindNAT = 0x01"
definition StationURLFlagPublic :: u8 where "StationURLFlagPublic = 0x02"
definition stationURLFlagSwitch :: u8 where "stationURLFlagSwitch = 0x08"

definition public_type :: int where
  "public_type = uint (StationURLFlagBehindNAT OR StationURLFlagPublic OR stationURLFlagSwitch)"

definition marked_public :: "station_url \<Rightarrow> bool" where
  "marked_public u \<longleftrightarrow> (word_of_int (su_GetInt u ''type'') :: u8) AND StationURLFlagPublic \<noteq> 0"

fun select_loop :: "(nat \<times> station_url) list \<Rightarrow> (nat \<times> station_url) option \<Rightarrow> (nat \<times> station_url) option \<Rightarrow>
    (nat \<times> station_url) option \<times> (nat \<times> station_url) option" where
  "select_loop [] local0 public0 = (local0, public0)"
| "select_loop ((i, u) # us) local0 public0 =
     (let addr = su_Get u ''address'' in
      if addr = [] then select_loop us local0 public0
      else if isPrivateIP addr then select_loop us (if local0 = None then Some (i, u) else local0) public0
      else select_loop us local0
        (case public0 of None \<Rightarrow> Some (i, u)
         | Some (_, p) \<Rightarrow> if \<not> marked_public p \<and> marked_public u then Some (i, u) else public0))"

text \<open>The stations chosen, with their positions in the list.\<close>

definition selectStations :: "station_url list \<Rightarrow> (nat \<times> station_url) option \<times> (nat \<times> station_url) option" where
  "selectStations urls =
     (let us = enumerate 0 urls; (local0, public0) = select_loop us None None;
          local1 = (case local0 of None \<Rightarrow> find (\<lambda>(_, u). \<not> marked_public u) us | l \<Rightarrow> l);
          local2 = (case local1 of None \<Rightarrow> if length urls > 0 then Some (0, urls ! 0) else None | l \<Rightarrow> l)
      in (local2, public0))"

subsection \<open>Registering (secureconnection.go)\<close>

definition ProtocolSecureConnection :: u16 where "ProtocolSecureConnection = 0x0B"
definition MethodRegister :: u32 where "MethodRegister = 0x1"
definition MethodReplaceURL :: u32 where "MethodReplaceURL = 0x7"
definition MethodRegisterEx :: u32 where "MethodRegisterEx = 0x4"
definition MethodTestConnectivity :: u32 where "MethodTestConnectivity = 0x5"
definition MethodSendReport :: u32 where "MethodSendReport = 0x8"

record secure_config =
  sc_PreservePiaStationIdentity :: bool
  sc_PublicStationType :: u8
  sc_SetPa :: bool

definition SwitchPia519Config :: secure_config where
  "SwitchPia519Config = \<lparr>sc_PreservePiaStationIdentity = False,
     sc_PublicStationType = StationURLFlagBehindNAT OR StationURLFlagPublic OR stationURLFlagSwitch, sc_SetPa = True\<rparr>"

definition LegacyPiaConfig :: secure_config where
  "LegacyPiaConfig = \<lparr>sc_PreservePiaStationIdentity = False,
     sc_PublicStationType = StationURLFlagBehindNAT OR StationURLFlagPublic, sc_SetPa = False\<rparr>"

definition own_pid :: "settings \<Rightarrow> connection \<Rightarrow> string" where
  "own_pid s c = FormatUint (Publique s (c_PID c))"

definition tag_station :: "settings \<Rightarrow> connection \<Rightarrow> station_url \<Rightarrow> station_url" where
  "tag_station s c u = su_SetInt ''RVCID'' (uint (c_ID c)) (su_Set ''PID'' (own_pid s c) u)"

definition mark_public :: "secure_config \<Rightarrow> string \<Rightarrow> station_url \<Rightarrow> station_url" where
  "mark_public cfg pa u =
     (let u1 = su_SetInt ''type'' (uint (sc_PublicStationType cfg)) u
      in if sc_SetPa cfg \<and> pa \<noteq> [] then su_Set ''Pa'' pa u1 else u1)"

text \<open>The two stations kept.  When local and public are one object, what is done to one is done to both.\<close>

definition register_stations :: "settings \<Rightarrow> secure_config \<Rightarrow> connection \<Rightarrow> station_url list \<Rightarrow> station_url \<times> station_url" where
  "register_stations s cfg c urls =
     (let (local0, public0) = selectStations urls;
          loc = (case local0 of None \<Rightarrow> NewStationURL ''prudp'' | Some (_, u) \<Rightarrow> u);
          same = (local0 \<noteq> None \<and> map_option fst local0 = map_option fst public0);
          vpn = (same \<and> (case SplitHostPort (c_RemoteAddr c) of None \<Rightarrow> False
                 | Some (host, _) \<Rightarrow> \<not> isPrivateIP host \<and> su_Get loc ''address'' \<noteq> host));
          public1 = (if vpn then None else public0)
      in case public1 of
           None \<Rightarrow>
             (let pub = (case SplitHostPort (c_RemoteAddr c) of None \<Rightarrow> su_Copy loc
                    | Some (host, port) \<Rightarrow> su_Set ''port'' port (su_Set ''address'' host (su_Copy loc)));
                  pub1 = tag_station s c pub
              in (tag_station s c loc, mark_public cfg (su_Get pub1 ''address'') pub1))
         | Some (_, pub) \<Rightarrow>
             if same then (let x = tag_station s c loc; y = mark_public cfg (su_Get x ''address'') x in (y, y))
             else (let l = tag_station s c loc in (l, mark_public cfg (su_Get l ''address'') (tag_station s c pub))))"

definition handleRegister :: "settings \<Rightarrow> secure_config \<Rightarrow> nat \<Rightarrow> rmc_message \<Rightarrow> 'w endpoint \<Rightarrow> rmc_message \<times> 'w endpoint" where
  "handleRegister s cfg h req e =
     (let urls = fst (run_state (ReadList r_StationURL) (NewStreamIn (rm_Body req))); c = ep_heap e h;
          (l, p) = register_stations s cfg c urls
      in (NewRMCSuccess ProtocolSecureConnection (rm_Method req) (rm_CallID req)
            (w_U32 ResultCoreUnknown @ w_U32 (c_ID c) @ w_String (su_String p)),
          on_conn h (SetStations [Some l, Some p]) e))"

definition dedupe_station :: "string list \<times> (string, station_url) gomap \<Rightarrow> station_url \<Rightarrow> string list \<times> (string, station_url) gomap" where
  "dedupe_station acc st =
     (let (order, byAddr) = acc; a = su_Get st ''address''
      in (if map_of byAddr a = None then order @ [a] else order, AList.update a st byAddr))"

definition replace_station :: "station_url \<Rightarrow> station_url list \<Rightarrow> station_url list" where
  "replace_station new sts =
     (let (order, byAddr) = foldl dedupe_station ([], []) (sts @ [new])
      in List.map_filter (map_of byAddr) order)"

definition keep_identity :: "connection \<Rightarrow> station_url \<Rightarrow> station_url \<Rightarrow> station_url \<Rightarrow> station_url \<times> station_url" where
  "keep_identity c new loc public0 =
     (let lan = su_Remove ''Pa'' (su_Remove ''type'' (su_Set ''address'' (su_Get loc ''address'') (su_Copy new)));
          pub = su_Set ''type'' (su_Get public0 ''type'') (su_Set ''port'' (su_Get public0 ''port'')
                  (su_Set ''address'' (su_Get public0 ''address'') (su_Copy new)));
          pub1 = (if su_Get public0 ''Pa'' \<noteq> [] then su_Set ''Pa'' (su_Get public0 ''Pa'') pub else pub)
      in (su_SetInt ''RVCID'' (uint (c_ID c)) lan, su_SetInt ''RVCID'' (uint (c_ID c)) pub1))"

definition handleReplaceURL :: "settings \<Rightarrow> secure_config \<Rightarrow> nat \<Rightarrow> rmc_message \<Rightarrow> 'w endpoint \<Rightarrow> rmc_message \<times> 'w endpoint" where
  "handleReplaceURL s cfg h req e =
     (let c = ep_heap e h;
          new0 = fst (run_state (do { _ \<leftarrow> r_StationURL; r_StationURL }) (NewStreamIn (rm_Body req)));
          new = su_Set ''PID'' (own_pid s c) new0;
          sts = stations_of c;
          rebuilt = (case selectStations sts of
              (Some (_, loc), Some (_, public0)) \<Rightarrow>
                if sc_PreservePiaStationIdentity cfg \<and> su_GetInt new ''CID'' \<noteq> 0 \<and> su_GetInt new ''port'' > 0 \<and> su_GetInt new ''port'' \<le> 65535
                then (let (lan, pub) = keep_identity c new loc public0 in [lan, pub])
                else replace_station new sts
            | _ \<Rightarrow> replace_station new sts)
      in (NewRMCSuccess ProtocolSecureConnection (rm_Method req) (rm_CallID req) [], on_conn h (SetStations (map Some rebuilt)) e))"

definition SecureConnectionHandlerWithConfig :: "settings \<Rightarrow> secure_config \<Rightarrow> nat \<Rightarrow> rmc_message \<Rightarrow> 'w endpoint \<Rightarrow> rmc_message option \<times> 'w endpoint" where
  "SecureConnectionHandlerWithConfig s cfg h req e =
     (let m = rm_Method req in
      if m = MethodRegister \<or> m = MethodRegisterEx then apfst Some (handleRegister s cfg h req e)
      else if m = MethodReplaceURL then apfst Some (handleReplaceURL s cfg h req e)
      else if m = MethodSendReport \<or> m = MethodTestConnectivity
        then (Some (NewRMCSuccess ProtocolSecureConnection m (rm_CallID req) []), e)
      else (Some (notImplemented ProtocolSecureConnection req), e))"

definition SecureConnectionHandler :: "settings \<Rightarrow> nat \<Rightarrow> rmc_message \<Rightarrow> 'w endpoint \<Rightarrow> rmc_message option \<times> 'w endpoint" where
  "SecureConnectionHandler s = SecureConnectionHandlerWithConfig s SwitchPia519Config"

subsection \<open>The observed UDP ports (natbridge.go)\<close>

fun until_space :: "string \<Rightarrow> string \<times> string" where
  "until_space [] = ([], [])"
| "until_space (c # cs) = (if first_prefix space_encodings (c # cs) \<noteq> None then ([], c # cs)
     else (let (a, b) = until_space cs in (c # a, b)))"

lemma until_space_length: "length (snd (until_space s)) \<le> length s"
  by (induction s) (auto simp: split_beta)

lemma trim_front_length: "length (trim_front ps s) \<le> length s"
proof (induction ps s rule: trim_front.induct)
  case (1 ps s)
  then show ?case by (subst trim_front.simps) (fastforce split: option.split dest: first_prefix_shorter)
qed

text \<open>\<open>strings.Fields\<close>.\<close>

function Fields :: "string \<Rightarrow> string list" where
  "Fields s = (let t = trim_front space_encodings s; (f, r) = until_space t in
     if f = [] then [] else f # Fields r)"
  by pat_completeness auto
termination
proof (relation "measure length")
  fix s t and p :: "string \<times> string" and f r
  assume t: "t = trim_front space_encodings s" "p = until_space t" "(f, r) = p" "f \<noteq> []"
  have "length r < length t"
  proof (cases t)
    case (Cons c cs)
    then show ?thesis using t(2-4) until_space_length [of cs] by (auto simp: split_beta split: if_splits)
  qed (use t in simp)
  then show "(r, s) \<in> measure length" using trim_front_length [of space_encodings s] t(1) by simp
qed simp

declare Fields.simps [simp del]

definition nat_line :: "string \<Rightarrow> (string \<times> int) option" where
  "nat_line line = (case Fields line of [ip, port] \<Rightarrow>
       (case Atoi port of (p, ok) \<Rightarrow> if ok \<and> p > 0 \<and> p < 65536 then Some (ip, p) else None)
     | _ \<Rightarrow> None)"

definition parse_nat_file :: "string \<Rightarrow> (string, int) gomap" where
  "parse_nat_file data = foldl (\<lambda>m (ip, p). AList.update ip p m) [] (List.map_filter nat_line (Split (char_of (10 :: nat)) data))"

definition natCacheTTL :: int where "natCacheTTL = 2 * 10 ^ 9"

definition natPortForIP :: "string \<Rightarrow> 'b net_state \<Rightarrow> int option \<times> 'b net_state" where
  "natPortForIP ip e =
     (let w = ep_world e; now = ep_now e in
      if ip = [] then (None, e)
      else if nw_natCache w = None \<or> since now (nw_natCacheRead w) > natCacheTTL
      then (case nw_natFile w of
              None \<Rightarrow> (None, nw_upd (\<lambda>w. w\<lparr>nw_natCache := Some [], nw_natCacheRead := Some now\<rparr>) e)
            | Some data \<Rightarrow> (map_of (parse_nat_file data) ip,
                nw_upd (\<lambda>w. w\<lparr>nw_natCache := Some (parse_nat_file data), nw_natCacheRead := Some now\<rparr>) e))
      else (case nw_natCache w of None \<Rightarrow> (None, e) | Some m \<Rightarrow> (map_of m ip, e)))"

definition SetStationRelay :: "string \<Rightarrow> int \<Rightarrow> 'b net_state \<Rightarrow> 'b net_state" where
  "SetStationRelay host port e = nw_upd (\<lambda>w. w\<lparr>nw_stationRelay := (host, port)\<rparr>) e"

definition StationRelay :: "'b net_state \<Rightarrow> string \<times> int \<times> bool" where
  "StationRelay e = (case nw_stationRelay (ep_world e) of (host, port) \<Rightarrow> (host, port, host \<noteq> [] \<and> port > 0))"

datatype bridgeStatus = bridgeOK | bridgeNoStations | bridgeNoObservation | bridgeNoRVCID

text \<open>The two candidates a console probes: the LAN one without \<open>type\<close> and \<open>Pa\<close>, and the public one.\<close>

definition lan_candidate :: "station_url \<Rightarrow> station_url" where
  "lan_candidate u = su_Remove ''Pa'' (su_Remove ''type'' u)"

definition natBridgeStationsWithReportedPort :: "station_url list \<Rightarrow> bool \<Rightarrow> bool \<Rightarrow> 'b net_state \<Rightarrow> (station_url list \<times> bridgeStatus) \<times> 'b net_state" where
  "natBridgeStationsWithReportedPort urls publicFirst useReportedPort e =
     (case selectStations urls of
        (Some (_, loc), Some (_, public0)) \<Rightarrow>
          (let publicAddr = su_Get public0 ''address''; privateAddr = su_Get loc ''address'' in
           if publicAddr = [] \<or> privateAddr = [] \<or> publicAddr = privateAddr then ((urls, bridgeNoStations), e)
           else let (observed, e1) = natPortForIP publicAddr e;
                    reported = su_GetInt loc ''port'';
                    udpPort = (case observed of Some p \<Rightarrow> Some p
                       | None \<Rightarrow> if useReportedPort \<and> su_GetInt loc ''RVCID'' \<noteq> 0 \<and> reported > 1 \<and> reported \<le> 65535 then Some reported else None)
                in case udpPort of None \<Rightarrow> ((urls, bridgeNoObservation), e1)
                   | Some port \<Rightarrow>
                       if su_GetInt loc ''RVCID'' = 0 then ((urls, bridgeNoRVCID), e1)
                       else let lan = lan_candidate (su_SetInt ''port'' port (su_Copy loc));
                                pub = su_Set ''Pa'' (if publicFirst then publicAddr else privateAddr)
                                  (su_SetInt ''type'' public_type (su_SetInt ''port'' port (su_Copy public0)))
                            in ((if publicFirst then [pub, lan] else [lan, pub], bridgeOK), e1))
      | _ \<Rightarrow> ((urls, bridgeNoStations), e))"

subsection \<open>The stations a joiner gets (matchmaking\_local.go, matchmaking\_handlers.go, relaypair.go)\<close>

definition PublicIPOf :: "connection \<Rightarrow> string" where
  "PublicIPOf c = (case SplitHostPort (c_RemoteAddr c) of None \<Rightarrow> [] | Some (host, _) \<Rightarrow> if host = [] \<or> isPrivateIP host then [] else host)"

definition behindSameNAT :: "connection \<Rightarrow> connection \<Rightarrow> bool" where
  "behindSameNAT a b \<longleftrightarrow> PublicIPOf a \<noteq> [] \<and> PublicIPOf a = PublicIPOf b"

fun loopback_pair :: "station_url list \<Rightarrow> station_url option \<Rightarrow> station_url option \<Rightarrow> station_url option \<times> station_url option" where
  "loopback_pair [] loc public0 = (loc, public0)"
| "loopback_pair (u # us) loc public0 = (case ParseIP (su_Get u ''address'') of
     None \<Rightarrow> loopback_pair us loc public0
   | Some ip \<Rightarrow>
       if IsLoopback ip \<and> marked_public u then loopback_pair us loc (Some u)
       else if \<not> IsLoopback ip \<and> isPrivateIP (su_Get u ''address'') then loopback_pair us (Some u) public0
       else loopback_pair us loc public0)"

definition bridgeSessionStations :: "'b net_config \<Rightarrow> station_url list \<Rightarrow> 'b net_state \<Rightarrow> (station_url list \<times> bridgeStatus) \<times> 'b net_state" where
  "bridgeSessionStations cfg urls e =
     (if nc_PreservePiaStationIdentity cfg then
        (case selectStations urls of
           (Some (_, loc), Some (_, public0)) \<Rightarrow>
             if su_GetInt loc ''CID'' = 0 \<or> su_GetInt public0 ''CID'' \<noteq> su_GetInt loc ''CID'' then ((urls, bridgeNoRVCID), e)
             else ((if nc_PublicStationFirst cfg then [public0, loc] else [loc, public0], bridgeOK), e)
         | _ \<Rightarrow> ((urls, bridgeNoStations), e))
      else if \<not> nc_LocalLoopbackStations cfg \<or> nc_PublicStationFirst cfg then
        natBridgeStationsWithReportedPort urls (nc_PublicStationFirst cfg) (nc_UseReportedUDPPort cfg) e
      else case loopback_pair urls None None of
        (Some loc, Some public0) \<Rightarrow>
          if su_GetInt loc ''CID'' = 0 \<or> su_GetInt loc ''RVCID'' = 0 \<or> su_GetInt loc ''port'' \<le> 1 \<or> su_GetInt loc ''port'' > 65535
          then ((urls, bridgeNoRVCID), e)
          else if su_GetInt public0 ''port'' \<le> 0 \<or> su_GetInt public0 ''port'' > 65535 then ((urls, bridgeNoStations), e)
          else let lan = lan_candidate (su_Copy loc);
                   pub = su_Set ''Pa'' (su_Get lan ''address'') (su_SetInt ''type'' public_type (su_Copy public0))
               in (([lan, pub], bridgeOK), e)
      | _ \<Rightarrow> natBridgeStationsWithReportedPort urls (nc_PublicStationFirst cfg) (nc_UseReportedUDPPort cfg) e)"

definition bridgeSessionStationsForPair :: "'b net_config \<Rightarrow> nat \<Rightarrow> nat \<Rightarrow> 'b net_state \<Rightarrow> (station_url list \<times> bridgeStatus) \<times> 'b net_state" where
  "bridgeSessionStationsForPair cfg joiner host e =
     (let urls = stations_of (ep_heap e host) in
      if \<not> behindSameNAT (ep_heap e joiner) (ep_heap e host) \<or> nc_PreservePiaStationIdentity cfg then bridgeSessionStations cfg urls e
      else case selectStations urls of
        (Some (_, loc), Some (_, public0)) \<Rightarrow>
          (let port = su_GetInt loc ''port'' in
           if su_GetInt loc ''RVCID'' = 0 \<or> port \<le> 1 \<or> port > 65535 then ((urls, bridgeNoRVCID), e)
           else let lan = lan_candidate (su_Copy loc);
                    pub = su_Set ''Pa'' (su_Get lan ''address'') (su_SetInt ''type'' public_type (su_SetInt ''port'' port (su_Copy public0)))
                in (([lan, pub], bridgeOK), e))
      | _ \<Rightarrow> ((urls, bridgeNoStations), e))"

definition relayPointStation :: "station_url \<Rightarrow> string \<Rightarrow> int \<Rightarrow> station_url" where
  "relayPointStation u host port =
     (let c = su_SetInt ''port'' port (su_Set ''address'' host (su_Copy u))
      in if su_Get c ''Pa'' \<noteq> [] then su_Set ''Pa'' host c else c)"

definition RelayStations :: "station_url list \<Rightarrow> string \<Rightarrow> int \<Rightarrow> station_url list" where
  "RelayStations urls host port = (case selectStations urls of
     (_, Some (_, public0)) \<Rightarrow> if isPrivateIP (su_Get public0 ''address'') then urls
       else map (\<lambda>u. if u \<noteq> public0 then u else relayPointStation u host port) urls
   | _ \<Rightarrow> urls)"

definition pair_relay :: "'b net_config \<Rightarrow> nat \<Rightarrow> nat \<Rightarrow> 'b net_state \<Rightarrow> (string \<times> int) option \<times> 'b net_state" where
  "pair_relay cfg a b e =
     (let (r, st) = PairRelayFor (nc_listens cfg) (ep_now e) (conn_pid a e) (conn_pid b e)
            (PublicIPOf (ep_heap e a)) (PublicIPOf (ep_heap e b)) (nw_relay (ep_world e))
      in (r, nw_upd (\<lambda>w. w\<lparr>nw_relay := st\<rparr>) e))"

definition relayedFor :: "'b net_config \<Rightarrow> nat \<Rightarrow> nat \<Rightarrow> station_url list \<Rightarrow> 'b net_state \<Rightarrow> station_url list \<times> 'b net_state" where
  "relayedFor cfg joiner host urls e =
     (if \<not> PairRelayActive (nw_relay (ep_world e)) \<or> length urls = 0 then (urls, e)
      else case pair_relay cfg joiner host e of
        (None, e1) \<Rightarrow> (urls, e1)
      | (Some (rHost, rPort), e1) \<Rightarrow> (RelayStations urls rHost rPort, e1))"

definition sessionURLsResponse :: "rmc_message \<Rightarrow> station_url list \<Rightarrow> rmc_message" where
  "sessionURLsResponse req urls = reply ProtocolMatchMaking req (WriteList w_StationURL urls)"

definition hostReplaceURLWait :: int where "hostReplaceURLWait = 2500 * 10 ^ 6"

definition getSessionURLs :: "'b net_config \<Rightarrow> nat \<Rightarrow> rmc_message \<Rightarrow> 'b net_state \<Rightarrow> rmc_message option \<times> 'b net_state" where
  "getSessionURLs cfg h req e =
     (let g = find_gathering (req_gid req) e;
          host = (case g of None \<Rightarrow> None | Some g \<Rightarrow> FindConnectionByID (gt_hostConnID g) e) in
      if g = None \<and> nc_OwnerLeaveUnregisters cfg then (Some (refuse ProtocolMatchMaking req ResultRendezVousSessionVoid), e)
      else case host of None \<Rightarrow> (Some (sessionURLsResponse req []), e)
        | Some hc \<Rightarrow>
           (case nc_SessionStations cfg of
              Some f \<Rightarrow> (Some (sessionURLsResponse req (f h hc e)), e)
            | None \<Rightarrow>
               (let ((urls, status), e1) = bridgeSessionStationsForPair cfg h hc e in
                if status \<noteq> bridgeNoRVCID
                then (let (us, e2) = relayedFor cfg h hc urls e1 in (Some (sessionURLsResponse req us), e2))
                else (None, nw_upd (\<lambda>w. w\<lparr>nw_waiting := nw_waiting w @ [(h, req, hc, ep_now e1 + hostReplaceURLWait)]\<rparr>) e1))))"

text \<open>One turn of the goroutine that waits for the host, after its sleep.\<close>

definition answerSessionURLsWhenHostIsReady :: "'b net_config \<Rightarrow> nat \<Rightarrow> 'b net_state \<Rightarrow> 'b net_state" where
  "answerSessionURLsWhenHostIsReady cfg i e =
     (if i < length (nw_waiting (ep_world e)) then
        (case nw_waiting (ep_world e) ! i of (h, req, hc, deadline) \<Rightarrow>
          (let done0 = nw_upd (\<lambda>w. w\<lparr>nw_waiting := take i (nw_waiting w) @ drop (Suc i) (nw_waiting w)\<rparr>);
               ((urls, status), e1) = bridgeSessionStationsForPair cfg h hc e in
           if status = bridgeOK
           then (let (us, e2) = relayedFor cfg h hc urls e1 in done0 (SendRMC (nc_Settings cfg) h (sessionURLsResponse req us) e2))
           else if ep_now e1 < deadline then e1
           else (let (us, e2) = relayedFor cfg h hc (stations_of (ep_heap e1 hc)) e1
                 in done0 (SendRMC (nc_Settings cfg) h (sessionURLsResponse req us) e2))))
      else e)"

subsection \<open>Hole punching (nattraversal.go)\<close>

definition ProtocolNATTraversal :: u16 where "ProtocolNATTraversal = 0x03"
definition MethodRequestProbeInitiation :: u32 where "MethodRequestProbeInitiation = 0x1"
definition MethodInitiateProbe :: u32 where "MethodInitiateProbe = 0x2"
definition MethodRequestProbeInitiationExt :: u32 where "MethodRequestProbeInitiationExt = 0x3"
definition MethodReportNATTraversalResult :: u32 where "MethodReportNATTraversalResult = 0x4"
definition MethodReportNATProperties :: u32 where "MethodReportNATProperties = 0x5"
definition MethodGetRelaySignatureKey :: u32 where "MethodGetRelaySignatureKey = 0x6"
definition MethodReportNATTraversalResultDetail :: u32 where "MethodReportNATTraversalResultDetail = 0x7"

definition natAck :: "rmc_message \<Rightarrow> rmc_message" where
  "natAck req = NewRMCSuccess ProtocolNATTraversal (rm_Method req) (rm_CallID req) []"

definition relaySignatureKey :: "'b net_config \<Rightarrow> rmc_message \<Rightarrow> 'b net_state \<Rightarrow> rmc_message" where
  "relaySignatureKey cfg req e = NewRMCSuccess ProtocolNATTraversal (rm_Method req) (rm_CallID req)
     (w_U32 0 @ w_DateTime (NowDateTime (ep_now e)) @ (if nc_RelaySigChaineVideZero cfg then w_StringVideZero [] else w_String []) @
      w_U16 0 @ w_U32 0 @ w_U32 (nc_RelaySigGameServerID cfg))"

definition probeRepointEnabled :: "'b net_config \<Rightarrow> bool" where
  "probeRepointEnabled cfg \<longleftrightarrow> nc_ProbeRepoint cfg = ''1'' \<or> nc_ProbeRepoint cfg = ''true''"

definition overlayStation :: "connection \<Rightarrow> string \<Rightarrow> string \<Rightarrow> bool" where
  "overlayStation c addr host =
     (if addr = [] \<or> addr = host \<or> isPrivateIP addr then False
      else list_ex (\<lambda>st. su_Get st ''address'' = addr) (stations_of c) \<and> list_ex (\<lambda>st. su_Get st ''address'' = host) (stations_of c))"

text \<open>\<open>pids\<close> collects the players seen behind the address; two different ones make it ambiguous.\<close>

fun unambiguous_loop :: "'w endpoint \<Rightarrow> string \<Rightarrow> u64 list \<Rightarrow> u32 list \<Rightarrow> bool" where
  "unambiguous_loop e host pids [] = True"
| "unambiguous_loop e host pids (i # ids) = (case FindConnectionByID i e of
     None \<Rightarrow> unambiguous_loop e host pids ids
   | Some c \<Rightarrow>
       if conn_pid c e = 0 \<or> PublicIPOf (ep_heap e c) \<noteq> host then unambiguous_loop e host pids ids
       else let ps = List.insert (conn_pid c e) pids in if length ps > 1 then False else unambiguous_loop e host ps ids)"

definition natPortUnambiguous :: "string \<Rightarrow> 'w endpoint \<Rightarrow> bool" where
  "natPortUnambiguous host e \<longleftrightarrow> host = [] \<or> unambiguous_loop e host [] (ConnectionIDs e)"

text \<open>The station pushed to the targets, repointed to the observed endpoint when that is asked for.\<close>

definition repoint_station :: "'b net_config \<Rightarrow> nat \<Rightarrow> string \<Rightarrow> 'b net_state \<Rightarrow> string \<times> 'b net_state" where
  "repoint_station cfg h station e =
     (let c = ep_heap e h; host = ipHost (c_RemoteAddr c) in
      if \<not> isPrivateIP host \<and> (probeRepointEnabled cfg \<or> overlayStation c (su_Get (ParseStationURL station) ''address'') host)
      then (let u = ParseStationURL station;
                u1 = (if su_Get u ''address'' \<noteq> host then su_Set ''address'' host u else u);
                (p, e1) = natPortForIP host e;
                u2 = (case p of Some port \<Rightarrow> if natPortUnambiguous host e1 then su_SetInt ''port'' port u1 else u1 | None \<Rightarrow> u1)
            in (su_String u2, e1))
      else (station, e))"

definition probe_station :: "'b net_config \<Rightarrow> nat \<Rightarrow> nat \<Rightarrow> string \<Rightarrow> string \<Rightarrow> 'b net_state \<Rightarrow> bytes \<times> 'b net_state" where
  "probe_station cfg h target lanStation stationToProbe e =
     (let station = (if stationToProbe \<noteq> lanStation \<and> behindSameNAT (ep_heap e h) (ep_heap e target) then lanStation else stationToProbe) in
      if PairRelayActive (nw_relay (ep_world e))
      then (case pair_relay cfg h target e of
              (None, e1) \<Rightarrow> (w_StationURL (ParseStationURL station), e1)
            | (Some (rHost, rPort), e1) \<Rightarrow> (w_StationURL (relayPointStation (ParseStationURL station) rHost rPort), e1))
      else (w_StationURL (ParseStationURL station), e))"

fun probe_targets :: "'b net_config \<Rightarrow> nat \<Rightarrow> rmc_message \<Rightarrow> string \<Rightarrow> string \<Rightarrow> string list \<Rightarrow> 'b net_state \<Rightarrow> 'b net_state" where
  "probe_targets cfg h req lanStation stationToProbe [] e = e"
| "probe_targets cfg h req lanStation stationToProbe (raw # rest) e =
     (let rvcid = word_of_int (su_GetInt (ParseStationURL raw) ''RVCID'') :: u32 in
      probe_targets cfg h req lanStation stationToProbe rest
        (if rvcid = 0 then e
         else case FindConnectionByID rvcid e of None \<Rightarrow> e
           | Some target \<Rightarrow>
              (let (body, e1) = probe_station cfg h target lanStation stationToProbe e
               in SendRMC (nc_Settings cfg) target (NewRMCRequest ProtocolNATTraversal MethodInitiateProbe (0xFFFF0000 + rm_CallID req) body) e1)))"

definition pushInitiateProbe :: "'b net_config \<Rightarrow> nat \<Rightarrow> rmc_message \<Rightarrow> 'b net_state \<Rightarrow> 'b net_state" where
  "pushInitiateProbe cfg h req e =
     (case run_state (do { ts \<leftarrow> ReadList r_String; s \<leftarrow> r_String; State_Monad.return (ts, s) }) (NewStreamIn (rm_Body req)) of
        ((targetList, lanStation), st) \<Rightarrow>
      if Err st \<noteq> None then e
      else let (station, e1) = repoint_station cfg h lanStation e in probe_targets cfg h req lanStation station targetList e1)"

text \<open>A verdict counts unless it is about a peer the relay stands between.\<close>

definition logNATResult :: "nat \<Rightarrow> rmc_message \<Rightarrow> 'b net_state \<Rightarrow> 'b net_state" where
  "logNATResult h req e =
     (case run_state (do { cid \<leftarrow> r_U32; result \<leftarrow> r_Bool;
           _ \<leftarrow> (if rm_Method req = MethodReportNATTraversalResultDetail then r_U32 else State_Monad.return 0);
           _ \<leftarrow> r_U32; State_Monad.return (cid, result) }) (NewStreamIn (rm_Body req)) of
        ((cid, result), st) \<Rightarrow>
      if Err st \<noteq> None then e
      else let relaye = (case FindConnectionByID cid e of None \<Rightarrow> False
               | Some peer \<Rightarrow> conn_pid peer e \<noteq> 0 \<and> PaireRelayee (ep_now e) (conn_pid h e) (conn_pid peer e) (nw_relay (ep_world e)))
           in if relaye then e else nw_upd (\<lambda>w. w\<lparr>nw_relay := NotePercage (ep_now e) (conn_pid h e) result (nw_relay w)\<rparr>) e)"

definition noteNATProperties :: "'b net_config \<Rightarrow> nat \<Rightarrow> rmc_message \<Rightarrow> 'b net_state \<Rightarrow> 'b net_state" where
  "noteNATProperties cfg h req e =
     (case run_state (do { m \<leftarrow> r_U32; f \<leftarrow> r_U32; rtt \<leftarrow> r_U32; State_Monad.return (m, f, rtt) }) (NewStreamIn (rm_Body req)) of
        ((natMap, natFilter, rtt), st) \<Rightarrow>
      if Err st \<noteq> None then e
      else let e1 = on_conn h (SetNATProps natMap natFilter) e
           in case nc_OnNATProperties cfg of None \<Rightarrow> e1 | Some f \<Rightarrow> f (conn_pid h e) natMap natFilter rtt e1)"

definition NATTraversalHandler :: "'b net_config \<Rightarrow> nat \<Rightarrow> rmc_message \<Rightarrow> 'b net_state \<Rightarrow> rmc_message option \<times> 'b net_state" where
  "NATTraversalHandler cfg h req e =
     (let m = rm_Method req in
      if m = MethodRequestProbeInitiationExt then (Some (natAck req), pushInitiateProbe cfg h req e)
      else if m = MethodReportNATTraversalResult \<or> m = MethodReportNATTraversalResultDetail then (Some (natAck req), logNATResult h req e)
      else if m = MethodReportNATProperties then (Some (natAck req), noteNATProperties cfg h req e)
      else if m = MethodGetRelaySignatureKey then (Some (relaySignatureKey cfg req e), e)
      else if m = MethodRequestProbeInitiation \<or> m = MethodInitiateProbe then (Some (natAck req), e)
      else (Some (notImplemented ProtocolNATTraversal req), e))"

subsection \<open>The whole matchmaking handler\<close>

text \<open>\<open>MatchMakingHandler\<close> with the stations of this theory behind GetSessionURLs.\<close>

definition MatchMakingProtocol :: "'b net_config \<Rightarrow> 'b net_world_ext mm_config \<Rightarrow> nat \<Rightarrow> rmc_message \<Rightarrow> 'b net_state \<Rightarrow> rmc_message option \<times> 'b net_state" where
  "MatchMakingProtocol ncfg cfg = MatchMakingHandler (getSessionURLs ncfg) cfg"

end
