(* ===== verification/Nex_Relay_Props.thy ===== *)
theory Nex_Relay_Props
  imports Nex_Relay
begin

section \<open>Properties of the relay\<close>

text \<open>
  The registry of ports and the seats of each port have an invariant every operation keeps,
  so it holds whatever the game servers, the players' packets and the reaper do, in any
  order.  The need for a relay is compared with a reference that looks at one player's
  verdicts only and forgets nothing.
\<close>

subsection \<open>The registry\<close>

definition seats_ok :: "pair_socket \<Rightarrow> bool" where
  "seats_ok ps \<longleftrightarrow> (\<exists>a b x y. ps_attendus ps = [a, b] \<and> ps_vus ps = [x, y] \<and> length (ps_relayesVers ps) = 2 \<and>
     (x = None \<or> x \<noteq> y))"

definition relay_ok :: "relay_state \<Rightarrow> bool" where
  "relay_ok st \<longleftrightarrow> gomap_wf (rl_socks st) \<and> gomap_wf (rl_ports st) \<and>
     (\<forall>port ps. map_of (rl_socks st) port = Some ps \<longrightarrow>
        ps_port ps = port \<and> seats_ok ps \<and> map_of (rl_ports st) (ps_pidLo ps, ps_pidHi ps) = Some port) \<and>
     (\<forall>cle port. map_of (rl_ports st) cle = Some port \<longrightarrow>
        (\<exists>ps. map_of (rl_socks st) port = Some ps \<and> (ps_pidLo ps, ps_pidHi ps) = cle))"

lemma same_addr_eq [simp]: "same_addr a b \<longleftrightarrow> a = b"
  by (cases a; cases b) (auto simp: same_addr_def)

lemma two_seats: "find P [0, Suc 0] = (if P 0 then Some 0 else if P (Suc 0) then Some (Suc 0) else None)"
  by simp

lemma apparier_seats: "seats_ok ps \<Longrightarrow> apparier now src ps = (dst, ps') \<Longrightarrow> seats_ok ps'"
  unfolding seats_ok_def apparier_def
  by (auto simp: Let_def two_seats sits_def split: if_splits option.splits)

lemma apparier_identity: "apparier now src ps = (dst, ps') \<Longrightarrow>
    ps_port ps' = ps_port ps \<and> ps_pidLo ps' = ps_pidLo ps \<and> ps_pidHi ps' = ps_pidHi ps \<and> ps_attendus ps' = ps_attendus ps"
  unfolding apparier_def by (auto simp: Let_def split: if_splits option.splits)

lemma relay_okI:
  assumes "gomap_wf (rl_socks st)" "gomap_wf (rl_ports st)"
    "\<And>port ps. map_of (rl_socks st) port = Some ps \<Longrightarrow>
       ps_port ps = port \<and> seats_ok ps \<and> map_of (rl_ports st) (ps_pidLo ps, ps_pidHi ps) = Some port"
    "\<And>cle port. map_of (rl_ports st) cle = Some port \<Longrightarrow> \<exists>ps. map_of (rl_socks st) port = Some ps \<and> (ps_pidLo ps, ps_pidHi ps) = cle"
  shows "relay_ok st"
  using assms unfolding relay_ok_def by blast

lemma relay_okD:
  assumes "relay_ok st"
  shows "gomap_wf (rl_socks st)" "gomap_wf (rl_ports st)"
    "map_of (rl_socks st) port = Some ps \<Longrightarrow> ps_port ps = port \<and> seats_ok ps \<and> map_of (rl_ports st) (ps_pidLo ps, ps_pidHi ps) = Some port"
    "map_of (rl_ports st) cle = Some port \<Longrightarrow> \<exists>ps. map_of (rl_socks st) port = Some ps \<and> (ps_pidLo ps, ps_pidHi ps) = cle"
  using assms unfolding relay_ok_def by blast+

text \<open>Operations that change neither the sockets nor the registry.\<close>

lemma relay_ok_same: "rl_socks st' = rl_socks st \<Longrightarrow> rl_ports st' = rl_ports st \<Longrightarrow> relay_ok st' = relay_ok st"
  by (simp add: relay_ok_def)

text \<open>A socket is replaced by one of the same pair on the same port.\<close>

lemma relay_ok_replace:
  assumes ok: "relay_ok st" and ps: "map_of (rl_socks st) port = Some ps"
    and ps': "ps_port ps' = ps_port ps" "ps_pidLo ps' = ps_pidLo ps" "ps_pidHi ps' = ps_pidHi ps" "seats_ok ps'"
  shows "relay_ok (st\<lparr>rl_socks := AList.update port ps' (rl_socks st)\<rparr>)"
proof (rule relay_okI)
  fix q qs assume "map_of (rl_socks (st\<lparr>rl_socks := AList.update port ps' (rl_socks st)\<rparr>)) q = Some qs"
  then have "q = port \<and> qs = ps' \<or> q \<noteq> port \<and> map_of (rl_socks st) q = Some qs" by (simp split: if_splits del: gomap_lookup)
  then show "ps_port qs = q \<and> seats_ok qs \<and> map_of (rl_ports (st\<lparr>rl_socks := AList.update port ps' (rl_socks st)\<rparr>)) (ps_pidLo qs, ps_pidHi qs) = Some q"
    using relay_okD(3) [OF ok, of q qs] relay_okD(3) [OF ok ps] ps' by (auto simp del: gomap_lookup)
next
  fix cle q assume "map_of (rl_ports (st\<lparr>rl_socks := AList.update port ps' (rl_socks st)\<rparr>)) cle = Some q"
  then obtain qs where "map_of (rl_socks st) q = Some qs" "(ps_pidLo qs, ps_pidHi qs) = cle"
    using relay_okD(4) [OF ok, of cle q] by (auto simp del: gomap_lookup)
  then show "\<exists>qs. map_of (rl_socks (st\<lparr>rl_socks := AList.update port ps' (rl_socks st)\<rparr>)) q = Some qs \<and> (ps_pidLo qs, ps_pidHi qs) = cle"
    using ps ps' by (cases "q = port") (auto simp del: gomap_lookup)
qed (use ok in \<open>simp_all add: relay_ok_def\<close>)

lemma relay_ok_open:
  assumes ok: "relay_ok st" and free: "map_of (rl_socks st) port = None" "map_of (rl_ports st) cle = None"
    and ps: "ps_port ps = port" "(ps_pidLo ps, ps_pidHi ps) = cle" "seats_ok ps"
  shows "relay_ok (st\<lparr>rl_socks := AList.update port ps (rl_socks st), rl_ports := AList.update cle port (rl_ports st)\<rparr>)"
    (is "relay_ok ?st")
proof (rule relay_okI)
  fix q qs assume "map_of (rl_socks ?st) q = Some qs"
  then have "q = port \<and> qs = ps \<or> q \<noteq> port \<and> map_of (rl_socks st) q = Some qs" by (simp split: if_splits del: gomap_lookup)
  then show "ps_port qs = q \<and> seats_ok qs \<and> map_of (rl_ports ?st) (ps_pidLo qs, ps_pidHi qs) = Some q"
    using relay_okD(3) [OF ok, of q qs] free ps by (auto simp del: gomap_lookup)
next
  fix c q assume "map_of (rl_ports ?st) c = Some q"
  then have "c = cle \<and> q = port \<or> c \<noteq> cle \<and> map_of (rl_ports st) c = Some q" by (simp split: if_splits del: gomap_lookup)
  then show "\<exists>qs. map_of (rl_socks ?st) q = Some qs \<and> (ps_pidLo qs, ps_pidHi qs) = c"
    using relay_okD(4) [OF ok, of c q] free(1) ps(2) by (auto simp del: gomap_lookup)
qed (use ok in \<open>simp_all add: relay_ok_def\<close>)

lemma relay_ok_close:
  assumes ok: "relay_ok st" and ps: "map_of (rl_socks st) port = Some ps"
  shows "relay_ok (st\<lparr>rl_socks := AList.delete port (rl_socks st), rl_ports := AList.delete (ps_pidLo ps, ps_pidHi ps) (rl_ports st)\<rparr>)"
    (is "relay_ok ?st")
proof (rule relay_okI)
  note here = relay_okD(3) [OF ok ps]
  fix q qs assume "map_of (rl_socks ?st) q = Some qs"
  then have q: "q \<noteq> port" "map_of (rl_socks st) q = Some qs" by (simp_all split: if_splits del: gomap_lookup)
  then show "ps_port qs = q \<and> seats_ok qs \<and> map_of (rl_ports ?st) (ps_pidLo qs, ps_pidHi qs) = Some q"
    using relay_okD(3) [OF ok q(2)] here by (auto simp del: gomap_lookup)
next
  fix c q assume "map_of (rl_ports ?st) c = Some q"
  then have c: "c \<noteq> (ps_pidLo ps, ps_pidHi ps)" "map_of (rl_ports st) c = Some q" by (simp_all split: if_splits del: gomap_lookup)
  then show "\<exists>qs. map_of (rl_socks ?st) q = Some qs \<and> (ps_pidLo qs, ps_pidHi qs) = c"
    using relay_okD(4) [OF ok c(2)] ps by (auto simp del: gomap_lookup)
qed (use ok in \<open>simp_all add: relay_ok_def\<close>)

subsection \<open>Every operation keeps it\<close>

lemma relay_ok_start [inv_intros]: "relay_ok relay_start"
  by (rule relay_okI) (simp_all add: relay_start_def)

lemma relay_ok_quiet [inv_intros]:
  "relay_ok st \<Longrightarrow> relay_ok (SetRelayVolontaires pids forces ouvert st)"
  "relay_ok st \<Longrightarrow> relay_ok (NotePercage now pid reussi st)"
  "relay_ok st \<Longrightarrow> relay_ok (NoterPaireRelayee now a b st)"
  by (simp_all add: relay_ok_def SetRelayVolontaires_def NotePercage_def NoterPaireRelayee_def Let_def del: gomap_lookup)

lemma relay_ok_boucle [inv_intros]:
  assumes ok: "relay_ok st"
  shows "relay_ok (snd (boucle_step now port src buf st))"
proof (cases "map_of (rl_socks st) port")
  case (Some ps)
  let ?ps = "ps\<lparr>ps_recus := ps_recus ps + 1\<rparr>"
  obtain dst ps' where a: "apparier now src ?ps = (dst, ps')" by (metis surj_pair)
  have "seats_ok ?ps" using relay_okD(3) [OF ok Some] by (simp add: seats_ok_def)
  from apparier_seats [OF this a] apparier_identity [OF a] have seats: "seats_ok ps'" "ps_port ps' = ps_port ps" "ps_pidLo ps' = ps_pidLo ps" "ps_pidHi ps' = ps_pidHi ps"
    by simp_all
  show ?thesis
  proof (cases dst)
    case None
    show ?thesis
      unfolding boucle_step_def Some option.case a prod.case None snd_conv by (rule relay_ok_replace [OF ok Some seats(2,3,4,1)])
  next
    case (Some d)
    show ?thesis
      unfolding boucle_step_def \<open>map_of (rl_socks st) port = Some ps\<close> option.case a prod.case Some Let_def snd_conv
      by (rule relay_ok_replace [OF ok \<open>map_of (rl_socks st) port = Some ps\<close>])
         (use seats in \<open>auto simp: seats_ok_def split: option.split\<close>)
  qed
qed (simp add: boucle_step_def ok)

lemma relay_ok_reap_sockets:
  "relay_ok st \<Longrightarrow> distinct (map fst l) \<Longrightarrow> (\<forall>(port, ps) \<in> set l. map_of (rl_socks st) port = Some ps) \<Longrightarrow> relay_ok (reap_sockets now l st)"
proof (induction l arbitrary: st)
  case (Cons p l)
  obtain port ps where p: "p = (port, ps)" by (cases p)
  let ?st = "st\<lparr>rl_socks := AList.delete port (rl_socks st), rl_ports := AList.delete (ps_pidLo ps, ps_pidHi ps) (rl_ports st)\<rparr>"
  have ps: "map_of (rl_socks st) port = Some ps" using Cons.prems(3) by (simp add: p del: gomap_lookup)
  have rest: "\<forall>(q, qs) \<in> set l. q \<noteq> port \<and> map_of (rl_socks st) q = Some qs"
    using Cons.prems(2,3) by (auto simp: p image_iff simp del: gomap_lookup)
  show ?case
  proof (cases "inactifDepuis now pairRelayTTL ps")
    case True
    let ?st' = "st\<lparr>rl_socks := AList.delete port (rl_socks st), rl_ports := AList.delete (ps_pidLo ps, ps_pidHi ps) (rl_ports st),
       rl_total := bilanEtCumul ps (rl_total st)\<rparr>"
    have "relay_ok ?st'" using relay_ok_close [OF Cons.prems(1) ps] by (simp add: relay_ok_def del: gomap_lookup)
    moreover have "\<forall>(q, qs) \<in> set l. map_of (rl_socks ?st') q = Some qs" using rest by (auto simp del: gomap_lookup)
    ultimately show ?thesis using Cons.IH [of ?st'] Cons.prems(2) True by (simp add: p del: gomap_lookup)
  next
    case False
    then show ?thesis using Cons.IH [of st] Cons.prems(1,2) rest by (auto simp: p simp del: gomap_lookup)
  qed
qed simp

lemma relay_ok_reap [inv_intros]:
  assumes ok: "relay_ok st"
  shows "relay_ok (reap_round now st)"
proof -
  have wf: "gomap_wf (rl_socks st)" using relay_okD(1) [OF ok] .
  have "relay_ok (reap_sockets now (rl_socks st) st)"
    by (rule relay_ok_reap_sockets [OF ok]) (use wf in \<open>auto simp: gomap_wf_def\<close>)
  moreover have "rl_socks (reap_round now st) = rl_socks (reap_sockets now (rl_socks st) st)"
    "rl_ports (reap_round now st) = rl_ports (reap_sockets now (rl_socks st) st)" by (simp_all add: reap_round_def Let_def)
  ultimately show ?thesis using relay_ok_same by blast
qed

lemma relay_ok_SetPairRelay [inv_intros]: "relay_ok st \<Longrightarrow> relay_ok (SetPairRelay host base span st)"
  by (simp add: relay_ok_def SetPairRelay_def closeAllPairSockets_def Let_def del: gomap_lookup)

lemma free_port_free:
  assumes "free_port cle souhaite st = Some port"
  shows "case map_of (rl_socks st) port of None \<Rightarrow> True | Some occupant \<Rightarrow> (ps_pidLo occupant, ps_pidHi occupant) = cle"
  using assms unfolding free_port_def by (auto simp: find_Some_iff split: option.splits)

text \<open>The three ways of claiming a port.\<close>

lemma claim_socket_cases:
  assumes ok: "relay_ok st" and claim: "claim_socket listens cle souhaite st = (r, st')"
  obtains (same) "r = None" "st' = st"
    | (opened) p where "r = Some (p, new_socket p cle)" "map_of (rl_socks st) p = None" "map_of (rl_ports st) cle = None"
        "rl_socks st' = AList.update p (new_socket p cle) (rl_socks st)" "rl_ports st' = AList.update cle p (rl_ports st)"
    | (reused) p ps where "r = Some (p, ps)" "map_of (rl_socks st) p = Some ps" "(ps_pidLo ps, ps_pidHi ps) = cle"
        "rl_socks st' = rl_socks st" "rl_ports st' = rl_ports st"
proof -
  let ?port = "case map_of (rl_ports st) cle of Some p \<Rightarrow> Some p | None \<Rightarrow> free_port cle souhaite st"
  show thesis
  proof (cases ?port)
    case None
    then have "r = None" "st' = st" using claim by (simp_all add: claim_socket_def)
    then show thesis by (rule same)
  next
    case (Some p)
    show thesis
    proof (cases "map_of (rl_socks st) p")
      case None
      have fresh: "map_of (rl_ports st) cle = None"
        using \<open>?port = Some p\<close> relay_okD(4) [OF ok, of cle p] None by (auto split: option.splits simp del: gomap_lookup)
      show thesis
      proof (cases "listens p")
        case True
        then have "r = Some (p, new_socket p cle)" "rl_socks st' = AList.update p (new_socket p cle) (rl_socks st)"
          "rl_ports st' = AList.update cle p (rl_ports st)"
          using claim unfolding claim_socket_def \<open>?port = Some p\<close> option.case None by (auto simp: Let_def)
        then show thesis using opened None fresh by blast
      next
        case False
        then have "r = None" "st' = st" using claim unfolding claim_socket_def \<open>?port = Some p\<close> option.case None by simp_all
        then show thesis by (rule same)
      qed
    next
      case (Some ps)
      show thesis
      proof (cases "ps_pidLo ps \<noteq> fst cle \<or> ps_pidHi ps \<noteq> snd cle")
        case True
        then have "r = None" "st' = st" using claim unfolding claim_socket_def \<open>?port = Some p\<close> option.case Some by simp_all
        then show thesis by (rule same)
      next
        case False
        then have "r = Some (p, ps)" "rl_socks st' = rl_socks st" "rl_ports st' = rl_ports st" "(ps_pidLo ps, ps_pidHi ps) = cle"
          using claim unfolding claim_socket_def \<open>?port = Some p\<close> option.case Some by (auto simp: prod_eq_iff)
        then show thesis using reused Some by blast
      qed
    qed
  qed
qed

text \<open>What claiming a port gives and what it leaves alone.\<close>

lemma claim_socket_spec:
  assumes ok: "relay_ok st" and claim: "claim_socket listens cle souhaite st = (r, st')"
  shows "relay_ok st'" "r = Some (port, ps) \<Longrightarrow> map_of (rl_socks st') port = Some ps \<and> (ps_pidLo ps, ps_pidHi ps) = cle"
    "map_of (rl_socks st) q = Some qs \<Longrightarrow> map_of (rl_socks st') q = Some qs"
proof -
  have new: "seats_ok (new_socket p cle)" for p by (auto simp: seats_ok_def new_socket_def)
  show "relay_ok st'"
    using ok claim
  proof (cases rule: claim_socket_cases)
    case same
    then show ?thesis using ok by simp
  next
    case (opened p)
    have "relay_ok (st\<lparr>rl_socks := AList.update p (new_socket p cle) (rl_socks st), rl_ports := AList.update cle p (rl_ports st)\<rparr>)"
      by (rule relay_ok_open [OF ok opened(2,3)]) (simp_all add: new_socket_def new [unfolded new_socket_def])
    then show ?thesis using opened(4,5) by (simp add: relay_ok_def del: gomap_lookup)
  next
    case (reused p qs)
    then show ?thesis using ok relay_ok_same [of st' st] by simp
  qed
  show "r = Some (port, ps) \<Longrightarrow> map_of (rl_socks st') port = Some ps \<and> (ps_pidLo ps, ps_pidHi ps) = cle"
    by (rule claim_socket_cases [OF ok claim]) (auto simp: new_socket_def simp del: gomap_lookup)
  show "map_of (rl_socks st) q = Some qs \<Longrightarrow> map_of (rl_socks st') q = Some qs"
    by (rule claim_socket_cases [OF ok claim]) (auto simp del: gomap_lookup)
qed

lemma rl_sel_Noter [simp]:
  "rl_socks (NoterPaireRelayee now a b st) = rl_socks st" "rl_ports (NoterPaireRelayee now a b st) = rl_ports st"
  by (simp_all add: NoterPaireRelayee_def Let_def)

definition attendus_of :: "u64 \<Rightarrow> u64 \<Rightarrow> string \<Rightarrow> string \<Rightarrow> string list" where
  "attendus_of pidA pidB ipA ipB = (if pidA > pidB then [ipB, ipA] else [ipA, ipB])"

lemma arm_socket_sel [simp]:
  "ps_attendus (arm_socket now a b x y ps) = attendus_of a b x y" "ps_dernier (arm_socket now a b x y ps) = Some now"
  "ps_port (arm_socket now a b x y ps) = ps_port ps" "ps_pidLo (arm_socket now a b x y ps) = ps_pidLo ps"
  "ps_pidHi (arm_socket now a b x y ps) = ps_pidHi ps" "ps_vus (arm_socket now a b x y ps) = ps_vus ps"
  "ps_relayesVers (arm_socket now a b x y ps) = ps_relayesVers ps"
  by (simp_all add: arm_socket_def attendus_of_def)

lemma PairRelayFor_cases:
  assumes "PairRelayFor listens now pidA pidB ipA ipB st = (r, st')"
  obtains (refused) "r = None" "st' = st"
    | (unclaimed) souhaite where "claim_socket listens (clePaire pidA pidB) souhaite st = (None, st')" "r = None"
    | (claimed) souhaite p ps st1 where "claim_socket listens (clePaire pidA pidB) souhaite st = (Some (p, ps), st1)"
        "r = Some (rl_host st, p)" "rl_ports st' = rl_ports st1"
        "rl_socks st' = AList.update p (arm_socket now pidA pidB ipA ipB ps) (rl_socks st1)"
        "PairRelayActive st" "may_relay now pidA pidB st" "ipA \<noteq> []" "ipB \<noteq> []"
  using assms unfolding PairRelayFor_def by (auto split: if_splits option.splits prod.splits)

lemma PairRelayFor_spec:
  assumes ok: "relay_ok st" and run: "PairRelayFor listens now pidA pidB ipA ipB st = (r, st')"
  shows "relay_ok st' \<and>
    (\<forall>q qs. map_of (rl_socks st) q = Some qs \<longrightarrow> (ps_pidLo qs, ps_pidHi qs) \<noteq> clePaire pidA pidB \<longrightarrow> map_of (rl_socks st') q = Some qs) \<and>
    (\<forall>host port. r = Some (host, port) \<longrightarrow> (\<exists>ps. map_of (rl_socks st') port = Some ps \<and> (ps_pidLo ps, ps_pidHi ps) = clePaire pidA pidB \<and>
       ps_attendus ps = attendus_of pidA pidB ipA ipB \<and> ps_dernier ps = Some now \<and> host = rl_host st))"
  using run
proof (cases rule: PairRelayFor_cases)
  case refused
  then show ?thesis using ok by simp
next
  case (unclaimed souhaite)
  then show ?thesis using claim_socket_spec(1,3) [OF ok unclaimed(1)] by auto
next
  case (claimed souhaite p ps st1)
  note spec = claim_socket_spec [OF ok claimed(1)]
  let ?ps = "arm_socket now pidA pidB ipA ipB ps"
  have mine: "map_of (rl_socks st1) p = Some ps" "(ps_pidLo ps, ps_pidHi ps) = clePaire pidA pidB" using spec(2) by simp_all
  have "seats_ok ?ps" using relay_okD(3) [OF spec(1) mine(1)] by (auto simp: seats_ok_def attendus_of_def)
  from relay_ok_replace [OF spec(1) mine(1) _ _ _ this] have "relay_ok st'"
    using claimed(3,4) by (simp add: relay_ok_def del: gomap_lookup)
  moreover have "map_of (rl_socks st') q = Some qs"
    if "map_of (rl_socks st) q = Some qs" "(ps_pidLo qs, ps_pidHi qs) \<noteq> clePaire pidA pidB" for q qs
    using spec(3) [OF that(1)] that(2) mine claimed(4) by (auto simp del: gomap_lookup)
  ultimately show ?thesis using claimed(2,4) mine(2) by (auto simp del: gomap_lookup)
qed

subsection \<open>Reachable states\<close>

inductive relay_step :: "relay_state \<Rightarrow> relay_state \<Rightarrow> bool" where
  configure: "relay_step st (SetPairRelay host base span st)"
| allow: "relay_step st (SetRelayVolontaires pids forces ouvert st)"
| verdict: "relay_step st (NotePercage now pid reussi st)"
| request: "relay_step st (snd (PairRelayFor listens now a b ipA ipB st))"
| datagram: "relay_step st (snd (boucle_step now port src buf st))"
| reap: "relay_step st (reap_round now st)"

inductive relay_reachable :: "relay_state \<Rightarrow> bool" where
  start: "relay_reachable relay_start"
| step: "relay_reachable st \<Longrightarrow> relay_step st st' \<Longrightarrow> relay_reachable st'"

lemma relay_ok_step: "relay_step st st' \<Longrightarrow> relay_ok st \<Longrightarrow> relay_ok st'"
  by (induction rule: relay_step.induct)
     (auto intro!: inv_intros intro: conjunct1 [OF PairRelayFor_spec] prod.collapse [symmetric])

lemma relay_reachable_ok: "relay_reachable st \<Longrightarrow> relay_ok st"
  by (induction rule: relay_reachable.induct) (auto intro: inv_intros relay_ok_step)

text \<open>C34: A relay port belongs to one pair of players.  Whoever asks, the port handed out is the pair's own, open, and
  expects the two players' addresses in the order of their ids; no other pair has that port, and no other pair's
  port is touched, so a newcomer never takes over a game in progress.\<close>

theorem relay_port_belongs_to_one_pair:
  assumes "relay_reachable st" "PairRelayFor listens now pidA pidB ipA ipB st = (Some (host, port), st')"
  shows "(\<exists>ps. map_of (rl_socks st') port = Some ps \<and> (ps_pidLo ps, ps_pidHi ps) = clePaire pidA pidB \<and>
       ps_attendus ps = (if pidA > pidB then [ipB, ipA] else [ipA, ipB])) \<and>
    (\<forall>cle. map_of (rl_ports st') cle = Some port \<longleftrightarrow> cle = clePaire pidA pidB) \<and>
    (\<forall>q qs. map_of (rl_socks st) q = Some qs \<and> (ps_pidLo qs, ps_pidHi qs) \<noteq> clePaire pidA pidB \<longrightarrow> map_of (rl_socks st') q = Some qs)"
proof -
  note spec = PairRelayFor_spec [OF relay_reachable_ok [OF assms(1)] assms(2)]
  then obtain ps where ps: "map_of (rl_socks st') port = Some ps" "(ps_pidLo ps, ps_pidHi ps) = clePaire pidA pidB"
      "ps_attendus ps = attendus_of pidA pidB ipA ipB" by blast
  have ok: "relay_ok st'" using spec by blast
  have "map_of (rl_ports st') cle = Some port \<longleftrightarrow> cle = clePaire pidA pidB" for cle
    using relay_okD(3) [OF ok ps(1)] relay_okD(4) [OF ok, of cle port] ps(1,2) by (auto simp del: gomap_lookup)
  then show ?thesis using spec ps by (auto simp: attendus_of_def simp del: gomap_lookup)
qed

subsection \<open>Forwarding\<close>

lemma apparier_forwards:
  assumes "seats_ok ps" "apparier now src ps = (Some dst, ps')"
  shows "dst \<noteq> src \<and> set (ps_vus ps') = {Some src, Some dst}"
  using assms unfolding seats_ok_def apparier_def
  by (auto simp: Let_def two_seats sits_def split: if_splits option.splits)

lemma apparier_refuses:
  assumes "seats_ok ps" "Some src \<notin> set (ps_vus ps)" "\<forall>ip \<in> set (ps_attendus ps). \<not> admis ip (ip4_str (ua_IP src))"
  shows "fst (apparier now src ps) = None \<and> ps_vus (snd (apparier now src ps)) = ps_vus ps"
  using assms unfolding seats_ok_def apparier_def
  by (auto simp: Let_def two_seats sits_def split: if_splits option.splits)

text \<open>C35: A relay port forwards a datagram unchanged, only to the other one of its two endpoints and never back to its
  sender; a datagram from an address that neither holds a place nor is expected goes nowhere and takes no place; and
  the ports of other pairs see nothing of it.\<close>

theorem relay_forwards_between_the_two_players:
  assumes "relay_reachable st" "map_of (rl_socks st) port = Some ps" "boucle_step now port src buf st = (out, st')"
  shows "(\<forall>dst b. out = Some (dst, b) \<longrightarrow> b = buf \<and> dst \<noteq> src \<and>
       (\<exists>ps'. map_of (rl_socks st') port = Some ps' \<and> set (ps_vus ps') = {Some src, Some dst})) \<and>
    (Some src \<notin> set (ps_vus ps) \<and> (\<forall>ip \<in> set (ps_attendus ps). \<not> admis ip (ip4_str (ua_IP src))) \<longrightarrow>
       out = None \<and> (\<exists>ps'. map_of (rl_socks st') port = Some ps' \<and> ps_vus ps' = ps_vus ps)) \<and>
    (\<forall>q. q \<noteq> port \<longrightarrow> map_of (rl_socks st') q = map_of (rl_socks st) q)"
proof -
  let ?ps = "ps\<lparr>ps_recus := ps_recus ps + 1\<rparr>"
  have seats: "seats_ok ?ps" using relay_okD(3) [OF relay_reachable_ok [OF assms(1)] assms(2)] by (simp add: seats_ok_def)
  obtain dst ps' where a: "apparier now src ?ps = (dst, ps')" by (metis surj_pair)
  have b: "\<exists>qs. ps_vus qs = ps_vus ps' \<and> out = map_option (\<lambda>d. (d, buf)) dst \<and> st' = st\<lparr>rl_socks := AList.update port qs (rl_socks st)\<rparr>"
  proof (cases dst)
    case None
    then show ?thesis using assms(3) unfolding boucle_step_def assms(2) option.case a prod.case by auto
  next
    case (Some d)
    then show ?thesis
      using assms(3) unfolding boucle_step_def assms(2) option.case a prod.case
      by (auto simp: Let_def intro!: exI [of _ "ps'\<lparr>ps_relayes := _, ps_relayesVers := _\<rparr>"])
  qed
  then obtain qs where qs: "ps_vus qs = ps_vus ps'" "out = map_option (\<lambda>d. (d, buf)) dst" "st' = st\<lparr>rl_socks := AList.update port qs (rl_socks st)\<rparr>"
    by blast
  have look: "map_of (rl_socks st') q = (if q = port then Some qs else map_of (rl_socks st) q)" for q by (simp add: qs(3))
  have refuse: "dst = None \<and> ps_vus ps' = ps_vus ps"
    if "Some src \<notin> set (ps_vus ps)" "\<forall>ip \<in> set (ps_attendus ps). \<not> admis ip (ip4_str (ua_IP src))"
    using apparier_refuses [OF seats, of src now] that a by simp
  have forward: "d \<noteq> src \<and> set (ps_vus ps') = {Some src, Some d}" if "dst = Some d" for d
    using apparier_forwards [OF seats a [unfolded that]] .
  show ?thesis
    unfolding look using refuse forward qs(1,2) by (cases dst) auto
qed

subsection \<open>The need for a relay\<close>

text \<open>The reference looks at the verdicts of one player only: the failures in a row, a gap of more than fifteen
  minutes starting a new row, and the time of the last verdict.\<close>

fun row_step :: "u64 \<Rightarrow> int \<times> u64 \<times> bool \<Rightarrow> int \<times> int option \<Rightarrow> int \<times> int option" where
  "row_step pid (t, p, ok) (n, l) =
     (if p \<noteq> pid then (n, l) else if ok then (0, Some t) else ((if since t l > besoinFenetre then 0 else n) + 1, Some t))"

definition verdicts :: "(int \<times> u64 \<times> bool) list \<Rightarrow> relay_state \<Rightarrow> relay_state" where
  "verdicts = fold (\<lambda>(t, p, ok). NotePercage t p ok)"

text \<open>The store agrees with the reference, or has forgotten a player whose last verdict is too old to count.\<close>

definition agrees :: "int \<Rightarrow> u64 \<Rightarrow> relay_state \<Rightarrow> int \<times> int option \<Rightarrow> bool" where
  "agrees now pid st r \<longleftrightarrow> gomap_wf (rl_besoins st) \<and> (case map_of (rl_besoins st) pid of
      Some b \<Rightarrow> (be_echecs b, be_dernier b) = r
    | None \<Rightarrow> since now (snd r) > besoinFenetre)"

lemma map_of_filter_wf: "gomap_wf m \<Longrightarrow> map_of (filter (\<lambda>(_, v). P v) m) k = (case map_of m k of None \<Rightarrow> None | Some v \<Rightarrow> if P v then Some v else None)"
  by (induction m) (auto simp: gomap_wf_def map_of_eq_None_iff image_iff split: option.split)

lemma since_mono: "t \<le> now \<Longrightarrow> since t l > d \<Longrightarrow> 0 \<le> d \<Longrightarrow> d < 2 ^ 63 - 1 \<Longrightarrow> since now l > d"
  by (auto simp: since_def split: option.splits)

lemma agrees_step:
  assumes ag: "agrees t0 pid st r" and t: "t0 \<le> t" and pid: "pid \<noteq> 0"
  shows "agrees t pid (NotePercage t p ok st) (row_step pid (t, p, ok) r)"
proof -
  obtain n l where r: "r = (n, l)" by (cases r)
  have win: "0 \<le> besoinFenetre" "besoinFenetre < 2 ^ 63 - 1" by (simp_all add: besoinFenetre_def minute_def)
  let ?clean = "if since t (rl_besoinNet st) > minute
      then filter (\<lambda>(_, v). since t (be_dernier v) \<le> besoinFenetre \<or> \<not> be_reussites v > 0) (rl_besoins st) else rl_besoins st"
  have wf: "gomap_wf (rl_besoins st)" "gomap_wf ?clean" using ag by (auto simp: agrees_def)
  have clean: "case map_of ?clean pid of Some b \<Rightarrow> (be_echecs b, be_dernier b) = r | None \<Rightarrow> since t l > besoinFenetre"
    using ag since_mono [OF t, of besoinFenetre l] win wf(1) unfolding agrees_def r
    by (auto simp: map_of_filter_wf split: option.splits if_splits simp del: gomap_lookup)
  have store: "rl_besoins (NotePercage t p ok st) = (if p = 0 then rl_besoins st else
      (let fond = (case map_of ?clean p of Some b \<Rightarrow> b | None \<Rightarrow> \<lparr>be_echecs = 0, be_dernier = None, be_essais = 0, be_reussites = 0\<rparr>);
           f1 = fond\<lparr>be_essais := be_essais fond + 1\<rparr>
       in AList.update p (if ok then f1\<lparr>be_reussites := be_reussites f1 + 1, be_echecs := 0, be_dernier := Some t\<rparr>
            else f1\<lparr>be_echecs := (if since t (be_dernier f1) > besoinFenetre then 0 else be_echecs f1) + 1, be_dernier := Some t\<rparr>) ?clean))"
    by (simp add: NotePercage_def Let_def)
  show ?thesis
  proof (cases "p = 0")
    case True
    then show ?thesis
      using ag pid since_mono [OF t, of besoinFenetre l] win unfolding agrees_def store r
      by (auto split: option.splits simp del: gomap_lookup)
  next
    case False
    show ?thesis
      using False clean wf(2) win unfolding agrees_def store r
      by (cases "p = pid"; cases "map_of ?clean pid") (auto simp: Let_def since_def simp del: gomap_lookup)
  qed
qed

lemma agrees_run:
  "agrees t0 pid st r \<Longrightarrow> sorted (t0 # map fst evs) \<Longrightarrow> pid \<noteq> 0 \<Longrightarrow>
   agrees (last (t0 # map fst evs)) pid (verdicts evs st) (fold (row_step pid) evs r)"
proof (induction evs arbitrary: t0 st r)
  case (Cons ev evs)
  obtain t p ok where ev: "ev = (t, p, ok)" by (metis surj_pair)
  have "agrees t pid (NotePercage t p ok st) (row_step pid ev r)"
    unfolding ev by (rule agrees_step [OF Cons.prems(1) _ Cons.prems(3)]) (use Cons.prems(2) ev in simp)
  from Cons.IH [OF this] Cons.prems show ?case by (simp add: ev verdicts_def)
qed (simp add: verdicts_def)

text \<open>C36: A player is sent through the relay exactly when his own latest direct attempts failed at least twice in a row,
  with no gap of more than fifteen minutes, and the last one at most fifteen minutes ago.  One success clears the
  record, other players' verdicts do not count, and the periodic cleaning of the store never changes the answer.\<close>

theorem relay_need_is_recent_failure:
  assumes "sorted (map fst evs)" "\<forall>t \<in> set (map fst evs). t \<le> now" "pid \<noteq> 0"
  shows "BesoinDeRelais now pid (verdicts evs relay_start) \<longleftrightarrow>
    (case fold (row_step pid) evs (0, None) of (n, l) \<Rightarrow> 2 \<le> n \<and> since now l \<le> besoinFenetre)"
proof (cases evs)
  case Nil
  then show ?thesis by (simp add: verdicts_def BesoinDeRelais_def relay_start_def)
next
  case (Cons ev evs')
  let ?first = "fst ev"
  let ?last = "last (?first # map fst evs)"
  have "agrees ?first pid relay_start (0, None)"
    by (simp add: agrees_def relay_start_def since_def besoinFenetre_def minute_def)
  from agrees_run [OF this _ assms(3), of evs] have ag: "agrees ?last pid (verdicts evs relay_start) (fold (row_step pid) evs (0, None))"
    using assms(1) Cons by fastforce
  have "?last \<in> set (map fst evs)" using Cons last_in_set [of "?first # map fst evs"] by auto
  then have t: "?last \<le> now" using assms(2) by blast
  have win: "0 \<le> besoinFenetre" "besoinFenetre < 2 ^ 63 - 1" by (simp_all add: besoinFenetre_def minute_def)
  show ?thesis
    using ag since_mono [OF t _ win]
    by (auto simp: agrees_def BesoinDeRelais_def eligible_def besoinSeuil_def not_le split: option.splits prod.splits simp del: gomap_lookup)
qed

subsection \<open>Instances\<close>

definition demo_relay :: relay_state where
  "demo_relay = SetRelayVolontaires [] [7, 9] False (SetPairRelay ''relay.example'' 40000 900 relay_start)"

definition demo_open :: "(string \<times> int) option \<times> relay_state" where
  "demo_open = PairRelayFor (\<lambda>_. True) 5 7 9 ''198.51.100.7'' ''203.0.113.9'' demo_relay"

lemma demo_open_port: "fst demo_open = Some (''relay.example'', 40411)"
  by code_simp

lemma demo_reachable: "relay_reachable demo_relay" "relay_reachable (snd demo_open)"
proof -
  show first: "relay_reachable demo_relay"
    unfolding demo_relay_def by (intro relay_reachable.step [OF _ relay_step.allow] relay_reachable.step [OF _ relay_step.configure] relay_reachable.start)
  show "relay_reachable (snd demo_open)" unfolding demo_open_def by (rule relay_reachable.step [OF first relay_step.request])
qed

theorem relay_port_belongs_to_one_pair_witness:
  "\<exists>ps. map_of (rl_socks (snd demo_open)) 40411 = Some ps \<and> (ps_pidLo ps, ps_pidHi ps) = (7, 9) \<and>
     ps_attendus ps = [''198.51.100.7'', ''203.0.113.9'']"
proof -
  have "PairRelayFor (\<lambda>_. True) 5 7 9 ''198.51.100.7'' ''203.0.113.9'' demo_relay = (Some (''relay.example'', 40411), snd demo_open)"
    using demo_open_port unfolding demo_open_def by (metis prod.collapse)
  from relay_port_belongs_to_one_pair [OF demo_reachable(1) this] show ?thesis by (simp add: clePaire_def del: gomap_lookup)
qed

theorem relay_forwards_between_the_two_players_witness:
  "fst (boucle_step 6 40411 \<lparr>ua_IP = [192, 0, 2, 1], ua_Port = 9\<rparr> [1, 2, 3] (snd demo_open)) = None"
proof -
  obtain ps where ps: "map_of (rl_socks (snd demo_open)) 40411 = Some ps" "ps_attendus ps = [''198.51.100.7'', ''203.0.113.9'']" "ps_vus ps = [None, None]"
  proof -
    have "map_option (\<lambda>ps. (ps_attendus ps, ps_vus ps)) (map_of (rl_socks (snd demo_open)) 40411) =
        Some ([''198.51.100.7'', ''203.0.113.9''], [None, None])" by code_simp
    then show ?thesis using that by auto
  qed
  let ?src = "\<lparr>ua_IP = [192, 0, 2, 1], ua_Port = 9\<rparr>"
  have "\<not> admis ''198.51.100.7'' (ip4_str (ua_IP ?src)) \<and> \<not> admis ''203.0.113.9'' (ip4_str (ua_IP ?src))" by code_simp
  moreover obtain out st' where "boucle_step 6 40411 ?src [1, 2, 3] (snd demo_open) = (out, st')" by (metis surj_pair)
  ultimately show ?thesis
    using relay_forwards_between_the_two_players [OF demo_reachable(2) ps(1), of 6 ?src "[1, 2, 3]" out st'] ps(2,3) by simp
qed

theorem relay_need_is_recent_failure_witness:
  "BesoinDeRelais 30 7 (verdicts [(10, 7, False), (20, 9, True), (25, 7, False)] relay_start) \<and>
   \<not> BesoinDeRelais 30 7 (verdicts [(10, 7, False), (20, 7, True), (25, 7, False)] relay_start)"
  using relay_need_is_recent_failure [of "[(10, 7, False), (20, 9, True), (25, 7, False)]" 30 7]
    relay_need_is_recent_failure [of "[(10, 7, False), (20, 7, True), (25, 7, False)]" 30 7]
  by (simp add: since_def besoinFenetre_def minute_def)

end
