(* ===== verification/Nex_Frame.thy ===== *)
theory Nex_Frame
  imports Nex_Matchmaking
begin

section \<open>What notifications leave alone, and whom they reach\<close>

text \<open>
  The handlers end by pushing notifications, which write to connections and count calls.  The
  locale \<open>mm_frame\<close> is the contract of a view \<open>\<pi>\<close> of the state that sending, counting, arming a
  timer and the callbacks of the title do not change; the lemmas inside carry it through every
  function that only notifies.  It is interpreted on the views the invariants need: the
  gatherings, the code table, and the directory of connections.
\<close>

lemma mm_upd_sel [simp]:
  "ep_world (mm_upd f e) = f (ep_world e)" "ep_heap (mm_upd f e) = ep_heap e" "ep_connections (mm_upd f e) = ep_connections e"
  "ep_connCounter (mm_upd f e) = ep_connCounter e" "ep_auth (mm_upd f e) = ep_auth e" "ep_now (mm_upd f e) = ep_now e"
  by (simp_all add: mm_upd_def)

lemma SendRMC_world [simp]: "ep_world (SendRMC s h m e) = ep_world e" "ep_connections (SendRMC s h m e) = ep_connections e"
  "ep_now (SendRMC s h m e) = ep_now e"
  by (simp_all add: SendRMC_def)

lemma sendData_identity [simp]:
  "c_PID (sendData s d c) = c_PID c" "c_ID (sendData s d c) = c_ID c" "c_state (sendData s d c) = c_state c"
  "c_natMap (sendData s d c) = c_natMap c" "c_natFilter (sendData s d c) = c_natFilter c"
  "c_stationURLs (sendData s d c) = c_stationURLs c"
  by (simp_all add: sendData_def sendOneFragment_def remember_fragment_def emit_fragment_def c_send_def)

text \<open>The directory of an endpoint: its table and, of each connection, the id and the player.\<close>

definition directory :: "'w endpoint \<Rightarrow> (u32, nat) gomap \<times> (nat \<Rightarrow> u64) \<times> (nat \<Rightarrow> u32)" where
  "directory e = (ep_connections e, (\<lambda>h. c_PID (ep_heap e h)), (\<lambda>h. c_ID (ep_heap e h)))"

lemma newest_by_pid_cong:
  "(\<And>h. c_PID (hp h) = c_PID (hp' h)) \<Longrightarrow> (\<And>h. c_ID (hp h) = c_ID (hp' h)) \<Longrightarrow> newest_by_pid hp pid b cs = newest_by_pid hp' pid b cs"
  by (induction cs arbitrary: b) (auto split: option.split)

lemma directory_find: "directory e = directory e' \<Longrightarrow> FindConnectionByPID pid e = FindConnectionByPID pid e'"
  unfolding FindConnectionByPID_def directory_def by (auto simp: fun_eq_iff intro: newest_by_pid_cong)

lemma directory_pid: "directory e = directory e' \<Longrightarrow> conn_pid h e = conn_pid h e'"
  unfolding directory_def conn_pid_def by (auto simp: fun_eq_iff)

lemma directory_mm_upd [simp]: "directory (mm_upd f e) = directory e"
  by (simp add: directory_def)

lemma directory_SendRMC [simp]: "directory (SendRMC s h m e) = directory e"
  by (simp add: directory_def SendRMC_def fun_eq_iff)

lemma conn_pid_mm_upd [simp]: "conn_pid h (mm_upd f e) = conn_pid h e"
  by (simp add: conn_pid_def)

lemma FindConnectionByPID_mm_upd [simp]: "FindConnectionByPID p (mm_upd f e) = FindConnectionByPID p e"
  by (rule directory_find) simp

lemma newest_by_pid_pid:
  "newest_by_pid hp pid b cs = Some h \<Longrightarrow> \<forall>g. b = Some g \<longrightarrow> c_PID (hp g) = pid \<Longrightarrow> c_PID (hp h) = pid"
proof (induction cs arbitrary: b)
  case (Cons p cs)
  obtain i g where p: "p = (i, g)" by (cases p)
  let ?b = "if c_PID (hp g) = pid \<and> (case b of None \<Rightarrow> True | Some k \<Rightarrow> c_ID (hp g) > c_ID (hp k)) then Some g else b"
  show ?case by (rule Cons.IH [of ?b]) (use Cons.prems p in auto)
qed simp

lemma FindConnectionByPID_pid: "FindConnectionByPID pid e = Some h \<Longrightarrow> conn_pid h e = pid"
  unfolding FindConnectionByPID_def conn_pid_def by (erule newest_by_pid_pid) simp

subsection \<open>The contract\<close>

locale mm_frame =
  fixes cfg :: "'a mm_config" and \<pi> :: "'a mm_state \<Rightarrow> 'b"
  assumes sending: "\<pi> (SendRMC s h m e) = \<pi> e"
    and counting: "\<pi> (mm_upd (\<lambda>w. w\<lparr>mm_notifCallCounter := n, mm_pushed := mm_pushed w @ l\<rparr>) e) = \<pi> e"
    and arming: "\<pi> (mm_upd (\<lambda>w. w\<lparr>mm_timers := ts w\<rparr>) e) = \<pi> e"
    and on_ready: "mc_OnSessionReady cfg = Some f \<Longrightarrow> \<pi> (f gid parts e) = \<pi> e"
    and on_created: "mc_OnFriendSessionCreated cfg = Some g \<Longrightarrow> \<pi> (g pid gid e) = \<pi> e"
begin

lemma SendNotification_keeps: "\<pi> (SendNotification cfg h ev e) = \<pi> e"
  by (simp add: SendNotification_def Let_def sending counting)

lemma notify_pids_keeps: "\<pi> (notify_pids cfg ev ps e) = \<pi> e"
  by (induction ps arbitrary: e) (simp_all add: SendNotification_keeps split: option.split)

lemma recap_keeps: "\<pi> (recap cfg h ev ps e) = \<pi> e"
  by (induction ps arbitrary: e) (simp_all add: SendNotification_keeps)

lemma notifyParticipation_keeps: "\<pi> (notifyParticipation cfg h ps gid j e) = \<pi> e"
  by (simp add: notifyParticipation_def Let_def notify_pids_keeps recap_keeps on_ready split: option.split)

lemma notifyParticipationAfter_keeps: "\<pi> (notifyParticipationAfter cfg h ps gid d e) = \<pi> e"
  by (simp add: notifyParticipationAfter_def notifyParticipation_keeps arming)

lemma notifyParticipationWithDelay_keeps: "\<pi> (notifyParticipationWithDelay cfg h ps gid e) = \<pi> e"
  by (simp add: notifyParticipationWithDelay_def notifyParticipationAfter_keeps)

lemma participation_due_keeps: "\<pi> (participation_due cfg t e) = \<pi> e"
  by (simp add: participation_due_def Let_def notifyParticipation_keeps split: option.split)

lemma fire_timer_keeps: "\<pi> (fire_timer cfg i e) = \<pi> e"
  using arming [of "\<lambda>_. take i (mm_timers (ep_world e)) @ drop (Suc i) (mm_timers (ep_world e))" e]
  by (simp add: fire_timer_def Let_def participation_due_keeps)

lemma announce_migrations_keeps: "\<pi> (announce_migrations cfg ev ms e) = \<pi> e"
  by (induction ms arbitrary: e) (simp_all add: notify_pids_keeps)

lemma announce_hosts_keeps: "\<pi> (announce_hosts cfg ms e) = \<pi> e"
  by (induction ms arbitrary: e) (simp_all add: notify_pids_keeps split: option.split)

lemma SendNotifications_keeps: "\<pi> (foldl (\<lambda>e x. SendNotification cfg (t x) (ev x) e) e xs) = \<pi> e"
  by (induction xs arbitrary: e) (simp_all add: SendNotification_keeps)

lemma SendAvis_keeps: "\<pi> (foldl (\<lambda>e (c, gid). SendNotification cfg c (ev gid) e) e xs) = \<pi> e"
  by (induction xs arbitrary: e) (auto simp: SendNotification_keeps)

lemma relay_message_keeps: "\<pi> (relay_message cfg h req ps e) = \<pi> e"
  by (induction ps arbitrary: e) (simp_all add: sending split: option.split)

lemmas keeps = SendNotification_keeps notify_pids_keeps recap_keeps notifyParticipation_keeps notifyParticipationAfter_keeps
  notifyParticipationWithDelay_keeps participation_due_keeps fire_timer_keeps announce_migrations_keeps announce_hosts_keeps
  SendNotifications_keeps SendAvis_keeps relay_message_keeps on_created

end

text \<open>The callbacks of a title may do anything to the state of the title itself, but leave the store
  and the connections to the functions of this package.\<close>

definition callbacks_quiet :: "'a mm_config \<Rightarrow> bool" where
  "callbacks_quiet cfg \<longleftrightarrow>
     (\<forall>f gid parts e. mc_OnSessionReady cfg = Some f \<longrightarrow>
        mm_gatherings (ep_world (f gid parts e)) = mm_gatherings (ep_world e) \<and> directory (f gid parts e) = directory e) \<and>
     (\<forall>f pid gid e. mc_OnFriendSessionCreated cfg = Some f \<longrightarrow>
        mm_gatherings (ep_world (f pid gid e)) = mm_gatherings (ep_world e) \<and> directory (f pid gid e) = directory e)"

lemma frame_gatherings: "callbacks_quiet cfg \<Longrightarrow> mm_frame cfg (\<lambda>e. mm_gatherings (ep_world e))"
  by unfold_locales (auto simp: callbacks_quiet_def)

lemma frame_directory: "callbacks_quiet cfg \<Longrightarrow> mm_frame cfg directory"
  by unfold_locales (auto simp: callbacks_quiet_def)

definition no_callbacks :: "'a mm_config \<Rightarrow> 'a mm_config" where
  "no_callbacks cfg = cfg\<lparr>mc_OnSessionReady := None, mc_OnFriendSessionCreated := None\<rparr>"

lemma callbacks_quiet_none [simp]: "callbacks_quiet (no_callbacks cfg)"
  by (simp add: callbacks_quiet_def no_callbacks_def)

interpretation quiet_gatherings: mm_frame "no_callbacks cfg" "\<lambda>e. mm_gatherings (ep_world e)"
  by (rule frame_gatherings) simp

interpretation quiet_directory: mm_frame "no_callbacks cfg" directory
  by (rule frame_directory) simp

interpretation quiet_codes: mm_frame "no_callbacks cfg" "\<lambda>e. mm_byCode (ep_world e)"
  by unfold_locales (simp_all add: no_callbacks_def)

subsection \<open>Who is told\<close>

definition pushed :: "'a mm_state \<Rightarrow> (nat \<times> notification_event) list" where
  "pushed e = mm_pushed (ep_world e)"

lemma pushed_SendNotification: "pushed (SendNotification cfg h ev e) = pushed e @ [(h, ev)]"
  by (simp add: pushed_def SendNotification_def Let_def)

lemma directory_SendNotification: "directory (SendNotification cfg h ev e) = directory e"
  by (simp add: SendNotification_def Let_def)

lemma find_SendNotification [simp]: "FindConnectionByPID p (SendNotification cfg h ev e) = FindConnectionByPID p e"
  by (rule directory_find) (rule directory_SendNotification)

lemma conn_pid_SendNotification [simp]: "conn_pid k (SendNotification cfg h ev e) = conn_pid k e"
  by (rule directory_pid) (rule directory_SendNotification)

lemma map_filter_Cons: "List.map_filter f (x # xs) = (case f x of None \<Rightarrow> [] | Some y \<Rightarrow> [y]) @ List.map_filter f xs"
  by (simp add: List.map_filter_def split: option.split)

lemma pushed_notify_pids:
  "pushed (notify_pids cfg ev ps e) = pushed e @ map (\<lambda>h. (h, ev)) (List.map_filter (\<lambda>p. FindConnectionByPID p e) ps)"
  by (induction ps arbitrary: e)
     (simp_all add: map_filter_Cons pushed_SendNotification List.map_filter_def split: option.split)

lemma directory_notify_pids: "directory (notify_pids cfg ev ps e) = directory e"
  by (induction ps arbitrary: e) (simp_all add: directory_SendNotification split: option.split)

lemma pushed_recap:
  "pushed (recap cfg h ev ps e) = pushed e @ map (\<lambda>p. (h, ev p)) (filter (\<lambda>p. p \<noteq> conn_pid h e) ps)"
  by (induction ps arbitrary: e) (simp_all add: pushed_SendNotification)

lemma pushed_participation:
  assumes "mc_OnSessionReady cfg = None"
  shows "pushed (notifyParticipation cfg h ps gid j e) = pushed e @
     map (\<lambda>t. (t, participate_event (conn_pid h e) gid j (length ps) (conn_pid h e))) (List.map_filter (\<lambda>p. FindConnectionByPID p e) ps) @
     map (\<lambda>p. (h, participate_event (conn_pid h e) gid j (length ps) p)) (filter (\<lambda>p. p \<noteq> conn_pid h e) ps)"
proof -
  let ?ev = "participate_event (conn_pid h e) gid j (length ps)"
  have "conn_pid h (notify_pids cfg (?ev (conn_pid h e)) ps e) = conn_pid h e"
    by (rule directory_pid) (rule directory_notify_pids)
  then show ?thesis using assms by (simp add: notifyParticipation_def Let_def pushed_recap pushed_notify_pids)
qed

end
