(* ===== verification/Nex_Lobby_Inv.thy ===== *)
theory Nex_Lobby_Inv
  imports Nex_Frame
begin

section \<open>Invariants of the gatherings\<close>

text \<open>
  A property \<open>P gid g\<close> of single gatherings is an invariant of the store when the seven ways the
  code changes a gathering keep it.  The locale \<open>gathering_inv\<close> states them and shows that every
  operation of the store and every handler then keeps \<open>P\<close> for all gatherings; it extends
  \<open>mm_frame\<close>, so notifications need no further argument.  It is interpreted on the two properties
  of the code: participants are distinct and counted, and no gathering holds more players than
  its maximum.
\<close>

definition lobby_all :: "(u32 \<Rightarrow> gathering \<Rightarrow> bool) \<Rightarrow> (u32, gathering) gomap \<Rightarrow> bool" where
  "lobby_all P gs \<longleftrightarrow> gomap_wf gs \<and> (\<forall>(gid, g) \<in> set gs. P gid g)"

lemma lobby_allD: "lobby_all P gs \<Longrightarrow> (gid, g) \<in> set gs \<Longrightarrow> P gid g"
  by (auto simp: lobby_all_def)

lemma lobby_all_lookup: "lobby_all P gs \<Longrightarrow> map_of gs gid = Some g \<Longrightarrow> P gid g"
  by (rule lobby_allD) (auto dest: map_of_SomeD)

lemma lobby_all_update: "lobby_all P gs \<Longrightarrow> P gid g \<Longrightarrow> lobby_all P (AList.update gid g gs)"
  by (auto simp: lobby_all_def set_update)

lemma lobby_all_delete: "lobby_all P gs \<Longrightarrow> lobby_all P (AList.delete gid gs)"
  by (auto simp: lobby_all_def)

lemma gatherings_put [simp]: "mm_gatherings (put_gathering gid g w) = AList.update gid g (mm_gatherings w)"
  by (simp add: put_gathering_def)

lemma gatherings_drop [simp]: "mm_gatherings (drop_gathering gid g w) = AList.delete gid (mm_gatherings w)"
  by (simp add: drop_gathering_def)

lemma gatherings_remember [simp]: "mm_gatherings (rememberSessionKey gid key w) = mm_gatherings w"
  by (simp add: rememberSessionKey_def split: prod.split)

lemma lobby_all_release: "lobby_all P (mm_gatherings w) \<Longrightarrow> lobby_all P (mm_gatherings (release_loop pid garde gs w))"
proof (induction gs arbitrary: w)
  case (Cons p gs)
  obtain gid g where p: "p = (gid, g)" by (cases p)
  have "lobby_all P (mm_gatherings (drop_gathering gid g w))" using Cons.prems by (simp add: lobby_all_delete)
  then show ?case using Cons by (simp add: p)
qed simp

definition fresh_gathering :: "'a mm_config \<Rightarrow> int \<Rightarrow> bytes \<Rightarrow> u32 \<Rightarrow> u64 \<Rightarrow> u32 \<Rightarrow> matchmake_session \<Rightarrow> gathering" where
  "fresh_gathering cfg now key gid pid cid src =
     \<lparr>gt_session = finalizeCreatedSession cfg now key gid pid src, gt_participants = [pid], gt_hostConnID = cid, gt_code = []\<rparr>"

text \<open>Whoever takes over the host role is another participant, at his newest connection.\<close>

lemma repreneur_in:
  assumes "repreneur pid ps e = Some c"
  shows "conn_pid c e \<in> set ps" "conn_pid c e \<noteq> pid" "FindConnectionByPID (conn_pid c e) e = Some c"
proof -
  have "\<exists>p \<in> set ps. p \<noteq> pid \<and> FindConnectionByPID p e = Some c"
    using assms by (induction ps) (auto simp: repreneur_def map_filter_Cons split: option.splits if_splits list.splits)
  then show "conn_pid c e \<in> set ps" "conn_pid c e \<noteq> pid" "FindConnectionByPID (conn_pid c e) e = Some c"
    using FindConnectionByPID_pid by auto
qed

text \<open>What the invariants see of a session besides the participants.\<close>

definition session_core :: "matchmake_session \<Rightarrow> u32 \<times> u32 \<times> u16" where
  "session_core s = (g_ID s, s_NumParticipants s, g_MaxParticipants s)"

locale gathering_inv = mm_frame cfg "\<lambda>e. mm_gatherings (ep_world e)" for cfg :: "'a mm_config" +
  fixes P :: "u32 \<Rightarrow> gathering \<Rightarrow> bool"
  assumes fresh: "P gid (fresh_gathering cfg now key gid pid cid src)"
    and enter: "P gid g \<Longrightarrow> pid \<notin> set (gt_participants g) \<Longrightarrow>
       g_MaxParticipants (gt_session g) > 0 \<longrightarrow> (of_nat (length (gt_participants g)) :: u16) < g_MaxParticipants (gt_session g) \<Longrightarrow>
       P gid (count_participants (g\<lparr>gt_participants := gt_participants g @ [pid]\<rparr>))"
    and recount: "P gid g \<Longrightarrow> P gid (count_participants g)"
    and edit: "P gid g \<Longrightarrow> session_core s = session_core (gt_session g) \<Longrightarrow>
       P gid (g\<lparr>gt_session := s, gt_hostConnID := cid, gt_code := code\<rparr>)"
    and part: "P gid g \<Longrightarrow> mc_SessionPartPersists cfg \<Longrightarrow> P gid (g\<lparr>gt_session := part_session p (gt_session g), gt_code := code\<rparr>)"
    and leave: "P gid g \<Longrightarrow> P gid (count_participants (g\<lparr>gt_participants := filter Q (gt_participants g)\<rparr>))"
    and permute: "P gid g \<Longrightarrow> mset ps = mset (gt_participants g) \<Longrightarrow> P gid (g\<lparr>gt_participants := ps\<rparr>)"
    and distinct_participants: "P gid g \<Longrightarrow> distinct (gt_participants g)"
begin

abbreviation ok :: "'a mm_state \<Rightarrow> bool" where
  "ok e \<equiv> lobby_all P (mm_gatherings (ep_world e))"

lemma find_ok: "ok e \<Longrightarrow> find_gathering gid e = Some g \<Longrightarrow> P gid g"
  unfolding find_gathering_def by (rule lobby_all_lookup)

lemma put_ok: "ok e \<Longrightarrow> P gid g \<Longrightarrow> ok (mm_upd (put_gathering gid g) e)"
  by (simp add: lobby_all_update)

lemma edit_session: "P gid g \<Longrightarrow> session_core s = session_core (gt_session g) \<Longrightarrow> P gid (g\<lparr>gt_session := s\<rparr>)"
  using edit [where g = g and s = s and gid = gid and cid = "gt_hostConnID g" and code = "gt_code g"] by simp

lemma edit_code: "P gid g \<Longrightarrow> P gid (g\<lparr>gt_code := code\<rparr>)"
  using edit [where g = g and gid = gid and s = "gt_session g" and cid = "gt_hostConnID g" and code = code] by simp

lemma edit_put:
  "ok e \<Longrightarrow> find_gathering gid e = Some g \<Longrightarrow> session_core s = session_core (gt_session g) \<Longrightarrow>
   lobby_all P (AList.update gid (g\<lparr>gt_session := s\<rparr>) (mm_gatherings (ep_world e)))"
  by (rule lobby_all_update) (auto intro: edit_session find_ok)

lemma createGathering_ok:
  assumes "ok e" "createGathering cfg h src e = ((gid, g), e')"
  shows "ok e'" "P gid g"
proof -
  have "g = fresh_gathering cfg (ep_now e) (randomBytes cfg (mm_draws (ep_world e)) 32) gid (conn_pid h e) (c_ID (ep_heap e h)) src"
    using assms(2) by (auto simp: createGathering_def Let_def fresh_gathering_def)
  then show "P gid g" by (simp add: fresh)
  then show "ok e'"
    using assms by (auto simp: createGathering_def Let_def releaseAbandonedSolo_def intro!: lobby_all_release lobby_all_update)
qed

lemma search_in:
  "search_lobby cfg e param jc pid r gs = Some (gid, g) \<Longrightarrow> r = Some (gid, g) \<or> ((gid, g) \<in> set gs \<and> candidate cfg e param jc pid g)"
  by (induction gs arbitrary: r rule: list.induct) (force split: if_splits)+

lemma candidate_room: "candidate cfg e param jc pid g \<Longrightarrow>
    (of_nat (length (gt_participants g)) :: u16) < g_MaxParticipants (gt_session g)"
  by (auto simp: candidate_def Let_def split: if_splits)

lemma add_ok:
  assumes "P gid g" "pid \<notin> set (gt_participants g) \<Longrightarrow> g_MaxParticipants (gt_session g) > 0 \<Longrightarrow>
     (of_nat (length (gt_participants g)) :: u16) < g_MaxParticipants (gt_session g)"
  shows "P gid (count_participants (add_participant pid g))"
  using assms enter [of gid g pid] recount [of gid g] by (auto simp: add_participant_def containsPID_def list_ex_iff)

lemma autoMatchmake_ok:
  assumes "ok e"
  shows "ok (snd (autoMatchmake cfg h req e))"
proof -
  obtain param st where rd: "read_auto cfg req = (param, st)" by (cases "read_auto cfg req")
  let ?found = "if isSoloPID cfg (conn_pid h e) then None
     else search_lobby cfg e param (joiner_class h e) (conn_pid h e) None (mm_gatherings (ep_world e))"
  show ?thesis
  proof (cases ?found)
    case None
    obtain gid g e1 where c: "createGathering cfg h (ap_Session param) e = ((gid, g), e1)"
      by (metis prod_cases3 surj_pair)
    note ce = createGathering_ok [OF assms c]
    have "P gid (count_participants (g\<lparr>gt_session := (gt_session g)\<lparr>g_MinParticipants := 1\<rparr>\<rparr>))" "P gid (count_participants g)"
      using ce(2) by (auto intro!: recount edit_session simp: session_core_def)
    then show ?thesis
      unfolding autoMatchmake_def rd Let_def prod.case None c option.case
      using assms ce by (auto simp: keeps intro!: lobby_all_update)
  next
    case (Some gg)
    obtain gid g where gg: "gg = (gid, g)" by (cases gg)
    have mem: "(gid, g) \<in> set (mm_gatherings (ep_world e))" "candidate cfg e param (joiner_class h e) (conn_pid h e) g"
      using Some gg search_in [of e param "joiner_class h e" "conn_pid h e" None] by (auto split: if_splits)
    have "P gid (count_participants (add_participant (conn_pid h e) g))"
      by (rule add_ok [OF lobby_allD [OF assms mem(1)]]) (rule candidate_room [OF mem(2)])
    then show ?thesis
      unfolding autoMatchmake_def rd Let_def prod.case Some gg option.case
      using assms by (auto simp: keeps intro!: lobby_all_update)
  qed
qed

lemma core_normalize: "session_core (normalize_rv s) = session_core s"
  by (simp add: normalize_rv_def session_core_def split: option.split)

lemma createSession_ok:
  assumes "ok e"
  shows "ok (snd (createSession cfg h req e))"
proof -
  obtain param st where rd: "read_auto cfg req = (param, st)" by (cases "read_auto cfg req")
  obtain gid g e1 where c: "createGathering cfg h (ap_Session param) e = ((gid, g), e1)"
    by (metis prod_cases3 surj_pair)
  note ce = createGathering_ok [OF assms c]
  have "P gid (g\<lparr>gt_session := normalize_rv (gt_session g)\<rparr>)"
    using ce(2) by (rule edit_session) (rule core_normalize)
  then show ?thesis
    unfolding createSession_def rd Let_def prod.case c
    using assms ce by (auto simp: keeps split: option.split intro!: lobby_all_update)
qed

lemma joinSession_ok:
  assumes "ok e"
  shows "ok (snd (joinSession cfg h req e))"
proof (cases "find_gathering (join_gid req) e")
  case (Some g)
  have "P (join_gid req) (count_participants (add_participant (conn_pid h e) g))"
    if "\<not> (\<not> containsPID (gt_participants g) (conn_pid h e) \<and> g_MaxParticipants (gt_session g) > 0 \<and>
       (of_nat (length (gt_participants g)) :: u16) \<ge> g_MaxParticipants (gt_session g))"
    by (rule add_ok [OF find_ok [OF assms Some]]) (use that in \<open>auto simp: containsPID_def list_ex_iff not_le\<close>)
  then show ?thesis using assms by (auto simp: joinSession_def Let_def Some keeps intro!: lobby_all_update)
qed (simp add: joinSession_def assms)

lemma unregister_ok: "ok e \<Longrightarrow> ok (unregister h req e)"
  by (simp add: unregister_def lobby_all_delete split: option.split)

lemma endParticipation_ok:
  assumes "ok e"
  shows "ok (endParticipation h req e)"
proof (cases "find_gathering (req_gid req) e")
  case (Some g)
  have "P (req_gid req) (count_participants (g\<lparr>gt_participants := removePID (gt_participants g) (conn_pid h e)\<rparr>))"
    unfolding removePID_def by (rule leave [OF find_ok [OF assms Some]])
  then show ?thesis using assms by (simp add: endParticipation_def Let_def Some lobby_all_update lobby_all_delete)
qed (simp add: endParticipation_def Let_def assms)

lemma setParticipation_ok:
  assumes "ok e"
  shows "ok (snd (setParticipation h req opened e))"
proof (cases "find_gathering (req_gid req) e")
  case (Some g)
  let ?g1 = "g\<lparr>gt_session := (gt_session g)\<lparr>s_OpenParticipation := opened\<rparr>\<rparr>"
  have g1: "P (req_gid req) ?g1"
    by (rule edit_session [OF find_ok [OF assms Some]]) (simp add: session_core_def)
  then have "P (req_gid req) (count_participants (?g1\<lparr>gt_participants := filter Q (gt_participants ?g1)\<rparr>))" for Q
    by (rule leave)
  then show ?thesis
    using assms g1 by (cases opened) (simp_all add: setParticipation_def Let_def Some count_participants_def lobby_all_update)
qed (simp add: setParticipation_def Let_def assms)

lemma applySessionPart_ok:
  assumes "lobby_all P (mm_gatherings w)" "mc_SessionPartPersists cfg"
  shows "lobby_all P (mm_gatherings (snd (applySessionPart p w)))"
proof (cases "map_of (mm_gatherings w) (up_GID p)")
  case (Some g)
  show ?thesis
    using part [OF lobby_all_lookup [OF assms(1) Some] assms(2)] assms(1)
    unfolding applySessionPart_def Some by (simp add: Let_def lobby_all_update)
qed (simp add: applySessionPart_def assms)

lemma updateSessionPart_ok: "ok e \<Longrightarrow> ok (snd (updateSessionPart cfg req e))"
  by (simp add: updateSessionPart_def applySessionPart_ok split: prod.split)

lemma updateApplicationBuffer_ok: "ok e \<Longrightarrow> ok (snd (updateApplicationBuffer h req e))"
  by (auto simp: updateApplicationBuffer_def Let_def session_core_def split: prod.split option.split
      intro!: edit_put)

lemma updateMatchmakeSessionAttribute_ok: "ok e \<Longrightarrow> ok (snd (updateMatchmakeSessionAttribute h req e))"
  by (auto simp: updateMatchmakeSessionAttribute_def Let_def session_core_def split: prod.split option.split
      intro!: edit_put)

lemma modifyCurrentGameAttribute_ok:
  "ok e \<Longrightarrow> modifyCurrentGameAttribute h req e = Some (resp, e') \<Longrightarrow> ok e'"
  by (auto simp: modifyCurrentGameAttribute_def Let_def session_core_def split: prod.splits option.splits if_splits
      intro!: edit_put)

lemma mset_swap_front:
  assumes "c \<in> set ps"
  shows "mset (swap_front c ps) = mset ps"
proof -
  have "takeWhile (\<lambda>p. p \<noteq> c) ps \<noteq> ps" using assms by (auto simp: takeWhile_eq_all_conv)
  then have "length (takeWhile (\<lambda>p. p \<noteq> c) ps) < length ps"
    by (metis length_takeWhile_le nat_less_le takeWhile_eq_take take_all_iff)
  moreover have "0 < length ps" using assms by (cases ps) auto
  ultimately show ?thesis unfolding swap_front_def Let_def by (rule mset_swap)
qed

lemma migrateGatheringOwnership_ok:
  assumes "ok e"
  shows "ok (snd (migrateGatheringOwnership cfg h req b e))"
proof -
  have sw: "P gid (g\<lparr>gt_participants := swap_front c (gt_participants g)\<rparr>)"
    if "find_gathering gid e = Some g" "containsPID (gt_participants g) c" for gid g c
    by (rule permute [OF find_ok [OF assms that(1)]])
       (rule mset_swap_front, use that(2) in \<open>auto simp: containsPID_def list_ex_iff\<close>)
  show ?thesis
    using assms find_ok [OF assms] sw
    by (auto simp: migrateGatheringOwnership_def Let_def keeps find_Some_iff split: prod.split option.split intro!: lobby_all_update)
qed

lemma makeCode_ok:
  assumes "lobby_all P (mm_gatherings w)"
  shows "lobby_all P (mm_gatherings (snd (makeCode gid w)))"
proof (cases "map_of (mm_gatherings w) gid")
  case (Some g)
  then show ?thesis
    unfolding makeCode_def Let_def using assms edit_code [OF lobby_all_lookup [OF assms Some]] by (simp add: lobby_all_update)
qed (simp add: makeCode_def Let_def assms)

lemma privateRoomCreate_ok: "ok e \<Longrightarrow> ok (snd (privateRoomCreate req e))"
  using makeCode_ok [of "ep_world e" "req_gid req"] by (simp add: privateRoomCreate_def split_beta)

lemma updateNotificationData_ok: "ok e \<Longrightarrow> ok (snd (updateNotificationData cfg h req e))"
  by (simp add: updateNotificationData_def Let_def pushNotifDataToFriends_def keeps split: prod.split option.split)

lemma getFriendNotificationData_ok: "ok e \<Longrightarrow> ok (snd (getFriendNotificationData cfg h req b e))"
  by (simp add: getFriendNotificationData_def Let_def keeps split: prod.split)

lemma tournament_ok: "ok e \<Longrightarrow> ok (snd (mm_createTournament cfg h req e))"
  by (simp add: mm_createTournament_def Let_def split: prod.split)

lemmas handlers_ok = autoMatchmake_ok createSession_ok joinSession_ok setParticipation_ok updateSessionPart_ok updateApplicationBuffer_ok
  updateMatchmakeSessionAttribute_ok migrateGatheringOwnership_ok privateRoomCreate_ok updateNotificationData_ok
  getFriendNotificationData_ok tournament_ok unregister_ok endParticipation_ok

lemma ExtensionHandler_ok:
  assumes "ok e" "ExtensionHandler cfg h req e = Some (resp, e')"
  shows "ok e'"
proof -
  have one: "ok (snd x) \<Longrightarrow> x = (resp, e') \<Longrightarrow> ok e'" for x by auto
  have "ok e' \<or> modifyCurrentGameAttribute h req e = Some (resp, e')"
    using assms(2) handlers_ok [OF assms(1)] assms(1) unfolding ExtensionHandler_def Let_def
    by (auto split: if_splits prod.splits dest!: one [rotated])
  then show ?thesis using modifyCurrentGameAttribute_ok [OF assms(1)] by blast
qed

lemma MatchMakingHandler_ok:
  assumes "ok e" "\<And>e. mm_gatherings (ep_world (snd (urls h req e))) = mm_gatherings (ep_world e)"
  shows "ok (snd (MatchMakingHandler urls cfg h req e))"
  using assms handlers_ok [OF assms(1)] unfolding MatchMakingHandler_def Let_def
  by (simp add: apfst_def map_prod_def split_beta)

lemma MatchMakingExtHandler_ok: "ok e \<Longrightarrow> ok (snd (MatchMakingExtHandler h req e))"
  by (simp add: MatchMakingExtHandler_def endParticipation_ok)

lemma MessageDelivery_ok: "ok e \<Longrightarrow> ok (snd (MessageDeliveryHandler cfg h req e))"
  by (simp add: MessageDeliveryHandler_def keeps)

lemma leave_gathering_ok:
  assumes "P gid g" "lobby_all P (mm_gatherings (fst wr))"
  shows "lobby_all P (mm_gatherings (fst (leave_gathering cfg pid e gid g wr)))"
proof -
  have step: "P gid (count_participants (g\<lparr>gt_participants := removePID (gt_participants g) pid\<rparr>))"
    unfolding removePID_def by (rule leave [OF assms(1)])
  then have "P gid (g\<lparr>gt_participants := removePID (gt_participants g) pid,
      gt_session := (gt_session g)\<lparr>g_OwnerPID := a, g_HostPID := b, s_NumParticipants := of_nat (length (removePID (gt_participants g) pid))\<rparr>\<rparr>)" for a b
    using edit_session [OF step, of "(gt_session g)\<lparr>g_OwnerPID := a, g_HostPID := b, s_NumParticipants := of_nat (length (removePID (gt_participants g) pid))\<rparr>"]
    by (simp add: count_participants_def session_core_def)
  then show ?thesis
    using step assms(2) by (cases wr) (auto simp: leave_gathering_def Let_def count_participants_def intro!: lobby_all_update lobby_all_delete)
qed

lemma leave_loop_ok:
  "\<forall>(gid, g) \<in> set gs. P gid g \<Longrightarrow> lobby_all P (mm_gatherings (fst wr)) \<Longrightarrow>
   lobby_all P (mm_gatherings (fst (leave_loop cfg pid e gs wr)))"
proof (induction gs arbitrary: wr)
  case (Cons p gs)
  obtain gid g where p: "p = (gid, g)" by (cases p)
  have "lobby_all P (mm_gatherings (fst (leave_gathering cfg pid e gid g wr)))"
    by (rule leave_gathering_ok) (use Cons.prems p in auto)
  then show ?case using Cons by (simp add: p)
qed simp

lemma RemovePlayer_ok:
  assumes "ok e"
  shows "ok (RemovePlayer cfg pid e)"
proof -
  let ?e = "mm_upd (\<lambda>w. w\<lparr>mm_notif := notif_forget pid (mm_notif w)\<rparr>) e"
  have "lobby_all P (mm_gatherings (fst (leave_loop cfg pid ?e (mm_gatherings (ep_world ?e)) (ep_world ?e, \<lparr>rv_avis = [], rv_migrer = [], rv_orphans = []\<rparr>))))"
    by (rule leave_loop_ok) (use assms in \<open>auto simp: lobby_all_def\<close>)
  then show ?thesis using assms by (simp add: RemovePlayer_def Let_def split_beta keeps)
qed

lemma migrate_gathering_ok:
  assumes "P gid g" "lobby_all P (mm_gatherings (fst acc))"
  shows "lobby_all P (mm_gatherings (fst (migrate_gathering pid e gid g acc)))"
proof (cases "repreneur pid (gt_participants g) e")
  case (Some c)
  let ?ps = "conn_pid c e # filter (\<lambda>p. p \<noteq> conn_pid c e) (gt_participants g)"
  have "mset (conn_pid c e # removeAll (conn_pid c e) (gt_participants g)) = mset (gt_participants g)"
    using repreneur_in [OF Some] distinct_participants [OF assms(1)]
    by (simp add: distinct_remove1_removeAll [symmetric])
  then have "P gid (g\<lparr>gt_participants := ?ps\<rparr>)"
    by (intro permute [OF assms(1)]) (simp add: removeAll_filter_not_eq eq_commute)
  then have "P gid (g\<lparr>gt_session := (gt_session g)\<lparr>g_HostPID := a, g_OwnerPID := b\<rparr>, gt_hostConnID := i, gt_participants := ?ps\<rparr>)" for a b i
    using edit [where gid = gid and g = "g\<lparr>gt_participants := ?ps\<rparr>" and cid = i and code = "gt_code g"
        and s = "(gt_session g)\<lparr>g_HostPID := a, g_OwnerPID := b\<rparr>"] by (cases g) (simp add: session_core_def)
  then show ?thesis
    using assms(2) by (cases acc) (auto simp: migrate_gathering_def Let_def Some intro!: lobby_all_update)
qed (use assms(2) in \<open>auto simp: migrate_gathering_def Let_def split_beta\<close>)

lemma migrate_loop_ok:
  "\<forall>(gid, g) \<in> set gs. P gid g \<Longrightarrow> lobby_all P (mm_gatherings (fst acc)) \<Longrightarrow>
   lobby_all P (mm_gatherings (fst (migrate_loop pid e gs acc)))"
proof (induction gs arbitrary: acc)
  case (Cons p gs)
  obtain gid g where p: "p = (gid, g)" by (cases p)
  have "lobby_all P (mm_gatherings (fst (migrate_gathering pid e gid g acc)))"
    by (rule migrate_gathering_ok) (use Cons.prems p in auto)
  then show ?case using Cons by (simp add: p)
qed simp

lemma Migrer_ok:
  assumes "ok e"
  shows "ok (snd (MigrerHebergementDepuis cfg pid e))"
proof -
  have "lobby_all P (mm_gatherings (fst (migrate_loop pid e (mm_gatherings (ep_world e)) (ep_world e, []))))"
    by (rule migrate_loop_ok) (use assms in \<open>auto simp: lobby_all_def\<close>)
  then show ?thesis using assms by (simp add: MigrerHebergementDepuis_def split_beta keeps)
qed

lemma PublishNotification_ok: "ok e \<Longrightarrow> ok (PublishNotification pid typ ev e)"
  by (simp add: PublishNotification_def split: option.split)

end

subsection \<open>The two invariants\<close>

definition gathering_ok :: "u32 \<Rightarrow> gathering \<Rightarrow> bool" where
  "gathering_ok gid g \<longleftrightarrow> g_ID (gt_session g) = gid \<and> distinct (gt_participants g) \<and>
     s_NumParticipants (gt_session g) = of_nat (length (gt_participants g))"

definition roomy :: "u32 \<Rightarrow> gathering \<Rightarrow> bool" where
  "roomy gid g \<longleftrightarrow> gathering_ok gid g \<and> g_MaxParticipants (gt_session g) \<noteq> 0 \<and>
     length (gt_participants g) \<le> unat (g_MaxParticipants (gt_session g))"

lemma finalize_sel:
  "g_ID (finalizeCreatedSession cfg now key gid pid s) = gid" "s_NumParticipants (finalizeCreatedSession cfg now key gid pid s) = 1"
  "g_OwnerPID (finalizeCreatedSession cfg now key gid pid s) = pid" "g_HostPID (finalizeCreatedSession cfg now key gid pid s) = pid"
  "s_SessionKey (finalizeCreatedSession cfg now key gid pid s) = key"
  "g_MaxParticipants (finalizeCreatedSession cfg now key gid pid s) = (if g_MaxParticipants s = 0 then 12 else g_MaxParticipants s)"
  "s_GameMode (finalizeCreatedSession cfg now key gid pid s) = s_GameMode s"
  by (simp_all add: finalizeCreatedSession_def Let_def)

lemma part_session_sel: "g_ID (part_session p s) = g_ID s" "s_NumParticipants (part_session p s) = s_NumParticipants s"
  by (simp_all add: part_session_def Let_def)

lemma u16_of_nat_less:
  assumes "(of_nat n :: u16) < m" "n \<le> unat m"
  shows "n < unat m"
proof (rule ccontr)
  assume "\<not> n < unat m"
  then have "n = unat m" using assms(2) by simp
  then show False using assms(1) by simp
qed

lemma gathering_inv_counted:
  assumes "callbacks_quiet cfg"
  shows "gathering_inv cfg gathering_ok"
  by (intro gathering_inv.intro gathering_inv_axioms.intro frame_gatherings assms)
     (auto simp: gathering_ok_def fresh_gathering_def finalize_sel count_participants_def session_core_def part_session_sel
        dest: mset_eq_imp_distinct_iff mset_eq_length)

lemma roomy_enter:
  assumes "roomy gid g" "pid \<notin> set (gt_participants g)"
    "g_MaxParticipants (gt_session g) > 0 \<longrightarrow> (of_nat (length (gt_participants g)) :: u16) < g_MaxParticipants (gt_session g)"
  shows "roomy gid (count_participants (g\<lparr>gt_participants := gt_participants g @ [pid]\<rparr>))"
proof -
  have "g_MaxParticipants (gt_session g) > 0" using assms(1) by (simp add: roomy_def word_neq_0_conv)
  then have "length (gt_participants g) < unat (g_MaxParticipants (gt_session g))"
    using assms(1,3) u16_of_nat_less by (auto simp: roomy_def)
  then show ?thesis using assms by (auto simp: roomy_def gathering_ok_def count_participants_def)
qed

lemma gathering_inv_roomy:
  assumes "callbacks_quiet cfg" "\<not> mc_SessionPartPersists cfg"
  shows "gathering_inv cfg roomy"
proof (intro gathering_inv.intro gathering_inv_axioms.intro frame_gatherings assms(1))
  fix gid g Q assume "roomy gid g"
  then show "roomy gid (count_participants (g\<lparr>gt_participants := filter Q (gt_participants g)\<rparr>))"
    by (auto simp: roomy_def gathering_ok_def count_participants_def intro: order.trans [OF length_filter_le])
qed (use assms(2) roomy_enter in \<open>auto simp: roomy_def gathering_ok_def fresh_gathering_def finalize_sel count_participants_def
      session_core_def unat_gt_0 Suc_le_eq dest: mset_eq_imp_distinct_iff mset_eq_length\<close>)

interpretation counted: gathering_inv "no_callbacks cfg" gathering_ok
  by (rule gathering_inv_counted) simp

lemma callbacks_quiet_persists [simp]: "callbacks_quiet (cfg\<lparr>mc_SessionPartPersists := b\<rparr>) = callbacks_quiet cfg"
  by (simp add: callbacks_quiet_def)

interpretation room: gathering_inv "(no_callbacks cfg)\<lparr>mc_SessionPartPersists := False\<rparr>" roomy
  by (rule gathering_inv_roomy) simp_all

subsection \<open>The store over time\<close>

text \<open>One step of the store: any handler on any request from any connection, a departure, a host
  migration, a timer, published notification data, or anything else that leaves the store alone.\<close>

inductive mm_step ::
  "unit mm_config \<Rightarrow> (nat \<Rightarrow> rmc_message \<Rightarrow> unit mm_state \<Rightarrow> rmc_message option \<times> unit mm_state) \<Rightarrow> unit mm_state \<Rightarrow> unit mm_state \<Rightarrow> bool"
  for cfg urls where
  elsewhere: "ep_world e' = ep_world e \<Longrightarrow> mm_step cfg urls e e'"
| extension: "ExtensionHandler cfg h req e = Some (resp, e') \<Longrightarrow> mm_step cfg urls e e'"
| matchmaking: "MatchMakingHandler urls cfg h req e = (resp, e') \<Longrightarrow> mm_step cfg urls e e'"
| matchmaking_ext: "MatchMakingExtHandler h req e = (resp, e') \<Longrightarrow> mm_step cfg urls e e'"
| delivery: "MessageDeliveryHandler cfg h req e = (resp, e') \<Longrightarrow> mm_step cfg urls e e'"
| departure: "RemovePlayer cfg pid e = e' \<Longrightarrow> mm_step cfg urls e e'"
| host_lost: "MigrerHebergementDepuis cfg pid e = (n, e') \<Longrightarrow> mm_step cfg urls e e'"
| timer: "fire_timer cfg i e = e' \<Longrightarrow> mm_step cfg urls e e'"
| publication: "PublishNotification pid typ ev e = e' \<Longrightarrow> mm_step cfg urls e e'"

inductive_cases mm_stepE [elim]: "mm_step cfg urls e e'"

inductive mm_reachable ::
  "unit mm_config \<Rightarrow> (nat \<Rightarrow> rmc_message \<Rightarrow> unit mm_state \<Rightarrow> rmc_message option \<times> unit mm_state) \<Rightarrow> unit mm_state \<Rightarrow> bool"
  for cfg urls where
  start: "ep_world e = NewMatchmaking \<Longrightarrow> mm_reachable cfg urls e"
| step: "mm_reachable cfg urls e \<Longrightarrow> mm_step cfg urls e e' \<Longrightarrow> mm_reachable cfg urls e'"

definition urls_quiet :: "(nat \<Rightarrow> rmc_message \<Rightarrow> 'a mm_state \<Rightarrow> rmc_message option \<times> 'a mm_state) \<Rightarrow> bool" where
  "urls_quiet urls \<longleftrightarrow> (\<forall>h req e. mm_gatherings (ep_world (snd (urls h req e))) = mm_gatherings (ep_world e))"

text \<open>Any property of single gatherings that meets the contract holds in every reachable state.\<close>

lemma reachable_invariant:
  assumes inv: "gathering_inv cfg P" and urls: "urls_quiet urls" and reach: "mm_reachable cfg urls e"
  shows "lobby_all P (mm_gatherings (ep_world e))"
  using reach
proof (induction rule: mm_reachable.induct)
  case (start e)
  then show ?case by (simp add: NewMatchmaking_def lobby_all_def)
next
  case (step e e')
  note ok = step.IH
  have frame: "mm_frame cfg (\<lambda>e. mm_gatherings (ep_world e))" using inv by (rule gathering_inv.axioms(1))
  from step.hyps(2) show ?case
  proof cases
    case (extension h req resp)
    then show ?thesis by (rule gathering_inv.ExtensionHandler_ok [OF inv ok])
  next
    case (matchmaking h req resp)
    then show ?thesis
      using gathering_inv.MatchMakingHandler_ok [OF inv ok, of urls h req] urls by (simp add: urls_quiet_def)
  next
    case (matchmaking_ext h req resp)
    then show ?thesis using gathering_inv.MatchMakingExtHandler_ok [OF inv ok, of h req] by simp
  next
    case (delivery h req resp)
    then show ?thesis using gathering_inv.MessageDelivery_ok [OF inv ok, of h req] by simp
  next
    case (departure pid)
    then show ?thesis using gathering_inv.RemovePlayer_ok [OF inv ok, of pid] by simp
  next
    case (host_lost pid n)
    then show ?thesis using gathering_inv.Migrer_ok [OF inv ok, of pid] by simp
  next
    case (timer i)
    then show ?thesis using ok mm_frame.fire_timer_keeps [OF frame] by metis
  next
    case (publication pid ty ev)
    then show ?thesis using gathering_inv.PublishNotification_ok [OF inv ok, of pid ty ev] by simp
  qed (simp add: ok)
qed

end
