(* ===== verification/Nex_Lobby_Laws.thy ===== *)
theory Nex_Lobby_Laws
  imports Nex_Lobby_Inv
begin

section \<open>What the operations of the store do to one gathering\<close>

text \<open>
  The loops over all gatherings (departures, host migration, release of abandoned lobbies,
  message delivery, the search of AutoMatchmake) are shown equal to a function of the single
  gathering, so that their result does not depend on the order of the map.
\<close>

subsection \<open>Abandoned lobbies\<close>

lemma release_loop_lookup:
  "distinct (map fst gs) \<Longrightarrow>
   map_of (mm_gatherings (release_loop pid garde gs w)) k =
     (if k \<noteq> garde \<and> (\<exists>g. map_of gs k = Some g \<and> gt_participants g = [pid]) then None else map_of (mm_gatherings w) k)"
proof (induction gs arbitrary: w)
  case (Cons p gs)
  obtain gid g where p: "p = (gid, g)" by (cases p)
  have fresh: "gid \<notin> fst ` set gs" using Cons.prems p by simp
  then have out: "map_of gs gid = None" by (simp add: map_of_eq_None_iff)
  have solo: "length (gt_participants g) \<noteq> 1 \<or> gt_participants g ! 0 \<noteq> pid \<longleftrightarrow> gt_participants g \<noteq> [pid]"
    by (cases "gt_participants g") auto
  show ?case
    using Cons.prems out unfolding p release_loop.simps solo
    by (subst Cons.IH) auto
qed simp

lemma createGathering_lookup:
  fixes e :: "'a mm_state"
  assumes "createGathering cfg h src e = ((gid, g), e')" "gomap_wf (mm_gatherings (ep_world e))"
  shows "gid = mm_nextGID (ep_world e)" "find_gathering gid e' = Some g" "gt_participants g = [conn_pid h e]"
    "g_OwnerPID (gt_session g) = conn_pid h e" "s_GameMode (gt_session g) = s_GameMode src" "gt_hostConnID g = c_ID (ep_heap e h)"
    "g_ID (gt_session g) = gid" "s_NumParticipants (gt_session g) = 1"
    "k \<noteq> gid \<Longrightarrow> find_gathering k e' =
       (if conn_pid h e \<noteq> 0 \<and> (\<exists>g. find_gathering k e = Some g \<and> gt_participants g = [conn_pid h e]) then None else find_gathering k e)"
proof -
  let ?w = "put_gathering gid g (rememberSessionKey gid (randomBytes cfg (mm_draws (ep_world e)) 32)
     ((ep_world e)\<lparr>mm_nextGID := mm_nextGID (ep_world e) + 1, mm_draws := mm_draws (ep_world e) + 1\<rparr>))"
  have e': "ep_world e' = releaseAbandonedSolo (conn_pid h e) gid ?w"
    using assms(1) by (auto simp: createGathering_def Let_def)
  have gs: "mm_gatherings ?w = AList.update gid g (mm_gatherings (ep_world e))" by simp
  have d: "distinct (map fst (mm_gatherings ?w))"
    using assms(2) unfolding gs by (simp add: gomap_wf_def distinct_update)
  have look: "map_of (mm_gatherings (ep_world e')) k =
      (if conn_pid h e \<noteq> 0 \<and> k \<noteq> gid \<and> (\<exists>g. map_of (mm_gatherings ?w) k = Some g \<and> gt_participants g = [conn_pid h e]) then None
       else map_of (mm_gatherings ?w) k)" for k
    unfolding e' releaseAbandonedSolo_def using release_loop_lookup [OF d, of "conn_pid h e" gid ?w k] by (cases "conn_pid h e = 0") simp_all
  show "gid = mm_nextGID (ep_world e)" "gt_participants g = [conn_pid h e]" "g_OwnerPID (gt_session g) = conn_pid h e"
    "s_GameMode (gt_session g) = s_GameMode src" "gt_hostConnID g = c_ID (ep_heap e h)"
    "g_ID (gt_session g) = gid" "s_NumParticipants (gt_session g) = 1"
    using assms(1) by (auto simp: createGathering_def Let_def finalize_sel)
  show "find_gathering gid e' = Some g" unfolding find_gathering_def look by (simp add: gs)
  show "k \<noteq> gid \<Longrightarrow> find_gathering k e' =
       (if conn_pid h e \<noteq> 0 \<and> (\<exists>g. find_gathering k e = Some g \<and> gt_participants g = [conn_pid h e]) then None else find_gathering k e)"
    unfolding find_gathering_def look by (auto simp: gs)
qed

subsection \<open>The search of AutoMatchmake\<close>

definition host_online :: "'a mm_state \<Rightarrow> gathering \<Rightarrow> bool" where
  "host_online e g \<longleftrightarrow> FindConnectionByPID (g_OwnerPID (gt_session g)) e \<noteq> None"

lemma search_lobby_spec:
  "(search_lobby cfg e param jc pid r gs = None \<longleftrightarrow> r = None \<and> (\<forall>(gid, g) \<in> set gs. \<not> candidate cfg e param jc pid g)) \<and>
   (\<forall>gid g. search_lobby cfg e param jc pid r gs = Some (gid, g) \<longrightarrow>
      (r = Some (gid, g) \<or> (gid, g) \<in> set gs \<and> candidate cfg e param jc pid g) \<and>
      ((\<exists>(i, k) \<in> set gs. candidate cfg e param jc pid k \<and> host_online e k) \<longrightarrow> host_online e g))"
proof (induction gs arbitrary: r)
  case (Cons p gs)
  obtain gid g where p: "p = (gid, g)" by (cases p)
  consider "\<not> candidate cfg e param jc pid g" | "candidate cfg e param jc pid g" "host_online e g"
    | "candidate cfg e param jc pid g" "\<not> host_online e g" by blast
  then show ?case
  proof cases
    case 1
    then show ?thesis using Cons.IH [of r] unfolding p by auto
  next
    case 2
    then have "search_lobby cfg e param jc pid r (p # gs) = Some (gid, g)" by (auto simp: p host_online_def)
    then show ?thesis using 2 p by auto
  next
    case 3
    then have "search_lobby cfg e param jc pid r (p # gs) = search_lobby cfg e param jc pid (if r = None then Some (gid, g) else r) gs"
      by (simp add: p host_online_def)
    then show ?thesis using 3 Cons.IH [of "if r = None then Some (gid, g) else r"] unfolding p by (auto split: if_splits)
  qed
qed simp

subsection \<open>A loop over a map that changes the entry it visits\<close>

lemma entry_loop:
  fixes sel :: "'w \<Rightarrow> ('k, 'v) gomap"
  assumes visit: "\<And>k v w. map_of (sel w) k = Some v \<Longrightarrow> map_of (sel (F k v w)) = (map_of (sel w))(k := T v)"
  shows "distinct (map fst m) \<Longrightarrow> map_of m \<subseteq>\<^sub>m map_of (sel w) \<Longrightarrow>
     map_of (sel (foldl (\<lambda>w (k, v). F k v w) w m)) j = (case map_of m j of None \<Rightarrow> map_of (sel w) j | Some v \<Rightarrow> T v)"
proof (induction m arbitrary: w)
  case (Cons p m)
  obtain k v where p: "p = (k, v)" by (cases p)
  have out: "map_of m k = None" using Cons.prems(1) p by (simp add: map_of_eq_None_iff)
  have here: "map_of (sel w) k = Some v" using Cons.prems(2) p by (auto simp: map_le_def dest: bspec [of _ _ k])
  have "map_of (sel w) i = map_of m i" if "map_of m i = Some x" for i x
    using that Cons.prems(2) out p by (auto simp: map_le_def dest!: bspec [of _ _ i] split: if_splits)
  then have le: "map_of m \<subseteq>\<^sub>m map_of (sel (F k v w))"
    unfolding map_le_def visit [OF here] using out by auto
  have "distinct (map fst m)" using Cons.prems(1) p by simp
  from Cons.IH [OF this le] show ?case
    using out by (auto simp: p visit [OF here] split: option.split)
qed simp

subsection \<open>Departures\<close>

text \<open>What the departure of \<open>pid\<close> makes of one gathering; \<open>None\<close> when it is removed.\<close>

definition after_departure :: "'a mm_config \<Rightarrow> u64 \<Rightarrow> gathering \<Rightarrow> gathering option" where
  "after_departure cfg pid g =
     (let rest = filter (\<lambda>p. p \<noteq> pid) (gt_participants g); s = gt_session g; owned = (g_OwnerPID s = pid) in
      if pid \<notin> set (gt_participants g) then Some g
      else if rest = [] \<or> owned \<and> \<not> (mc_NotifierDeparts cfg \<and> g_Flags s AND 0x10 \<noteq> 0) then None
      else Some (g\<lparr>gt_participants := rest,
             gt_session := s\<lparr>g_OwnerPID := (if owned then hd rest else g_OwnerPID s),
                g_HostPID := (if owned then hd rest else g_HostPID s), s_NumParticipants := of_nat (length rest)\<rparr>\<rparr>))"

lemma filter_shorter: "length (filter (\<lambda>p. p \<noteq> pid) ps) = length ps \<longleftrightarrow> pid \<notin> set ps"
  by (metis (mono_tags, lifting) filter_id_conv length_filter_less less_irrefl)

lemma leave_gathering_lookup:
  assumes "map_of (mm_gatherings (fst wr)) gid = Some g"
  shows "map_of (mm_gatherings (fst (leave_gathering cfg pid e gid g wr))) = (map_of (mm_gatherings (fst wr)))(gid := after_departure cfg pid g)"
proof -
  obtain w r where wr: "wr = (w, r)" by (cases wr)
  have hd: "rest \<noteq> [] \<Longrightarrow> rest ! 0 = hd rest" for rest :: "u64 list" by (simp add: hd_conv_nth)
  show ?thesis
    using assms unfolding wr leave_gathering_def after_departure_def Let_def removePID_def prod.case filter_shorter fun_eq_iff
    by (auto simp: hd)
qed

lemma leave_loop_foldl: "leave_loop cfg pid e gs wr = foldl (\<lambda>wr (gid, g). leave_gathering cfg pid e gid g wr) wr gs"
  by (induction cfg pid e gs wr rule: leave_loop.induct) simp_all

lemma RemovePlayer_lookup:
  fixes e :: "'a mm_state"
  assumes frame: "mm_frame cfg (\<lambda>e. mm_gatherings (ep_world e))" and wf: "gomap_wf (mm_gatherings (ep_world e))" and pid: "pid \<noteq> 0"
  shows "find_gathering gid (RemovePlayer cfg pid e) = Option.bind (find_gathering gid e) (after_departure cfg pid)"
proof -
  let ?e = "mm_upd (\<lambda>w. w\<lparr>mm_notif := notif_forget pid (mm_notif w)\<rparr>) e"
  let ?l = "leave_loop cfg pid ?e (mm_gatherings (ep_world e)) (ep_world ?e, \<lparr>rv_avis = [], rv_migrer = [], rv_orphans = []\<rparr>)"
  have "mm_gatherings (ep_world (RemovePlayer cfg pid e)) = mm_gatherings (fst ?l)"
    using pid by (simp add: RemovePlayer_def Let_def split_beta mm_frame.keeps [OF frame])
  moreover have "map_of (mm_gatherings (fst ?l)) gid =
      (case map_of (mm_gatherings (ep_world e)) gid of None \<Rightarrow> None | Some g \<Rightarrow> after_departure cfg pid g)"
    unfolding leave_loop_foldl
    using wf by (subst entry_loop [where sel = "mm_gatherings \<circ> fst" and T = "after_departure cfg pid", unfolded comp_def, OF leave_gathering_lookup])
      (auto simp: gomap_wf_def split: option.split)
  ultimately show ?thesis by (simp add: find_gathering_def split: option.split)
qed

subsection \<open>Host migration\<close>

definition after_host_loss :: "u64 \<Rightarrow> 'a mm_state \<Rightarrow> gathering \<Rightarrow> gathering" where
  "after_host_loss pid e g =
     (if g_HostPID (gt_session g) \<noteq> pid \<and> g_OwnerPID (gt_session g) \<noteq> pid then g
      else case repreneur pid (gt_participants g) e of None \<Rightarrow> g
        | Some c \<Rightarrow> g\<lparr>gt_session := (gt_session g)\<lparr>g_HostPID := conn_pid c e, g_OwnerPID := conn_pid c e\<rparr>,
             gt_hostConnID := c_ID (ep_heap e c),
             gt_participants := conn_pid c e # filter (\<lambda>p. p \<noteq> conn_pid c e) (gt_participants g)\<rparr>)"

lemma migrate_gathering_lookup:
  "map_of (mm_gatherings (fst acc)) gid = Some g \<Longrightarrow>
   map_of (mm_gatherings (fst (migrate_gathering pid e gid g acc))) = (map_of (mm_gatherings (fst acc)))(gid \<mapsto> after_host_loss pid e g)"
  by (cases acc) (auto simp: migrate_gathering_def after_host_loss_def Let_def fun_eq_iff split: option.split)

lemma migrate_loop_foldl: "migrate_loop pid e gs acc = foldl (\<lambda>acc (gid, g). migrate_gathering pid e gid g acc) acc gs"
  by (induction pid e gs acc rule: migrate_loop.induct) simp_all

lemma Migrer_lookup:
  fixes e :: "'a mm_state"
  assumes frame: "mm_frame cfg (\<lambda>e. mm_gatherings (ep_world e))" and wf: "gomap_wf (mm_gatherings (ep_world e))" and pid: "pid \<noteq> 0"
  shows "find_gathering gid (snd (MigrerHebergementDepuis cfg pid e)) = map_option (after_host_loss pid e) (find_gathering gid e)"
proof -
  let ?l = "migrate_loop pid e (mm_gatherings (ep_world e)) (ep_world e, [])"
  have "mm_gatherings (ep_world (snd (MigrerHebergementDepuis cfg pid e))) = mm_gatherings (fst ?l)"
    using pid by (simp add: MigrerHebergementDepuis_def split_beta mm_frame.keeps [OF frame])
  moreover have "map_of (mm_gatherings (fst ?l)) gid =
      (case map_of (mm_gatherings (ep_world e)) gid of None \<Rightarrow> None | Some g \<Rightarrow> Some (after_host_loss pid e g))"
    unfolding migrate_loop_foldl
    using wf by (subst entry_loop [where sel = "mm_gatherings \<circ> fst" and T = "Some \<circ> after_host_loss pid e", unfolded comp_def, OF migrate_gathering_lookup])
      (auto simp: gomap_wf_def split: option.split)
  ultimately show ?thesis by (simp add: find_gathering_def split: option.split)
qed

subsection \<open>Message delivery\<close>

text \<open>The rooms of a player, ordered by the number of members and then by id.\<close>

definition room_le :: "u32 \<times> gathering \<Rightarrow> u64 list \<times> u32 \<Rightarrow> bool" where
  "room_le r best \<longleftrightarrow> length (gt_participants (snd r)) < length (fst best) \<or>
     length (gt_participants (snd r)) = length (fst best) \<and> fst r \<le> snd best"

lemma room_le_trans:
  "room_le r (ps, i) \<Longrightarrow> length ps < length qs \<or> length ps = length qs \<and> i \<le> j \<Longrightarrow> room_le r (qs, j)"
  by (auto simp: room_le_def)

lemma best_room_spec:
  "(best_room pid best gs = best \<or> (\<exists>(gid, g) \<in> set gs. pid \<in> set (gt_participants g) \<and> best_room pid best gs = (gt_participants g, gid))) \<and>
   (\<forall>r \<in> set gs. pid \<in> set (gt_participants (snd r)) \<longrightarrow> room_le r (best_room pid best gs)) \<and>
   (length (fst best) < length (fst (best_room pid best gs)) \<or>
    length (fst best) = length (fst (best_room pid best gs)) \<and> snd best \<le> snd (best_room pid best gs))"
proof (induction gs arbitrary: best)
  case (Cons p gs)
  obtain gid g where p: "p = (gid, g)" by (cases p)
  obtain ps i where best: "best = (ps, i)" by (cases best)
  let ?b = "if pid \<notin> set (gt_participants g) then best
      else if length (gt_participants g) > length ps \<or> length (gt_participants g) = length ps \<and> gid > i then (gt_participants g, gid) else best"
  have run: "best_room pid best (p # gs) = best_room pid ?b gs"
    by (simp add: p best list_ex_iff)
  obtain qs j where res: "best_room pid ?b gs = (qs, j)" by (cases "best_room pid ?b gs")
  have mono: "length (fst best) < length (fst ?b) \<or> length (fst best) = length (fst ?b) \<and> snd best \<le> snd ?b"
    by (auto simp: best)
  have here: "pid \<in> set (gt_participants g) \<Longrightarrow> room_le p ?b"
    by (auto simp: room_le_def p best not_less)
  note ih = Cons.IH [of ?b, unfolded res]
  have grow: "length (fst ?b) < length qs \<or> length (fst ?b) = length qs \<and> snd ?b \<le> j" using ih by simp
  have "pid \<in> set (gt_participants g) \<Longrightarrow> room_le p (qs, j)"
    using room_le_trans [of p "fst ?b" "snd ?b" qs j] here grow by simp
  moreover have "length (fst best) < length qs \<or> length (fst best) = length qs \<and> snd best \<le> j"
    using mono grow by (auto intro: order.trans)
  moreover have "(qs, j) = best \<or> (\<exists>(gid, g) \<in> set (p # gs). pid \<in> set (gt_participants g) \<and> (qs, j) = (gt_participants g, gid))"
    using ih by (auto simp: p split: if_splits)
  ultimately show ?case using ih unfolding run res by (auto simp: p)
qed simp

subsection \<open>The loop that grows the attributes\<close>

lemma grow_attribs_result: "grow_attribs i xs = Some ys \<Longrightarrow> i < of_nat (length ys)"
  by (rule grow_attribs.raw_induct [where P = "\<lambda>i xs ys. i < of_nat (length ys)"]) (auto split: if_splits simp: not_le)

lemma grow_attribs_diverges: "grow_attribs (- 1) xs = None"
proof (rule ccontr)
  assume "grow_attribs (- 1) xs \<noteq> None"
  then obtain ys where "grow_attribs (- 1) xs = Some ys" by auto
  then have "(- 1 :: u32) < of_nat (length ys)" by (rule grow_attribs_result)
  moreover have "(of_nat (length ys) :: u32) \<le> - 1" by (rule word_n1_ge)
  ultimately show False by simp
qed

lemma grow_attribs_ends:
  assumes "i \<noteq> - 1" "length xs \<le> unat i + 1"
  shows "grow_attribs i xs = Some (xs @ replicate (unat i + 1 - length xs) 0)"
  using assms(2)
proof (induction "unat i + 1 - length xs" arbitrary: xs)
  case 0
  then have len: "length xs = unat i + 1" by simp
  have "i + 1 \<noteq> 0" using assms(1) by (metis add_eq_0_iff2)
  then have "i < of_nat (length xs)" using less_succ_word [of i] by (simp add: len add.commute)
  then show ?case using len by (subst grow_attribs.simps) (simp add: not_le [symmetric])
next
  case (Suc n)
  then have len: "length xs \<le> unat i" by simp
  have "unat (of_nat (length xs) :: u32) = length xs"
  proof -
    have "unat i < 2 ^ 32" using unsigned_less [where w = i and 'a = nat] by simp
    then show ?thesis using len by (simp add: unat_of_nat)
  qed
  then have le: "(of_nat (length xs) :: u32) \<le> i" using len by (simp add: word_le_nat_alt)
  have "grow_attribs i (xs @ [0]) = Some ((xs @ [0]) @ replicate (unat i + 1 - length (xs @ [0])) 0)"
    using Suc by simp
  then show ?case
    using le len by (subst grow_attribs.simps) (simp add: Suc_diff_le)
qed

lemma grow_attribs_short:
  assumes "unat i < length xs" "length xs < 2 ^ 32"
  shows "grow_attribs i xs = Some xs"
proof -
  have "unat (of_nat (length xs) :: u32) = length xs" using assms(2) by (simp add: unat_of_nat)
  then have "\<not> (of_nat (length xs) :: u32) \<le> i" using assms(1) by (simp add: word_le_nat_alt)
  then show ?thesis by (subst grow_attribs.simps) simp
qed

end
