(* ===== verification/Nex_Lobby_Props.thy ===== *)
theory Nex_Lobby_Props
  imports Nex_Lobby_Laws
begin

section \<open>Properties of matchmaking\<close>

text \<open>
  The properties of the store and its handlers.  The first definitions are the concrete
  configuration and state the witnesses evaluate: a \<open>Matchmaking\<close> with every option off, three
  connected players and one lobby of two of them.
\<close>

definition zero_config :: "settings \<Rightarrow> 'a mm_config" where
  "zero_config s = \<lparr>mc_Settings = s, mc_UseSearchCriteria = False, mc_ParticipationNotificationDelay = 0,
     mc_CreateSessionNotificationDelay = 0, mc_NormalizeCreateSessionRV = False, mc_FindByParticipantEnabled = False,
     mc_FindByParticipantIDResolver = None, mc_FindByParticipantHonorOptions = False, mc_FindByParticipantEchoRequestedID = False,
     mc_FindByParticipantVideVeutDireToutes = False, mc_SessionPartPersists = False, mc_JoinRespExistingCount = False,
     mc_FriendPIDs = None, mc_OnFriendSessionCreated = None, mc_OnSessionReady = None, mc_NotifierDeparts = False,
     mc_OwnerLeaveUnregisters = False, mc_Endpoint = False, mc_OpenParticipation = [], mc_SoloPIDs = [],
     mc_NotifStrVideZero = False, mc_RelaiInclutSource = False, mc_random = (\<lambda>k i. of_nat (k + i))\<rparr>"

abbreviation demo_config :: "unit mm_config" where
  "demo_config \<equiv> zero_config (NewSwitchSettings ''key'' 40302)"

definition demo_conn :: "u32 \<Rightarrow> u64 \<Rightarrow> connection" where
  "demo_conn i pid = (NewConnection [] None)\<lparr>c_ID := i, c_PID := pid, c_state := stateConnected\<rparr>"

definition demo_session :: matchmake_session where
  "demo_session = session_zero\<lparr>g_ID := 5, g_OwnerPID := 10, g_HostPID := 10, g_MaxParticipants := 4, g_Flags := 0x10,
     s_OpenParticipation := True, s_NumParticipants := 2, s_SessionKey := [1, 2, 3], s_UserPassword := ''secret''\<rparr>"

definition demo_gathering :: gathering where
  "demo_gathering = \<lparr>gt_session = demo_session, gt_participants = [10, 20], gt_hostConnID = 1, gt_code = []\<rparr>"

definition demo_world :: mm_world where
  "demo_world = NewMatchmaking\<lparr>mm_gatherings := [(5, demo_gathering)], mm_nextGID := 6\<rparr>"

definition endpoint_of :: "mm_world \<Rightarrow> unit mm_state" where
  "endpoint_of w = \<lparr>ep_heap = (\<lambda>h. if h = 1 then demo_conn 1 10 else if h = 2 then demo_conn 2 20 else demo_conn 3 30),
     ep_connections = [(1, 1), (2, 2), (3, 3)], ep_connCounter = 3, ep_auth = auth_empty, ep_now = 0, ep_world = w\<rparr>"

abbreviation demo_state :: "unit mm_state" where
  "demo_state \<equiv> endpoint_of demo_world"

definition demo_request :: "u32 \<Rightarrow> bytes \<Rightarrow> rmc_message" where
  "demo_request method body = NewRMCRequest ProtocolMatchmakeExtension method 1 body"

lemma endpoint_of_sel [simp]: "ep_world (endpoint_of w) = w" "ep_connections (endpoint_of w) = [(1, 1), (2, 2), (3, 3)]"
  by (simp_all add: endpoint_of_def)

lemma demo_pid [simp]: "conn_pid (Suc 0) (endpoint_of w) = 10" "conn_pid 1 (endpoint_of w) = 10" "conn_pid 2 (endpoint_of w) = 20" "conn_pid 3 (endpoint_of w) = 30"
  by (simp_all add: conn_pid_def endpoint_of_def demo_conn_def)

lemma demo_find: "FindConnectionByPID 10 (endpoint_of w) = Some 1" "FindConnectionByPID 20 (endpoint_of w) = Some 2"
  "FindConnectionByPID 30 (endpoint_of w) = Some 3"
  by (simp_all add: FindConnectionByPID_def endpoint_of_def demo_conn_def)

lemma demo_request_sel [simp]: "rm_Body (demo_request m b) = b" "rm_Method (demo_request m b) = m" "rm_CallID (demo_request m b) = 1"
  by (simp_all add: demo_request_def NewRMCRequest_def rmc_zero_def)

lemma quiet_zero [simp]: "callbacks_quiet (zero_config s)"
  by (simp add: callbacks_quiet_def zero_config_def)

lemma zero_config_sel [simp]:
  "mc_Settings (zero_config s) = s" "mc_OnSessionReady (zero_config s) = None" "mc_SessionPartPersists (zero_config s) = False"
  "mc_ParticipationNotificationDelay (zero_config s) = 0" "mc_SoloPIDs (zero_config s) = []"
  "mc_JoinRespExistingCount (zero_config s) = False" "mc_UseSearchCriteria (zero_config s) = False"
  by (simp_all add: zero_config_def)

lemma demo_world_sel [simp]: "mm_gatherings demo_world = [(5, demo_gathering)]" "mm_nextGID demo_world = 6"
  by (simp_all add: demo_world_def)

lemma demo_gathering_sel [simp]: "gt_participants demo_gathering = [10, 20]" "gt_session demo_gathering = demo_session"
  "gt_hostConnID demo_gathering = 1" "gt_code demo_gathering = []"
  by (simp_all add: demo_gathering_def)

lemma find_demo [simp]: "find_gathering gid (endpoint_of demo_world) = (if gid = 5 then Some demo_gathering else None)"
  by (simp add: find_gathering_def)

subsection \<open>What a request for a session is read as\<close>

text \<open>With struct headers the parameter is read from a frame of its own and an error inside the
  frame is lost with it.\<close>

lemma read_auto_frame:
  assumes "StructHeader (mc_Settings cfg)" "rm_Body req = w_U8 v @ w_Buffer b" "length b < 2 ^ 32"
  shows "read_auto cfg req = (fst (run_state (auto_load (mc_Settings cfg) auto_zero) (NewStreamIn b)), cursor (w_U8 v @ w_Buffer b) [])"
  using assms
  by (simp add: read_auto_def AutoMatchmakeParam_levels_def ReadLevel_def NewStreamIn_cursor run_U8 r_Substream_def run_Buffer_end)

lemma createSession_runs:
  fixes e :: "'a mm_state"
  assumes "read_auto cfg req = (param, st)" "Err st = None" "callbacks_quiet cfg" "createGathering cfg h (ap_Session param) e = ((gid, g), e1)"
  shows "mm_gatherings (ep_world (snd (createSession cfg h req e))) =
     AList.update gid (g\<lparr>gt_session := (if mc_NormalizeCreateSessionRV cfg then normalize_rv (gt_session g) else gt_session g)\<rparr>) (mm_gatherings (ep_world e1))"
    "\<not> rm_IsError (fst (createSession cfg h req e))"
  using assms mm_frame.keeps [OF frame_gatherings [OF assms(3)]]
  by (auto simp: createSession_def Let_def reply_def NewRMCSuccess_def rmc_zero_def split: option.split)

lemma createSession_creates:
  fixes e :: "'a mm_state"
  assumes "read_auto cfg req = (param, st)" "Err st = None" "callbacks_quiet cfg" "gomap_wf (mm_gatherings (ep_world e))"
  shows "\<exists>g. find_gathering (mm_nextGID (ep_world e)) (snd (createSession cfg h req e)) = Some g \<and> gt_participants g = [conn_pid h e] \<and>
     s_SessionKey (gt_session g) = randomBytes cfg (mm_draws (ep_world e)) 32"
    "\<not> rm_IsError (fst (createSession cfg h req e))"
proof -
  obtain gid g e1 where c: "createGathering cfg h (ap_Session param) e = ((gid, g), e1)" by (metis surj_pair)
  have norm: "s_SessionKey (normalize_rv s) = s_SessionKey s" for s by (simp add: normalize_rv_def split: option.split)
  have key: "s_SessionKey (gt_session g) = randomBytes cfg (mm_draws (ep_world e)) 32"
    using c by (auto simp: createGathering_def Let_def finalize_sel)
  show "\<exists>g. find_gathering (mm_nextGID (ep_world e)) (snd (createSession cfg h req e)) = Some g \<and> gt_participants g = [conn_pid h e] \<and>
     s_SessionKey (gt_session g) = randomBytes cfg (mm_draws (ep_world e)) 32"
    using createGathering_lookup(1,3) [OF c assms(4)] key
    by (simp add: find_gathering_def createSession_runs(1) [OF assms(1,2,3) c] norm)
  show "\<not> rm_IsError (fst (createSession cfg h req e))" by (rule createSession_runs(2) [OF assms(1,2,3) c])
qed

subsection \<open>Invariants\<close>

text \<open>C15: In every state the store can reach, whatever requests, departures, timers and host migrations it went
  through and in whatever order, each gathering is stored under its own id, no player is in it twice, and the number
  of participants its session announces is the length of its participant list.\<close>

theorem gatherings_stay_consistent:
  assumes "callbacks_quiet cfg" "urls_quiet urls" "mm_reachable cfg urls e" "find_gathering gid e = Some g"
  shows "g_ID (gt_session g) = gid \<and> distinct (gt_participants g) \<and>
    s_NumParticipants (gt_session g) = of_nat (length (gt_participants g))"
  using lobby_all_lookup [OF reachable_invariant [OF gathering_inv_counted [OF assms(1)] assms(2,3)]] assms(4)
  by (auto simp: gathering_ok_def find_gathering_def)

abbreviation no_urls :: "nat \<Rightarrow> rmc_message \<Rightarrow> unit mm_state \<Rightarrow> rmc_message option \<times> unit mm_state" where
  "no_urls \<equiv> (\<lambda>h req e. (None, e))"

lemma urls_quiet_none [simp]: "urls_quiet no_urls"
  by (simp add: urls_quiet_def)

definition empty_param :: rmc_message where
  "empty_param = demo_request MethodCreateMatchmakeSessionWithParam (w_U8 0 @ w_Buffer [])"

definition hosted :: "unit mm_state" where
  "hosted = snd (createSession demo_config 1 empty_param (endpoint_of NewMatchmaking))"

lemma switch_headers [simp]: "StructHeader (NewSwitchSettings k n)"
  by (simp add: NewSwitchSettings_def)

lemma read_empty_param: "\<exists>param st. read_auto (zero_config (NewSwitchSettings k n)) empty_param = (param, st) \<and> Err st = None"
  by (intro exI conjI, rule read_auto_frame [where v = 0 and b = "[]"]) (simp_all add: empty_param_def)

lemma hosted_one: "\<exists>g. find_gathering 1 hosted = Some g \<and> gt_participants g = [10]"
proof -
  obtain param st where rd: "read_auto demo_config empty_param = (param, st)" "Err st = None" using read_empty_param by blast
  have wf: "gomap_wf (mm_gatherings (ep_world (endpoint_of NewMatchmaking)))" by (simp add: NewMatchmaking_def)
  have nx: "mm_nextGID NewMatchmaking = 1" by (simp add: NewMatchmaking_def)
  show ?thesis
    unfolding hosted_def using createSession_creates(1) [OF rd quiet_zero wf, of 1]
    by (simp only: nx endpoint_of_sel demo_pid) blast
qed

lemma hosted_reachable: "mm_reachable demo_config no_urls hosted"
proof (rule mm_reachable.step)
  show "mm_reachable demo_config no_urls (endpoint_of NewMatchmaking)" by (rule mm_reachable.start) simp
  have "ExtensionHandler demo_config 1 empty_param (endpoint_of NewMatchmaking) =
      Some (createSession demo_config 1 empty_param (endpoint_of NewMatchmaking))"
    by (simp add: ExtensionHandler_def Let_def empty_param_def MethodCreateMatchmakeSessionWithParam_def
        MethodCloseParticipation_def MethodOpenParticipation_def MethodAutoMatchmakeWithParamPostpone_def)
  then show "mm_step demo_config no_urls (endpoint_of NewMatchmaking) hosted"
    unfolding hosted_def by (metis mm_step.extension prod.collapse)
qed

theorem gatherings_stay_consistent_witness:
  "\<exists>g. find_gathering 1 hosted = Some g \<and> g_ID (gt_session g) = 1 \<and> distinct (gt_participants g) \<and>
     s_NumParticipants (gt_session g) = of_nat (length (gt_participants g))"
  using gatherings_stay_consistent [OF quiet_zero urls_quiet_none hosted_reachable] hosted_one by blast

text \<open>C16: While no title lets clients change a session's limits (SessionPartPersists off), no gathering ever holds
  more players than its MaxParticipants, although the code compares the length truncated to 16 bits.\<close>

theorem lobbies_never_overflow:
  assumes "callbacks_quiet cfg" "\<not> mc_SessionPartPersists cfg" "urls_quiet urls" "mm_reachable cfg urls e"
    "find_gathering gid e = Some g"
  shows "length (gt_participants g) \<le> unat (g_MaxParticipants (gt_session g))"
  using lobby_all_lookup [OF reachable_invariant [OF gathering_inv_roomy [OF assms(1,2)] assms(3,4)]] assms(5)
  by (auto simp: roomy_def find_gathering_def unat_gt_0)

theorem lobbies_never_overflow_witness:
  "\<exists>g. find_gathering 1 hosted = Some g \<and> length (gt_participants g) \<le> unat (g_MaxParticipants (gt_session g))"
proof -
  have "\<not> mc_SessionPartPersists demo_config" by simp
  with hosted_one show ?thesis using lobbies_never_overflow [OF quiet_zero _ urls_quiet_none hosted_reachable] by blast
qed

subsection \<open>AutoMatchmake\<close>

lemma autoMatchmake_runs:
  fixes e :: "'a mm_state"
  assumes "read_auto cfg req = (param, st)" "Err st = None" "callbacks_quiet cfg" "\<not> isSoloPID cfg (conn_pid h e)"
  shows "mm_gatherings (ep_world (snd (autoMatchmake cfg h req e))) =
    (case search_lobby cfg e param (joiner_class h e) (conn_pid h e) None (mm_gatherings (ep_world e)) of
       Some (gid, g) \<Rightarrow> AList.update gid (count_participants (add_participant (conn_pid h e) g)) (mm_gatherings (ep_world e))
     | None \<Rightarrow> (let ((gid, g), e1) = createGathering cfg h (ap_Session param) e in
         AList.update gid (count_participants g) (mm_gatherings (ep_world e1))))"
  using assms mm_frame.keeps [OF frame_gatherings [OF assms(3)]]
  by (auto simp: autoMatchmake_def Let_def split_beta split: option.split)

text \<open>The lobby accepts the player at connection \<open>h\<close>.\<close>

abbreviation accepts :: "'a mm_config \<Rightarrow> nat \<Rightarrow> auto_param \<Rightarrow> 'a mm_state \<Rightarrow> gathering \<Rightarrow> bool" where
  "accepts cfg h param e g \<equiv> candidate cfg e param (joiner_class h e) (conn_pid h e) g"

text \<open>C17: A player who asks for a match joins a lobby that accepts him when there is one, and one whose owner is
  connected when there is such a lobby; only when no lobby accepts him does he get a new one, of the requested game
  mode, with himself alone in it.  Nobody else's lobby changes.\<close>

theorem auto_matchmake_joins_or_creates:
  fixes e :: "'a mm_state"
  assumes rd: "read_auto cfg req = (param, st)" "Err st = None" and quiet: "callbacks_quiet cfg" and solo: "\<not> isSoloPID cfg (conn_pid h e)"
    and wf: "gomap_wf (mm_gatherings (ep_world e))" and e': "snd (autoMatchmake cfg h req e) = e'"
  shows "if \<exists>gid g. find_gathering gid e = Some g \<and> accepts cfg h param e g
    then \<exists>gid g. find_gathering gid e = Some g \<and> accepts cfg h param e g \<and>
       ((\<exists>i k. find_gathering i e = Some k \<and> accepts cfg h param e k \<and> host_online e k) \<longrightarrow> host_online e g) \<and>
       find_gathering gid e' = Some (count_participants (add_participant (conn_pid h e) g)) \<and>
       (\<forall>j. j \<noteq> gid \<longrightarrow> find_gathering j e' = find_gathering j e)
    else \<exists>g. find_gathering (mm_nextGID (ep_world e)) e' = Some g \<and> gt_participants g = [conn_pid h e] \<and>
       s_GameMode (gt_session g) = s_GameMode (ap_Session param) \<and>
       (\<forall>j k. j \<noteq> mm_nextGID (ep_world e) \<longrightarrow> find_gathering j e = Some k \<longrightarrow> gt_participants k \<noteq> [conn_pid h e] \<longrightarrow>
          find_gathering j e' = Some k)"
proof -
  let ?gs = "mm_gatherings (ep_world e)"
  let ?s = "search_lobby cfg e param (joiner_class h e) (conn_pid h e) None ?gs"
  note run = autoMatchmake_runs [OF rd quiet solo, unfolded e']
  have mem: "find_gathering gid e = Some g \<longleftrightarrow> (gid, g) \<in> set ?gs" for gid g
    using wf by (simp add: find_gathering_def)
  have none: "?s = None \<longleftrightarrow> \<not> (\<exists>gid g. (gid, g) \<in> set ?gs \<and> accepts cfg h param e g)"
    and some: "?s = Some (gid, g) \<Longrightarrow> (gid, g) \<in> set ?gs \<and> accepts cfg h param e g \<and>
       ((\<exists>i k. (i, k) \<in> set ?gs \<and> accepts cfg h param e k \<and> host_online e k) \<longrightarrow> host_online e g)" for gid g
    using search_lobby_spec [of cfg e param "joiner_class h e" "conn_pid h e" None ?gs] by auto
  show ?thesis
  proof (cases "?s")
    case None
    obtain gid g e1 where c: "createGathering cfg h (ap_Session param) e = ((gid, g), e1)" by (metis surj_pair)
    note look = createGathering_lookup [OF c wf]
    have upd: "find_gathering j e' = (if j = gid then Some (count_participants g) else find_gathering j e1)" for j
      by (simp add: find_gathering_def run None c)
    have "find_gathering j e' = Some k"
      if "j \<noteq> mm_nextGID (ep_world e)" "find_gathering j e = Some k" "gt_participants k \<noteq> [conn_pid h e]" for j k
      using that look(1,9) by (auto simp: upd)
    moreover have "gt_participants (count_participants g) = [conn_pid h e]"
      "s_GameMode (gt_session (count_participants g)) = s_GameMode (ap_Session param)"
      by (simp_all add: count_participants_def look)
    ultimately show ?thesis using None none by (auto simp: mem upd look(1))
  next
    case (Some r)
    obtain gid g where r: "r = (gid, g)" by (cases r)
    have "find_gathering j e' = (if j = gid then Some (count_participants (add_participant (conn_pid h e) g)) else find_gathering j e)" for j
      by (simp add: find_gathering_def run Some r)
    then show ?thesis using some [OF Some [unfolded r]] unfolding mem by auto
  qed
qed

lemma empty_param_reads:
  "s_GameMode (ap_Session (fst (read_auto demo_config empty_param))) = 0 \<and> Err (snd (read_auto demo_config empty_param)) = None"
  by code_simp

lemma demo_open: "s_GameMode demo_session = 0 \<and> s_OpenParticipation demo_session \<and> \<not> s_UserPasswordEnabled demo_session \<and>
    g_MaxParticipants demo_session = 4"
  by code_simp

lemma demo_unknown_nat: "joiner_class 3 demo_state = natUnknown"
  by code_simp

lemma demo_accepts: "s_GameMode (ap_Session param) = 0 \<Longrightarrow> accepts demo_config 3 param demo_state demo_gathering"
  using demo_open demo_unknown_nat
  by (simp add: candidate_def Let_def motDePasseCompatible_def gatheringNATCompatible_def natCompatible_def)

lemma no_solo [simp]: "\<not> isSoloPID (zero_config s) pid"
proof -
  have "trim_front ps [] = []" for ps
    by (subst trim_front.simps) (auto dest: first_prefix_shorter split: option.split)
  then have "TrimSpace [] = []" by (simp add: TrimSpace_def)
  then show ?thesis by (simp add: isSoloPID_def)
qed

lemma demo_wf [simp]: "gomap_wf [(k, v)]"
  by (simp add: gomap_wf_def)

theorem auto_matchmake_joins_or_creates_witness:
  "find_gathering 5 (snd (autoMatchmake demo_config 3 empty_param demo_state)) = Some (count_participants (add_participant 30 demo_gathering))"
proof -
  obtain param st where rd: "read_auto demo_config empty_param = (param, st)" by (metis surj_pair)
  then have "Err st = None" "s_GameMode (ap_Session param) = 0" using empty_param_reads unfolding rd by simp_all
  moreover have "\<not> isSoloPID demo_config (conn_pid 3 demo_state)" "gomap_wf (mm_gatherings (ep_world demo_state))" by simp_all
  ultimately have "find_gathering 5 demo_state = Some demo_gathering \<and> accepts demo_config 3 param demo_state demo_gathering"
    using demo_accepts by simp
  from auto_matchmake_joins_or_creates [OF rd \<open>Err st = None\<close> quiet_zero \<open>\<not> isSoloPID demo_config (conn_pid 3 demo_state)\<close>
      \<open>gomap_wf (mm_gatherings (ep_world demo_state))\<close> refl] this
  show ?thesis by (auto split: if_splits)
qed

subsection \<open>Joining\<close>

lemma joinSession_joins:
  fixes e :: "'a mm_state"
  assumes "find_gathering (join_gid req) e = Some g" "conn_pid h e \<notin> set (gt_participants g)"
    "(of_nat (length (gt_participants g)) :: u16) < g_MaxParticipants (gt_session g)"
  shows "snd (joinSession cfg h req e) = notifyParticipationWithDelay cfg h (gt_participants g @ [conn_pid h e]) (join_gid req)
    (mm_upd (put_gathering (join_gid req) (count_participants (add_participant (conn_pid h e) g))) e)"
proof -
  have "\<not> g_MaxParticipants (gt_session g) \<le> (of_nat (length (gt_participants g)) :: u16)" using assms(3) by (simp add: not_le)
  then show ?thesis
    using assms(1,2) by (simp add: joinSession_def Let_def containsPID_def list_ex_iff add_participant_def count_participants_def)
qed

lemma directory_upd [simp]: "directory (mm_upd f e) = directory e"
  by (simp add: directory_def mm_upd_def)

text \<open>C18: A player who joins a lobby with room becomes its last participant; every connected participant, the newcomer
  included, is told of him, and he is told of every participant who was there, each notification carrying the
  number of players now present.\<close>

theorem join_announces_to_everyone:
  fixes e :: "'a mm_state"
  assumes found: "find_gathering (join_gid req) e = Some g" "conn_pid h e \<notin> set (gt_participants g)"
    "(of_nat (length (gt_participants g)) :: u16) < g_MaxParticipants (gt_session g)"
    and cfg: "mc_ParticipationNotificationDelay cfg \<le> 0" "mc_OnSessionReady cfg = None" "callbacks_quiet cfg"
    and e': "snd (joinSession cfg h req e) = e'"
  shows "(\<exists>g'. find_gathering (join_gid req) e' = Some g' \<and> gt_participants g' = gt_participants g @ [conn_pid h e]) \<and>
    pushed e' = pushed e @
      map (\<lambda>t. (t, participate_event (conn_pid h e) (join_gid req) [] (Suc (length (gt_participants g))) (conn_pid h e)))
        (List.map_filter (\<lambda>p. FindConnectionByPID p e) (gt_participants g @ [conn_pid h e])) @
      map (\<lambda>p. (h, participate_event (conn_pid h e) (join_gid req) [] (Suc (length (gt_participants g))) p)) (gt_participants g)"
proof -
  let ?e = "mm_upd (put_gathering (join_gid req) (count_participants (add_participant (conn_pid h e) g))) e"
  have dir: "FindConnectionByPID p ?e = FindConnectionByPID p e" "conn_pid k ?e = conn_pid k e" for p k
    by (rule directory_find directory_pid, rule directory_upd)+
  have run: "e' = notifyParticipation cfg h (gt_participants g @ [conn_pid h e]) (join_gid req) [] ?e"
    using joinSession_joins [OF found, of cfg] e' cfg(1) by (simp add: notifyParticipationWithDelay_def notifyParticipationAfter_def)
  have "mm_gatherings (ep_world e') = mm_gatherings (ep_world ?e)"
    unfolding run by (simp add: mm_frame.keeps [OF frame_gatherings [OF cfg(3)]])
  then have "find_gathering (join_gid req) e' = Some (count_participants (add_participant (conn_pid h e) g))"
    by (simp add: find_gathering_def)
  moreover have "pushed ?e = pushed e" by (simp add: pushed_def mm_upd_def put_gathering_def)
  moreover have "filter (\<lambda>p. p \<noteq> conn_pid h e) (gt_participants g) = gt_participants g" using found(2) by (simp add: filter_id_conv) metis
  ultimately show ?thesis
    using found(2) unfolding run pushed_participation [OF cfg(2)] dir
    by (simp add: add_participant_def count_participants_def containsPID_def list_ex_iff)
qed

definition join_five :: rmc_message where
  "join_five = demo_request MethodJoinMatchmakeSessionWithParam (w_U8 0 @ w_Buffer (w_U32 5))"

lemma join_five_gid [simp]: "join_gid join_five = 5"
  by code_simp

lemma demo_max [simp]: "g_MaxParticipants demo_session = 4"
  using demo_open by simp

theorem join_announces_to_everyone_witness:
  "map fst (pushed (snd (joinSession demo_config 3 join_five demo_state))) = map fst (pushed demo_state) @ [1, 2, 3, 3, 3]"
proof -
  have "find_gathering (join_gid join_five) demo_state = Some demo_gathering" by simp
  from join_announces_to_everyone [where cfg = demo_config and h = 3, OF this _ _ _ _ quiet_zero refl]
  show ?thesis by (simp add: List.map_filter_def demo_find)
qed

text \<open>The other outcomes of a join.  A lobby that does not exist is answered with SessionVoid and a full one with
  SessionFull, and nothing changes; a player who is already in the lobby is welcomed again, full or not, without a
  second entry and without any notification.\<close>

theorem join_outcomes:
  fixes e :: "'a mm_state"
  shows "(find_gathering (join_gid req) e = None \<longrightarrow>
      joinSession cfg h req e = (refuse ProtocolMatchmakeExtension req ResultRendezVousSessionVoid, e)) \<and>
    (\<forall>g. find_gathering (join_gid req) e = Some g \<and> conn_pid h e \<notin> set (gt_participants g) \<and>
      0 < g_MaxParticipants (gt_session g) \<and> g_MaxParticipants (gt_session g) \<le> (of_nat (length (gt_participants g)) :: u16) \<longrightarrow>
      joinSession cfg h req e = (refuse ProtocolMatchmakeExtension req ResultRendezVousSessionFull, e)) \<and>
    (\<forall>g. find_gathering (join_gid req) e = Some g \<and> conn_pid h e \<in> set (gt_participants g) \<longrightarrow>
      joinSession cfg h req e = (reply ProtocolMatchmakeExtension req (w_Session cfg (gt_session (count_participants g))),
        mm_upd (put_gathering (join_gid req) (count_participants g)) e))"
  by (intro conjI allI impI) (simp_all add: joinSession_def Let_def containsPID_def list_ex_iff add_participant_def)

theorem join_outcomes_witness:
  "joinSession demo_config 3 join_five (endpoint_of NewMatchmaking) =
     (refuse ProtocolMatchmakeExtension join_five ResultRendezVousSessionVoid, endpoint_of NewMatchmaking)"
proof -
  have "find_gathering (join_gid join_five) (endpoint_of NewMatchmaking) = None" by (simp add: find_gathering_def NewMatchmaking_def)
  then show ?thesis using join_outcomes [of join_five "endpoint_of NewMatchmaking" demo_config 3] by blast
qed

subsection \<open>Departures\<close>

text \<open>C19: When a player disconnects he is in no lobby any more.  A lobby with nobody left is closed; one he owned is
  closed too, or handed to its next participant where the title asks for it; one he was merely in counts one
  player less; every other lobby is unchanged.\<close>

theorem removed_player_is_gone:
  fixes e :: "'a mm_state"
  assumes quiet: "callbacks_quiet cfg" and wf: "gomap_wf (mm_gatherings (ep_world e))" and pid: "pid \<noteq> 0"
  shows "(\<forall>g. find_gathering gid (RemovePlayer cfg pid e) = Some g \<longrightarrow> pid \<notin> set (gt_participants g)) \<and>
    find_gathering gid (RemovePlayer cfg pid e) =
     (case find_gathering gid e of None \<Rightarrow> None | Some g \<Rightarrow>
        (let rest = filter (\<lambda>p. p \<noteq> pid) (gt_participants g); s = gt_session g; owned = (g_OwnerPID s = pid);
             kept = (mc_NotifierDeparts cfg \<and> g_Flags s AND 0x10 \<noteq> 0) in
         if pid \<notin> set (gt_participants g) then Some g
         else if rest = [] \<or> owned \<and> \<not> kept then None
         else Some (g\<lparr>gt_participants := rest,
                gt_session := s\<lparr>g_OwnerPID := (if owned then hd rest else g_OwnerPID s),
                   g_HostPID := (if owned then hd rest else g_HostPID s), s_NumParticipants := of_nat (length rest)\<rparr>\<rparr>)))"
  unfolding RemovePlayer_lookup [OF frame_gatherings [OF quiet] wf pid]
  by (auto simp: after_departure_def Let_def split: option.split)

theorem removed_player_is_gone_witness:
  "find_gathering 5 (RemovePlayer demo_config 10 demo_state) = None \<and>
   map_option gt_participants (find_gathering 5 (RemovePlayer demo_config 20 demo_state)) = Some [10]"
proof -
  have w: "gomap_wf (mm_gatherings (ep_world demo_state))" by simp
  have "g_OwnerPID demo_session = 10" "\<not> mc_NotifierDeparts demo_config" by (code_simp, simp add: zero_config_def)
  then show ?thesis
    using removed_player_is_gone [where pid = 10 and gid = 5, OF quiet_zero w] removed_player_is_gone [where pid = 20 and gid = 5, OF quiet_zero w] by simp
qed

subsection \<open>Host migration\<close>

lemma repreneur_find:
  "repreneur pid ps e = (case find (\<lambda>p. p \<noteq> pid \<and> FindConnectionByPID p e \<noteq> None) ps of
     None \<Rightarrow> None | Some p \<Rightarrow> FindConnectionByPID p e)"
proof (induction ps)
  case (Cons p ps)
  then show ?case by (cases "p = pid"; cases "FindConnectionByPID p e") (simp_all add: repreneur_def map_filter_Cons)
qed (simp add: repreneur_def List.map_filter_def)

text \<open>C20: When the host of a lobby is lost while its players stay, the lobby goes to the first participant, in the
  order of the lobby, other than the lost one that is connected: he becomes host and owner, the lobby points to his
  connection, he is moved to the front and the others keep their order; nothing else of the lobby changes.  A lobby the
  lost player neither hosted nor owned, and one where nobody else is connected, does not change at all.\<close>

theorem host_migration_finds_a_living_host:
  fixes e :: "'a mm_state"
  assumes quiet: "callbacks_quiet cfg" and wf: "gomap_wf (mm_gatherings (ep_world e))" and pid: "pid \<noteq> 0"
    and g: "find_gathering gid e = Some g" "distinct (gt_participants g)"
    and g': "find_gathering gid (snd (MigrerHebergementDepuis cfg pid e)) = Some g'"
  shows "if g_HostPID (gt_session g) = pid \<or> g_OwnerPID (gt_session g) = pid
    then (case find (\<lambda>p. p \<noteq> pid \<and> FindConnectionByPID p e \<noteq> None) (gt_participants g) of
        None \<Rightarrow> g' = g
      | Some p \<Rightarrow> \<exists>c. FindConnectionByPID p e = Some c \<and>
          g' = g\<lparr>gt_session := (gt_session g)\<lparr>g_HostPID := p, g_OwnerPID := p\<rparr>, gt_hostConnID := c_ID (ep_heap e c),
                 gt_participants := p # remove1 p (gt_participants g)\<rparr>)
    else g' = g"
proof -
  have eq: "g' = after_host_loss pid e g"
    using g' g(1) unfolding Migrer_lookup [OF frame_gatherings [OF quiet] wf pid] by simp
  show ?thesis
  proof (cases "find (\<lambda>p. p \<noteq> pid \<and> FindConnectionByPID p e \<noteq> None) (gt_participants g)")
    case None
    then show ?thesis by (simp add: eq after_host_loss_def repreneur_find)
  next
    case (Some p)
    then obtain c where c: "FindConnectionByPID p e = Some c" by (auto simp: find_Some_iff)
    have "conn_pid c e = p" using FindConnectionByPID_pid [OF c] .
    moreover have "filter (\<lambda>q. q \<noteq> p) (gt_participants g) = remove1 p (gt_participants g)"
      using g(2) by (simp add: distinct_remove1_removeAll removeAll_filter_not_eq eq_commute [of p])
    ultimately show ?thesis using Some c by (simp add: eq after_host_loss_def repreneur_find)
  qed
qed

text \<open>A lobby of four whose host, 10, is lost and whose second player has no connection either: of the two that are
  connected, 30 and 20, the first in the lobby takes over.\<close>

definition demo_four :: gathering where
  "demo_four = demo_gathering\<lparr>gt_participants := [10, 40, 30, 20]\<rparr>"

definition demo_four_state :: "unit mm_state" where
  "demo_four_state = endpoint_of (demo_world\<lparr>mm_gatherings := [(5, demo_four)]\<rparr>)"

theorem host_migration_finds_a_living_host_witness:
  "\<exists>g'. find_gathering 5 (snd (MigrerHebergementDepuis demo_config 10 demo_four_state)) = Some g' \<and>
     g_HostPID (gt_session g') = 30 \<and> gt_hostConnID g' = 3 \<and> gt_participants g' = [30, 10, 40, 20]"
proof -
  have f: "mm_gatherings (ep_world demo_four_state) = [(5, demo_four)]" "gt_participants demo_four = [10, 40, 30, 20]"
    "gt_session demo_four = demo_session"
    by (simp_all add: demo_four_state_def demo_four_def)
  then have w: "gomap_wf (mm_gatherings (ep_world demo_four_state))" and g: "find_gathering 5 demo_four_state = Some demo_four"
    by (simp_all add: find_gathering_def)
  have h: "g_HostPID demo_session = 10" by code_simp
  have i: "c_ID (ep_heap demo_four_state 3) = 3" by (simp add: demo_four_state_def endpoint_of_def demo_conn_def)
  have c: "FindConnectionByPID 40 demo_four_state = None" "FindConnectionByPID 30 demo_four_state = Some 3"
    by (simp_all add: FindConnectionByPID_def demo_four_state_def endpoint_of_def demo_conn_def)
  obtain g' where g': "find_gathering 5 (snd (MigrerHebergementDepuis demo_config 10 demo_four_state)) = Some g'"
    using Migrer_lookup [where pid = 10 and gid = 5, OF frame_gatherings [OF quiet_zero] w] g by force
  show ?thesis
    using host_migration_finds_a_living_host [OF quiet_zero w _ g _ g'] g' f h i c by auto
qed

subsection \<open>A loop that may not end\<close>

definition attrib_request :: "rmc_message \<Rightarrow> u32 \<times> u32 \<times> u32" where
  "attrib_request req = fst (run_state (do { a \<leftarrow> r_U32; b \<leftarrow> r_U32; c \<leftarrow> r_U32; State_Monad.return (a, b, c) }) (NewStreamIn (rm_Body req)))"

text \<open>C21: ModifyCurrentGameAttribute answers every request but one kind: the first participant of a lobby who names
  the attribute index 0xFFFFFFFF makes the handler grow the attribute list forever, with the lock of the store
  held.  Every other index is answered.\<close>

theorem attribute_index_can_hang_the_server:
  fixes e :: "'a mm_state"
  assumes "attrib_request req = (gid, index, v)" "\<forall>g. find_gathering gid e = Some g \<longrightarrow> length (s_Attribs (gt_session g)) < 2 ^ 32"
  shows "modifyCurrentGameAttribute h req e = None \<longleftrightarrow>
     index = 0xFFFFFFFF \<and> (\<exists>g. find_gathering gid e = Some g \<and> leads (conn_pid h e) g)"
proof -
  have top: "(0xFFFFFFFF :: u32) = - 1" by simp
  have ends: "index = - 1" if "grow_attribs index xs = None" "length xs < 2 ^ 32" for xs
    using that grow_attribs_ends [of index xs] grow_attribs_short [of index xs] by (cases "length xs \<le> unat index + 1") auto
  have body: "modifyCurrentGameAttribute h req e = (let ack = reply ProtocolMatchmakeExtension req [] in
      case find_gathering gid e of None \<Rightarrow> Some (ack, e)
      | Some g \<Rightarrow> if leads (conn_pid h e) g
          then (case grow_attribs index (s_Attribs (gt_session g)) of None \<Rightarrow> None
                | Some xs \<Rightarrow> Some (ack, mm_upd (put_gathering gid (g\<lparr>gt_session := (gt_session g)\<lparr>s_Attribs := xs[unat index := v]\<rparr>\<rparr>)) e))
          else Some (ack, e))"
    using assms(1) by (simp add: modifyCurrentGameAttribute_def attrib_request_def)
  show ?thesis
    unfolding body Let_def top using assms(2) grow_attribs_diverges by (auto split: option.splits dest: ends)
qed

lemmas extension_methods = MethodModifyCurrentGameAttribute_def MethodCloseParticipation_def MethodOpenParticipation_def
  MethodAutoMatchmakeWithParamPostpone_def MethodCreateMatchmakeSessionWithParam_def MethodJoinMatchmakeSessionWithParam_def
  MethodFindMatchmakeSessionBySingleID_def MethodFindMatchmakeSessionByGatheringIDDetail_def MethodCustomPrivateRoomCreate_def
  MethodCustomResolveCode_def MethodCustomPlayingSession_def MethodFindByParticipant_def MethodCustomFriendsQuery_def
  MethodUpdateNotificationData_def MethodGetFriendNotificationData_def MethodGetFriendNotificationDataList_def
  MethodUpdateMatchmakeSessionPart_def MethodUpdateApplicationBuffer_def

definition hang_request :: rmc_message where
  "hang_request = demo_request MethodModifyCurrentGameAttribute (w_U32 5 @ w_U32 0xFFFFFFFF @ w_U32 1)"

theorem attribute_index_can_hang_the_server_witness:
  "ExtensionHandler demo_config 1 hang_request demo_state = None"
proof -
  have "attrib_request hang_request = (5, 0xFFFFFFFF, 1)" by code_simp
  moreover have "s_Attribs demo_session = []" by code_simp
  ultimately have "modifyCurrentGameAttribute 1 hang_request demo_state = None"
    using attribute_index_can_hang_the_server [of hang_request 5 "0xFFFFFFFF" 1 demo_state 1] by (simp add: leads_def)
  then show ?thesis unfolding ExtensionHandler_def Let_def hang_request_def
    by (simp add: extension_methods)
qed

subsection \<open>What a stranger can read\<close>

text \<open>Two states with the same lobbies up to the session keys and passwords.\<close>

definition same_but_secrets :: "'a mm_state \<Rightarrow> 'a mm_state \<Rightarrow> bool" where
  "same_but_secrets e e' \<longleftrightarrow> map (\<lambda>(gid, g). (gid, g\<lparr>gt_session := scrub (gt_session g)\<rparr>)) (mm_gatherings (ep_world e)) =
     map (\<lambda>(gid, g). (gid, g\<lparr>gt_session := scrub (gt_session g)\<rparr>)) (mm_gatherings (ep_world e'))"

lemma map_of_same:
  "map (\<lambda>(k, v). (k, f v)) m = map (\<lambda>(k, v). (k, f v)) m' \<Longrightarrow> map_option f (map_of m k) = map_option f (map_of m' k)"
  using map_of_map [of f m] map_of_map [of f m'] by (simp add: fun_eq_iff)

lemma same_scrubbed:
  "same_but_secrets e e' \<Longrightarrow> map_option (\<lambda>g. scrub (gt_session g)) (find_gathering gid e) = map_option (\<lambda>g. scrub (gt_session g)) (find_gathering gid e')"
  using arg_cong [OF map_of_same [where f = "\<lambda>g. g\<lparr>gt_session := scrub (gt_session g)\<rparr>"], of _ _ "map_option gt_session" gid]
  by (simp add: same_but_secrets_def find_gathering_def option.map_comp comp_def)

lemma browse_scrubbed: "browse_entry [] (g\<lparr>gt_session := scrub (gt_session g)\<rparr>) = browse_entry [] g"
  by (simp add: browse_entry_def scrub_def Let_def)

lemma map_filter_map: "List.map_filter f xs = map the (filter (\<lambda>r. r \<noteq> None) (map f xs))"
  by (induction xs) (simp_all add: map_filter_Cons List.map_filter_def split: option.split)

text \<open>C22: The session key and the password of a lobby do not leak to players who merely look: what a search by id, a
  search by a list of ids and the public list answer is the same whatever those secrets are.\<close>

theorem searches_hide_secrets:
  fixes e e' :: "'a mm_state"
  assumes "same_but_secrets e e'"
  shows "findBySingleID cfg req e = findBySingleID cfg req e' \<and> findByGidList cfg req e = findByGidList cfg req e' \<and>
    (wanted_code cfg req = [] \<longrightarrow> browseNoHolder cfg req e = browseNoHolder cfg req e')"
proof -
  note same = same_scrubbed [OF assms]
  have "findBySingleID cfg req e = findBySingleID cfg req e'"
    using same [of "req_gid req"] by (auto simp: findBySingleID_def split: option.splits)
  moreover have "findByGidList cfg req e = findByGidList cfg req e'" by (simp add: findByGidList_def same)
  moreover have "map (\<lambda>(gid, g). browse_entry [] g) (mm_gatherings (ep_world e)) = map (\<lambda>(gid, g). browse_entry [] g) (mm_gatherings (ep_world e'))"
    using arg_cong [OF assms [unfolded same_but_secrets_def], of "map (\<lambda>(gid, g). browse_entry [] g)"]
    by (simp add: comp_def case_prod_unfold browse_scrubbed)
  then have "wanted_code cfg req = [] \<Longrightarrow> browseNoHolder cfg req e = browseNoHolder cfg req e'"
    by (simp only: browseNoHolder_def Let_def map_filter_map)
  ultimately show ?thesis by blast
qed

subsection \<open>Requests that are not checked\<close>

text \<open>The error check of CreateSession misses errors inside the parameter's own frame: any bytes whatsoever in it
  are accepted and create a lobby with a success answer, where InvalidArgument is meant.\<close>

theorem malformed_parameters_create_a_lobby:
  fixes e :: "'a mm_state"
  assumes "StructHeader (mc_Settings cfg)" "rm_Body req = w_U8 v @ w_Buffer garbage" "length garbage < 2 ^ 32"
    "callbacks_quiet cfg" "gomap_wf (mm_gatherings (ep_world e))"
  shows "\<not> rm_IsError (fst (createSession cfg h req e)) \<and>
    (\<exists>g. find_gathering (mm_nextGID (ep_world e)) (snd (createSession cfg h req e)) = Some g \<and> gt_participants g = [conn_pid h e])"
  using createSession_creates [OF read_auto_frame [OF assms(1-3)] cursor_sel(4) assms(4,5), of h] by blast

definition other_secrets :: mm_world where
  "other_secrets = demo_world\<lparr>mm_gatherings := [(5, demo_gathering\<lparr>gt_session := demo_session\<lparr>s_SessionKey := [9], s_UserPassword := ''other''\<rparr>\<rparr>)]\<rparr>"

theorem searches_hide_secrets_witness:
  "findBySingleID demo_config join_five demo_state = findBySingleID demo_config join_five (endpoint_of other_secrets) \<and>
   s_SessionKey demo_session \<noteq> [9]"
proof -
  have "same_but_secrets demo_state (endpoint_of other_secrets)" by (simp add: same_but_secrets_def other_secrets_def scrub_def)
  moreover have "s_SessionKey demo_session \<noteq> [9]" by (simp add: demo_session_def)
  ultimately show ?thesis using searches_hide_secrets [of demo_state "endpoint_of other_secrets" demo_config join_five] by blast
qed

definition garbage_param :: rmc_message where
  "garbage_param = demo_request MethodCreateMatchmakeSessionWithParam (w_U8 7 @ w_Buffer [0xDE, 0xAD])"

theorem malformed_parameters_create_a_lobby_witness:
  "\<not> rm_IsError (fst (createSession demo_config 3 garbage_param demo_state)) \<and>
   (\<exists>g. find_gathering 6 (snd (createSession demo_config 3 garbage_param demo_state)) = Some g \<and> gt_participants g = [30])"
proof -
  have "StructHeader (mc_Settings demo_config)" "rm_Body garbage_param = w_U8 7 @ w_Buffer [0xDE, 0xAD]" "length [0xDE, 0xAD :: byte] < 2 ^ 32"
    "gomap_wf (mm_gatherings (ep_world demo_state))"
    by (simp_all add: garbage_param_def)
  from malformed_parameters_create_a_lobby [OF this(1-3) quiet_zero this(4), of 3] show ?thesis by simp
qed

subsection \<open>What a joiner reads\<close>

lemma session_ok_participants [simp]: "session_ok s (m\<lparr>s_NumParticipants := n\<rparr>) = session_ok s m"
  by (simp add: session_ok_def level_body_def sessionLevel_def gatheringLevel_def w_U32_def)

text \<open>C23: The answer to a join that is accepted, of a newcomer or of a player who is in the lobby already, is read by
  the console as the session the store now holds, field by field, in which a newcomer is listed and counted.  The one exception is asked for by the option
  \<open>JoinRespExistingCount\<close>: with it a newcomer is told the number of participants before him instead of the stored one.\<close>

theorem joiner_reads_the_stored_session:
  fixes e :: "'a mm_state"
  assumes found: "find_gathering (join_gid req) e = Some g"
    and room: "conn_pid h e \<in> set (gt_participants g) \<or> g_MaxParticipants (gt_session g) = 0 \<or>
      (of_nat (length (gt_participants g)) :: u16) < g_MaxParticipants (gt_session g)"
    and cfg: "callbacks_quiet cfg"
    and ok: "session_ok (mc_Settings cfg) (gt_session g)"
    and run: "joinSession cfg h req e = (resp, e')"
  shows "\<exists>g'. find_gathering (join_gid req) e' = Some g' \<and>
    gt_participants g' = (if conn_pid h e \<in> set (gt_participants g) then gt_participants g else gt_participants g @ [conn_pid h e]) \<and>
    s_NumParticipants (gt_session g') = of_nat (length (gt_participants g')) \<and>
    run_state (ReadStructure (mc_Settings cfg) MatchmakeSession_levels session_zero) (NewStreamIn (rm_Body resp)) =
      (if mc_JoinRespExistingCount cfg \<and> conn_pid h e \<notin> set (gt_participants g)
       then (gt_session g')\<lparr>s_NumParticipants := of_nat (length (gt_participants g))\<rparr> else gt_session g',
       cursor (rm_Body resp) [])"
proof -
  let ?g = "count_participants (add_participant (conn_pid h e) g)" and ?new = "conn_pid h e \<notin> set (gt_participants g)"
  let ?told = "if mc_JoinRespExistingCount cfg \<and> ?new then (gt_session ?g)\<lparr>s_NumParticipants := of_nat (length (gt_participants g))\<rparr>
    else gt_session ?g"
  let ?e = "mm_upd (put_gathering (join_gid req) ?g) e"
  have accepted: "\<not> (?new \<and> g_MaxParticipants (gt_session g) > 0 \<and>
      (of_nat (length (gt_participants g)) :: u16) \<ge> g_MaxParticipants (gt_session g))"
    using room by (auto simp: not_le)
  have j: "joinSession cfg h req e = (reply ProtocolMatchmakeExtension req (w_Session cfg ?told),
      if ?new then notifyParticipationWithDelay cfg h (gt_participants ?g) (join_gid req) ?e else ?e)"
    using accepted by (auto simp: joinSession_def Let_def found containsPID_def list_ex_iff)
  then have body: "rm_Body resp = w_Session cfg ?told" using run by (simp add: reply_def NewRMCSuccess_def rmc_zero_def)
  have "find_gathering (join_gid req) e' = Some ?g"
    using j run by (auto simp: find_gathering_def mm_frame.keeps [OF frame_gatherings [OF cfg]])
  moreover have "session_ok (mc_Settings cfg) ?told" using ok by (simp add: count_participants_def add_participant_def)
  moreover have "gt_participants ?g = (if conn_pid h e \<in> set (gt_participants g) then gt_participants g else gt_participants g @ [conn_pid h e])"
      "s_NumParticipants (gt_session ?g) = of_nat (length (gt_participants ?g))"
    by (auto simp: count_participants_def add_participant_def containsPID_def list_ex_iff)
  ultimately show ?thesis
    using cMatchmakeSession.dec_enc_end [of "mc_Settings cfg" ?told "[]"] by (simp add: body w_Session_def NewStreamIn_cursor)
qed

lemma demo_session_ok: "session_ok (NewSwitchSettings ''key'' 40302) (demo_session\<lparr>s_NumParticipants := 3\<rparr>)"
proof -
  let ?m = "demo_session\<lparr>s_NumParticipants := 3\<rparr>"
  let ?s = "NewSwitchSettings ''key'' 40302"
  have "length (level_body ?s sessionLevel ?m) < 300 \<and> length (level_body ?s gatheringLevel ?m) < 300 \<and>
      length (WriteMap w_String w_Variant (s_Param ?m)) < 300" by code_simp
  moreover have "g_Description ?m = [] \<and> s_Attribs ?m = [] \<and> s_ApplicationData ?m = [] \<and> s_SessionKey ?m = [1, 2, 3] \<and>
      s_Param ?m = [] \<and> s_UserPassword ?m = ''secret'' \<and> s_Codeword ?m = []" by code_simp
  ultimately show ?thesis by (simp add: session_ok_def param_ok_def string_ok_def gomap_wf_def)
qed

definition acnh_config :: "unit mm_config" where
  "acnh_config = demo_config\<lparr>mc_JoinRespExistingCount := True\<rparr>"

theorem joiner_reads_the_stored_session_witness:
  "map_option (s_NumParticipants \<circ> gt_session) (find_gathering 5 (snd (joinSession acnh_config 3 join_five demo_state))) = Some 3 \<and>
   s_NumParticipants (fst (run_state (ReadStructure (NewSwitchSettings ''key'' 40302) MatchmakeSession_levels session_zero)
     (NewStreamIn (rm_Body (fst (joinSession acnh_config 3 join_five demo_state)))))) = 2 \<and>
   (\<exists>s. fst (run_state (ReadStructure (NewSwitchSettings ''key'' 40302) MatchmakeSession_levels session_zero)
     (NewStreamIn (rm_Body (fst (joinSession demo_config 3 join_five demo_state))))) = s \<and>
   map_option gt_session (find_gathering 5 (snd (joinSession demo_config 3 join_five demo_state))) = Some s)"
proof -
  have a: "callbacks_quiet acnh_config" "mc_Settings acnh_config = NewSwitchSettings ''key'' 40302" "mc_JoinRespExistingCount acnh_config"
    by (simp_all add: acnh_config_def callbacks_quiet_def zero_config_def)
  have f: "find_gathering (join_gid join_five) demo_state = Some demo_gathering" "join_gid join_five = 5" by simp_all
  have room: "conn_pid 3 demo_state \<in> set (gt_participants demo_gathering) \<or> g_MaxParticipants (gt_session demo_gathering) = 0 \<or>
      (of_nat (length (gt_participants demo_gathering)) :: u16) < g_MaxParticipants (gt_session demo_gathering)" by simp
  have ok: "session_ok (NewSwitchSettings ''key'' 40302) (gt_session demo_gathering)" using demo_session_ok by simp
  obtain resp e' where run: "joinSession demo_config 3 join_five demo_state = (resp, e')" by (metis surj_pair)
  obtain resp1 e1 where run1: "joinSession acnh_config 3 join_five demo_state = (resp1, e1)" by (metis surj_pair)
  show ?thesis
    using joiner_reads_the_stored_session [OF f(1) room quiet_zero _ run] joiner_reads_the_stored_session [OF f(1) room a(1) _ run1] ok a run run1 f by auto
qed

subsection \<open>Tournaments\<close>

text \<open>The requests that change the store, with the random bytes and the time a creation uses.\<close>

datatype tournament_event = TournamentCreated bytes bytes int u64 rmc_message | TournamentDeleted u64 rmc_message | TournamentJoined u64 rmc_message

fun tournament_serve :: "tournament_event \<Rightarrow> tournament_store \<Rightarrow> tournament_store" where
  "tournament_serve (TournamentCreated mark r now pid req) ts = snd (createTournament mark r now pid req ts)"
| "tournament_serve (TournamentDeleted pid req) ts = snd (removeTournament pid req ts)"
| "tournament_serve (TournamentJoined pid req) ts = snd (registerTournament pid req ts)"

fun draws_ok :: "tournament_event \<Rightarrow> bool" where
  "draws_ok (TournamentCreated mark r now pid req) \<longleftrightarrow> length mark = 8 \<and> length r = tournamentCodeLen"
| "draws_ok _ \<longleftrightarrow> True"

definition tournament_inv :: "nat \<Rightarrow> tournament_store \<Rightarrow> bool" where
  "tournament_inv n ts \<longleftrightarrow> store_ok ts \<and> ts_quarantined ts = [] \<and>
     1000 \<le> unat (ts_nextID ts) \<and> unat (ts_nextID ts) \<le> 1000 + n"

lemma createTournament_store:
  "snd (createTournament mark r now pid req ts) \<in> insert ts (range (\<lambda>payload. snd (CreateTournament mark r now pid payload ts)))"
proof -
  let ?c = "CreateTournament mark r now pid (take (unat (le_word (take 4 (drop 1 (rm_Body req))) :: u32)) (drop 5 (rm_Body req))) ts"
  have "snd (createTournament mark r now pid req ts) = ts \<or> snd (createTournament mark r now pid req ts) = snd ?c"
    unfolding createTournament_def Let_def by (simp split: prod.split option.split)
  then show ?thesis by blast
qed

lemma tournament_inv_create:
  assumes inv: "tournament_inv n ts" and rnd: "length mark = 8" "length r = tournamentCodeLen" and n: "1001 + n < 2 ^ 32"
  shows "tournament_inv (Suc n) (snd (CreateTournament mark r now pid payload ts))"
proof -
  have next_id: "unat (ts_nextID ts + 1) = Suc (unat (ts_nextID ts))"
    using inv n by (simp add: tournament_inv_def unat_word_ariths)
  then have nz: "ts_nextID ts \<noteq> 0" "ts_nextID ts + 1 \<noteq> 0" using inv by (auto simp: tournament_inv_def)
  show ?thesis
  proof (cases "creatable payload \<and> length (ts_byID ts) < tournamentMax")
    case True
    then show ?thesis
      using inv store_ok_create [OF _ rnd nz, of now pid payload] next_id CreateTournament_accepts [OF _ _ rnd nz(1), of payload now pid]
      by (simp add: tournament_inv_def)
  next
    case False
    then have "CreateTournament mark r now pid payload ts = (None, ts)" by (intro CreateTournament_refuses) auto
    then show ?thesis using inv by (simp add: tournament_inv_def)
  qed
qed

lemma tournament_inv_serve:
  assumes inv: "tournament_inv n ts" and ev: "draws_ok ev" and n: "1001 + n < 2 ^ 32"
  shows "tournament_inv (Suc n) (tournament_serve ev ts)"
proof -
  have weak: "tournament_inv (Suc n) ts" using inv by (simp add: tournament_inv_def)
  show ?thesis
  proof (cases ev)
    case (TournamentCreated mark r now pid req)
    then show ?thesis
      using createTournament_store [of mark r now pid req ts] tournament_inv_create [OF inv _ _ n] ev weak by auto
  next
    case (TournamentDeleted pid req)
    have "tournament_inv (Suc n) (snd (deleteTournament i pid ts))" for i
      using weak store_ok_delete [of ts i pid] by (auto simp: tournament_inv_def deleteTournament_def split: option.splits)
    then show ?thesis using weak by (simp add: TournamentDeleted removeTournament_def)
  next
    case (TournamentJoined pid req)
    have "tournament_inv (Suc n) (snd (joinTournament i pid ts))" for i
      using weak store_ok_join [of ts i pid] by (auto simp: tournament_inv_def joinTournament_def split: option.splits)
    then show ?thesis using weak by (simp add: TournamentJoined registerTournament_def)
  qed
qed

lemma serve_marks:
  assumes "store_ok ts"
  shows "ts_dirty (tournament_serve ev ts) \<longleftrightarrow> ts_dirty ts \<or> ts_byID (tournament_serve ev ts) \<noteq> ts_byID ts"
proof (cases ev)
  case (TournamentCreated mark r now pid req)
  then show ?thesis using createTournament_store [of mark r now pid req ts] create_marks [OF assms] by auto
qed (simp_all add: removeTournament_def registerTournament_def delete_marks join_marks)

text \<open>The life of a server: requests, ticks of the writer (with whether the write succeeds) and restarts, which begin
  with an empty store and the file.\<close>

datatype tournament_step = Served tournament_event | Ticked bool | Restarted

fun tournament_life :: "tournament_step \<Rightarrow> tournament_disk \<Rightarrow> tournament_disk" where
  "tournament_life (Served ev) d = d\<lparr>td_store := tournament_serve ev (td_store d)\<rparr>"
| "tournament_life (Ticked written) d = tournamentFlusher written d"
| "tournament_life Restarted d = tournamentInit (d\<lparr>td_store := tournaments\<rparr>)"

text \<open>The observer keeps the tournaments that are safe, and whether something has changed since the last tick.  He looks
  at the tournaments alone, not at the store's own mark: a change is a difference.\<close>

fun observe :: "tournament_step \<Rightarrow> tournament_disk \<Rightarrow> (u32, tournament) gomap \<times> bool \<Rightarrow> (u32, tournament) gomap \<times> bool" where
  "observe (Served ev) d (safe, changed) = (safe, changed \<or> ts_byID (tournament_serve ev (td_store d)) \<noteq> ts_byID (td_store d))"
| "observe (Ticked written) d (safe, changed) = (if changed \<and> written then ts_byID (td_store d) else safe, False)"
| "observe Restarted d (safe, changed) = (safe, False)"

fun history :: "tournament_step list \<Rightarrow> tournament_disk \<Rightarrow> (u32, tournament) gomap \<times> bool \<Rightarrow> tournament_disk \<times> (u32, tournament) gomap \<times> bool" where
  "history [] d b = (d, b)"
| "history (st # sts) d b = history sts (tournament_life st d) (observe st d b)"

fun step_draws_ok :: "tournament_step \<Rightarrow> bool" where
  "step_draws_ok (Served ev) = draws_ok ev"
| "step_draws_ok _ = True"

definition first_start :: tournament_disk where
  "first_start = \<lparr>td_store = tournaments, td_path = True, td_file = None\<rparr>"

definition safe_ok :: "nat \<Rightarrow> (u32, tournament) gomap \<Rightarrow> bool" where
  "safe_ok n m \<longleftrightarrow> gomap_wf m \<and> length m \<le> tournamentMax \<and>
     (\<forall>(i, t) \<in> set m. tn_ID t = i \<and> validStoredTournament t \<and> unat i < 1000 + n)"

definition life_inv :: "nat \<Rightarrow> tournament_disk \<Rightarrow> (u32, tournament) gomap \<times> bool \<Rightarrow> bool" where
  "life_inv n d b \<longleftrightarrow> tournament_inv n (td_store d) \<and> td_path d \<and> ts_dirty (td_store d) = snd b \<and> safe_ok n (fst b) \<and>
     (td_file d = Some (map (Some \<circ> snd) (fst b)) \<or> td_file d = None \<and> fst b = [])"

lemma tournament_inv_safe: "tournament_inv n ts \<Longrightarrow> safe_ok n (ts_byID ts)"
  unfolding tournament_inv_def store_ok_def safe_ok_def by (fastforce simp: word_less_nat_alt)

lemma restarted:
  assumes "life_inv n d b" "1000 + n < 2 ^ 32"
  shows "td_store (tournament_life Restarted d) =
      tournaments\<lparr>ts_nextID := fold restored_next (map snd (fst b)) 1000, ts_byID := fst b\<rparr>"
    "td_path (tournament_life Restarted d)" "td_file (tournament_life Restarted d) = td_file d"
    "store_ok (td_store (tournament_life Restarted d))" "tournament_inv n (td_store (tournament_life Restarted d))"
proof -
  let ?m = "fst b" and ?n = "fold restored_next (map snd (fst b)) 1000"
  have m: "\<forall>(i, t) \<in> set ?m. tn_ID t = i \<and> validStoredTournament t" "distinct (map fst ?m)"
    and low: "\<forall>t \<in> set (map snd ?m). unat (tn_ID t) < 1000 + n"
    using assms(1) by (auto simp: life_inv_def safe_ok_def gomap_wf_def)
  show r: "td_store (tournament_life Restarted d) = tournaments\<lparr>ts_nextID := ?n, ts_byID := ?m\<rparr>"
    using assms(1) restore_saved [OF m] by (auto simp: life_inv_def tournamentInit_def tournaments_def)
  show "td_path (tournament_life Restarted d)" "td_file (tournament_life Restarted d) = td_file d"
    using assms(1) by (auto simp: life_inv_def tournamentInit_def split: option.split)
  have "tn_ID t + 1 \<noteq> 0" if "t \<in> set (map snd ?m)" for t
  proof -
    have "unat (tn_ID t) < 1000 + n" using low that by blast
    then have "unat (tn_ID t + 1) = Suc (unat (tn_ID t))" using assms(2) by (simp add: unat_word_ariths)
    then show ?thesis by (metis nat.distinct(1) unsigned_0)
  qed
  then have above: "1000 \<le> ?n" "\<forall>t \<in> set (map snd ?m). tn_ID t < ?n"
    using restored_next_above [of "map snd ?m" 1000] by auto
  have "unat ?n \<le> 1000 + n" by (rule restored_next_le [OF low]) simp
  moreover have "unat (1000 :: u32) \<le> unat ?n" using above(1) by (simp only: word_le_nat_alt)
  moreover show "store_ok (td_store (tournament_life Restarted d))"
    unfolding r using assms(1) above(2) by (force simp: store_ok_def life_inv_def safe_ok_def)
  ultimately show "tournament_inv n (td_store (tournament_life Restarted d))"
    unfolding r by (simp add: tournament_inv_def tournaments_def)
qed

lemma life_inv_mono: "safe_ok n m \<Longrightarrow> safe_ok (Suc n) m"
  unfolding safe_ok_def by fastforce

lemma life_inv_step:
  assumes inv: "life_inv n d b" and st: "step_draws_ok st" and n: "1001 + n < 2 ^ 32"
  shows "life_inv (Suc n) (tournament_life st d) (observe st d b)"
proof -
  obtain safe changed where b: "b = (safe, changed)" by (cases b)
  have ts: "tournament_inv n (td_store d)" and safe: "safe_ok (Suc n) safe" and dirty: "ts_dirty (td_store d) = changed"
    using inv life_inv_mono by (auto simp: life_inv_def b)
  have up: "tournament_inv (Suc n) ts" if "tournament_inv n ts" for ts using that by (simp add: tournament_inv_def)
  show ?thesis
  proof (cases st)
    case (Served ev)
    have "store_ok (td_store d)" using ts by (simp add: tournament_inv_def)
    from serve_marks [OF this, of ev] tournament_inv_serve [OF ts, of ev] show ?thesis
      using inv st n safe dirty by (auto simp: Served b life_inv_def)
  next
    case (Ticked written)
    have q: "ts_quarantined (td_store d) = []" using ts by (simp add: tournament_inv_def)
    have "tournament_inv (Suc n) (td_store d\<lparr>ts_dirty := False\<rparr>)" using up [OF ts] by (simp add: tournament_inv_def store_ok_def)
    then show ?thesis
      using inv safe dirty up [OF ts] tournament_inv_safe [OF up [OF ts]]
      by (auto simp: Ticked b life_inv_def tournamentFlusher_def flush_list_def q)
  next
    case Restarted
    have "1000 + n < 2 ^ 32" using n by simp
    from restarted [OF inv this] show ?thesis
      using inv safe up unfolding Restarted b life_inv_def by (simp add: tournaments_def)
  qed
qed

lemma life_inv_history:
  "life_inv n d b \<Longrightarrow> list_all step_draws_ok sts \<Longrightarrow> 1000 + n + length sts < 2 ^ 32 \<Longrightarrow>
   life_inv (n + length sts) (fst (history sts d b)) (snd (history sts d b))"
proof (induction sts arbitrary: n d b)
  case (Cons st sts)
  then have "life_inv (Suc n) (tournament_life st d) (observe st d b)" by (intro life_inv_step) simp_all
  from Cons.IH [OF this] show ?case using Cons.prems by simp
qed simp

text \<open>C25: Whatever tournaments players create, join and delete, with the ticks of the writer and the restarts of the
  server between the requests in any order, the store holds only tournaments filed under their own id, with the id and
  the code of the server stamped in their structure, never more than 2000 of them; and a restart brings back exactly the
  tournaments, with their participants, that were there at the last tick that followed a change and was written, and
  gives no id of theirs out again.  So a change is safe once the tick that follows it is written.  One that no tick has
  followed is lost by a restart, and so is one whose tick failed to write, for as long as no later change is written: the
  next tick alone does not try again.\<close>

theorem tournaments_survive_a_restart:
  assumes "list_all step_draws_ok sts" "length sts < 2 ^ 32 - 1001" "history sts first_start ([], False) = (d, safe, changed)"
  shows "store_ok (td_store d) \<and> store_ok (td_store (tournament_life Restarted d)) \<and>
    ts_byID (td_store (tournament_life Restarted d)) = safe \<and>
    (\<forall>(i, t) \<in> set safe. i < ts_nextID (td_store (tournament_life Restarted d))) \<and>
    ts_byID (td_store (tournament_life Restarted (tournament_life (Ticked True) d))) = (if changed then ts_byID (td_store d) else safe)"
proof -
  have "life_inv 0 first_start ([], False)"
    using store_ok_empty by (simp add: life_inv_def first_start_def tournament_inv_def tournaments_def safe_ok_def gomap_wf_def)
  from life_inv_history [OF this assms(1)] have inv: "life_inv (length sts) d (safe, changed)" using assms(2,3) by simp
  have n: "1001 + length sts < 2 ^ 32" using assms(2) by simp
  have "1000 + length sts < 2 ^ 32" using n by simp
  note r = restarted [OF inv this]
  have ok: "store_ok (td_store d)" using inv by (simp add: life_inv_def tournament_inv_def)
  have "life_inv (Suc (length sts)) (tournament_life (Ticked True) d) (if changed then ts_byID (td_store d) else safe, False)"
    using life_inv_step [OF inv _ n, of "Ticked True"] by simp
  from restarted(1) [OF this] n
  have t: "ts_byID (td_store (tournament_life Restarted (tournament_life (Ticked True) d))) = (if changed then ts_byID (td_store d) else safe)"
    by simp
  have "\<forall>(i, t) \<in> set safe. i < ts_nextID (td_store (tournament_life Restarted d))"
    using r(1,4) unfolding store_ok_def by fastforce
  then show ?thesis using ok r(1,4) t by simp
qed

definition demo_payload :: bytes where
  "demo_payload = replicate 105 0 @ [2, 0, 65, 0, 0xFF, 0, 0, 0, 0, 1, 0, 0]"

definition demo_tournament :: tournament_event where
  "demo_tournament = TournamentCreated (replicate 8 7) (replicate tournamentCodeLen 3) 0 10
     (demo_request MethodTournamentCreate ([1] @ w_U32 (of_nat (length demo_payload)) @ demo_payload))"

lemma demo_tournament_stored: "map fst (ts_byID (tournament_serve demo_tournament tournaments)) = [1000]"
  by code_simp

definition demo_entry :: tournament_event where
  "demo_entry = TournamentJoined 20 (demo_request MethodTournamentJoin (w_U32 1000))"

text \<open>A tournament is created and saved; then a second player enters it, and the tick that follows fails to write.\<close>

theorem tournaments_survive_a_restart_witness:
  "map (\<lambda>(i, t). (i, tn_Participants t)) (ts_byID (td_store (tournament_life Restarted
     (fst (history [Served demo_tournament, Ticked True, Served demo_entry] first_start ([], False)))))) = [(1000, [10])] \<and>
   map (\<lambda>(i, t). (i, tn_Participants t)) (ts_byID (td_store (tournament_life Restarted (tournament_life (Ticked True)
     (fst (history [Served demo_tournament, Ticked True, Served demo_entry] first_start ([], False))))))) = [(1000, [10, 20])] \<and>
   map (\<lambda>(i, t). (i, tn_Participants t)) (ts_byID (td_store (tournament_life Restarted (tournament_life (Ticked True)
     (fst (history [Served demo_tournament, Ticked True, Served demo_entry, Ticked False] first_start ([], False))))))) = [(1000, [10])]"
proof -
  let ?one = "tournament_serve demo_tournament tournaments"
  have one: "map (\<lambda>(i, t). (i, tn_Participants t)) (ts_byID ?one) = [(1000, [10])]"
    and dirty: "ts_dirty ?one" "ts_byID ?one \<noteq> ts_byID tournaments" by code_simp+
  have two: "map (\<lambda>(i, t). (i, tn_Participants t)) (ts_byID (tournament_serve demo_entry (?one\<lparr>ts_dirty := False\<rparr>))) = [(1000, [10, 20])]"
    by code_simp
  then have three: "ts_byID (tournament_serve demo_entry (?one\<lparr>ts_dirty := False\<rparr>)) \<noteq> ts_byID ?one" using one by force
  let ?h = "[Served demo_tournament, Ticked True, Served demo_entry]"
  have ok: "list_all step_draws_ok ?h" "length ?h < 2 ^ 32 - 1001"
    "list_all step_draws_ok (?h @ [Ticked False])" "length (?h @ [Ticked False]) < 2 ^ 32 - 1001"
    by (simp_all add: demo_tournament_def demo_entry_def)
  obtain d where h: "history ?h first_start ([], False) = (d, ts_byID ?one, True)"
    and d: "ts_byID (td_store d) = ts_byID (tournament_serve demo_entry (?one\<lparr>ts_dirty := False\<rparr>))"
    using dirty three by (simp add: first_start_def tournamentFlusher_def flush_list_def)
  obtain d2 where h2: "history (?h @ [Ticked False]) first_start ([], False) = (d2, ts_byID ?one, False)"
    using dirty three by (simp add: first_start_def tournamentFlusher_def flush_list_def)
  show ?thesis
    using tournaments_survive_a_restart [OF ok(1,2) h] tournaments_survive_a_restart [OF ok(3,4) h2] h h2 one two d by simp
qed

subsection \<open>Notifications that wait\<close>

text \<open>C33: A notification that a title asked to delay is sent: once its time has come, the timer that carries it tells
  every participant who is still in the lobby and connected, unless the newcomer left or reconnected meanwhile.\<close>

theorem delayed_notification_arrives:
  fixes e e1 :: "'a mm_state"
  assumes delay: "0 < mc_ParticipationNotificationDelay cfg" and ready: "mc_OnSessionReady cfg = None"
    and armed: "e1 = notifyParticipationWithDelay cfg h ps gid e"
    and later: "mm_timers (ep_world e2) = mm_timers (ep_world e1)" "ep_now e + mc_ParticipationNotificationDelay cfg \<le> ep_now e2"
    and still: "find_gathering gid e2 = Some g" "conn_pid h e2 \<in> set (gt_participants g)" "FindConnectionByPID (conn_pid h e2) e2 = Some h"
    and i: "i = length (mm_timers (ep_world e))"
  shows "pushed e1 = pushed e \<and>
    (\<forall>p \<in> set ps. \<forall>c. p \<in> set (gt_participants g) \<and> FindConnectionByPID p e2 = Some c \<longrightarrow>
       (\<exists>ev. ne_Type ev = NotificationParticipate \<and> ne_Param2 ev = conn_pid h e2 \<and> (c, ev) \<in> set (pushed (fire_timer cfg i e2))))"
proof -
  let ?t = "\<lparr>pt_at = ep_now e + mc_ParticipationNotificationDelay cfg, pt_caller = h, pt_parts = ps, pt_gid = gid\<rparr>"
  let ?e = "mm_upd (\<lambda>w. w\<lparr>mm_timers := mm_timers (ep_world e)\<rparr>) e2"
  let ?ps = "filter (containsPID (gt_participants g)) ps"
  have e1: "e1 = mm_upd (\<lambda>w. w\<lparr>mm_timers := mm_timers w @ [?t]\<rparr>) e"
    using delay by (simp add: armed notifyParticipationWithDelay_def notifyParticipationAfter_def)
  have ts: "mm_timers (ep_world e2) = mm_timers (ep_world e) @ [?t]" using later(1) by (simp add: e1 mm_upd_def)
  have dir: "FindConnectionByPID p ?e = FindConnectionByPID p e2" "conn_pid k ?e = conn_pid k e2" for p k
    by (rule directory_find directory_pid, rule directory_upd)+
  have "fire_timer cfg i e2 = participation_due cfg ?t ?e"
    using later(2) by (simp add: fire_timer_def Let_def ts i)
  also have "\<dots> = notifyParticipation cfg h ?ps gid [] ?e"
    using still by (simp add: participation_due_def Let_def dir find_gathering_def containsPID_def list_ex_iff)
  finally have fire: "fire_timer cfg i e2 = notifyParticipation cfg h ?ps gid [] ?e" .
  have push: "pushed (fire_timer cfg i e2) = pushed e2 @
      map (\<lambda>t. (t, participate_event (conn_pid h e2) gid [] (length ?ps) (conn_pid h e2))) (List.map_filter (\<lambda>p. FindConnectionByPID p e2) ?ps) @
      map (\<lambda>p. (h, participate_event (conn_pid h e2) gid [] (length ?ps) p)) (filter (\<lambda>p. p \<noteq> conn_pid h e2) ?ps)"
    unfolding fire pushed_participation [OF ready] dir by (simp add: pushed_def)
  have "\<exists>ev. ne_Type ev = NotificationParticipate \<and> ne_Param2 ev = conn_pid h e2 \<and> (c, ev) \<in> set (pushed (fire_timer cfg i e2))"
    if "p \<in> set ps" "p \<in> set (gt_participants g)" "FindConnectionByPID p e2 = Some c" for p c
  proof (intro exI conjI)
    show "(c, participate_event (conn_pid h e2) gid [] (length ?ps) (conn_pid h e2)) \<in> set (pushed (fire_timer cfg i e2))"
      using that by (auto simp: push List.map_filter_def containsPID_def list_ex_iff image_iff intro!: bexI [of _ p])
  qed (simp_all add: participate_event_def)
  then show ?thesis by (simp add: e1 pushed_def)
qed

definition late_config :: "unit mm_config" where
  "late_config = demo_config\<lparr>mc_ParticipationNotificationDelay := 5\<rparr>"

definition late_state :: "unit mm_state" where
  "late_state = (notifyParticipationWithDelay late_config 2 [10, 20] 5 demo_state)\<lparr>ep_now := 5\<rparr>"

theorem delayed_notification_arrives_witness:
  "pushed late_state = [] \<and> (\<exists>ev. ne_Param2 ev = 20 \<and> (1, ev) \<in> set (pushed (fire_timer late_config 0 late_state)))"
proof -
  let ?e1 = "notifyParticipationWithDelay late_config 2 [10, 20] 5 demo_state"
  have cfg: "mc_ParticipationNotificationDelay late_config = 5" "mc_OnSessionReady late_config = None"
    by (simp_all add: late_config_def)
  have e1: "late_state = (mm_upd (\<lambda>w. w\<lparr>mm_timers := mm_timers w @ [\<lparr>pt_at = 5, pt_caller = 2, pt_parts = [10, 20], pt_gid = 5\<rparr>]\<rparr>) demo_state)\<lparr>ep_now := 5\<rparr>"
    by (simp add: late_state_def notifyParticipationWithDelay_def notifyParticipationAfter_def cfg endpoint_of_def)
  have dir: "directory late_state = directory demo_state" by (simp add: e1 directory_def mm_upd_def)
  have d: "FindConnectionByPID p late_state = FindConnectionByPID p demo_state" "conn_pid k late_state = conn_pid k demo_state" for p k
    by (rule directory_find [OF dir], rule directory_pid [OF dir])
  have g: "find_gathering 5 late_state = Some demo_gathering" by (simp add: e1 find_gathering_def mm_upd_def)
  have t: "mm_timers (ep_world late_state) = mm_timers (ep_world ?e1)" "ep_now demo_state + 5 \<le> ep_now late_state"
    "length (mm_timers (ep_world demo_state)) = 0" "pushed late_state = pushed ?e1" "pushed demo_state = []"
    by (simp_all add: late_state_def endpoint_of_def demo_world_def NewMatchmaking_def pushed_def)
  from delayed_notification_arrives [OF _ cfg(2) refl t(1) _ g _ _ t(3) [symmetric]] t
  show ?thesis by (simp add: cfg d demo_find) (metis demo_find(1))
qed

end
