(* ===== verification/Nex_Nat_Props.thy ===== *)
theory Nex_Nat_Props
  imports Nex_Nat Nex_Relay_Props Nex_Lobby_Props
begin

section \<open>Properties of stations and NAT traversal\<close>

text \<open>
  What a joiner is told about the host of a lobby, and how the verdicts of the consoles feed
  the relay.
\<close>

subsection \<open>The host after a departure\<close>

lemma FindConnectionByID_directory: "directory e = directory e' \<Longrightarrow> FindConnectionByID i e = FindConnectionByID i e'"
  by (simp add: FindConnectionByID_def directory_def)

lemma RemovePlayer_directory:
  assumes "callbacks_quiet cfg"
  shows "directory (RemovePlayer cfg pid e) = directory e"
  by (simp add: RemovePlayer_def Let_def split_beta mm_frame.keeps [OF frame_directory [OF assms]])

text \<open>C37: When the owner of a lobby disconnects and the title keeps its lobbies (RemovePlayer), the lobby goes to the
  next participant but still points to the connection that is gone: every later request for the host's stations is
  answered with an empty list, although the new owner is connected.\<close>

theorem departure_leaves_no_stations:
  fixes e :: "'b net_state"
  assumes "callbacks_quiet cfg" "gomap_wf (mm_gatherings (ep_world e))" "pid \<noteq> 0"
    and g: "find_gathering (req_gid req) e = Some g" "g_OwnerPID (gt_session g) = pid" "gt_participants g = pid # q # ps" "pid \<noteq> q"
    and kept: "mc_NotifierDeparts cfg" "g_Flags (gt_session g) AND 0x10 \<noteq> 0"
    and gone: "FindConnectionByID (gt_hostConnID g) e = None" and q: "FindConnectionByPID q e = Some c"
  shows "getSessionURLs ncfg h req (RemovePlayer cfg pid e) = (Some (sessionURLsResponse req []), RemovePlayer cfg pid e) \<and>
    (\<exists>g'. find_gathering (req_gid req) (RemovePlayer cfg pid e) = Some g' \<and> g_OwnerPID (gt_session g') = q \<and>
       FindConnectionByPID (g_OwnerPID (gt_session g')) (RemovePlayer cfg pid e) = Some c)"
proof -
  let ?e = "RemovePlayer cfg pid e"
  have dir: "directory ?e = directory e" by (rule RemovePlayer_directory [OF assms(1)])
  have rest: "filter (\<lambda>p. p \<noteq> pid) (gt_participants g) = q # filter (\<lambda>p. p \<noteq> pid) ps" using g(3,4) by simp
  have "find_gathering (req_gid req) ?e = after_departure cfg pid g"
    using RemovePlayer_lookup [OF frame_gatherings [OF assms(1)] assms(2,3), of "req_gid req"] g(1) by simp
  moreover have "\<exists>g'. after_departure cfg pid g = Some g' \<and> gt_hostConnID g' = gt_hostConnID g \<and> g_OwnerPID (gt_session g') = q"
    unfolding after_departure_def Let_def rest using g(2,3) kept by simp
  ultimately obtain g' where g': "find_gathering (req_gid req) ?e = Some g'" "gt_hostConnID g' = gt_hostConnID g" "g_OwnerPID (gt_session g') = q"
    by auto
  have "FindConnectionByID (gt_hostConnID g') ?e = None" using FindConnectionByID_directory [OF dir] gone g'(2) by simp
  moreover have "FindConnectionByPID q ?e = Some c" using directory_find [OF dir] q by simp
  ultimately show ?thesis using g' by (simp add: getSessionURLs_def)
qed

subsection \<open>Joiners who wait\<close>

text \<open>Building the list of stations leaves the connections, the clock and the waiting requests alone.\<close>

definition same_scene :: "'b net_state \<Rightarrow> 'b net_state \<Rightarrow> bool" where
  "same_scene e e' \<longleftrightarrow> ep_heap e' = ep_heap e \<and> ep_now e' = ep_now e \<and> nw_waiting (ep_world e') = nw_waiting (ep_world e)"

lemma same_scene_refl [simp]: "same_scene e e"
  by (simp add: same_scene_def)

lemma same_scene_trans: "same_scene e e' \<Longrightarrow> same_scene e' e'' \<Longrightarrow> same_scene e e''"
  by (simp add: same_scene_def)

lemma same_scene_natPort: "same_scene e (snd (natPortForIP ip e))"
  by (simp add: natPortForIP_def Let_def same_scene_def nw_upd_def split: option.split)

lemma same_scene_natBridge: "same_scene e (snd (natBridgeStationsWithReportedPort urls pf ur e))"
  using same_scene_natPort [of e]
  by (auto simp: natBridgeStationsWithReportedPort_def Let_def split_beta split: option.split prod.split)

lemma same_scene_bridge: "same_scene e (snd (bridgeSessionStationsForPair cfg j h e))"
  using same_scene_natBridge [of e]
  by (auto simp: bridgeSessionStationsForPair_def bridgeSessionStations_def Let_def split_beta split: option.split prod.split)

lemma same_scene_relayedFor: "same_scene e (snd (relayedFor cfg j h urls e))"
  by (simp add: relayedFor_def pair_relay_def same_scene_def nw_upd_def split_beta split: option.split)

text \<open>C38: A joiner who has to wait for the host to report its stations is answered: at the first turn after the
  deadline at the latest, a response is sent on his connection and his request is taken off the list.\<close>

theorem waiting_joiner_is_answered:
  fixes e :: "'b net_state"
  assumes "i < length (nw_waiting (ep_world e))" "nw_waiting (ep_world e) ! i = (h, req, hc, deadline)" "deadline \<le> ep_now e"
    "answerSessionURLsWhenHostIsReady cfg i e = e'"
  shows "nw_waiting (ep_world e') = take i (nw_waiting (ep_world e)) @ drop (Suc i) (nw_waiting (ep_world e)) \<and>
    (\<exists>us. ep_heap e' h = sendData (nc_Settings cfg) (Encode (sessionURLsResponse req us)) (ep_heap e h))"
proof -
  obtain urls status e1 where b: "bridgeSessionStationsForPair cfg h hc e = ((urls, status), e1)" by (metis surj_pair)
  have s1: "same_scene e e1" using same_scene_bridge [of e cfg h hc] b by simp
  have "\<exists>us e2. same_scene e e2 \<and> e' = nw_upd (\<lambda>w. w\<lparr>nw_waiting := take i (nw_waiting w) @ drop (Suc i) (nw_waiting w)\<rparr>)
      (SendRMC (nc_Settings cfg) h (sessionURLsResponse req us) e2)"
  proof (cases "status = bridgeOK")
    case True
    obtain us e2 where r: "relayedFor cfg h hc urls e1 = (us, e2)" by (metis surj_pair)
    have "same_scene e e2" using same_scene_trans [OF s1] same_scene_relayedFor [of e1 cfg h hc urls] r by simp
    then show ?thesis using assms b r True by (auto simp: answerSessionURLsWhenHostIsReady_def)
  next
    case False
    obtain us e2 where r: "relayedFor cfg h hc (stations_of (ep_heap e1 hc)) e1 = (us, e2)" by (metis surj_pair)
    have "same_scene e e2" using same_scene_trans [OF s1] same_scene_relayedFor [of e1 cfg h hc "stations_of (ep_heap e1 hc)"] r by simp
    moreover have "\<not> ep_now e1 < deadline" using s1 assms(3) by (simp add: same_scene_def)
    ultimately show ?thesis using assms b r False by (auto simp: answerSessionURLsWhenHostIsReady_def)
  qed
  then show ?thesis by (auto simp: same_scene_def nw_upd_def SendRMC_def on_conn_def)
qed

subsection \<open>Instances\<close>

definition keep_config :: "unit net_world_ext mm_config" where
  "keep_config = (zero_config (NewSwitchSettings ''key'' 40302))\<lparr>mc_NotifierDeparts := True\<rparr>"

definition demo_net_config :: "unit net_config" where
  "demo_net_config = \<lparr>nc_Settings = NewSwitchSettings ''key'' 40302, nc_SessionStations = None, nc_OwnerLeaveUnregisters = False,
     nc_PreservePiaStationIdentity = False, nc_PublicStationFirst = False, nc_LocalLoopbackStations = False, nc_UseReportedUDPPort = False,
     nc_ProbeRepoint = [], nc_RelaySigChaineVideZero = False, nc_RelaySigGameServerID = 0, nc_listens = (\<lambda>_. True), nc_OnNATProperties = None\<rparr>"

text \<open>The host's connection 1 is gone; its lobby of players 10 and 20 is still there, and player 30 waits for an answer.\<close>

definition urls_request :: rmc_message where
  "urls_request = demo_request MethodGetSessionURLs (w_U32 5)"

definition net_world_demo :: net_world where
  "net_world_demo = mm_world.extend demo_world \<lparr>nw_relay = relay_start, nw_natFile = None, nw_natCache = None, nw_natCacheRead = None,
     nw_waiting = [(3, urls_request, 2, 0)], nw_stationRelay = ([], 0)\<rparr>"

definition demo_net :: "unit net_state" where
  "demo_net = \<lparr>ep_heap = (\<lambda>h. if h = 1 then demo_conn 1 10 else if h = 2 then demo_conn 2 20 else demo_conn 3 30),
     ep_connections = [(2, 2), (3, 3)], ep_connCounter = 3, ep_auth = auth_empty, ep_now = 0, ep_world = net_world_demo\<rparr>"

lemma net_world_demo_sel: "mm_gatherings net_world_demo = [(5, demo_gathering)]" "nw_waiting net_world_demo = [(3, urls_request, 2, 0)]"
  by (simp_all add: net_world_demo_def mm_world.defs demo_world_def NewMatchmaking_def)

lemma urls_request_gid: "req_gid urls_request = 5"
  by code_simp

lemma quiet_keep: "callbacks_quiet keep_config"
  by (simp add: callbacks_quiet_def keep_config_def zero_config_def)

theorem departure_leaves_no_stations_witness:
  "fst (getSessionURLs demo_net_config 3 urls_request (RemovePlayer keep_config 10 demo_net)) = Some (sessionURLsResponse urls_request [])"
proof -
  have w: "gomap_wf (mm_gatherings (ep_world demo_net))" by (simp add: demo_net_def net_world_demo_sel)
  have g: "find_gathering (req_gid urls_request) demo_net = Some demo_gathering"
    by (simp add: find_gathering_def demo_net_def net_world_demo_sel urls_request_gid)
  have s: "g_OwnerPID (gt_session demo_gathering) = 10" "g_Flags (gt_session demo_gathering) AND 0x10 \<noteq> 0"
    "gt_participants demo_gathering = 10 # 20 # []" "(10 :: u64) \<noteq> 20" "mc_NotifierDeparts keep_config"
    by (simp_all add: demo_session_def keep_config_def)
  have c: "FindConnectionByID (gt_hostConnID demo_gathering) demo_net = None" "FindConnectionByPID 20 demo_net = Some 2"
    by (simp_all add: FindConnectionByID_def FindConnectionByPID_def demo_net_def demo_conn_def)
  from departure_leaves_no_stations [OF quiet_keep w _ g s(1,3,4,5,2) c] show ?thesis by simp
qed

theorem waiting_joiner_is_answered_witness:
  "nw_waiting (ep_world (answerSessionURLsWhenHostIsReady demo_net_config 0 demo_net)) = []"
proof -
  have "0 < length (nw_waiting (ep_world demo_net))" "nw_waiting (ep_world demo_net) ! 0 = (3, urls_request, 2, 0)" "0 \<le> ep_now demo_net"
    by (simp_all add: demo_net_def net_world_demo_sel)
  from waiting_joiner_is_answered [OF this refl, of demo_net_config] show ?thesis by (simp add: demo_net_def net_world_demo_sel)
qed

end
