(* ===== verification/Nex_Slice.thy ===== *)
theory Nex_Slice
  imports Nex_Prelude "HOL-Library.Multiset"
begin

section \<open>sort.Slice\<close>

text \<open>
  The rankings sort with \<open>sort.Slice\<close> and a comparison function.  The library promises a permutation in
  which no element is less than an earlier one, and nothing about elements the comparison does not
  separate.  \<open>sort_slice\<close> is an insertion sort that keeps this promise; the locale \<open>slice_order\<close> shows
  it for every strict weak order, and that on elements the order separates there is only one result:
  there the model's order is the program's, whatever the order the elements came in.
\<close>

fun insert_slice :: "('a \<Rightarrow> 'a \<Rightarrow> bool) \<Rightarrow> 'a \<Rightarrow> 'a list \<Rightarrow> 'a list" where
  "insert_slice lt x [] = [x]"
| "insert_slice lt x (y # ys) = (if lt y x then y # insert_slice lt x ys else x # y # ys)"

primrec sort_slice :: "('a \<Rightarrow> 'a \<Rightarrow> bool) \<Rightarrow> 'a list \<Rightarrow> 'a list" where
  "sort_slice lt [] = []"
| "sort_slice lt (x # xs) = insert_slice lt x (sort_slice lt xs)"

text \<open>What the library promises of its result, and when the comparison separates the elements.\<close>

definition slice_sorted :: "('a \<Rightarrow> 'a \<Rightarrow> bool) \<Rightarrow> 'a list \<Rightarrow> bool" where
  "slice_sorted lt = sorted_wrt (\<lambda>a b. \<not> lt b a)"

definition separates :: "('a \<Rightarrow> 'a \<Rightarrow> bool) \<Rightarrow> 'a set \<Rightarrow> bool" where
  "separates lt A \<longleftrightarrow> (\<forall>a \<in> A. \<forall>b \<in> A. a = b \<or> lt a b \<or> lt b a)"

lemma mset_insert_slice [simp]: "mset (insert_slice lt x xs) = add_mset x (mset xs)"
  by (induction xs) auto

lemma mset_sort_slice [simp]: "mset (sort_slice lt xs) = mset xs"
  by (induction xs) auto

lemma set_sort_slice [simp]: "set (sort_slice lt xs) = set xs"
  by (metis mset_sort_slice set_mset_mset)

lemma set_insert_slice [simp]: "set (insert_slice lt x xs) = insert x (set xs)"
  by (metis mset_insert_slice set_mset_add_mset_insert set_mset_mset)

lemma length_sort_slice [simp]: "length (sort_slice lt xs) = length xs"
  by (metis mset_sort_slice size_mset)

lemma distinct_sort_slice [simp]: "distinct (map f (sort_slice lt xs)) = distinct (map f xs)"
proof -
  have "mset (map f (sort_slice lt xs)) = mset (map f xs)" by simp
  then show ?thesis by (metis mset_eq_imp_distinct_iff)
qed

lemma slice_sorted_Cons [simp]: "slice_sorted lt (x # xs) \<longleftrightarrow> (\<forall>y \<in> set xs. \<not> lt y x) \<and> slice_sorted lt xs"
  by (simp add: slice_sorted_def)

lemma slice_sorted_Nil [simp]: "slice_sorted lt []"
  by (simp add: slice_sorted_def)

lemma separates_mono: "separates lt B \<Longrightarrow> A \<subseteq> B \<Longrightarrow> separates lt A"
  by (auto simp: separates_def)

locale slice_order =
  fixes lt :: "'a \<Rightarrow> 'a \<Rightarrow> bool"
  assumes asym: "lt a b \<Longrightarrow> \<not> lt b a"
    and cotrans: "lt a c \<Longrightarrow> lt a b \<or> lt b c"
begin

lemma trans: "lt a b \<Longrightarrow> lt b c \<Longrightarrow> lt a c"
  using asym cotrans by metis

lemma insert_sorted: "slice_sorted lt xs \<Longrightarrow> slice_sorted lt (insert_slice lt x xs)"
  by (induction xs) (auto dest: asym cotrans)

lemma sort_sorted: "slice_sorted lt (sort_slice lt xs)"
  by (induction xs) (simp_all add: insert_sorted)

text \<open>Two sorted lists with the same elements are the same list where the order separates them.\<close>

lemma sorted_unique:
  assumes "slice_sorted lt xs" "slice_sorted lt ys" "mset xs = mset ys" "separates lt (set xs)"
  shows "xs = ys"
  using assms
proof (induction xs arbitrary: ys)
  case (Cons x xs)
  obtain y zs where ys: "ys = y # zs" using Cons.prems(3) by (cases ys) auto
  have same: "set (x # xs) = set (y # zs)" using Cons.prems(3) ys by (metis set_mset_mset)
  have irrefl: "\<not> lt a a" for a using asym by blast
  have "y \<in> set (x # xs)" "x \<in> set (y # zs)" using same by auto
  then have "\<not> lt y x" "\<not> lt x y" using Cons.prems(1,2) ys irrefl by auto
  then have xy: "x = y" using Cons.prems(4) same unfolding separates_def by (metis list.set_intros(1))
  have "xs = zs"
    by (rule Cons.IH) (use Cons.prems ys xy in \<open>auto elim: separates_mono\<close>)
  then show ?case using ys xy by simp
qed simp

lemma strictly_sorted: "slice_sorted lt xs \<Longrightarrow> separates lt (set xs) \<Longrightarrow> distinct xs \<Longrightarrow> sorted_wrt lt xs"
  by (induction xs) (auto simp: separates_def)

lemma sort_unique:
  assumes "mset ys = mset xs" "slice_sorted lt ys" "separates lt (set xs)"
  shows "ys = sort_slice lt xs"
  using sorted_unique [OF sort_sorted assms(2), of xs] assms by simp

lemma sort_any_order:
  assumes "mset ys = mset xs" "separates lt (set xs)"
  shows "sort_slice lt ys = sort_slice lt xs"
  by (rule sort_unique) (use assms sort_sorted in auto)

text \<open>Cutting a sorted list keeps the elements in front: whoever is left out is not less than anyone kept.\<close>

lemma cut_keeps_first:
  assumes "slice_sorted lt xs" "a \<in> set (take n xs)" "b \<in> set (drop n xs)"
  shows "\<not> lt b a"
proof -
  have "slice_sorted lt (take n xs @ drop n xs)" using assms(1) by simp
  then show ?thesis using assms(2,3) unfolding slice_sorted_def sorted_wrt_append by blast
qed

end

subsection \<open>The first maximum\<close>

text \<open>What a store that keeps the best value holds: the first element no other exceeds.\<close>

definition first_max :: "('a \<Rightarrow> 'b::linorder) \<Rightarrow> 'a list \<Rightarrow> 'a option" where
  "first_max f es = find (\<lambda>e. list_all (\<lambda>d. f d \<le> f e) es) es"

lemma find_SomeD: "find P xs = Some x \<Longrightarrow> x \<in> set xs \<and> P x"
  unfolding find_Some_iff by (metis nth_mem)

lemma first_max_Some:
  assumes "first_max f es = Some e"
  shows "e \<in> set es" "d \<in> set es \<Longrightarrow> f d \<le> f e"
proof -
  from assms obtain i where i: "i < length es" "list_all (\<lambda>d. f d \<le> f (es ! i)) es" "e = es ! i"
    unfolding first_max_def find_Some_iff by blast
  then show "e \<in> set es" "d \<in> set es \<Longrightarrow> f d \<le> f e" by (simp_all add: list_all_iff)
qed

lemma first_max_None: "first_max f es = None \<Longrightarrow> es = []"
proof (rule ccontr)
  assume n: "first_max f es = None" and ne: "es \<noteq> []"
  have "Max (f ` set es) \<in> f ` set es" using ne by (intro Max_in) auto
  then obtain e where "e \<in> set es" "f e = Max (f ` set es)" by auto
  then show False using n ne by (auto simp: first_max_def find_None_iff list_all_iff)
qed

lemma find_snoc: "find P (es @ [e]) = (case find P es of None \<Rightarrow> find P [e] | Some x \<Rightarrow> Some x)"
  by (induction es) auto

lemma first_max_snoc:
  "first_max f (es @ [e]) = (case first_max f es of None \<Rightarrow> Some e | Some a \<Rightarrow> if f a \<ge> f e then Some a else Some e)"
proof (cases "first_max f es")
  case None
  then show ?thesis using first_max_None [OF None] by (simp add: first_max_def)
next
  case (Some a)
  note b = first_max_Some [OF Some]
  show ?thesis
  proof (cases "f a \<ge> f e")
    case True
    have same: "(\<lambda>x. list_all (\<lambda>d. f d \<le> f x) (es @ [e])) = (\<lambda>x. list_all (\<lambda>d. f d \<le> f x) es)"
      using b(1) True by (intro ext) (auto simp: list_all_iff)
    have "find (\<lambda>x. list_all (\<lambda>d. f d \<le> f x) (es @ [e])) es = Some a"
      unfolding same using Some by (simp add: first_max_def)
    then show ?thesis unfolding first_max_def find_snoc using Some True by (simp add: first_max_def)
  next
    case False
    have "find (\<lambda>x. list_all (\<lambda>d. f d \<le> f x) (es @ [e])) es = None"
      using False b(2) by (force simp: find_None_iff)
    moreover have "list_all (\<lambda>d. f d \<le> f e) (es @ [e])" using False b(2) by (force simp: list_all_iff)
    ultimately show ?thesis unfolding first_max_def find_snoc using Some False by (simp add: first_max_def)
  qed
qed

end
