(* ===== verification/Nex_Ranking2.thy ===== *)
theory Nex_Ranking2
  imports Nex_Rmc Nex_Slice
begin

section \<open>Ranking2: the rankings of the \<open>99\<close> titles (ranking2.go, ranking2\_scores.go)\<close>

text \<open>
  The structures of the protocol, the store of common data and best scores, and the handler.  The
  caller's PID and the settings of its connection are arguments.  The store's file is the record field
  \<open>r2_file\<close>: the scores that would be decoded from it, \<open>None\<close> when there is no readable file (JSON of a
  map of numbers decodes to the map that was written).  \<open>r2_env\<close> says whether a path is configured and
  whether the directory, the temporary file and the renaming succeed.
\<close>

definition ProtocolRanking2 :: u16 where "ProtocolRanking2 = 0x7A"
definition MethodRanking2PutScore :: u32 where "MethodRanking2PutScore = 1"
definition MethodRanking2GetCommonData :: u32 where "MethodRanking2GetCommonData = 2"
definition MethodRanking2PutCommonData :: u32 where "MethodRanking2PutCommonData = 3"
definition MethodRanking2DelCommonData :: u32 where "MethodRanking2DelCommonData = 4"
definition MethodRanking2GetRanking :: u32 where "MethodRanking2GetRanking = 5"
definition MethodRanking2GetRankingByPIDs :: u32 where "MethodRanking2GetRankingByPIDs = 6"
definition MethodRanking2GetCategorySetting :: u32 where "MethodRanking2GetCategorySetting = 7"
definition MethodRanking2GetEstimateMyRank :: u32 where "MethodRanking2GetEstimateMyRank = 11"
definition ranking2LowestRank :: u32 where "ranking2LowestRank = 10000"

lemmas ranking2_methods = MethodRanking2PutScore_def MethodRanking2GetCommonData_def MethodRanking2PutCommonData_def
  MethodRanking2DelCommonData_def MethodRanking2GetRanking_def MethodRanking2GetRankingByPIDs_def
  MethodRanking2GetCategorySetting_def MethodRanking2GetEstimateMyRank_def

subsection \<open>Structures\<close>

record category_setting =
  cs_MinScore :: u32
  cs_MaxScore :: u32
  cs_LowestRank :: u32
  cs_ResetMonth :: u16
  cs_ResetDay :: u8
  cs_ResetHour :: u8
  cs_ResetMode :: u8
  cs_MaxSeasonsToGoBack :: u8
  cs_ScoreOrder :: bool

definition Ranking2CategorySetting_levels :: "category_setting level list" where
  "Ranking2CategorySetting_levels = [\<lparr>lv_Version = 0,
     lv_Save = Some (\<lambda>s c. w_U32 (cs_MinScore c) @ w_U32 (cs_MaxScore c) @ w_U32 (cs_LowestRank c) @ w_U16 (cs_ResetMonth c) @
       w_U8 (cs_ResetDay c) @ w_U8 (cs_ResetHour c) @ w_U8 (cs_ResetMode c) @ w_U8 (cs_MaxSeasonsToGoBack c) @ w_Bool (cs_ScoreOrder c)),
     lv_Load = Some (\<lambda>s c. do { mi \<leftarrow> r_U32; ma \<leftarrow> r_U32; lr \<leftarrow> r_U32; rm \<leftarrow> r_U16; rd \<leftarrow> r_U8; rh \<leftarrow> r_U8; mo \<leftarrow> r_U8; ms \<leftarrow> r_U8;
       so \<leftarrow> r_Bool; State_Monad.return (c\<lparr>cs_MinScore := mi, cs_MaxScore := ma, cs_LowestRank := lr, cs_ResetMonth := rm,
         cs_ResetDay := rd, cs_ResetHour := rh, cs_ResetMode := mo, cs_MaxSeasonsToGoBack := ms, cs_ScoreOrder := so\<rparr>) })\<rparr>]"

record common_data =
  cd_UserName :: string
  cd_Mii :: bytes
  cd_BinaryData :: bytes

definition common_zero :: common_data where
  "common_zero = \<lparr>cd_UserName = [], cd_Mii = [], cd_BinaryData = []\<rparr>"

definition Ranking2CommonData_levels :: "common_data level list" where
  "Ranking2CommonData_levels = [\<lparr>lv_Version = 0,
     lv_Save = Some (\<lambda>s d. w_StringVideZero (cd_UserName d) @ w_QBuffer (cd_Mii d) @ w_QBuffer (cd_BinaryData d)),
     lv_Load = Some (\<lambda>s d. do { u \<leftarrow> r_String; m \<leftarrow> r_QBuffer; b \<leftarrow> r_QBuffer;
       State_Monad.return (d\<lparr>cd_UserName := u, cd_Mii := m, cd_BinaryData := b\<rparr>) })\<rparr>]"

record score_data =
  sd_Misc :: u64
  sd_Category :: u32
  sd_Score :: u32

definition score_zero :: score_data where
  "score_zero = \<lparr>sd_Misc = 0, sd_Category = 0, sd_Score = 0\<rparr>"

definition Ranking2ScoreData_levels :: "score_data level list" where
  "Ranking2ScoreData_levels = [\<lparr>lv_Version = 0,
     lv_Save = Some (\<lambda>s d. w_U64 (sd_Misc d) @ w_U32 (sd_Category d) @ w_U32 (sd_Score d)),
     lv_Load = Some (\<lambda>s d. do { m \<leftarrow> r_U64; c \<leftarrow> r_U32; v \<leftarrow> r_U32;
       State_Monad.return (d\<lparr>sd_Misc := m, sd_Category := c, sd_Score := v\<rparr>) })\<rparr>]"

record rank_data =
  rd_Misc :: u64
  rd_NexUniqueID :: u64
  rd_PrincipalID :: u64
  rd_Rank :: u32
  rd_Score :: u32
  rd_CommonData :: common_data

definition rank_zero :: rank_data where
  "rank_zero = \<lparr>rd_Misc = 0, rd_NexUniqueID = 0, rd_PrincipalID = 0, rd_Rank = 0, rd_Score = 0, rd_CommonData = common_zero\<rparr>"

definition Ranking2RankData_levels :: "rank_data level list" where
  "Ranking2RankData_levels = [\<lparr>lv_Version = 0,
     lv_Save = Some (\<lambda>s d. w_U64 (rd_Misc d) @ w_U64 (rd_NexUniqueID d) @ w_PID s (rd_PrincipalID d) @ w_U32 (rd_Rank d) @
       w_U32 (rd_Score d) @ WriteStructure s Ranking2CommonData_levels (rd_CommonData d)),
     lv_Load = Some (\<lambda>s d. do { m \<leftarrow> r_U64; u \<leftarrow> r_U64; p \<leftarrow> r_PID s; r \<leftarrow> r_U32; v \<leftarrow> r_U32;
       c \<leftarrow> ReadStructure s Ranking2CommonData_levels (rd_CommonData d);
       State_Monad.return (d\<lparr>rd_Misc := m, rd_NexUniqueID := u, rd_PrincipalID := p, rd_Rank := r, rd_Score := v, rd_CommonData := c\<rparr>) })\<rparr>]"

text \<open>The signed season is the word of the same bits.\<close>

record rank_info =
  ri_Data :: "rank_data list"
  ri_LowestRank :: u32
  ri_NumRankedIn :: u32
  ri_Season :: "32 word"

definition info_zero :: rank_info where
  "info_zero = \<lparr>ri_Data = [], ri_LowestRank = 0, ri_NumRankedIn = 0, ri_Season = 0\<rparr>"

definition Ranking2Info_levels :: "rank_info level list" where
  "Ranking2Info_levels = [\<lparr>lv_Version = 0,
     lv_Save = Some (\<lambda>s r. w_U32 (of_nat (length (ri_Data r))) @ concat (map (WriteStructure s Ranking2RankData_levels) (ri_Data r)) @
       w_U32 (ri_LowestRank r) @ w_U32 (ri_NumRankedIn r) @ w_U32 (ri_Season r)),
     lv_Load = Some (\<lambda>s r. do { n \<leftarrow> r_U32; d \<leftarrow> r_repeat (unat n) (ReadStructure s Ranking2RankData_levels rank_zero);
       l \<leftarrow> r_U32; k \<leftarrow> r_U32; e \<leftarrow> r_S32;
       State_Monad.return (r\<lparr>ri_Data := d, ri_LowestRank := l, ri_NumRankedIn := k, ri_Season := e\<rparr>) })\<rparr>]"

record get_param =
  gp_NexUniqueID :: u64
  gp_PrincipalID :: u64
  gp_Category :: u32
  gp_Offset :: u32
  gp_Length :: u32
  gp_SortFlags :: u32
  gp_OptionFlags :: u32
  gp_Mode :: u8
  gp_NumSeasonsToGoBack :: u8

definition get_param_zero :: get_param where
  "get_param_zero = \<lparr>gp_NexUniqueID = 0, gp_PrincipalID = 0, gp_Category = 0, gp_Offset = 0, gp_Length = 0, gp_SortFlags = 0,
     gp_OptionFlags = 0, gp_Mode = 0, gp_NumSeasonsToGoBack = 0\<rparr>"

definition Ranking2GetParam_levels :: "get_param level list" where
  "Ranking2GetParam_levels = [\<lparr>lv_Version = 0,
     lv_Save = Some (\<lambda>s p. w_U64 (gp_NexUniqueID p) @ w_PID s (gp_PrincipalID p) @ w_U32 (gp_Category p) @ w_U32 (gp_Offset p) @
       w_U32 (gp_Length p) @ w_U32 (gp_SortFlags p) @ w_U32 (gp_OptionFlags p) @ w_U8 (gp_Mode p) @ w_U8 (gp_NumSeasonsToGoBack p)),
     lv_Load = Some (\<lambda>s p. do { u \<leftarrow> r_U64; i \<leftarrow> r_PID s; c \<leftarrow> r_U32; off \<leftarrow> r_U32; le \<leftarrow> r_U32; sf \<leftarrow> r_U32; op \<leftarrow> r_U32; mo \<leftarrow> r_U8; ns \<leftarrow> r_U8;
       State_Monad.return (p\<lparr>gp_NexUniqueID := u, gp_PrincipalID := i, gp_Category := c, gp_Offset := off, gp_Length := le,
         gp_SortFlags := sf, gp_OptionFlags := op, gp_Mode := mo, gp_NumSeasonsToGoBack := ns\<rparr>) })\<rparr>]"

record get_list_param =
  lp_Category :: u32
  lp_Offset :: u32
  lp_Length :: u32
  lp_SortFlags :: u32
  lp_OptionFlags :: u32
  lp_NumSeasonsToGoBack :: u8

definition list_param_zero :: get_list_param where
  "list_param_zero = \<lparr>lp_Category = 0, lp_Offset = 0, lp_Length = 0, lp_SortFlags = 0, lp_OptionFlags = 0, lp_NumSeasonsToGoBack = 0\<rparr>"

definition Ranking2GetByListParam_levels :: "get_list_param level list" where
  "Ranking2GetByListParam_levels = [\<lparr>lv_Version = 0,
     lv_Save = Some (\<lambda>s p. w_U32 (lp_Category p) @ w_U32 (lp_Offset p) @ w_U32 (lp_Length p) @ w_U32 (lp_SortFlags p) @
       w_U32 (lp_OptionFlags p) @ w_U8 (lp_NumSeasonsToGoBack p)),
     lv_Load = Some (\<lambda>s p. do { c \<leftarrow> r_U32; off \<leftarrow> r_U32; le \<leftarrow> r_U32; sf \<leftarrow> r_U32; op \<leftarrow> r_U32; ns \<leftarrow> r_U8;
       State_Monad.return (p\<lparr>lp_Category := c, lp_Offset := off, lp_Length := le, lp_SortFlags := sf, lp_OptionFlags := op,
         lp_NumSeasonsToGoBack := ns\<rparr>) })\<rparr>]"

record estimate_output =
  eo_Rank :: u32
  eo_Length :: u32
  eo_Score :: u32
  eo_Category :: u32
  eo_Season :: "32 word"
  eo_SamplingRate :: u8

definition Ranking2EstimateScoreRankOutput_levels :: "estimate_output level list" where
  "Ranking2EstimateScoreRankOutput_levels = [\<lparr>lv_Version = 0,
     lv_Save = Some (\<lambda>s o2. w_U32 (eo_Rank o2) @ w_U32 (eo_Length o2) @ w_U32 (eo_Score o2) @ w_U32 (eo_Category o2) @
       w_U32 (eo_Season o2) @ w_U8 (eo_SamplingRate o2)),
     lv_Load = Some (\<lambda>s o2. do { r \<leftarrow> r_U32; l \<leftarrow> r_U32; v \<leftarrow> r_U32; c \<leftarrow> r_U32; e \<leftarrow> r_S32; a \<leftarrow> r_U8;
       State_Monad.return (o2\<lparr>eo_Rank := r, eo_Length := l, eo_Score := v, eo_Category := c, eo_Season := e, eo_SamplingRate := a\<rparr>) })\<rparr>]"

subsection \<open>The store\<close>

record entree_classement =
  ec_PID :: u64
  ec_NexUniqueID :: u64
  ec_Misc :: u64
  ec_Score :: u32

type_synonym categorie = "(u64, entree_classement) gomap"

record ranking2_store =
  r2_communs :: "(u64, bytes) gomap"
  r2_scores :: "(u32, categorie) gomap"
  r2_modifie :: bool
  r2_file :: "((u32, categorie) gomap) option"

record r2_env =
  re_chemin :: bool
  re_writes :: bool

definition scores_of :: "u32 \<Rightarrow> ranking2_store \<Rightarrow> categorie" where
  "scores_of cat r = (case map_of (r2_scores r) cat of None \<Rightarrow> [] | Some m \<Rightarrow> m)"

definition deposer :: "u32 \<Rightarrow> entree_classement \<Rightarrow> ranking2_store \<Rightarrow> bool \<times> ranking2_store" where
  "deposer categorie e r =
     (let cat = scores_of categorie r;
          r1 = (if map_of (r2_scores r) categorie = None then r\<lparr>r2_scores := AList.update categorie [] (r2_scores r)\<rparr> else r)
      in if (case map_of cat (ec_PID e) of None \<Rightarrow> False | Some ancien \<Rightarrow> ec_Score ancien \<ge> ec_Score e) then (False, r1)
         else (True, r1\<lparr>r2_scores := AList.update categorie (AList.update (ec_PID e) e cat) (r2_scores r1), r2_modifie := True\<rparr>))"

definition entree_less :: "entree_classement \<Rightarrow> entree_classement \<Rightarrow> bool" where
  "entree_less a b \<longleftrightarrow> (if ec_Score a \<noteq> ec_Score b then ec_Score a > ec_Score b else ec_PID a < ec_PID b)"

definition classement :: "u32 \<Rightarrow> ranking2_store \<Rightarrow> entree_classement list" where
  "classement categorie r = sort_slice entree_less (map snd (scores_of categorie r))"

definition donneesCommunes :: "settings \<Rightarrow> u64 \<Rightarrow> ranking2_store \<Rightarrow> common_data" where
  "donneesCommunes s pid r =
     (case map_of (r2_communs r) pid of None \<Rightarrow> common_zero | Some brut \<Rightarrow>
        if brut = [] then common_zero
        else case run_state (ReadStructure s Ranking2CommonData_levels common_zero) (NewStreamIn brut) of
          (d, st) \<Rightarrow> if Err st \<noteq> None then common_zero else d)"

definition Charger :: "r2_env \<Rightarrow> ranking2_store \<Rightarrow> ranking2_store" where
  "Charger env r = (if \<not> re_chemin env then r else case r2_file r of None \<Rightarrow> r | Some m \<Rightarrow> r\<lparr>r2_scores := m\<rparr>)"

definition Ecrire :: "r2_env \<Rightarrow> ranking2_store \<Rightarrow> ranking2_store" where
  "Ecrire env r = (if \<not> re_chemin env \<or> \<not> r2_modifie r then r
     else r\<lparr>r2_modifie := False, r2_file := (if re_writes env then Some (r2_scores r) else r2_file r)\<rparr>)"

definition NewRanking2Store :: "r2_env \<Rightarrow> ((u32, categorie) gomap) option \<Rightarrow> ranking2_store" where
  "NewRanking2Store env file = Charger env \<lparr>r2_communs = [], r2_scores = [], r2_modifie = False, r2_file = file\<rparr>"

subsection \<open>The handler\<close>

definition reply2 :: "rmc_message \<Rightarrow> bytes \<Rightarrow> rmc_message" where
  "reply2 req body = NewRMCSuccess ProtocolRanking2 (rm_Method req) (rm_CallID req) body"

fun deposer_tous :: "u64 \<Rightarrow> u64 \<Rightarrow> score_data list \<Rightarrow> ranking2_store \<Rightarrow> ranking2_store" where
  "deposer_tous pid uid [] r = r"
| "deposer_tous pid uid (sd # sds) r = deposer_tous pid uid sds
     (snd (deposer (sd_Category sd) \<lparr>ec_PID = pid, ec_NexUniqueID = uid, ec_Misc = sd_Misc sd, ec_Score = sd_Score sd\<rparr> r))"

definition put_score_reader :: "settings \<Rightarrow> nat \<Rightarrow> (score_data list \<times> u64) reader" where
  "put_score_reader s n = do {
     scores \<leftarrow> r_repeat n (ReadStructure s Ranking2ScoreData_levels score_zero);
     st \<leftarrow> State_Monad.get;
     uid \<leftarrow> (if Remaining st \<ge> 8 then r_U64 else State_Monad.return 0);
     State_Monad.return (scores, uid) }"

definition putScore :: "r2_env \<Rightarrow> settings \<Rightarrow> u64 \<Rightarrow> rmc_message \<Rightarrow> ranking2_store \<Rightarrow> rmc_message \<times> ranking2_store" where
  "putScore env s pid req r =
     (let (n, st) = run_state r_U32 (NewStreamIn (rm_Body req)) in
      if n > 256 then (reply2 req [], r)
      else let ((scores, uid), st') = run_state (put_score_reader s (unat n)) st in
        if Err st' \<noteq> None then (reply2 req [], r)
        else (reply2 req [], Ecrire env (deposer_tous pid uid scores r)))"

definition putCommonData :: "u64 \<Rightarrow> rmc_message \<Rightarrow> ranking2_store \<Rightarrow> rmc_message \<times> ranking2_store" where
  "putCommonData pid req r = (reply2 req [], r\<lparr>r2_communs := AList.update pid (rm_Body req) (r2_communs r)\<rparr>)"

definition getCommonData :: "settings \<Rightarrow> u64 \<Rightarrow> rmc_message \<Rightarrow> ranking2_store \<Rightarrow> rmc_message" where
  "getCommonData s pid req r =
     (let (cible, st) = run_state (do { _ \<leftarrow> r_U32; r_PID s }) (NewStreamIn (rm_Body req));
          cible' = (if Err st \<noteq> None \<or> cible = 0 then pid else cible)
      in reply2 req (WriteStructure s Ranking2CommonData_levels (donneesCommunes s cible' r)))"

definition delCommonData :: "u64 \<Rightarrow> rmc_message \<Rightarrow> ranking2_store \<Rightarrow> rmc_message \<times> ranking2_store" where
  "delCommonData pid req r = (reply2 req [], r\<lparr>r2_communs := AList.delete pid (r2_communs r)\<rparr>)"

text \<open>The line of the ranking for the entry at index \<open>idx\<close> of the sorted category.\<close>

definition rank_line :: "settings \<Rightarrow> ranking2_store \<Rightarrow> nat \<Rightarrow> entree_classement \<Rightarrow> rank_data" where
  "rank_line s r idx e = \<lparr>rd_Misc = ec_Misc e, rd_NexUniqueID = ec_NexUniqueID e, rd_PrincipalID = ec_PID e,
     rd_Rank = of_nat (idx + 1), rd_Score = ec_Score e, rd_CommonData = donneesCommunes s (ec_PID e) r\<rparr>"

definition ranking_info :: "nat \<Rightarrow> rank_data list \<Rightarrow> rank_info" where
  "ranking_info n d = \<lparr>ri_Data = d, ri_LowestRank = ranking2LowestRank, ri_NumRankedIn = of_nat n, ri_Season = 0\<rparr>"

definition page_window :: "get_param \<Rightarrow> nat \<Rightarrow> nat \<times> nat" where
  "page_window p n =
     (let debut = min (unat (gp_Offset p)) n;
          fin = (if gp_Length p > 0 \<and> debut + unat (gp_Length p) < n then debut + unat (gp_Length p) else n)
      in (debut, fin))"

definition getRanking :: "settings \<Rightarrow> rmc_message \<Rightarrow> ranking2_store \<Rightarrow> rmc_message" where
  "getRanking s req r =
     (let p = fst (run_state (ReadStructure s Ranking2GetParam_levels get_param_zero) (NewStreamIn (rm_Body req)));
          tous = classement (gp_Category p) r;
          (debut, fin) = page_window p (length tous)
      in reply2 req (WriteStructure s Ranking2Info_levels
           (ranking_info (length tous) (map (\<lambda>idx. rank_line s r idx (tous ! idx)) [debut..<fin]))))"

definition getRankingByPIDs :: "settings \<Rightarrow> rmc_message \<Rightarrow> ranking2_store \<Rightarrow> rmc_message" where
  "getRankingByPIDs s req r =
     (let (p, st) = run_state (ReadStructure s Ranking2GetByListParam_levels list_param_zero) (NewStreamIn (rm_Body req));
          (n0, st1) = run_state r_U32 st; n = (if n0 > 1024 then 0 else n0);
          (pids, st2) = run_state (r_repeat (unat n) (r_PID s)) st1;
          voulus = (if Err st2 \<noteq> None then [] else pids);
          tous = classement (lp_Category p) r
      in reply2 req (WriteStructure s Ranking2Info_levels
           (ranking_info (length tous) (map (\<lambda>(idx, e). rank_line s r idx e)
              (filter (\<lambda>(idx, e). ec_PID e \<in> set voulus) (enumerate 0 tous))))))"

definition getEstimateMyRank :: "settings \<Rightarrow> u64 \<Rightarrow> rmc_message \<Rightarrow> ranking2_store \<Rightarrow> rmc_message" where
  "getEstimateMyRank s pid req r =
     (let cat = fst (run_state r_U32 (NewStreamIn (rm_Body req))); tous = classement cat r;
          (rang, score) = (case find (\<lambda>(idx, e). ec_PID e = pid) (enumerate 0 tous) of
             None \<Rightarrow> (of_nat (length tous + 1), 0) | Some (idx, e) \<Rightarrow> (of_nat (idx + 1), ec_Score e))
      in reply2 req (WriteStructure s Ranking2EstimateScoreRankOutput_levels
           \<lparr>eo_Rank = rang, eo_Length = of_nat (length tous), eo_Score = score, eo_Category = cat, eo_Season = 0, eo_SamplingRate = 1\<rparr>))"

definition getCategorySetting :: "settings \<Rightarrow> rmc_message \<Rightarrow> rmc_message" where
  "getCategorySetting s req = reply2 req (WriteStructure s Ranking2CategorySetting_levels
     \<lparr>cs_MinScore = 0, cs_MaxScore = 999999999, cs_LowestRank = ranking2LowestRank, cs_ResetMonth = 4095, cs_ResetDay = 0,
       cs_ResetHour = 0, cs_ResetMode = 0, cs_MaxSeasonsToGoBack = 0, cs_ScoreOrder = True\<rparr>)"

definition Ranking2Handler :: "r2_env \<Rightarrow> settings \<Rightarrow> u64 \<Rightarrow> rmc_message \<Rightarrow> ranking2_store \<Rightarrow> rmc_message \<times> ranking2_store" where
  "Ranking2Handler env s pid req r =
     (if rm_Method req = MethodRanking2PutScore then putScore env s pid req r
      else if rm_Method req = MethodRanking2PutCommonData then putCommonData pid req r
      else if rm_Method req = MethodRanking2GetCommonData then (getCommonData s pid req r, r)
      else if rm_Method req = MethodRanking2DelCommonData then delCommonData pid req r
      else if rm_Method req = MethodRanking2GetRanking then (getRanking s req r, r)
      else if rm_Method req = MethodRanking2GetRankingByPIDs then (getRankingByPIDs s req r, r)
      else if rm_Method req = MethodRanking2GetEstimateMyRank then (getEstimateMyRank s pid req r, r)
      else if rm_Method req = MethodRanking2GetCategorySetting then (getCategorySetting s req, r)
      else (notImplemented ProtocolRanking2 req, r))"

end
