(* ===== verification/Nex_Ranking2_Props.thy ===== *)
theory Nex_Ranking2_Props
  imports Nex_Ranking2
begin

section \<open>Properties of Ranking2\<close>

text \<open>
  The order of the rankings is a strict weak order that separates the entries of a category, so the
  interpretation of \<open>slice_order\<close> makes every ranking independent of the map's order.  The store is
  refined from a list of deposits: what it holds of a player is the first of his best deposits.
  The rest is the wire format of a page of the ranking and the file.
\<close>

interpretation entree_order: slice_order entree_less
  by unfold_locales (auto simp: entree_less_def split: if_splits)

subsection \<open>The invariant of the store\<close>

definition categorie_ok :: "categorie \<Rightarrow> bool" where
  "categorie_ok m \<longleftrightarrow> gomap_wf m \<and> (\<forall>(pid, e) \<in> set m. ec_PID e = pid)"

definition scores_ok :: "(u32, categorie) gomap \<Rightarrow> bool" where
  "scores_ok sc \<longleftrightarrow> gomap_wf sc \<and> (\<forall>(c, m) \<in> set sc. categorie_ok m)"

lemma scores_ok_Nil [simp]: "scores_ok []" by (simp add: scores_ok_def)

lemma categorie_ok_Nil [simp]: "categorie_ok []" by (simp add: categorie_ok_def)

lemma scores_ok_of: "scores_ok (r2_scores r) \<Longrightarrow> categorie_ok (scores_of c r)"
  by (auto simp: scores_ok_def scores_of_def split: option.split)

lemma categorie_ok_update: "categorie_ok m \<Longrightarrow> categorie_ok (AList.update (ec_PID e) e m)"
  by (auto simp: categorie_ok_def set_update)

lemma scores_ok_update: "scores_ok sc \<Longrightarrow> categorie_ok m \<Longrightarrow> scores_ok (AList.update c m sc)"
  by (auto simp: scores_ok_def set_update)

lemma scores_of_update [simp]:
  "scores_of c (r\<lparr>r2_scores := AList.update k m (r2_scores r)\<rparr>) = (if c = k then m else scores_of c r)"
  by (simp add: scores_of_def)

lemma scores_of_more [simp]:
  "scores_of c (r\<lparr>r2_modifie := b\<rparr>) = scores_of c r" "scores_of c (r\<lparr>r2_communs := cm\<rparr>) = scores_of c r"
  "scores_of c (r\<lparr>r2_file := f\<rparr>) = scores_of c r"
  by (simp_all add: scores_of_def)

lemma deposer_ok: "scores_ok (r2_scores r) \<Longrightarrow> scores_ok (r2_scores (snd (deposer c e r)))"
  using scores_ok_of [of r c]
  by (auto simp: deposer_def Let_def intro!: scores_ok_update categorie_ok_update split: option.split)

subsection \<open>Deposits\<close>

text \<open>The abstract store: what was deposited, in order.  The best of a player's deposits is the first one that
  no other exceeds.\<close>

type_synonym depot = "u32 \<times> entree_classement"

definition best :: "entree_classement list \<Rightarrow> entree_classement option" where
  "best es = first_max ec_Score es"

definition depots_of :: "u32 \<Rightarrow> u64 \<Rightarrow> depot list \<Rightarrow> entree_classement list" where
  "depots_of c pid ds = map snd (filter (\<lambda>(k, e). k = c \<and> ec_PID e = pid) ds)"

lemma depots_of_append [simp]: "depots_of c pid (ds @ es) = depots_of c pid ds @ depots_of c pid es"
  by (simp add: depots_of_def)

text \<open>The refinement: each player's entry in each category is the best of his deposits there.\<close>

definition refines :: "ranking2_store \<Rightarrow> depot list \<Rightarrow> bool" where
  "refines r ds \<longleftrightarrow> scores_ok (r2_scores r) \<and> (\<forall>c pid. map_of (scores_of c r) pid = best (depots_of c pid ds))"

lemma deposer_lookup:
  "map_of (scores_of k (snd (deposer c e r))) pid =
     (if k = c \<and> pid = ec_PID e \<and> (case map_of (scores_of c r) pid of None \<Rightarrow> True | Some a \<Rightarrow> ec_Score a < ec_Score e)
      then Some e else map_of (scores_of k r) pid)"
proof -
  have new: "scores_of k (r\<lparr>r2_scores := AList.update c [] (r2_scores r)\<rparr>) = scores_of k r" if "map_of (r2_scores r) c = None"
    using that by (simp add: scores_of_def)
  have none: "map_of (r2_scores r) c = None \<Longrightarrow> scores_of c r = []" by (simp add: scores_of_def)
  show ?thesis by (auto simp: deposer_def Let_def new none split: option.split)
qed

lemma deposer_refines: "refines r ds \<Longrightarrow> refines (snd (deposer c e r)) (ds @ [(c, e)])"
  unfolding refines_def deposer_lookup
  by (auto simp: deposer_ok depots_of_def best_def first_max_snoc split: option.split)

definition depots_lus :: "u64 \<Rightarrow> u64 \<Rightarrow> score_data list \<Rightarrow> depot list" where
  "depots_lus pid uid sds = map (\<lambda>sd. (sd_Category sd,
     \<lparr>ec_PID = pid, ec_NexUniqueID = uid, ec_Misc = sd_Misc sd, ec_Score = sd_Score sd\<rparr>)) sds"

lemma deposer_tous_refines: "refines r ds \<Longrightarrow> refines (deposer_tous pid uid sds r) (ds @ depots_lus pid uid sds)"
proof (induction sds arbitrary: r ds)
  case (Cons sd sds)
  from Cons.IH [OF deposer_refines [OF Cons.prems]] show ?case by (simp add: depots_lus_def)
qed (simp add: depots_lus_def)

lemma Ecrire_scores [simp]: "r2_scores (Ecrire env r) = r2_scores r" "scores_of c (Ecrire env r) = scores_of c r"
  "r2_communs (Ecrire env r) = r2_communs r"
  by (simp_all add: Ecrire_def scores_of_def)

lemma refines_scores: "r2_scores r' = r2_scores r \<Longrightarrow> refines r' ds = refines r ds"
  by (simp add: refines_def scores_of_def)

text \<open>What one request deposits.\<close>

definition depots_req :: "settings \<Rightarrow> u64 \<times> rmc_message \<Rightarrow> depot list" where
  "depots_req s ev = (let (pid, req) = ev in
     if rm_Method req \<noteq> MethodRanking2PutScore then []
     else let (n, st) = run_state r_U32 (NewStreamIn (rm_Body req)) in
       if n > 256 then []
       else let ((scores, uid), st') = run_state (put_score_reader s (unat n)) st in
         if Err st' \<noteq> None then [] else depots_lus pid uid scores)"

lemma handler_refines:
  assumes "refines r ds"
  shows "refines (snd (Ranking2Handler env s pid req r)) (ds @ depots_req s (pid, req))"
proof (cases "rm_Method req = MethodRanking2PutScore")
  case True
  then show ?thesis
    using assms by (auto simp: Ranking2Handler_def putScore_def depots_req_def Let_def refines_scores [of "Ecrire _ _"]
        deposer_tous_refines split: prod.split)
next
  case False
  have "r2_scores (snd (Ranking2Handler env s pid req r)) = r2_scores r"
    using False by (simp add: Ranking2Handler_def putCommonData_def delCommonData_def)
  from refines_scores [OF this] show ?thesis using False assms by (simp add: depots_req_def)
qed

definition serve2 :: "r2_env \<Rightarrow> settings \<Rightarrow> u64 \<times> rmc_message \<Rightarrow> ranking2_store \<Rightarrow> ranking2_store" where
  "serve2 env s ev r = snd (Ranking2Handler env s (fst ev) (snd ev) r)"

lemma serve_refines: "refines r ds \<Longrightarrow> refines (fold (serve2 env s) evs r) (ds @ concat (map (depots_req s) evs))"
proof (induction evs arbitrary: r ds)
  case (Cons ev evs)
  from Cons.IH [OF handler_refines [OF Cons.prems, of env s "fst ev" "snd ev"]] show ?case by (simp add: serve2_def)
qed simp

lemma refines_empty: "refines (NewRanking2Store env None) []"
  by (simp add: refines_def NewRanking2Store_def Charger_def scores_of_def depots_of_def best_def first_max_def)

subsection \<open>The ranking\<close>

lemma categorie_separates:
  assumes "categorie_ok m"
  shows "separates entree_less (snd ` set m)" "distinct (map (ec_PID \<circ> snd) m)"
proof -
  have "map (ec_PID \<circ> snd) m = map fst m" using assms by (auto simp: categorie_ok_def)
  moreover have "distinct (map fst m)" using assms by (simp add: categorie_ok_def gomap_wf_def)
  ultimately show d: "distinct (map (ec_PID \<circ> snd) m)" by (simp only:)
  have "a = b \<or> entree_less a b \<or> entree_less b a" if "a \<in> snd ` set m" "b \<in> snd ` set m" for a b
  proof (cases "ec_PID a = ec_PID b")
    case True
    from that obtain p q where "p \<in> set m" "q \<in> set m" "a = snd p" "b = snd q" by blast
    then have "a = b" using d True by (auto simp: distinct_map inj_on_def)
    then show ?thesis by simp
  next
    case False
    then show ?thesis by (auto simp: entree_less_def)
  qed
  then show "separates entree_less (snd ` set m)" by (auto simp: separates_def)
qed

lemma classement_set: "e \<in> set (classement c r) \<longleftrightarrow> e \<in> snd ` set (scores_of c r)"
  by (simp add: classement_def)

lemma classement_entry:
  assumes "categorie_ok (scores_of c r)"
  shows "e \<in> set (classement c r) \<longleftrightarrow> map_of (scores_of c r) (ec_PID e) = Some e"
  using assms by (force simp: classement_set categorie_ok_def)

lemma classement_any_order:
  assumes "categorie_ok (scores_of c r)" "mset (scores_of c r') = mset (scores_of c r)"
  shows "classement c r' = classement c r"
  unfolding classement_def
proof (rule entree_order.sort_any_order)
  show "mset (map snd (scores_of c r')) = mset (map snd (scores_of c r))" using assms(2) by simp
  show "separates entree_less (set (map snd (scores_of c r)))" using categorie_separates [OF assms(1)] by simp
qed

lemma classement_distinct: "categorie_ok (scores_of c r) \<Longrightarrow> distinct (map ec_PID (classement c r))"
  using categorie_separates(2) by (simp add: classement_def)


lemma classement_strict:
  assumes "categorie_ok (scores_of c r)"
  shows "sorted_wrt entree_less (classement c r)"
proof (rule entree_order.strictly_sorted)
  show "slice_sorted entree_less (classement c r)" unfolding classement_def by (rule entree_order.sort_sorted)
  show "separates entree_less (set (classement c r))" using categorie_separates(1) [OF assms] by (simp add: classement_def)
  show "distinct (classement c r)" using classement_distinct [OF assms] by (simp add: distinct_map)
qed

lemma entree_less_alt: "entree_less a b \<longleftrightarrow> ec_Score b < ec_Score a \<or> ec_Score a = ec_Score b \<and> ec_PID a < ec_PID b"
  by (auto simp: entree_less_def)

text \<open>C26: A ranking shows exactly every player's best deposit.  Whatever requests the handler serves, from any players in
  any order, a category of the ranking contains an entry exactly when it is the best of what that player deposited
  in that category (the first of his deposits that none of his others exceeds); the entries are strictly ordered by
  score, equal scores by PID, so nobody appears twice and the result does not depend on the order of the maps.\<close>

theorem leaderboard_shows_best_deposits:
  fixes env :: r2_env and s :: settings and evs :: "(u64 \<times> rmc_message) list" and c :: u32
  defines "r \<equiv> fold (serve2 env s) evs (NewRanking2Store env None)" and "ds \<equiv> concat (map (depots_req s) evs)"
  shows "(e \<in> set (classement c r) \<longleftrightarrow> best (depots_of c (ec_PID e) ds) = Some e) \<and>
    sorted_wrt (\<lambda>a b. ec_Score b < ec_Score a \<or> ec_Score a = ec_Score b \<and> ec_PID a < ec_PID b) (classement c r) \<and>
    distinct (map ec_PID (classement c r))"
proof -
  have ref: "refines r ds" using serve_refines [OF refines_empty, of env s evs] by (simp add: r_def ds_def)
  then have ok: "categorie_ok (scores_of c r)" by (simp add: refines_def scores_ok_of)
  have "e \<in> set (classement c r) \<longleftrightarrow> best (depots_of c (ec_PID e) ds) = Some e"
    using ref unfolding classement_entry [OF ok] refines_def by simp
  then show ?thesis using classement_strict [OF ok] classement_distinct [OF ok] by (simp add: entree_less_alt [abs_def])
qed

subsection \<open>The file\<close>

definition in_file :: "ranking2_store \<Rightarrow> bool" where
  "in_file r \<longleftrightarrow> r2_scores r = (case r2_file r of None \<Rightarrow> [] | Some m \<Rightarrow> m)"

lemma deposer_modifie: "snd (deposer c e r) = r \<or> r2_modifie (snd (deposer c e r))"
  by (auto simp: deposer_def Let_def scores_of_def split: option.split)

lemma deposer_file [simp]: "r2_file (snd (deposer c e r)) = r2_file r"
  by (simp add: deposer_def Let_def)

lemma deposer_tous_file [simp]: "r2_file (deposer_tous pid uid sds r) = r2_file r"
  by (induction sds arbitrary: r) simp_all

lemma deposer_keeps_modifie: "r2_modifie r \<Longrightarrow> r2_modifie (snd (deposer c e r))"
  by (simp add: deposer_def Let_def)

lemma deposer_tous_modifie: "deposer_tous pid uid sds r = r \<or> r2_modifie (deposer_tous pid uid sds r)"
proof (induction sds arbitrary: r)
  case (Cons sd sds)
  have keep: "r2_modifie q \<Longrightarrow> r2_modifie (deposer_tous pid uid sds q)" for q
    using Cons.IH [of q] by auto
  show ?case using Cons.IH [of r] deposer_modifie keep by (metis deposer_tous.simps(2))
qed simp

lemma putScore_in_file:
  assumes "re_chemin env" "re_writes env" "in_file r" "\<not> r2_modifie r"
  shows "in_file (snd (putScore env s pid req r)) \<and> \<not> r2_modifie (snd (putScore env s pid req r))"
proof -
  have "in_file (Ecrire env (deposer_tous pid uid sds r)) \<and> \<not> r2_modifie (Ecrire env (deposer_tous pid uid sds r))" for uid sds
    using deposer_tous_modifie [of pid uid sds r] assms by (auto simp: Ecrire_def in_file_def)
  then show ?thesis using assms by (auto simp: putScore_def Let_def split: prod.split)
qed

lemma serve_in_file:
  assumes "re_chemin env" "re_writes env" "in_file r" "\<not> r2_modifie r"
  shows "in_file (serve2 env s ev r) \<and> \<not> r2_modifie (serve2 env s ev r)"
proof (cases "rm_Method (snd ev) = MethodRanking2PutScore")
  case True
  then show ?thesis using putScore_in_file [OF assms] by (simp add: serve2_def Ranking2Handler_def)
next
  case False
  then show ?thesis using assms by (simp add: serve2_def Ranking2Handler_def putCommonData_def delCommonData_def in_file_def)
qed

lemma fold_in_file:
  assumes "re_chemin env" "re_writes env"
  shows "in_file r \<Longrightarrow> \<not> r2_modifie r \<Longrightarrow> in_file (fold (serve2 env s) evs r) \<and> \<not> r2_modifie (fold (serve2 env s) evs r)"
proof (induction evs arbitrary: r)
  case (Cons ev evs)
  from serve_in_file [OF assms Cons.prems, of s ev] show ?case by (simp add: Cons.IH)
qed simp

text \<open>C40: The rankings survive a restart as long as their file can be written: a store started on a file and then serving any
  requests, when started again on the file it has left, shows every ranking unchanged.  When a write fails, the
  scores it should have saved are not written by any later request that changes nothing, because the mark of a change was
  cleared before writing.\<close>

theorem rankings_survive_a_restart:
  assumes "re_chemin env" "re_writes env"
  shows "r2_scores (NewRanking2Store env (r2_file (fold (serve2 env s) evs (NewRanking2Store env f)))) =
      r2_scores (fold (serve2 env s) evs (NewRanking2Store env f)) \<and>
    r2_file (Ecrire env (Ecrire (env\<lparr>re_writes := False\<rparr>) r)) = r2_file r"
proof -
  have "in_file (NewRanking2Store env f) \<and> \<not> r2_modifie (NewRanking2Store env f)"
    using assms(1) by (simp add: NewRanking2Store_def Charger_def in_file_def split: option.split)
  then have "in_file (fold (serve2 env s) evs (NewRanking2Store env f))" using fold_in_file [OF assms] by blast
  then show ?thesis using assms by (simp add: in_file_def NewRanking2Store_def Charger_def Ecrire_def split: option.splits)
qed

definition writing_env :: r2_env where "writing_env = \<lparr>re_chemin = True, re_writes = True\<rparr>"

definition put_request :: "bytes \<Rightarrow> rmc_message" where
  "put_request body = NewRMCRequest ProtocolRanking2 MethodRanking2PutScore 1 body"

theorem rankings_survive_a_restart_witness:
  "\<exists>r. r = fold (serve2 writing_env (NewSwitchSettings [] 40000))
       [(7, put_request (WriteList (WriteStructure (NewSwitchSettings [] 40000) Ranking2ScoreData_levels)
            [\<lparr>sd_Misc = 5, sd_Category = 2, sd_Score = 90\<rparr>] @ w_U64 3))] (NewRanking2Store writing_env None) \<and>
     r2_scores (NewRanking2Store writing_env (r2_file r)) = r2_scores r \<and>
     r2_scores r = [(2, [(7, \<lparr>ec_PID = 7, ec_NexUniqueID = 3, ec_Misc = 5, ec_Score = 90\<rparr>)])]"
proof -
  have "r2_scores (fold (serve2 writing_env (NewSwitchSettings [] 40000))
       [(7, put_request (WriteList (WriteStructure (NewSwitchSettings [] 40000) Ranking2ScoreData_levels)
            [\<lparr>sd_Misc = 5, sd_Category = 2, sd_Score = 90\<rparr>] @ w_U64 3))] (NewRanking2Store writing_env None)) =
     [(2, [(7, \<lparr>ec_PID = 7, ec_NexUniqueID = 3, ec_Misc = 5, ec_Score = 90\<rparr>)])]"
    by code_simp
  moreover have "re_chemin writing_env" "re_writes writing_env" by (simp_all add: writing_env_def)
  ultimately show ?thesis using rankings_survive_a_restart by blast
qed


subsection \<open>A page of the ranking on the wire\<close>

definition common_ok :: "settings \<Rightarrow> common_data \<Rightarrow> bool" where
  "common_ok s d \<longleftrightarrow> string_ok (cd_UserName d) \<and> length (cd_Mii d) < 2 ^ 16 \<and> length (cd_BinaryData d) < 2 ^ 16"

lemma length_w_StringVideZero: "string_ok u \<Longrightarrow> length (w_StringVideZero u) < 2 ^ 17"
  by (simp add: w_StringVideZero_def w_String_def string_ok_def Let_def)

lemma length_w_QBuffer: "length b < 2 ^ 16 \<Longrightarrow> length (w_QBuffer b) < 2 ^ 17"
  by (simp add: w_QBuffer_def)

lemma common_body_bound:
  "common_ok s d \<Longrightarrow> length (level_body s (hd Ranking2CommonData_levels) d) < 2 ^ 19"
  using length_w_StringVideZero [of "cd_UserName d"] length_w_QBuffer [of "cd_Mii d"] length_w_QBuffer [of "cd_BinaryData d"]
  by (simp add: Ranking2CommonData_levels_def level_body_def common_ok_def)

interpretation cCommon: structure_codec s Ranking2CommonData_levels common_zero "common_ok s"
proof unfold_locales
  fix v :: common_data and pre post
  assume ok: "common_ok s v"
  have "loads (hd Ranking2CommonData_levels) s common_zero v v"
    using ok common_body_bound [OF ok]
    by (simp add: loads_def Ranking2CommonData_levels_def level_body_def common_ok_def common_zero_def run_StringVideZero run_QBuffer)
  then show "run_state (ReadStructure s Ranking2CommonData_levels common_zero) (cursor pre (WriteStructure s Ranking2CommonData_levels v @ post))
      = (v, cursor (pre @ WriteStructure s Ranking2CommonData_levels v) post)"
    using single_level_read_write by (simp add: Ranking2CommonData_levels_def)
qed

definition rank_ok :: "settings \<Rightarrow> rank_data \<Rightarrow> bool" where
  "rank_ok s d \<longleftrightarrow> pid_ok s (rd_PrincipalID d) \<and> common_ok s (rd_CommonData d)"

lemma size_w_PID: "length (w_PID s v) \<le> 8"
  by (simp add: w_PID_def Let_def)

interpretation cRank: structure_codec s Ranking2RankData_levels rank_zero "rank_ok s"
proof unfold_locales
  fix v :: rank_data and pre post
  assume ok: "rank_ok s v"
  have c: "common_ok s (rd_CommonData v)" using ok by (simp add: rank_ok_def)
  have "length (WriteStructure s Ranking2CommonData_levels (rd_CommonData v)) \<le> 2 ^ 19 + 5"
    using common_body_bound [OF c]
    by (simp add: Ranking2CommonData_levels_def WriteStructure_Cons WriteLevel_def w_Buffer_def)
  then have "length (level_body s (hd Ranking2RankData_levels) v) < 2 ^ 32"
    using size_w_PID [of s "rd_PrincipalID v"] by (simp add: Ranking2RankData_levels_def level_body_def)
  then have "loads (hd Ranking2RankData_levels) s rank_zero v v"
    using ok by (simp add: loads_def Ranking2RankData_levels_def level_body_def rank_ok_def rank_zero_def run_U64 run_U32 run_PID
        cCommon.read_write)
  then show "run_state (ReadStructure s Ranking2RankData_levels rank_zero) (cursor pre (WriteStructure s Ranking2RankData_levels v @ post))
      = (v, cursor (pre @ WriteStructure s Ranking2RankData_levels v) post)"
    using single_level_read_write by (simp add: Ranking2RankData_levels_def)
qed

definition info_ok :: "settings \<Rightarrow> rank_info \<Rightarrow> bool" where
  "info_ok s r \<longleftrightarrow> (\<forall>d \<in> set (ri_Data r). rank_ok s d) \<and> length (ri_Data r) < 2 ^ 32 \<and>
     length (level_body s (hd Ranking2Info_levels) r) < 2 ^ 32"

interpretation cInfo: structure_codec s Ranking2Info_levels info_zero "info_ok s"
proof unfold_locales
  fix v :: rank_info and pre post
  assume ok: "info_ok s v"
  have rep: "run_state (r_repeat (length (ri_Data v)) (ReadStructure s Ranking2RankData_levels rank_zero))
      (cursor p (concat (map (WriteStructure s Ranking2RankData_levels) (ri_Data v)) @ q))
      = (ri_Data v, cursor (p @ concat (map (WriteStructure s Ranking2RankData_levels) (ri_Data v))) q)" for p q
    by (rule cRank.repeat_enc) (use ok in \<open>auto simp: info_ok_def\<close>)
  have "loads (hd Ranking2Info_levels) s info_zero v v"
    using ok rep by (simp add: loads_def Ranking2Info_levels_def level_body_def info_ok_def info_zero_def run_U32 r_S32_def)
  then show "run_state (ReadStructure s Ranking2Info_levels info_zero) (cursor pre (WriteStructure s Ranking2Info_levels v @ post))
      = (v, cursor (pre @ WriteStructure s Ranking2Info_levels v) post)"
    using single_level_read_write by (simp add: Ranking2Info_levels_def)
qed

interpretation cGetParam: structure_codec s Ranking2GetParam_levels get_param_zero "\<lambda>p. pid_ok s (gp_PrincipalID p)"
proof unfold_locales
  fix v :: get_param and pre post
  assume ok: "pid_ok s (gp_PrincipalID v)"
  have "loads (hd Ranking2GetParam_levels) s get_param_zero v v"
    using ok size_w_PID [of s "gp_PrincipalID v"]
    by (simp add: loads_def Ranking2GetParam_levels_def level_body_def get_param_zero_def run_U64 run_U32 run_U8 run_PID)
  then show "run_state (ReadStructure s Ranking2GetParam_levels get_param_zero) (cursor pre (WriteStructure s Ranking2GetParam_levels v @ post))
      = (v, cursor (pre @ WriteStructure s Ranking2GetParam_levels v) post)"
    using single_level_read_write by (simp add: Ranking2GetParam_levels_def)
qed

text \<open>The window of a page is a slice of the ranking.\<close>

definition page :: "get_param \<Rightarrow> 'a list \<Rightarrow> 'a list" where
  "page p xs = (if gp_Length p = 0 then drop (unat (gp_Offset p)) xs else take (unat (gp_Length p)) (drop (unat (gp_Offset p)) xs))"

lemma map_window: "fin \<le> length xs \<Longrightarrow> map (\<lambda>idx. f idx (xs ! idx)) [debut..<fin] =
    map (\<lambda>(i, e). f i e) (enumerate debut (take (fin - debut) (drop debut xs)))"
  by (rule nth_equalityI) (auto simp: enumerate_eq_zip min_def)

lemma page_lines:
  fixes xs :: "'a list"
  assumes "page_window p (length xs) = (debut, fin)"
  shows "map (\<lambda>idx. f idx (xs ! idx)) [debut..<fin] = map (\<lambda>(i, e). f i e) (enumerate (unat (gp_Offset p)) (page p xs))"
proof -
  have w: "fin \<le> length xs" "debut = min (unat (gp_Offset p)) (length xs)"
    using assms by (auto simp: page_window_def Let_def split: if_splits)
  have cut: "drop (min k (length xs)) xs = drop k xs" for k
    by (cases "k \<le> length xs") (simp_all add: min_def)
  have "take (fin - debut) (drop debut xs) = page p xs"
    using assms by (auto simp: cut page_window_def page_def Let_def word_gt_0 split: if_splits)
  then have "map (\<lambda>idx. f idx (xs ! idx)) [debut..<fin] = map (\<lambda>(i, e). f i e) (enumerate debut (page p xs))"
    using map_window [OF w(1), of f debut] by (simp only:)
  moreover have "page p xs = []" if "debut \<noteq> unat (gp_Offset p)"
    using that w(2) by (auto simp: page_def min_def split: if_splits)
  ultimately show ?thesis by (cases "debut = unat (gp_Offset p)") auto
qed

definition page_answer :: "settings \<Rightarrow> ranking2_store \<Rightarrow> get_param \<Rightarrow> rank_info" where
  "page_answer s r p = ranking_info (length (classement (gp_Category p) r))
     (map (\<lambda>(i, e). rank_line s r i e) (enumerate (unat (gp_Offset p)) (page p (classement (gp_Category p) r))))"

text \<open>A page of the ranking reads back as the asked slice, with the right ranks.  The client that sends a GetRanking for a
  category decodes, from the answer, the lines of the players from its offset on, as many as its length asks for (all of them
  for length zero); the line at offset \<open>i\<close> carries rank \<open>i + 1\<close>, and the total counts the whole category.  The answer is the
  same in whatever order the category's map is visited.\<close>

theorem ranking_page_is_read_back:
  assumes req: "rm_Method req = MethodRanking2GetRanking" "rm_Body req = WriteStructure s Ranking2GetParam_levels p @ rest"
      "pid_ok s (gp_PrincipalID p)"
    and ok: "info_ok s (page_answer s r p)" and inv: "scores_ok (r2_scores r)"
  shows "fst (run_state (ReadStructure s Ranking2Info_levels info_zero)
       (NewStreamIn (rm_Body (fst (Ranking2Handler env s pid req r))))) = page_answer s r p \<and>
    (mset (scores_of (gp_Category p) r') = mset (scores_of (gp_Category p) r) \<and> r2_communs r' = r2_communs r \<longrightarrow>
       fst (Ranking2Handler env s pid req r') = fst (Ranking2Handler env s pid req r))"
proof -
  have body: "fst (Ranking2Handler env s pid req q) = reply2 req (WriteStructure s Ranking2Info_levels (page_answer s q p))" for q
    using req page_lines [of p "classement (gp_Category p) q" _ _ "rank_line s q"]
    by (auto simp: Ranking2Handler_def ranking2_methods getRanking_def NewStreamIn_cursor cGetParam.read_write Let_def page_answer_def
        split: prod.split)
  have "classement (gp_Category p) r' = classement (gp_Category p) r"
    if "mset (scores_of (gp_Category p) r') = mset (scores_of (gp_Category p) r)"
    using classement_any_order [OF scores_ok_of [OF inv] that] .
  moreover have "rank_line s r' = rank_line s r" if "r2_communs r' = r2_communs r"
    using that by (intro ext) (simp add: rank_line_def donneesCommunes_def)
  ultimately show ?thesis
    using cInfo.dec_enc_end [OF ok, of "[]"] by (auto simp: body reply2_def NewRMCSuccess_def NewStreamIn_cursor page_answer_def)
qed


definition ranked_store :: ranking2_store where
  "ranked_store = \<lparr>r2_communs = [], r2_scores = [(2, [(7, \<lparr>ec_PID = 7, ec_NexUniqueID = 3, ec_Misc = 5, ec_Score = 90\<rparr>),
      (8, \<lparr>ec_PID = 8, ec_NexUniqueID = 4, ec_Misc = 5, ec_Score = 95\<rparr>), (6, \<lparr>ec_PID = 6, ec_NexUniqueID = 1, ec_Misc = 0, ec_Score = 90\<rparr>)])],
     r2_modifie = False, r2_file = None\<rparr>"

definition second_page :: get_param where
  "second_page = get_param_zero\<lparr>gp_Category := 2, gp_Offset := 1, gp_Length := 5\<rparr>"

theorem ranking_page_is_read_back_witness:
  "map (\<lambda>d. (rd_PrincipalID d, rd_Rank d, rd_Score d)) (ri_Data (fst (run_state (ReadStructure (NewSwitchSettings [] 40000) Ranking2Info_levels info_zero)
       (NewStreamIn (rm_Body (fst (Ranking2Handler writing_env (NewSwitchSettings [] 40000) 9
          (NewRMCRequest ProtocolRanking2 MethodRanking2GetRanking 1
             (WriteStructure (NewSwitchSettings [] 40000) Ranking2GetParam_levels second_page)) ranked_store))))))) =
     [(6, 2, 90), (7, 3, 90)]"
proof -
  let ?s = "NewSwitchSettings [] 40000"
  let ?req = "NewRMCRequest ProtocolRanking2 MethodRanking2GetRanking 1 (WriteStructure ?s Ranking2GetParam_levels second_page)"
  have rows: "map (\<lambda>d. (rd_PrincipalID d, rd_Rank d, rd_Score d, cd_UserName (rd_CommonData d), cd_Mii (rd_CommonData d),
      cd_BinaryData (rd_CommonData d))) (ri_Data (page_answer ?s ranked_store second_page)) =
      [(6, 2, 90, [], [], []), (7, 3, 90, [], [], [])]" by code_simp
  have len: "length (level_body ?s (hd Ranking2Info_levels) (page_answer ?s ranked_store second_page)) = 112" by code_simp
  have "common_ok ?s (rd_CommonData d)" if "d \<in> set (ri_Data (page_answer ?s ranked_store second_page))" for d
  proof -
    have "(rd_PrincipalID d, rd_Rank d, rd_Score d, cd_UserName (rd_CommonData d), cd_Mii (rd_CommonData d), cd_BinaryData (rd_CommonData d))
        \<in> set [(6, 2, 90, [], [], []), (7, 3, 90, [], [], [])]"
      unfolding rows [symmetric] using that by auto
    then show ?thesis by (auto simp: common_ok_def string_ok_def)
  qed
  moreover have "length (ri_Data (page_answer ?s ranked_store second_page)) = 2" using arg_cong [OF rows, of length] by simp
  ultimately have ok: "info_ok ?s (page_answer ?s ranked_store second_page)"
    using len by (simp add: info_ok_def rank_ok_def)
  have inv: "scores_ok (r2_scores ranked_store)"
    by (simp add: ranked_store_def scores_ok_def categorie_ok_def gomap_wf_def)
  have req: "rm_Method ?req = MethodRanking2GetRanking"
      "rm_Body ?req = WriteStructure ?s Ranking2GetParam_levels second_page @ []" "pid_ok ?s (gp_PrincipalID second_page)"
    by (simp_all only: NewRMCRequest_def append_Nil2 pid_ok_switch) simp_all
  note eq = ranking_page_is_read_back [OF req ok inv, of writing_env 9, THEN conjunct1]
  show ?thesis unfolding eq using arg_cong [OF rows, of "map (\<lambda>(a, b, c, _). (a, b, c))"] by (simp add: comp_def)
qed

end
