(* ===== verification/Nex_Ranking.thy ===== *)
theory Nex_Ranking
  imports Nex_Tournament Nex_Slice
begin

section \<open>Ranking: player profiles and tournament rankings (ranking.go, ranking\_board.go, ranking\_names.go)\<close>

text \<open>
  The profiles players deposit and read, the names inside a profile, the results of races and the
  rankings built from them.  The package variables are the record \<open>ranking_state\<close>; the two files are the
  lists that would be decoded from them (the PID in decimal and the profile in base64 read back as
  written), loaded once, on first use.  A tournament is visited by \<open>boardCategoryFor\<close> in the order of the
  map of rankings.  The clock is an argument.
\<close>

definition ProtocolRanking :: u16 where "ProtocolRanking = 0x70"
definition MethodUploadCommonData :: u32 where "MethodUploadCommonData = 0x4"
definition methodRankingGetCompetitionInfo :: u32 where "methodRankingGetCompetitionInfo = 0x12"
definition methodRankingCompetitionRanking :: u32 where "methodRankingCompetitionRanking = 0x10"
definition methodRankingCommonDataByPIDs :: u32 where "methodRankingCommonDataByPIDs = 0x16"
definition methodRankingSubmitScore :: u32 where "methodRankingSubmitScore = 0x11"
definition methodRankingSubmitTime :: u32 where "methodRankingSubmitTime = 0x13"
definition commonDataMaxLen :: nat where "commonDataMaxLen = 4096"
definition commonDataMaxEntries :: u32 where "commonDataMaxEntries = 256"
definition commonDataMaxStored :: nat where "commonDataMaxStored = 50000"
definition scoreEntryBody :: u32 where "scoreEntryBody = 159"
definition scoreProfileLen :: nat where "scoreProfileLen = 132"
definition scoreMaxPerBoard :: nat where "scoreMaxPerBoard = 100"

lemmas ranking_methods = MethodUploadCommonData_def methodRankingGetCompetitionInfo_def methodRankingCompetitionRanking_def
  methodRankingCommonDataByPIDs_def methodRankingSubmitScore_def methodRankingSubmitTime_def

record board_entry =
  be_PID :: u64
  be_Score :: u32
  be_Profile :: bytes
  be_At :: int

text \<open>A ranking is identified by tournament and category.\<close>

type_synonym board_key = "u32 \<times> u32"
type_synonym board = "(u64, board_entry) gomap"

record board_persisted =
  bp_Tournament :: u32
  bp_Category :: u32
  bp_PID :: u64
  bp_Score :: u32
  bp_Profile :: bytes
  bp_At :: int

record ranking_state =
  rk_common :: "(u64, bytes) gomap"
  rk_commonOnce :: bool
  rk_commonDirty :: bool
  rk_commonFile :: "((u64 \<times> bytes) list) option"
  rk_scores :: "(string, bytes) gomap"
  rk_boards :: "(board_key, board) gomap"
  rk_boardOnce :: bool
  rk_boardDirty :: bool
  rk_boardFile :: "(board_persisted list) option"

definition ranking_start :: "((u64 \<times> bytes) list) option \<Rightarrow> (board_persisted list) option \<Rightarrow> ranking_state" where
  "ranking_start cf bf = \<lparr>rk_common = [], rk_commonOnce = False, rk_commonDirty = False, rk_commonFile = cf, rk_scores = [],
     rk_boards = [], rk_boardOnce = False, rk_boardDirty = False, rk_boardFile = bf\<rparr>"

subsection \<open>Profiles\<close>

fun loadCommonData :: "(u64 \<times> bytes) list \<Rightarrow> (u64, bytes) gomap \<Rightarrow> (u64, bytes) gomap" where
  "loadCommonData [] m = m"
| "loadCommonData ((pid, blob) # l) m = loadCommonData l
     (if blob = [] \<or> length blob > commonDataMaxLen then m else AList.update pid blob m)"

text \<open>The path is configured when there is a file; without one nothing is loaded.\<close>

definition commonDataInit :: "ranking_state \<Rightarrow> ranking_state" where
  "commonDataInit st = (if rk_commonOnce st then st
     else st\<lparr>rk_commonOnce := True, rk_common := (case rk_commonFile st of None \<Rightarrow> rk_common st | Some l \<Rightarrow> loadCommonData l (rk_common st))\<rparr>)"

definition writeCommonData :: "ranking_state \<Rightarrow> (u64 \<times> bytes) list" where
  "writeCommonData st = take commonDataMaxStored (rk_common st)"

text \<open>One tick of the flusher of a configured file.\<close>

definition commonDataFlusher :: "ranking_state \<Rightarrow> ranking_state" where
  "commonDataFlusher st = (if \<not> rk_commonDirty st then st
     else st\<lparr>rk_commonDirty := False, rk_commonFile := Some (writeCommonData st)\<rparr>)"

definition PutCommonData :: "u64 \<Rightarrow> bytes \<Rightarrow> ranking_state \<Rightarrow> ranking_state" where
  "PutCommonData pid blob st =
     (if blob = [] \<or> length blob > commonDataMaxLen then st
      else let st1 = commonDataInit st in st1\<lparr>rk_common := AList.update pid blob (rk_common st1), rk_commonDirty := True\<rparr>)"

definition CommonData :: "u64 \<Rightarrow> ranking_state \<Rightarrow> bytes \<times> ranking_state" where
  "CommonData pid st = (let st1 = commonDataInit st in
     ((case map_of (rk_common st1) pid of None \<Rightarrow> [] | Some b \<Rightarrow> b), st1))"

definition ForgetCommonData :: "u64 \<Rightarrow> ranking_state \<Rightarrow> ranking_state" where
  "ForgetCommonData pid st = st\<lparr>rk_common := AList.delete pid (rk_common st)\<rparr>"

definition rk_reply :: "rmc_message \<Rightarrow> bytes \<Rightarrow> rmc_message" where
  "rk_reply req body = NewRMCSuccess ProtocolRanking (rm_Method req) (rm_CallID req) body"

definition uploadCommonData :: "u64 \<Rightarrow> rmc_message \<Rightarrow> ranking_state \<Rightarrow> rmc_message \<times> ranking_state" where
  "uploadCommonData pid req st =
     (let (blob, i) = run_state r_Buffer (NewStreamIn (rm_Body req))
      in (rk_reply req [], if Err i = None then PutCommonData pid blob st else st))"

text \<open>The loop over the asked PIDs: \<open>None\<close> when a PID cannot be read.\<close>

fun common_loop :: "settings \<Rightarrow> nat \<Rightarrow> stream_in \<Rightarrow> ranking_state \<Rightarrow> bytes option \<times> ranking_state" where
  "common_loop s 0 i st = (Some [], st)"
| "common_loop s (Suc n) i st =
     (let (pid, i1) = run_state (r_PID s) i in
      if Err i1 \<noteq> None then (None, st)
      else let (blob, st1) = CommonData pid st; (rest, st2) = common_loop s n i1 st1
        in (map_option (\<lambda>b. w_QBuffer blob @ b) rest, st2))"

definition commonDataByPIDs :: "settings \<Rightarrow> rmc_message \<Rightarrow> ranking_state \<Rightarrow> rmc_message \<times> ranking_state" where
  "commonDataByPIDs s req st =
     (let vide = rk_reply req (w_U32 0) in
      if length (rm_Body req) < 4 then (vide, st)
      else let (count, i) = run_state r_U32 (NewStreamIn (rm_Body req)) in
        if Err i \<noteq> None \<or> count = 0 \<or> count > commonDataMaxEntries then (vide, st)
        else case common_loop s (unat count) i st of
          (None, st1) \<Rightarrow> (vide, st1)
        | (Some b, st1) \<Rightarrow> (let body = w_U32 count @ b in
            (rk_reply req (w_U8 0 @ w_U32 (of_nat (length body)) @ body), st1)))"

subsection \<open>Submitted results\<close>

definition score_key :: "u64 \<Rightarrow> u32 \<Rightarrow> string" where
  "score_key pid method = FormatUint pid @ ''/'' @ FormatUint (ucast method)"

definition keepSubmittedScore :: "u64 \<Rightarrow> u32 \<Rightarrow> bytes \<Rightarrow> ranking_state \<Rightarrow> ranking_state" where
  "keepSubmittedScore pid method body st =
     (if body = [] \<or> length body > commonDataMaxLen then st
      else st\<lparr>rk_scores := AList.update (score_key pid method) body (rk_scores st)\<rparr>)"

definition SubmittedScore :: "u64 \<Rightarrow> u32 \<Rightarrow> ranking_state \<Rightarrow> bytes" where
  "SubmittedScore pid method st = (case map_of (rk_scores st) (score_key pid method) of None \<Rightarrow> [] | Some b \<Rightarrow> b)"

definition le32_at :: "bytes \<Rightarrow> nat \<Rightarrow> u32" where
  "le32_at b k = le_word (take 4 (drop k b))"

definition parseScoreSubmission :: "bytes \<Rightarrow> (u32 \<times> u32 \<times> u32 \<times> bytes) option" where
  "parseScoreSubmission body =
     (if length body < 0x1d + scoreProfileLen then None
      else let tournament = le32_at body 0x05; category = le32_at body 0x09; score = le32_at body 0x11 in
        if unat (le_word (take 2 (drop 0x1b body)) :: u16) \<noteq> scoreProfileLen then None
        else if tournament = 0 then None
        else Some (tournament, category, score, take scoreProfileLen (drop 0x1d body)))"

subsection \<open>Rankings\<close>

definition board_of :: "board_key \<Rightarrow> ranking_state \<Rightarrow> board" where
  "board_of k st = (case map_of (rk_boards st) k of None \<Rightarrow> [] | Some m \<Rightarrow> m)"

fun restore_boards :: "board_persisted list \<Rightarrow> (board_key, board) gomap \<Rightarrow> (board_key, board) gomap" where
  "restore_boards [] bs = bs"
| "restore_boards (p # l) bs = restore_boards l
     (if length (bp_Profile p) \<noteq> scoreProfileLen \<or> bp_Tournament p = 0 then bs
      else let k = (bp_Tournament p, bp_Category p);
               e = \<lparr>be_PID = bp_PID p, be_Score = bp_Score p, be_Profile = bp_Profile p, be_At = bp_At p * 10 ^ 9\<rparr>
        in AList.update k (AList.update (bp_PID p) e (case map_of bs k of None \<Rightarrow> [] | Some m \<Rightarrow> m)) bs)"

definition boardInit :: "ranking_state \<Rightarrow> ranking_state" where
  "boardInit st = (if rk_boardOnce st then st
     else st\<lparr>rk_boardOnce := True, rk_boards := (case rk_boardFile st of None \<Rightarrow> rk_boards st | Some l \<Rightarrow> restore_boards l (rk_boards st))\<rparr>)"

definition persisted_list :: "(board_key, board) gomap \<Rightarrow> board_persisted list" where
  "persisted_list bs = concat (map (\<lambda>(k, m). map (\<lambda>(pid, e). \<lparr>bp_Tournament = fst k, bp_Category = snd k, bp_PID = pid,
     bp_Score = be_Score e, bp_Profile = be_Profile e, bp_At = be_At e div 10 ^ 9\<rparr>) m) bs)"

definition boardFlusher :: "ranking_state \<Rightarrow> ranking_state" where
  "boardFlusher st = (if \<not> rk_boardDirty st then st
     else st\<lparr>rk_boardDirty := False, rk_boardFile := Some (persisted_list (rk_boards st))\<rparr>)"

definition recordScore :: "int \<Rightarrow> u64 \<Rightarrow> bytes \<Rightarrow> ranking_state \<Rightarrow> bool \<times> ranking_state" where
  "recordScore now pid body st0 =
     (let st = boardInit st0 in
      case parseScoreSubmission body of None \<Rightarrow> (False, st)
      | Some (tour, cat, score, profile) \<Rightarrow>
          (let k = (tour, cat); m = board_of k st;
               e = (case map_of m pid of
                  None \<Rightarrow> \<lparr>be_PID = pid, be_Score = score, be_Profile = profile, be_At = now\<rparr>
                | Some prev \<Rightarrow> if be_Score prev \<ge> score then prev\<lparr>be_Profile := profile\<rparr>
                    else \<lparr>be_PID = pid, be_Score = score, be_Profile = profile, be_At = now\<rparr>)
           in (True, st\<lparr>rk_boards := AList.update k (AList.update pid e m) (rk_boards st), rk_boardDirty := True\<rparr>)))"

definition board_less :: "board_entry \<Rightarrow> board_entry \<Rightarrow> bool" where
  "board_less a b \<longleftrightarrow> (if be_Score a \<noteq> be_Score b then be_Score a > be_Score b else be_At a < be_At b)"

definition boardFor :: "u32 \<Rightarrow> u32 \<Rightarrow> ranking_state \<Rightarrow> board_entry list \<times> ranking_state" where
  "boardFor tour cat st0 = (let st = boardInit st0 in
     (take scoreMaxPerBoard (sort_slice board_less (map snd (board_of (tour, cat) st))), st))"

definition nexDateTime :: "int \<Rightarrow> u64" where
  "nexDateTime t = NowDateTime t"

definition board_line :: "nat \<Rightarrow> board_entry \<Rightarrow> bytes" where
  "board_line i e = [0] @ le_bytes 4 scoreEntryBody @ le_bytes 4 (of_nat (i + 1) :: u32) @ le_bytes 8 (be_PID e) @
     le_bytes 4 (be_Score e) @ le_bytes 8 (nexDateTime (be_At e)) @ [0xff] @ le_bytes 2 (of_nat scoreProfileLen :: u16) @
     (if length (be_Profile e) \<noteq> scoreProfileLen
      then take scoreProfileLen (be_Profile e) @ replicate (scoreProfileLen - length (be_Profile e)) 0 else be_Profile e)"

definition writeBoard :: "u32 \<Rightarrow> board_entry list \<Rightarrow> bytes" where
  "writeBoard cat entries =
     (let page = le_bytes 4 cat @ le_bytes 4 (of_nat (length entries) :: u32) @
            concat (map (\<lambda>(i, e). board_line i e) (enumerate 0 entries)) @
            le_bytes 4 (of_nat (length entries) :: u32) @ le_bytes 4 (4 :: u32) @ replicate 16 0
      in le_bytes 4 (1 :: u32) @ [0] @ le_bytes 4 (of_nat (length page) :: u32) @ page)"

definition boardCategoryFor :: "u32 \<Rightarrow> ranking_state \<Rightarrow> u32" where
  "boardCategoryFor tour st = (case find (\<lambda>(k, _). fst k = tour) (rk_boards st) of None \<Rightarrow> 0 | Some (k, _) \<Rightarrow> snd k)"

text \<open>The category is an argument of \<open>boardFor\<close>, so it is looked up before \<open>boardFor\<close> loads the file.\<close>

definition competitionRanking :: "rmc_message \<Rightarrow> ranking_state \<Rightarrow> rmc_message \<times> ranking_state" where
  "competitionRanking req st =
     (if length (rm_Body req) < 13 then (rk_reply req (w_U32 0), st)
      else let tour = le32_at (rm_Body req) 5; (entries, st1) = boardFor tour (boardCategoryFor tour st) st in
        if entries = [] then (rk_reply req (w_U32 0), st1)
        else (rk_reply req (writeBoard (boardCategoryFor tour st1) entries), st1))"

subsection \<open>The handler\<close>

definition submitResult :: "int \<Rightarrow> u64 \<Rightarrow> rmc_message \<Rightarrow> ranking_state \<Rightarrow> rmc_message \<times> ranking_state" where
  "submitResult now pid req st =
     (let st1 = keepSubmittedScore pid (rm_Method req) (rm_Body req) st
      in (rk_reply req [0], if rm_Method req = methodRankingSubmitScore then snd (recordScore now pid (rm_Body req) st1) else st1))"

definition RankingHandler :: "settings \<Rightarrow> tournament_store \<Rightarrow> int \<Rightarrow> u64 \<Rightarrow> rmc_message \<Rightarrow> ranking_state \<Rightarrow> rmc_message \<times> ranking_state" where
  "RankingHandler s ts now pid req st =
     (if rm_Method req = MethodUploadCommonData then uploadCommonData pid req st
      else if rm_Method req = methodRankingCommonDataByPIDs then commonDataByPIDs s req st
      else if rm_Method req = methodRankingGetCompetitionInfo then (rk_reply req (TournamentSummaries ts), st)
      else if rm_Method req = methodRankingCompetitionRanking then competitionRanking req st
      else if rm_Method req = methodRankingSubmitScore \<or> rm_Method req = methodRankingSubmitTime then submitResult now pid req st
      else (notImplemented ProtocolRanking req, st))"

subsection \<open>Names in a profile\<close>

text \<open>Runes are code points.  \<open>utf8_encode\<close> and \<open>utf8_decode\<close> are the conversions between a string and
  its runes: an ill-formed byte decodes to the replacement character and a width of one.\<close>

definition ReplacementChar :: nat where "ReplacementChar = 0xFFFD"

definition utf8_encode :: "nat \<Rightarrow> nat list" where
  "utf8_encode r =
     (if r < 0x80 then [r]
      else if r < 0x800 then [0xC0 + r div 64, 0x80 + r mod 64]
      else if r > 0x10FFFF \<or> (0xD800 \<le> r \<and> r < 0xE000) then [0xEF, 0xBF, 0xBD]
      else if r < 0x10000 then [0xE0 + r div 4096, 0x80 + r div 64 mod 64, 0x80 + r mod 64]
      else [0xF0 + r div 262144, 0x80 + r div 4096 mod 64, 0x80 + r div 64 mod 64, 0x80 + r mod 64])"

definition second_range :: "nat \<Rightarrow> nat \<times> nat" where
  "second_range b = (if b = 0xE0 then (0xA0, 0xBF) else if b = 0xED then (0x80, 0x9F) else if b = 0xF0 then (0x90, 0xBF)
     else if b = 0xF4 then (0x80, 0x8F) else (0x80, 0xBF))"

definition cont_byte :: "nat \<Rightarrow> bool" where "cont_byte b \<longleftrightarrow> 0x80 \<le> b \<and> b \<le> 0xBF"

definition decode_rune :: "nat list \<Rightarrow> nat \<times> nat" where
  "decode_rune s = (case s of [] \<Rightarrow> (ReplacementChar, 0) | b0 # t \<Rightarrow>
     let bad = (ReplacementChar, 1); ok2 = (t \<noteq> [] \<and> fst (second_range b0) \<le> t ! 0 \<and> t ! 0 \<le> snd (second_range b0)) in
     if b0 < 0x80 then (b0, 1)
     else if 0xC2 \<le> b0 \<and> b0 \<le> 0xDF then (if ok2 then ((b0 - 0xC0) * 64 + (t ! 0 - 0x80), 2) else bad)
     else if 0xE0 \<le> b0 \<and> b0 \<le> 0xEF then
       (if ok2 \<and> 2 \<le> length t \<and> cont_byte (t ! 1) then ((b0 - 0xE0) * 4096 + (t ! 0 - 0x80) * 64 + (t ! 1 - 0x80), 3) else bad)
     else if 0xF0 \<le> b0 \<and> b0 \<le> 0xF4 then
       (if ok2 \<and> 3 \<le> length t \<and> cont_byte (t ! 1) \<and> cont_byte (t ! 2)
        then ((b0 - 0xF0) * 262144 + (t ! 0 - 0x80) * 4096 + (t ! 1 - 0x80) * 64 + (t ! 2 - 0x80), 4) else bad)
     else bad)"

function utf8_runes :: "nat list \<Rightarrow> nat list" where
  "utf8_runes s = (if s = [] then [] else let (r, n) = decode_rune s in r # utf8_runes (drop (max 1 n) s))"
  by pat_completeness auto
termination by (relation "measure length") auto

declare utf8_runes.simps [simp del]

text \<open>\<open>unicode.IsGraphic\<close>: the Latin-1 part of its table, and beyond it the tables of the library, an argument.\<close>

definition IsGraphic :: "(nat \<Rightarrow> bool) \<Rightarrow> nat \<Rightarrow> bool" where
  "IsGraphic tables r = (if r \<le> 0xFF then (0x20 \<le> r \<and> r \<le> 0x7E) \<or> (0xA0 \<le> r \<and> r \<noteq> 0xAD) else tables r)"

definition commonDataMaxNameRunes :: nat where "commonDataMaxNameRunes = 32"

fun sanitize_loop :: "(nat \<Rightarrow> bool) \<Rightarrow> nat \<Rightarrow> nat list \<Rightarrow> nat list" where
  "sanitize_loop tables n [] = []"
| "sanitize_loop tables n (r # rs) =
     (if r = ReplacementChar \<or> \<not> IsGraphic tables r then sanitize_loop tables n rs
      else if n + 1 \<ge> commonDataMaxNameRunes then [r] else r # sanitize_loop tables (n + 1) rs)"

definition nat_string :: "nat list \<Rightarrow> string" where "nat_string = map char_of"
definition string_nats :: "string \<Rightarrow> nat list" where "string_nats = map of_char"

definition sanitizeName :: "(nat \<Rightarrow> bool) \<Rightarrow> string \<Rightarrow> string" where
  "sanitizeName tables s = TrimSpace (nat_string (concat (map utf8_encode (sanitize_loop tables 0 (utf8_runes (string_nats s))))))"

definition decodeBytesZ :: "(nat \<Rightarrow> bool) \<Rightarrow> bytes \<Rightarrow> string" where
  "decodeBytesZ tables b = sanitizeName tables (bytes_string (takeWhile (\<lambda>x. x \<noteq> 0) b))"

text \<open>\<open>utf16.Decode\<close>: surrogate pairs become one code point, a lone surrogate the replacement character.\<close>

fun utf16_runes :: "nat list \<Rightarrow> nat list" where
  "utf16_runes [] = []"
| "utf16_runes [u] = [if 0xD800 \<le> u \<and> u < 0xE000 then ReplacementChar else u]"
| "utf16_runes (u # v # us) =
     (if u < 0xD800 \<or> 0xE000 \<le> u then u # utf16_runes (v # us)
      else if u < 0xDC00 \<and> 0xDC00 \<le> v \<and> v < 0xE000 then ((u - 0xD800) * 1024 + (v - 0xDC00) + 0x10000) # utf16_runes us
      else ReplacementChar # utf16_runes (v # us))"

fun utf16_units :: "nat \<Rightarrow> bytes \<Rightarrow> nat list" where
  "utf16_units n (a # b # bs) =
     (let u = unat (ucast a OR push_bit 8 (ucast b) :: u16) in
      if u = 0 then [] else if n + 1 \<ge> commonDataMaxNameRunes then [u] else u # utf16_units (n + 1) bs)"
| "utf16_units n bs = []"

definition decodeUTF16LE :: "(nat \<Rightarrow> bool) \<Rightarrow> bytes \<Rightarrow> string" where
  "decodeUTF16LE tables b = sanitizeName tables (nat_string (concat (map utf8_encode (utf16_runes (utf16_units 0 b)))))"

definition commonDataBlobLen :: nat where "commonDataBlobLen = 132"
definition commonDataMiiNameOff :: nat where "commonDataMiiNameOff = 20"
definition commonDataMiiNameLen :: nat where "commonDataMiiNameLen = 22"
definition commonDataNickOff :: nat where "commonDataNickOff = 96"

definition CommonDataNames :: "(nat \<Rightarrow> bool) \<Rightarrow> bytes \<Rightarrow> (string \<times> string) option" where
  "CommonDataNames tables blob =
     (if length blob \<noteq> commonDataBlobLen then None
      else Some (decodeUTF16LE tables (take commonDataMiiNameLen (drop commonDataMiiNameOff blob)),
                 decodeBytesZ tables (drop commonDataNickOff blob)))"

definition CommonDataNamesForPID :: "(nat \<Rightarrow> bool) \<Rightarrow> u64 \<Rightarrow> ranking_state \<Rightarrow> (string \<times> string) option \<times> ranking_state" where
  "CommonDataNamesForPID tables pid st = (let (blob, st1) = CommonData pid st
     in (if blob = [] then None else CommonDataNames tables blob, st1))"

end
