(* ===== verification/Nex_Ranking_Props.thy ===== *)
theory Nex_Ranking_Props
  imports Nex_Ranking Nex_Criteria
begin

section \<open>Properties of profiles and tournament rankings\<close>

text \<open>
  The invariant of the package variables and the states the handler reaches; profiles from deposit to
  reading; the rankings as a refinement of the list of results, on the wire, and across a restart; what a
  name from a profile can contain.
\<close>

subsection \<open>The invariant\<close>

definition blob_ok :: "bytes \<Rightarrow> bool" where
  "blob_ok b \<longleftrightarrow> b \<noteq> [] \<and> length b \<le> commonDataMaxLen"

definition entry_ok :: "u64 \<Rightarrow> board_entry \<Rightarrow> bool" where
  "entry_ok pid e \<longleftrightarrow> be_PID e = pid \<and> length (be_Profile e) = scoreProfileLen"

definition board_ok :: "board_key \<Rightarrow> board \<Rightarrow> bool" where
  "board_ok k m \<longleftrightarrow> fst k \<noteq> 0 \<and> m \<noteq> [] \<and> gomap_all entry_ok m"

definition ranking_ok :: "ranking_state \<Rightarrow> bool" where
  "ranking_ok st \<longleftrightarrow> gomap_all (\<lambda>_. blob_ok) (rk_common st) \<and> gomap_all board_ok (rk_boards st)"

lemma ranking_ok_start: "ranking_ok (ranking_start cf bf)"
  by (simp add: ranking_ok_def ranking_start_def)

lemma load_ok: "gomap_all (\<lambda>_. blob_ok) m \<Longrightarrow> gomap_all (\<lambda>_. blob_ok) (loadCommonData l m)"
  by (induction l m rule: loadCommonData.induct) (auto simp: blob_ok_def)

lemma commonDataInit_ok [inv_intros]: "ranking_ok st \<Longrightarrow> ranking_ok (commonDataInit st)"
  by (auto simp: ranking_ok_def commonDataInit_def load_ok split: option.split)

lemma commonDataInit_other [simp]: "rk_boards (commonDataInit st) = rk_boards st" "rk_boardOnce (commonDataInit st) = rk_boardOnce st"
  "rk_boardFile (commonDataInit st) = rk_boardFile st"
  by (simp_all add: commonDataInit_def)

lemma PutCommonData_ok [inv_intros]: "ranking_ok st \<Longrightarrow> ranking_ok (PutCommonData pid blob st)"
  using commonDataInit_ok [of st] by (auto simp: PutCommonData_def ranking_ok_def Let_def blob_ok_def)

lemma CommonData_ok [inv_intros]: "ranking_ok st \<Longrightarrow> ranking_ok (snd (CommonData pid st))"
  by (simp add: CommonData_def Let_def commonDataInit_ok)

lemma board_or_empty: "gomap_all board_ok bs \<Longrightarrow> gomap_all entry_ok (case map_of bs k of None \<Rightarrow> [] | Some m \<Rightarrow> m)"
  by (auto simp: board_ok_def split: option.split dest: gomap_all_lookup)

lemma boards_ok_update:
  "gomap_all board_ok bs \<Longrightarrow> fst k \<noteq> 0 \<Longrightarrow> gomap_all entry_ok m \<Longrightarrow> entry_ok pid e \<Longrightarrow>
   gomap_all board_ok (AList.update k (AList.update pid e m) bs)"
  by (auto simp: board_ok_def)

lemma restore_boards_ok: "gomap_all board_ok bs \<Longrightarrow> gomap_all board_ok (restore_boards l bs)"
proof (induction l arbitrary: bs)
  case (Cons p l)
  show ?case
    using Cons.prems board_or_empty [OF Cons.prems]
    by (auto intro!: Cons.IH boards_ok_update simp: entry_ok_def Let_def)
qed simp

lemma boardInit_ok [inv_intros]: "ranking_ok st \<Longrightarrow> ranking_ok (boardInit st)"
  by (auto simp: ranking_ok_def boardInit_def restore_boards_ok split: option.split)

lemma parse_profile: "parseScoreSubmission body = Some (t, c, v, p) \<Longrightarrow> length p = scoreProfileLen \<and> t \<noteq> 0"
  by (auto simp: parseScoreSubmission_def Let_def split: if_splits)

text \<open>The entry a result leaves, from the one that was there.\<close>

definition new_entry :: "int \<Rightarrow> u64 \<Rightarrow> u32 \<Rightarrow> bytes \<Rightarrow> board_entry option \<Rightarrow> board_entry" where
  "new_entry now pid score profile prev = (case prev of
      None \<Rightarrow> \<lparr>be_PID = pid, be_Score = score, be_Profile = profile, be_At = now\<rparr>
    | Some e \<Rightarrow> if be_Score e \<ge> score then e\<lparr>be_Profile := profile\<rparr>
        else \<lparr>be_PID = pid, be_Score = score, be_Profile = profile, be_At = now\<rparr>)"

lemma recordScore_Some:
  assumes "parseScoreSubmission body = Some (t, c, v, p)"
  shows "recordScore now pid body st = (True, (boardInit st)\<lparr>rk_boards := AList.update (t, c)
      (AList.update pid (new_entry now pid v p (map_of (board_of (t, c) (boardInit st)) pid)) (board_of (t, c) (boardInit st)))
      (rk_boards (boardInit st)), rk_boardDirty := True\<rparr>)"
  unfolding recordScore_def Let_def assms by (simp only: option.case prod.case new_entry_def)

lemma recordScore_ok [inv_intros]:
  assumes "ranking_ok st"
  shows "ranking_ok (snd (recordScore now pid body st))"
proof (cases "parseScoreSubmission body")
  case (Some x)
  obtain t c v p where x: "x = (t, c, v, p)" by (cases x)
  have ok: "ranking_ok (boardInit st)" using assms by (rule boardInit_ok)
  have m: "gomap_all entry_ok (board_of (t, c) (boardInit st))"
    using ok by (simp add: ranking_ok_def board_of_def board_or_empty)
  have "entry_ok pid (new_entry now pid v p (map_of (board_of (t, c) (boardInit st)) pid))"
    using parse_profile [of body t c v p] Some x gomap_all_lookup [OF m]
    by (auto simp: new_entry_def entry_ok_def split: option.split)
  then have "gomap_all board_ok (AList.update (t, c) (AList.update pid (new_entry now pid v p
      (map_of (board_of (t, c) (boardInit st)) pid)) (board_of (t, c) (boardInit st))) (rk_boards (boardInit st)))"
    using ok m parse_profile [of body t c v p] Some x by (intro boards_ok_update) (simp_all add: ranking_ok_def)
  then show ?thesis
    using ok Some x by (simp add: recordScore_Some ranking_ok_def)
qed (simp add: recordScore_def boardInit_ok assms)

lemma boardFor_ok [inv_intros]: "ranking_ok st \<Longrightarrow> ranking_ok (snd (boardFor t c st))"
  by (simp add: boardFor_def Let_def boardInit_ok)

lemma common_loop_ok: "ranking_ok st \<Longrightarrow> ranking_ok (snd (common_loop s n i st))"
proof (induction n arbitrary: i st)
  case (Suc n)
  have "ranking_ok (snd (common_loop s n j (snd (CommonData pid st))))" for j pid
    by (rule Suc.IH) (rule CommonData_ok [OF Suc.prems])
  then show ?case using Suc.prems by (auto simp: Let_def split: prod.split) (metis snd_conv)
qed simp

lemma handler_ok: "ranking_ok st \<Longrightarrow> ranking_ok (snd (RankingHandler s ts now pid req st))"
proof -
  assume ok: "ranking_ok st"
  have keep: "ranking_ok (keepSubmittedScore pid m b st)" for m b
    using ok by (simp add: ranking_ok_def keepSubmittedScore_def)
  have loop: "ranking_ok (snd (common_loop s n i st))" for n i by (rule common_loop_ok [OF ok])
  have "ranking_ok (snd (commonDataByPIDs s req st))"
    using ok loop by (auto simp: commonDataByPIDs_def Let_def split: prod.split option.split) (metis snd_conv)+
  moreover have "ranking_ok (snd (competitionRanking req st))"
    using ok boardFor_ok [OF ok] by (auto simp: competitionRanking_def Let_def split: prod.split) (metis snd_conv)+
  moreover have "ranking_ok (snd (uploadCommonData pid req st))"
    using ok by (auto simp: uploadCommonData_def intro: inv_intros split: prod.split)
  moreover have "ranking_ok (snd (submitResult now pid req st))"
    using keep by (auto simp: submitResult_def Let_def intro: inv_intros)
  ultimately show ?thesis using ok by (simp add: RankingHandler_def)
qed

text \<open>The events of the component: a request of a player at a time, and the ticks of the two flushers.\<close>

datatype ranking_event = RankRequest tournament_store int u64 rmc_message | CommonTick | BoardTick

fun ranking_step :: "settings \<Rightarrow> ranking_event \<Rightarrow> ranking_state \<Rightarrow> ranking_state" where
  "ranking_step s (RankRequest ts now pid req) st = snd (RankingHandler s ts now pid req st)"
| "ranking_step s CommonTick st = commonDataFlusher st"
| "ranking_step s BoardTick st = boardFlusher st"

lemma ranking_step_ok: "ranking_ok st \<Longrightarrow> ranking_ok (ranking_step s ev st)"
  by (cases ev) (simp_all add: handler_ok, simp_all add: ranking_ok_def commonDataFlusher_def boardFlusher_def)

lemma ranking_reachable_ok: "ranking_ok st \<Longrightarrow> ranking_ok (fold (ranking_step s) evs st)"
  by (induction evs arbitrary: st) (simp_all add: ranking_step_ok)

subsection \<open>Profiles\<close>

lemma commonDataInit_idem [simp]: "commonDataInit (commonDataInit st) = commonDataInit st"
  by (simp add: commonDataInit_def)

lemma CommonData_simps: "snd (CommonData pid st) = commonDataInit st"
  "fst (CommonData q (commonDataInit st)) = fst (CommonData q st)"
  by (simp_all add: CommonData_def Let_def)

lemma common_loop_reads:
  "\<forall>p \<in> set pids. pid_ok s p \<Longrightarrow>
   fst (common_loop s (length pids) (cursor pre (concat (map (w_PID s) pids) @ post)) st) =
     Some (concat (map (\<lambda>p. w_QBuffer (fst (CommonData p st))) pids))"
proof (induction pids arbitrary: pre st)
  case (Cons p pids)
  have IH: "fst (common_loop s (length pids) (cursor (pre @ w_PID s p) (concat (map (w_PID s) pids) @ post)) (commonDataInit st)) =
     Some (concat (map (\<lambda>p. w_QBuffer (fst (CommonData p st))) pids))"
    using Cons.IH [of "pre @ w_PID s p" "commonDataInit st"] Cons.prems by (simp add: CommonData_simps)
  obtain blob where b: "CommonData p st = (blob, commonDataInit st)" using CommonData_simps(1) by (metis prod.collapse)
  show ?case using IH Cons.prems by (auto simp: run_PID b Let_def split: prod.split)
qed simp

lemma CommonData_bound: "ranking_ok st \<Longrightarrow> length (fst (CommonData p st)) \<le> commonDataMaxLen"
  using commonDataInit_ok [of st]
  by (auto simp: CommonData_def Let_def ranking_ok_def blob_ok_def split: option.split dest: gomap_all_lookup)

lemma CommonData_Put:
  "blob \<noteq> [] \<Longrightarrow> length blob \<le> commonDataMaxLen \<Longrightarrow>
   fst (CommonData q (PutCommonData p blob st)) = (if q = p then blob else fst (CommonData q st))"
  by (simp add: CommonData_def PutCommonData_def Let_def commonDataInit_def)

text \<open>What a client reads of the answer: a version, a length, and in it a list of profiles.\<close>

definition profiles_reader :: "bytes list reader" where
  "profiles_reader = do { _ \<leftarrow> r_U8; sub \<leftarrow> r_Substream; State_Monad.return (fst (run_state (ReadList r_QBuffer) sub)) }"

lemma length_concat_bound: "\<forall>x \<in> set xs. length (f x) \<le> k \<Longrightarrow> length (concat (map f xs)) \<le> length xs * k"
  by (induction xs) (auto simp: add_mono)

text \<open>A profile is handed out exactly as it was deposited, to whoever asks and in the order asked.  In any state the
  server can be in, a player uploads a profile of 1 to 4096 bytes; whoever then asks for the profiles of up to 256 players
  decodes, for each, the last profile that player uploaded, the new one for the uploader and the empty one for unknown players.\<close>

theorem profiles_come_back_as_deposited:
  assumes st: "st = fold (ranking_step s) evs (ranking_start cf bf)"
    and up: "rm_Method up = MethodUploadCommonData" "rm_Body up = w_Buffer blob @ extra" "blob \<noteq> []" "length blob \<le> commonDataMaxLen"
    and ask: "rm_Method req = methodRankingCommonDataByPIDs" "rm_Body req = WriteList (w_PID s) pids @ rest"
      "pids \<noteq> []" "length pids \<le> 256" "\<forall>p \<in> set pids. pid_ok s p"
  shows "fst (run_state profiles_reader (NewStreamIn (rm_Body (fst (RankingHandler s ts' now' asker req
      (snd (RankingHandler s ts now pid up st))))))) =
    map (\<lambda>p. if p = pid then blob else fst (CommonData p st)) pids"
proof -
  let ?st = "PutCommonData pid blob st"
  have s1: "snd (RankingHandler s ts now pid up st) = ?st"
    using up by (simp add: RankingHandler_def ranking_methods uploadCommonData_def NewStreamIn_cursor run_Buffer commonDataMaxLen_def)
  have ok: "ranking_ok ?st"
    unfolding st by (intro PutCommonData_ok ranking_reachable_ok ranking_ok_start)
  let ?n = "of_nat (length pids) :: u32"
  have n: "unat ?n = length pids" "?n \<noteq> 0" "\<not> ?n > commonDataMaxEntries"
    using ask(3,4) by (simp_all add: unat_of_nat_len word_less_nat_alt commonDataMaxEntries_def flip: unat_eq_zero)
  let ?profs = "map (\<lambda>p. fst (CommonData p ?st)) pids"
  have "length (fst (CommonData p ?st)) < 2 ^ 16" for p
    using CommonData_bound [OF ok, of p] by (simp add: commonDataMaxLen_def)
  then have blen: "\<forall>b \<in> set ?profs. length b < 2 ^ 16" by auto
  have loop: "fst (common_loop s (length pids) (cursor (w_U32 ?n) (concat (map (w_PID s) pids) @ rest)) ?st) =
      Some (concat (map w_QBuffer ?profs))"
    using common_loop_reads [OF ask(5), of "w_U32 ?n" rest ?st] by (simp add: comp_def)
  have body: "w_U32 ?n @ concat (map w_QBuffer ?profs) = WriteList w_QBuffer ?profs" by (simp add: WriteList_def)
  have ans: "rm_Body (fst (RankingHandler s ts' now' asker req ?st)) = w_U8 0 @ w_Buffer (WriteList w_QBuffer ?profs)"
    using ask loop n by (auto simp: RankingHandler_def ranking_methods commonDataByPIDs_def WriteList_def NewStreamIn_cursor run_U32
        rk_reply_def NewRMCSuccess_def w_Buffer_def Let_def split: prod.split option.split)
  have len: "length (WriteList w_QBuffer ?profs) < 2 ^ 32"
  proof -
    have "\<forall>b \<in> set ?profs. length (w_QBuffer b) \<le> 2 ^ 16 + 2" using blen by (auto simp: w_QBuffer_def)
    from length_concat_bound [OF this] have "length (concat (map w_QBuffer ?profs)) \<le> 256 * (2 ^ 16 + 2)"
      using ask(4) by (simp add: order_trans [OF _ mult_le_mono1])
    then show ?thesis by (simp add: WriteList_def)
  qed
  have "run_state (ReadList r_QBuffer) (cursor [] (WriteList w_QBuffer ?profs @ [])) = (?profs, cursor ([] @ WriteList w_QBuffer ?profs) [])"
    by (rule cQBuffer.list_enc) (use blen ask(4) in auto)
  then show ?thesis
    unfolding s1 ans using len up
    by (simp add: profiles_reader_def NewStreamIn_cursor run_U8 r_Substream_def run_Buffer_end CommonData_Put)
qed


theorem profiles_come_back_as_deposited_witness:
  "fst (run_state profiles_reader (NewStreamIn (rm_Body (fst (RankingHandler (NewSwitchSettings [] 40000) tournaments 0 9
      (NewRMCRequest ProtocolRanking methodRankingCommonDataByPIDs 1 (WriteList (w_PID (NewSwitchSettings [] 40000)) [5, 7] @ []))
      (snd (RankingHandler (NewSwitchSettings [] 40000) tournaments 0 7
        (NewRMCRequest ProtocolRanking MethodUploadCommonData 1 (w_Buffer [1, 2, 3] @ [])) (ranking_start None None)))))))) =
    [[], [1, 2, 3]]"
proof -
  have st: "ranking_start None None = fold (ranking_step (NewSwitchSettings [] 40000)) [] (ranking_start None None)" by simp
  show ?thesis
    by (subst profiles_come_back_as_deposited [OF st, where blob = "[1, 2, 3]" and extra = "[]" and pids = "[5, 7]" and rest = "[]"])
      (simp_all add: NewRMCRequest_def commonDataMaxLen_def CommonData_def commonDataInit_def ranking_start_def)
qed

subsection \<open>Tournament rankings\<close>

interpretation board_order: slice_order board_less
  by unfold_locales (auto simp: board_less_def split: if_splits)

text \<open>The results a player submitted in a tournament and category, with their times, as the events carry them.\<close>

type_synonym board_result = "int \<times> u32 \<times> bytes"

fun results_of :: "board_key \<Rightarrow> u64 \<Rightarrow> ranking_event list \<Rightarrow> board_result list" where
  "results_of k pid [] = []"
| "results_of k pid (RankRequest ts now p req # evs) =
     (case parseScoreSubmission (rm_Body req) of None \<Rightarrow> []
      | Some (t, c, v, prof) \<Rightarrow> if rm_Method req = methodRankingSubmitScore \<and> (t, c) = k \<and> p = pid then [(now, v, prof)] else [])
     @ results_of k pid evs"
| "results_of k pid (CommonTick # evs) = results_of k pid evs"
| "results_of k pid (BoardTick # evs) = results_of k pid evs"

text \<open>What the ranking keeps of them: score and time of the first best result, the profile of the last one.\<close>

definition best_result :: "u64 \<Rightarrow> board_result list \<Rightarrow> board_entry option" where
  "best_result pid rs = (case first_max (\<lambda>(_, v, _). v) rs of None \<Rightarrow> None
     | Some (now, v, _) \<Rightarrow> Some \<lparr>be_PID = pid, be_Score = v, be_Profile = snd (snd (last rs)), be_At = now\<rparr>)"

lemma best_result_snoc: "best_result pid (rs @ [(now, v, prof)]) = Some (new_entry now pid v prof (best_result pid rs))"
proof (cases "first_max (\<lambda>(_, v, _). v) rs")
  case (Some r)
  then show ?thesis by (cases r) (simp add: best_result_def first_max_snoc new_entry_def)
qed (simp add: best_result_def first_max_snoc new_entry_def)

definition boards_refine :: "(board_key \<Rightarrow> u64 \<Rightarrow> board_result list) \<Rightarrow> ranking_state \<Rightarrow> bool" where
  "boards_refine rs st \<longleftrightarrow> (\<forall>k pid. map_of (board_of k st) pid = best_result pid (rs k pid)) \<and>
     (rk_boardOnce st \<or> rk_boardFile st = None) \<and> (rk_boardDirty st \<longrightarrow> rk_boardOnce st)"

lemma boards_refine_more:
  "rk_boards st' = rk_boards st \<Longrightarrow> rk_boardOnce st' = rk_boardOnce st \<Longrightarrow> rk_boardFile st' = rk_boardFile st \<Longrightarrow>
   rk_boardDirty st' = rk_boardDirty st \<Longrightarrow> boards_refine rs st' = boards_refine rs st"
  by (simp add: boards_refine_def board_of_def)

lemma boards_refine_init: "boards_refine rs st \<Longrightarrow> boards_refine rs (boardInit st)"
  by (auto simp: boards_refine_def boardInit_def board_of_def split: option.split)

lemma boardInit_once [simp]: "rk_boardOnce (boardInit st)"
  by (simp add: boardInit_def)

lemma boards_refine_record:
  assumes "boards_refine rs st" "parseScoreSubmission body = Some (t, c, v, prof)"
  shows "boards_refine (\<lambda>k q. rs k q @ (if (t, c) = k \<and> pid = q then [(now, v, prof)] else [])) (snd (recordScore now pid body st))"
proof -
  have i: "boards_refine rs (boardInit st)" using assms(1) by (rule boards_refine_init)
  let ?st = "snd (recordScore now pid body st)"
  have at: "board_of k ?st = (if k = (t, c) then AList.update pid (new_entry now pid v prof
      (map_of (board_of (t, c) (boardInit st)) pid)) (board_of (t, c) (boardInit st)) else board_of k (boardInit st))" for k
    by (simp add: recordScore_Some [OF assms(2)] board_of_def)
  have "map_of (board_of k ?st) q = best_result q (rs k q @ (if (t, c) = k \<and> pid = q then [(now, v, prof)] else []))" for k q
    using i unfolding at boards_refine_def by (cases k) (auto simp: best_result_snoc)
  then show ?thesis by (simp add: boards_refine_def recordScore_Some [OF assms(2)])
qed

lemma commonDataInit_dirty [simp]: "rk_boardDirty (commonDataInit st) = rk_boardDirty st"
  by (simp add: commonDataInit_def)

lemma common_loop_boards: "boards_refine rs (snd (common_loop s n i st)) = boards_refine rs st"
proof (induction n arbitrary: i st)
  case (Suc n)
  have "boards_refine rs (snd (common_loop s n j (commonDataInit st))) = boards_refine rs st" for j
    unfolding Suc.IH by (rule boards_refine_more) simp_all
  then show ?case by (auto simp: Let_def CommonData_def split: prod.split) (metis snd_conv)+
qed simp

lemma not_submit_refines:
  assumes "boards_refine rs st" "rm_Method req \<noteq> methodRankingSubmitScore"
  shows "boards_refine rs (snd (RankingHandler s ts now pid req st))"
proof -
  have "boards_refine rs (snd (commonDataByPIDs s req st))"
    using assms(1) common_loop_boards [of rs s _ _ st]
    by (auto simp: commonDataByPIDs_def Let_def split: prod.split option.split) (metis snd_conv)+
  moreover have "boards_refine rs (snd (competitionRanking req st))"
    using assms(1) boards_refine_init [OF assms(1)] by (simp add: competitionRanking_def boardFor_def Let_def)
  moreover have "boards_refine rs (snd (uploadCommonData pid req st))"
  proof -
    have "boards_refine rs (PutCommonData pid blob st)" for blob
      using assms(1) boards_refine_more [of "PutCommonData pid blob st" st rs] by (simp add: PutCommonData_def Let_def)
    then show ?thesis using assms(1) by (simp add: uploadCommonData_def split: prod.split)
  qed
  moreover have "boards_refine rs (snd (submitResult now pid req st))"
    using assms boards_refine_more [of "keepSubmittedScore pid (rm_Method req) (rm_Body req) st" st rs]
    by (simp add: submitResult_def keepSubmittedScore_def)
  ultimately show ?thesis using assms(1) by (simp add: RankingHandler_def)
qed

lemma submit_refines:
  assumes "boards_refine rs st" "rm_Method req = methodRankingSubmitScore"
  shows "boards_refine (\<lambda>k q. rs k q @ results_of k q [RankRequest ts now pid req]) (snd (RankingHandler s ts now pid req st))"
proof -
  let ?st = "keepSubmittedScore pid (rm_Method req) (rm_Body req) st"
  have k: "boards_refine rs ?st"
    using assms(1) boards_refine_more [of ?st st rs] by (simp add: keepSubmittedScore_def)
  have h: "snd (RankingHandler s ts now pid req st) = snd (recordScore now pid (rm_Body req) ?st)"
    using assms(2) by (simp add: RankingHandler_def ranking_methods submitResult_def)
  show ?thesis
  proof (cases "parseScoreSubmission (rm_Body req)")
    case None
    then show ?thesis using boards_refine_init [OF k] by (simp add: h recordScore_def)
  next
    case (Some x)
    obtain t c v prof where x: "x = (t, c, v, prof)" by (cases x)
    show ?thesis
      using boards_refine_record [OF k Some [unfolded x], of pid now] assms(2)
      by (simp add: h Some x)
  qed
qed

lemma ranking_step_refines:
  "boards_refine rs st \<Longrightarrow> boards_refine (\<lambda>k q. rs k q @ results_of k q [ev]) (ranking_step s ev st)"
proof (cases ev)
  case (RankRequest ts now pid req)
  assume r: "boards_refine rs st"
  show ?thesis
  proof (cases "rm_Method req = methodRankingSubmitScore")
    case False
    then have "results_of k q [ev] = []" for k q by (auto simp: RankRequest split: option.split)
    then show ?thesis using not_submit_refines [OF r False] by (simp add: RankRequest)
  next
    case True
    from submit_refines [OF r this, of ts now pid s] show ?thesis by (simp only: RankRequest ranking_step.simps)
  qed
next
  case CommonTick
  assume "boards_refine rs st"
  then show ?thesis using boards_refine_more [of "commonDataFlusher st" st rs] by (simp add: CommonTick commonDataFlusher_def)
next
  case BoardTick
  assume "boards_refine rs st"
  then show ?thesis by (auto simp: BoardTick boardFlusher_def boards_refine_def board_of_def)
qed

lemma results_of_snoc: "results_of k q (ev # evs) = results_of k q [ev] @ results_of k q evs"
  by (cases ev) (simp_all split: option.split)

lemma reachable_refines:
  "boards_refine rs st \<Longrightarrow> boards_refine (\<lambda>k q. rs k q @ results_of k q evs) (fold (ranking_step s) evs st)"
proof (induction evs arbitrary: rs st)
  case (Cons ev evs)
  from Cons.IH [OF ranking_step_refines [OF Cons.prems]] show ?case
    by (subst results_of_snoc) simp
qed simp

text \<open>C27: The ranking of a tournament keeps every player's best result.  Whatever the server has handled since it was
  started without a file of rankings, the entry of a player in a tournament and category is his best result there: the
  score and time of the first of his results that no other exceeds, with the profile of the last one.  What a ranking request
  shows of it is a sorted list, best score first and earlier times first among equal scores, cut to 100 lines.\<close>

theorem tournament_ranking_keeps_best_result:
  fixes s :: settings and evs :: "ranking_event list" and t c :: u32 and cf :: "(u64 \<times> bytes) list option"
  defines "st \<equiv> fold (ranking_step s) evs (ranking_start cf None)"
  shows "map_of (board_of (t, c) st) pid = best_result pid (results_of (t, c) pid evs) \<and>
    (\<exists>rest. mset (fst (boardFor t c st) @ rest) = mset (map snd (board_of (t, c) st)) \<and>
       slice_sorted board_less (fst (boardFor t c st) @ rest) \<and>
       length (fst (boardFor t c st)) = min scoreMaxPerBoard (length (board_of (t, c) st)))"
proof -
  have "boards_refine (\<lambda>_ _. []) (ranking_start cf None)"
    by (simp add: boards_refine_def ranking_start_def board_of_def best_result_def first_max_def)
  from reachable_refines [OF this] have ref: "boards_refine (\<lambda>k q. results_of k q evs) st" by (simp add: st_def)
  have b: "board_of (t, c) (boardInit st) = board_of (t, c) st"
    using ref by (auto simp: boards_refine_def boardInit_def board_of_def split: option.split)
  let ?all = "sort_slice board_less (map snd (board_of (t, c) st))"
  have shown: "fst (boardFor t c st) = take scoreMaxPerBoard ?all" by (simp add: boardFor_def Let_def b)
  have "mset (fst (boardFor t c st) @ drop scoreMaxPerBoard ?all) = mset (map snd (board_of (t, c) st))"
    unfolding shown append_take_drop_id by simp
  moreover have "slice_sorted board_less (fst (boardFor t c st) @ drop scoreMaxPerBoard ?all)"
    unfolding shown append_take_drop_id by (rule board_order.sort_sorted)
  moreover have "length (fst (boardFor t c st)) = min scoreMaxPerBoard (length (board_of (t, c) st))" by (simp add: shown min.commute)
  moreover have "map_of (board_of (t, c) st) pid = best_result pid (results_of (t, c) pid evs)"
    using ref by (simp add: boards_refine_def)
  ultimately show ?thesis by blast
qed


subsection \<open>The ranking on the wire\<close>

text \<open>What the game reads, in the layout the source documents: the pages, then of the page its version, its length, its category,
  its lines of 164 bytes each, and the number of players in its foot.\<close>

type_synonym client_line = "u32 \<times> u64 \<times> u32 \<times> u64 \<times> bytes"

definition line_reader :: "client_line reader" where
  "line_reader = do { _ \<leftarrow> r_U8; _ \<leftarrow> r_U32; rank \<leftarrow> r_U32; pid \<leftarrow> r_U64; score \<leftarrow> r_U32; date \<leftarrow> r_U64; _ \<leftarrow> r_U8; prof \<leftarrow> r_QBuffer;
     State_Monad.return (rank, pid, score, date, prof) }"

definition board_reader :: "(u32 \<times> u32 \<times> client_line list \<times> u32) reader" where
  "board_reader = do { pages \<leftarrow> r_U32; _ \<leftarrow> r_U8; _ \<leftarrow> r_U32; cat \<leftarrow> r_U32; n \<leftarrow> r_U32; ls \<leftarrow> r_repeat (unat n) line_reader; total \<leftarrow> r_U32;
     State_Monad.return (pages, cat, ls, total) }"

definition client_line_of :: "nat \<Rightarrow> board_entry \<Rightarrow> client_line" where
  "client_line_of i e = (of_nat (i + 1), be_PID e, be_Score e, nexDateTime (be_At e), be_Profile e)"

lemma board_line_wire:
  "length (be_Profile e) = scoreProfileLen \<Longrightarrow> board_line i e = w_U8 0 @ w_U32 scoreEntryBody @ w_U32 (of_nat (i + 1)) @ w_U64 (be_PID e) @
     w_U32 (be_Score e) @ w_U64 (nexDateTime (be_At e)) @ w_U8 0xff @ w_QBuffer (be_Profile e)"
  by (simp add: board_line_def w_U8_def w_U16_def w_U32_def w_U64_def w_QBuffer_def)

lemma line_reads: "length (be_Profile e) = scoreProfileLen \<Longrightarrow>
    run_state line_reader (cursor pre (board_line i e @ post)) = (client_line_of i e, cursor (pre @ board_line i e) post)"
  by (simp add: board_line_wire line_reader_def client_line_of_def run_U8 run_U32 run_U64 run_QBuffer scoreProfileLen_def)

lemma lines_read: "\<forall>e \<in> set es. length (be_Profile e) = scoreProfileLen \<Longrightarrow>
    run_state (r_repeat (length es) line_reader) (cursor pre (concat (map (\<lambda>(i, e). board_line i e) (enumerate k es)) @ post)) =
      (map (\<lambda>(i, e). client_line_of i e) (enumerate k es), cursor (pre @ concat (map (\<lambda>(i, e). board_line i e) (enumerate k es))) post)"
  by (induction es arbitrary: k pre) (simp_all add: line_reads)

lemma writeBoard_reads:
  assumes "\<forall>e \<in> set es. length (be_Profile e) = scoreProfileLen" "length es < 2 ^ 32"
  shows "fst (run_state board_reader (NewStreamIn (writeBoard cat es))) =
    (1, cat, map (\<lambda>(i, e). client_line_of i e) (enumerate 0 es), of_nat (length es))"
  using assms lines_read [OF assms(1), of _ 0]
  by (simp add: writeBoard_def board_reader_def NewStreamIn_cursor Let_def run_U32 run_U8 flip: w_U32_def w_U8_def)

lemma category_found:
  assumes "\<forall>k \<in> fst ` set (rk_boards st). fst k = t \<longrightarrow> snd k = c" "board_of (t, c) st \<noteq> []"
  shows "boardCategoryFor t st = c"
proof -
  obtain m where "map_of (rk_boards st) (t, c) = Some m"
    using assms(2) by (auto simp: board_of_def split: option.splits)
  then have mem: "((t, c), m) \<in> set (rk_boards st)" by (rule map_of_SomeD)
  show ?thesis
  proof (cases "find (\<lambda>(k, _). fst k = t) (rk_boards st)")
    case None
    then show ?thesis using mem by (auto simp: find_None_iff)
  next
    case (Some p)
    then have "p \<in> set (rk_boards st)" "fst (fst p) = t" using find_SomeD [OF Some] by (auto split: prod.splits)
    then show ?thesis using assms(1) Some by (auto simp: boardCategoryFor_def split: prod.split)
  qed
qed

lemma competitionRanking_once:
  assumes "rk_boardOnce st" "13 \<le> length (rm_Body req)" "le32_at (rm_Body req) 5 = t"
    "\<forall>k \<in> fst ` set (rk_boards st). fst k = t \<longrightarrow> snd k = c" "board_of (t, c) st \<noteq> []"
  shows "fst (competitionRanking req st) = rk_reply req (writeBoard c (fst (boardFor t c st)))"
proof -
  have i: "boardInit st = st" using assms(1) by (simp add: boardInit_def)
  have "sort_slice board_less (map snd (board_of (t, c) st)) \<noteq> []"
    using assms(5) by (metis length_0_conv length_map length_sort_slice)
  then have "fst (boardFor t c st) \<noteq> []" by (simp add: boardFor_def Let_def i scoreMaxPerBoard_def)
  then show ?thesis
    using assms(2,3) category_found [OF assms(4,5)]
    by (simp add: competitionRanking_def Let_def i boardFor_def split: prod.split)
qed

text \<open>A player who asks for a tournament's ranking can read it: the answer is one page with the tournament's category and, for
  each line the server shows, its rank from 1 on, the player, the score, the date and the player's 132-byte profile, and the
  number of lines in the foot.  Lines are always 164 bytes because no entry with another profile length exists in any
  state the server can reach.  (With results in two categories, which of the two is answered depends on the map's order.)\<close>

theorem tournament_ranking_is_readable:
  assumes st: "st = fold (ranking_step s) evs (ranking_start cf bf)" "rk_boardOnce st"
    and req: "rm_Method req = methodRankingCompetitionRanking" "13 \<le> length (rm_Body req)" "le32_at (rm_Body req) 5 = t"
    and cat: "\<forall>k \<in> fst ` set (rk_boards st). fst k = t \<longrightarrow> snd k = c" "board_of (t, c) st \<noteq> []"
  shows "fst (run_state board_reader (NewStreamIn (rm_Body (fst (RankingHandler s ts now pid req st))))) =
      (1, c, map (\<lambda>(i, e). client_line_of i e) (enumerate 0 (fst (boardFor t c st))), of_nat (length (fst (boardFor t c st)))) \<and>
    list_all (\<lambda>e. length (board_line i e) = 164) (fst (boardFor t c st))"
proof -
  have ok: "ranking_ok st" unfolding st by (intro ranking_reachable_ok ranking_ok_start)
  have i: "boardInit st = st" using st(2) by (simp add: boardInit_def)
  have m: "gomap_all entry_ok (board_of (t, c) st)"
    using ok by (simp add: ranking_ok_def board_of_def board_or_empty)
  have prof: "\<forall>e \<in> set (fst (boardFor t c st)). length (be_Profile e) = scoreProfileLen"
    using m by (auto simp: boardFor_def Let_def i gomap_all_def entry_ok_def dest!: in_set_takeD)
  have "length (fst (boardFor t c st)) < 2 ^ 32" by (simp add: boardFor_def Let_def scoreMaxPerBoard_def min_def)
  note rd = writeBoard_reads [OF prof this, of c]
  have "list_all (\<lambda>e. length (board_line i e) = 164) (fst (boardFor t c st))"
    using prof by (auto simp: list_all_iff board_line_def scoreProfileLen_def)
  then show ?thesis
    using req rd competitionRanking_once [OF st(2) req(2,3) cat]
    by (simp add: RankingHandler_def ranking_methods rk_reply_def NewRMCSuccess_def)
qed

subsection \<open>A restart\<close>

definition second_only :: "board_entry \<Rightarrow> board_entry" where
  "second_only e = e\<lparr>be_At := be_At e div 10 ^ 9 * 10 ^ 9\<rparr>"

definition rows :: "board_key \<Rightarrow> board \<Rightarrow> board_persisted list" where
  "rows k m = map (\<lambda>(pid, e). \<lparr>bp_Tournament = fst k, bp_Category = snd k, bp_PID = pid,
     bp_Score = be_Score e, bp_Profile = be_Profile e, bp_At = be_At e div 10 ^ 9\<rparr>) m"

lemma persisted_rows: "persisted_list bs = concat (map (\<lambda>(k, m). rows k m) bs)"
  by (simp add: persisted_list_def rows_def)

abbreviation seconds :: "board \<Rightarrow> board" where
  "seconds m \<equiv> map (\<lambda>(p, e). (p, second_only e)) m"

lemma map_of_last: "k \<notin> fst ` set acc \<Longrightarrow> map_of (acc @ [(k, m)]) k = Some m"
  by (simp add: map_add_def map_of_eq_None_iff [THEN iffD2])

lemma update_last: "k \<notin> fst ` set acc \<Longrightarrow> AList.update k v (acc @ [(k, m)]) = acc @ [(k, v)]"
  by (induction acc) auto

lemma restore_row:
  assumes "entry_ok pid e" "fst k \<noteq> 0"
  shows "restore_boards (rows k [(pid, e)] @ l) bs =
    restore_boards l (AList.update k (AList.update pid (second_only e) (case map_of bs k of None \<Rightarrow> [] | Some m \<Rightarrow> m)) bs)"
  using assms by (cases e) (simp add: rows_def entry_ok_def second_only_def Let_def)

lemma rows_Cons: "rows k (p # m) @ l = rows k [p] @ (rows k m @ l)"
  by (simp add: rows_def)

lemma restore_rows:
  assumes "\<forall>(pid, e) \<in> set m. entry_ok pid e" "fst k \<noteq> 0" "k \<notin> fst ` set acc" "distinct (map fst (m0 @ m))"
  shows "restore_boards (rows k m @ l) (acc @ [(k, m0)]) = restore_boards l (acc @ [(k, m0 @ seconds m)])"
  using assms
proof (induction m arbitrary: m0)
  case (Cons p m)
  obtain pid e where p: "p = (pid, e)" by (cases p)
  have fresh: "AList.update pid (second_only e) m0 = m0 @ [(pid, second_only e)]"
    by (rule update_fresh) (use Cons.prems p in auto)
  have "restore_boards (rows k (p # m) @ l) (acc @ [(k, m0)]) =
      restore_boards (rows k m @ l) (acc @ [(k, m0 @ [(pid, second_only e)])])"
    unfolding p by (subst rows_Cons, subst restore_row)
      (use Cons.prems p in \<open>auto simp: map_of_last update_last fresh simp del: map_of_append\<close>)
  also have "\<dots> = restore_boards l (acc @ [(k, (m0 @ [(pid, second_only e)]) @ seconds m)])"
    by (rule Cons.IH) (use Cons.prems p in auto)
  finally show ?case by (simp add: p)
qed (simp add: rows_def)

lemma restore_persisted:
  assumes "\<forall>(k, m) \<in> set bs. board_ok k m" "distinct (map fst (acc @ bs))"
  shows "restore_boards (persisted_list bs) acc = acc @ map (\<lambda>(k, m). (k, seconds m)) bs"
  using assms
proof (induction bs arbitrary: acc)
  case (Cons b bs)
  obtain k p m where b: "b = (k, p # m)" using Cons.prems(1) by (cases b; cases "snd b") (auto simp: board_ok_def)
  obtain pid e where p: "p = (pid, e)" by (cases p)
  have ok: "board_ok k (p # m)" and fresh: "k \<notin> fst ` set acc" using Cons.prems b by auto
  then have e: "entry_ok pid e" "\<forall>(pid, e) \<in> set m. entry_ok pid e" "fst k \<noteq> 0" "distinct (map fst (p # m))"
    by (auto simp: board_ok_def gomap_all_def gomap_wf_def p)
  have none: "map_of acc k = None" using fresh by (simp add: map_of_eq_None_iff)
  have "restore_boards (persisted_list (b # bs)) acc = restore_boards (rows k [p] @ rows k m @ persisted_list bs) acc"
    by (simp add: persisted_rows b rows_def)
  also have "\<dots> = restore_boards (rows k m @ persisted_list bs) (acc @ [(k, [(pid, second_only e)])])"
    using e none fresh by (simp add: p restore_row update_fresh)
  also have "\<dots> = restore_boards (persisted_list bs) (acc @ [(k, [(pid, second_only e)] @ seconds m)])"
    by (rule restore_rows) (use e fresh p in auto)
  also have "\<dots> = (acc @ [(k, [(pid, second_only e)] @ seconds m)]) @ map (\<lambda>(k, m). (k, seconds m)) bs"
    by (rule Cons.IH) (use Cons.prems b in auto)
  finally show ?case by (simp add: b p)
qed (simp add: persisted_list_def)

text \<open>A restart keeps the tournament rankings, but hides them at first.  The server started again on the file its flusher wrote
  has, once the file is loaded, the same rankings in the same order, with times cut to the second.  The first request for a
  tournament's ranking nevertheless gets the empty ranking when its results are in a category other than 0: the
  category is looked up before the file is loaded, and category 0 is what an empty table gives.\<close>

theorem first_ranking_after_restart_is_empty:
  assumes st: "st = fold (ranking_step s) evs (ranking_start cf bf)"
    and again: "st' = ranking_start cf' (Some (persisted_list (rk_boards st)))"
    and req: "rm_Method req = methodRankingCompetitionRanking" "13 \<le> length (rm_Body req)"
      "map_of (rk_boards st) (le32_at (rm_Body req) 5, 0) = None"
  shows "rk_boards (boardInit st') = map (\<lambda>(k, m). (k, seconds m)) (rk_boards st) \<and>
    RankingHandler s ts now pid req st' = (rk_reply req (w_U32 0), boardInit st')"
proof -
  have ok: "ranking_ok st" unfolding st by (intro ranking_reachable_ok ranking_ok_start)
  then have "\<forall>(k, m) \<in> set (rk_boards st). board_ok k m" "distinct (map fst (rk_boards st))"
    by (auto simp: ranking_ok_def gomap_all_def gomap_wf_def)
  then have r: "restore_boards (persisted_list (rk_boards st)) [] = map (\<lambda>(k, m). (k, seconds m)) (rk_boards st)"
    using restore_persisted [of "rk_boards st" "[]"] by simp
  have bs: "rk_boards (boardInit st') = map (\<lambda>(k, m). (k, seconds m)) (rk_boards st)"
    by (simp add: again ranking_start_def boardInit_def r)
  have "boardCategoryFor (le32_at (rm_Body req) 5) st' = 0" by (simp add: again ranking_start_def boardCategoryFor_def)
  moreover have "map_of (rk_boards (boardInit st')) (le32_at (rm_Body req) 5, 0) = None"
    using req(3) unfolding bs by (force simp: map_of_eq_None_iff)
  ultimately have "RankingHandler s ts now pid req st' = (rk_reply req (w_U32 0), boardInit st')"
    using req(1,2) by (simp add: RankingHandler_def ranking_methods competitionRanking_def boardFor_def Let_def board_of_def)
  then show ?thesis using bs by simp
qed


subsection \<open>Examples\<close>

definition demo_submission :: bytes where
  "demo_submission = replicate 5 0 @ le_bytes 4 (42 :: u32) @ le_bytes 4 (393 :: u32) @ replicate 4 0 @ le_bytes 4 (9000 :: u32) @
     replicate 6 0 @ [132, 0] @ replicate 132 7"

definition demo_events :: "ranking_event list" where
  "demo_events = [RankRequest tournaments 5000000001 7 (NewRMCRequest ProtocolRanking methodRankingSubmitScore 1 demo_submission)]"

definition demo_ranking :: ranking_state where
  "demo_ranking = fold (ranking_step (NewSwitchSettings [] 40000)) demo_events (ranking_start None None)"

definition ranking_request :: rmc_message where
  "ranking_request = NewRMCRequest ProtocolRanking methodRankingCompetitionRanking 1 (replicate 5 0 @ le_bytes 4 (42 :: u32) @ replicate 4 0)"

lemma demo_parse: "parseScoreSubmission demo_submission = Some (42, 393, 9000, replicate 132 7)"
  by code_simp

lemma demo_boards: "rk_boards demo_ranking =
    [((42, 393), [(7, \<lparr>be_PID = 7, be_Score = 9000, be_Profile = replicate 132 7, be_At = 5000000001\<rparr>)])]"
  "rk_boardOnce demo_ranking"
  by (simp_all add: demo_ranking_def demo_events_def RankingHandler_def ranking_methods submitResult_def NewRMCRequest_def
      keepSubmittedScore_def recordScore_Some [OF demo_parse] ranking_start_def boardInit_def board_of_def new_entry_def)

lemma ranking_request_simps: "rm_Method ranking_request = methodRankingCompetitionRanking" "13 \<le> length (rm_Body ranking_request)"
  "le32_at (rm_Body ranking_request) 5 = 42"
  by code_simp+

theorem tournament_ranking_is_readable_witness:
  "fst (run_state board_reader (NewStreamIn (rm_Body (fst (RankingHandler (NewSwitchSettings [] 40000) tournaments 0 9 ranking_request demo_ranking))))) =
     (1, 393, [(1, 7, 9000, nexDateTime 5000000001, replicate 132 7)], 1)"
proof -
  have cat: "\<forall>k \<in> fst ` set (rk_boards demo_ranking). fst k = 42 \<longrightarrow> snd k = 393" "board_of (42, 393) demo_ranking \<noteq> []"
    by (simp_all add: demo_boards board_of_def)
  have shown: "fst (boardFor 42 393 demo_ranking) = [\<lparr>be_PID = 7, be_Score = 9000, be_Profile = replicate 132 7, be_At = 5000000001\<rparr>]"
    by (simp add: boardFor_def Let_def boardInit_def demo_boards board_of_def scoreMaxPerBoard_def)
  show ?thesis
    using tournament_ranking_is_readable [where ts = tournaments and now = 0 and pid = 9, OF demo_ranking_def demo_boards(2)
        ranking_request_simps cat, THEN conjunct1]
    unfolding shown by (simp add: client_line_of_def)
qed

theorem first_ranking_after_restart_is_empty_witness:
  "fst (RankingHandler (NewSwitchSettings [] 40000) tournaments 0 9 ranking_request (ranking_start None (Some (persisted_list (rk_boards demo_ranking))))) =
     rk_reply ranking_request (w_U32 0)"
proof -
  have "map_of (rk_boards demo_ranking) (le32_at (rm_Body ranking_request) 5, 0) = None"
    by (simp add: demo_boards)
  from first_ranking_after_restart_is_empty [OF demo_ranking_def refl ranking_request_simps(1,2) this, THEN conjunct2]
  show ?thesis by simp
qed

subsection \<open>Names\<close>

lemma trim_front_subset: "set (trim_front ps s) \<subseteq> set s \<and> length (trim_front ps s) \<le> length s"
proof (induction ps s rule: trim_front.induct)
  case (1 ps s)
  show ?case
  proof (cases "first_prefix ps s")
    case (Some r)
    then have "r \<in> set (List.map_filter (\<lambda>p. if p = [] then None else strip_prefix p s) ps)"
      by (auto simp: first_prefix_def split: list.splits)
    then have "set r \<subseteq> set s \<and> length r \<le> length s"
      by (auto simp: List.map_filter_def strip_prefix_def dest: in_set_dropD split: if_splits)
    moreover have "trim_front ps s = trim_front ps r" using Some by (subst trim_front.simps) simp
    ultimately show ?thesis using 1 [OF Some] by auto
  next
    case None
    then have "trim_front ps s = s" by (subst trim_front.simps) simp
    then show ?thesis by simp
  qed
qed

lemma TrimSpace_subset: "set (TrimSpace s) \<subseteq> set s" "length (TrimSpace s) \<le> length s"
  using trim_front_subset [of "map rev space_encodings" "rev (trim_front space_encodings s)"] trim_front_subset [of space_encodings s]
  by (auto simp: TrimSpace_def)

lemma sanitize_loop_graphic: "r \<in> set (sanitize_loop tables n rs) \<Longrightarrow> IsGraphic tables r"
  by (induction tables n rs rule: sanitize_loop.induct) (auto split: if_splits)

lemma sanitize_loop_length: "n < commonDataMaxNameRunes \<Longrightarrow> length (sanitize_loop tables n rs) \<le> commonDataMaxNameRunes - n"
  by (induction tables n rs rule: sanitize_loop.induct) (auto split: if_splits)

definition printable :: "nat \<Rightarrow> bool" where
  "printable b \<longleftrightarrow> 32 \<le> b \<and> b \<noteq> 127 \<and> b < 256"

lemma utf8_encode_printable: "IsGraphic tables r \<Longrightarrow> \<forall>b \<in> set (utf8_encode r). printable b"
  unfolding utf8_encode_def printable_def IsGraphic_def by (auto split: if_splits simp: div_less_iff_less_mult less_mult_imp_div_less)

lemma utf8_encode_length: "length (utf8_encode r) \<le> 4"
  by (simp add: utf8_encode_def)

lemma sanitizeName_printable:
  "list_all (\<lambda>c. printable (of_char c)) (sanitizeName tables s)" "length (sanitizeName tables s) \<le> 128"
proof -
  let ?rs = "sanitize_loop tables 0 (utf8_runes (string_nats s))"
  let ?n = "nat_string (concat (map utf8_encode ?rs))"
  have "printable (of_char c)" if "c \<in> set ?n" for c
  proof -
    from that obtain r b where r: "r \<in> set ?rs" "b \<in> set (utf8_encode r)" "c = char_of b" by (auto simp: nat_string_def)
    have "printable b" using utf8_encode_printable [OF sanitize_loop_graphic [OF r(1)]] r(2) by blast
    then show ?thesis using r(3) by (simp add: printable_def)
  qed
  then show "list_all (\<lambda>c. printable (of_char c)) (sanitizeName tables s)"
    using TrimSpace_subset(1) [of ?n] by (auto simp: sanitizeName_def list_all_iff)
  have "length (concat (map utf8_encode ?rs)) \<le> length ?rs * 4"
    by (rule length_concat_bound) (simp add: utf8_encode_length)
  also have "\<dots> \<le> 128" using sanitize_loop_length [of 0 tables "utf8_runes (string_nats s)"] by (simp add: commonDataMaxNameRunes_def)
  finally show "length (sanitizeName tables s) \<le> 128"
    using TrimSpace_subset(2) [of ?n] by (simp add: sanitizeName_def nat_string_def)
qed

text \<open>A name read from a profile cannot forge lines of a log.  Whatever bytes a client deposited, both names are at most 128
  bytes and contain no control byte: no line break, no NUL, no DEL.  Profiles of any other size than 132 bytes have no
  names.  (The in-game name is documented as one byte per character, but is read as UTF-8, so an accented Latin-1 letter
  disappears from it.)\<close>

theorem names_carry_no_control_bytes:
  assumes "CommonDataNames tables blob = Some (mii, nick)"
  shows "length blob = 132 \<and> length mii \<le> 128 \<and> length nick \<le> 128 \<and>
    list_all (\<lambda>c. printable (of_char c)) (mii @ nick)"
proof -
  have "length blob = commonDataBlobLen" using assms by (auto simp: CommonDataNames_def split: if_splits)
  then show ?thesis using assms sanitizeName_printable
    by (auto simp: CommonDataNames_def commonDataBlobLen_def decodeUTF16LE_def decodeBytesZ_def)
qed

definition demo_profile :: bytes where
  "demo_profile = replicate 20 0 @ [77, 0, 10, 0, 105, 0, 105, 0, 0, 0] @ replicate 12 0 @ replicate 54 0 @ [66, 13, 10, 0xE9, 111, 0] @ replicate 30 0"

lemma demo_names: "CommonDataNames (\<lambda>_. True) demo_profile = Some (''Mii'', ''Bo'')"
proof -
  have len: "length demo_profile = 132" by (simp add: demo_profile_def)
  have units: "utf16_units 0 (take 22 (drop 20 demo_profile)) = [77, 10, 105, 105]"
    by (simp add: demo_profile_def commonDataMaxNameRunes_def)
  have nick: "takeWhile (\<lambda>x. x \<noteq> 0) (drop 96 demo_profile) = [66, 13, 10, 0xE9, 111]" by (simp add: demo_profile_def)
  have mii: "sanitize_loop (\<lambda>_. True) 0 (utf8_runes (string_nats (nat_string (concat (map utf8_encode (utf16_runes [77, 10, 105, 105])))))) = [77, 105, 105]"
    by (simp add: utf8_runes.simps utf8_encode_def string_nats_def nat_string_def decode_rune_def IsGraphic_def ReplacementChar_def
        commonDataMaxNameRunes_def)
  have bo: "sanitize_loop (\<lambda>_. True) 0 (utf8_runes (string_nats (bytes_string [66, 13, 10, 0xE9, 111]))) = [66, 111]"
    by (simp add: utf8_runes.simps string_nats_def bytes_string_def char_of_byte_def decode_rune_def IsGraphic_def ReplacementChar_def
        commonDataMaxNameRunes_def second_range_def)
  have cut: "nat_string (concat (map utf8_encode [77, 105, 105])) = ''Mii''" "nat_string (concat (map utf8_encode [66, 111])) = ''Bo''"
    by (simp_all add: nat_string_def utf8_encode_def char_of_def bit_Suc_0_iff)
  have "TrimSpace ''Mii'' = ''Mii''" "TrimSpace ''Bo'' = ''Bo''"
    using TrimSpace_padded [of "[]" "[]" "''Mii''"] TrimSpace_padded [of "[]" "[]" "''Bo''"] by (simp_all add: graphic_def)
  then show ?thesis
    unfolding CommonDataNames_def commonDataBlobLen_def commonDataMiiNameLen_def commonDataMiiNameOff_def commonDataNickOff_def
      decodeUTF16LE_def decodeBytesZ_def sanitizeName_def len units nick mii bo cut by simp
qed

theorem names_carry_no_control_bytes_witness:
  "length demo_profile = 132 \<and> list_all (\<lambda>c. printable (of_char c)) (''Mii'' @ ''Bo'')"
  using names_carry_no_control_bytes [OF demo_names] by blast

end
