(* ===== verification/Nex_Referee.thy ===== *)
theory Nex_Referee
  imports Nex_Frame
begin

section \<open>The referee of rounds and its statistics (referee.go, referee\_stats.go)\<close>

text \<open>
  The rounds that were opened, with the parameter of each, and the balance of every player and category.
  The package variables and the store \<open>StatsArbitre\<close> are the record \<open>referee_state\<close>; the balances are only
  reached through the map, so it holds them by value.  \<open>rf_file\<close> is the list decoded from the file of
  balances, \<open>rf_chemin\<close> and \<open>rf_writes\<close> say whether a path is configured and whether writing succeeds.
  \<open>RefereeEndpoint\<close> is the endpoint of the caller, when \<open>rf_endpoint\<close> says the game has set it.  The order of
  the map of balances is the order \<open>toutesCategories\<close> visits it in.
\<close>

definition ProtocolMatchmakeReferee :: u16 where "ProtocolMatchmakeReferee = 0x78"
definition MethodRefereeStartRound :: u32 where "MethodRefereeStartRound = 1"
definition MethodRefereeGetStartRoundParam :: u32 where "MethodRefereeGetStartRoundParam = 2"
definition MethodRefereeEndRound :: u32 where "MethodRefereeEndRound = 3"
definition MethodRefereeEndRoundPartialReport :: u32 where "MethodRefereeEndRoundPartialReport = 4"
definition MethodRefereeEndRoundWithoutReport :: u32 where "MethodRefereeEndRoundWithoutReport = 5"
definition MethodRefereeGetRoundParticipants :: u32 where "MethodRefereeGetRoundParticipants = 6"
definition MethodRefereeGetStatsPrimary :: u32 where "MethodRefereeGetStatsPrimary = 9"
definition MethodRefereeGetStatsPrimaries :: u32 where "MethodRefereeGetStatsPrimaries = 10"
definition MethodRefereeGetStatsAll :: u32 where "MethodRefereeGetStatsAll = 11"
definition MethodRefereeCreateStats :: u32 where "MethodRefereeCreateStats = 12"
definition MethodRefereeGetOrCreateStats :: u32 where "MethodRefereeGetOrCreateStats = 13"
definition MethodRefereeResetStats :: u32 where "MethodRefereeResetStats = 14"
definition NotificationRefereeRoundStarted :: u32 where "NotificationRefereeRoundStarted = 116000"

lemmas referee_methods = MethodRefereeStartRound_def MethodRefereeGetStartRoundParam_def MethodRefereeEndRound_def
  MethodRefereeEndRoundPartialReport_def MethodRefereeEndRoundWithoutReport_def MethodRefereeGetRoundParticipants_def
  MethodRefereeGetStatsPrimary_def MethodRefereeGetStatsPrimaries_def MethodRefereeGetStatsAll_def MethodRefereeCreateStats_def
  MethodRefereeGetOrCreateStats_def MethodRefereeResetStats_def

subsection \<open>Structures\<close>

record referee_stats =
  st_UniqueID :: u64
  st_Category :: u32
  st_PID :: u64
  st_RecentDisconnection :: u32
  st_RecentViolation :: u32
  st_RecentMismatch :: u32
  st_RecentWin :: u32
  st_RecentLoss :: u32
  st_RecentDraw :: u32
  st_TotalDisconnect :: u32
  st_TotalViolation :: u32
  st_TotalMismatch :: u32
  st_TotalWin :: u32
  st_TotalLoss :: u32
  st_TotalDraw :: u32
  st_RatingValue :: u32

definition stats_zero :: "u32 \<Rightarrow> u64 \<Rightarrow> referee_stats" where
  "stats_zero cat pid = \<lparr>st_UniqueID = 0, st_Category = cat, st_PID = pid, st_RecentDisconnection = 0, st_RecentViolation = 0,
     st_RecentMismatch = 0, st_RecentWin = 0, st_RecentLoss = 0, st_RecentDraw = 0, st_TotalDisconnect = 0, st_TotalViolation = 0,
     st_TotalMismatch = 0, st_TotalWin = 0, st_TotalLoss = 0, st_TotalDraw = 0, st_RatingValue = 0\<rparr>"

definition MatchmakeRefereeStats_levels :: "referee_stats level list" where
  "MatchmakeRefereeStats_levels = [\<lparr>lv_Version = 0,
     lv_Save = Some (\<lambda>s t. w_U64 (st_UniqueID t) @ w_U32 (st_Category t) @ w_PID s (st_PID t) @ w_U32 (st_RecentDisconnection t) @
       w_U32 (st_RecentViolation t) @ w_U32 (st_RecentMismatch t) @ w_U32 (st_RecentWin t) @ w_U32 (st_RecentLoss t) @
       w_U32 (st_RecentDraw t) @ w_U32 (st_TotalDisconnect t) @ w_U32 (st_TotalViolation t) @ w_U32 (st_TotalMismatch t) @
       w_U32 (st_TotalWin t) @ w_U32 (st_TotalLoss t) @ w_U32 (st_TotalDraw t) @ w_U32 (st_RatingValue t)),
     lv_Load = Some (\<lambda>s t. do { u \<leftarrow> r_U64; c \<leftarrow> r_U32; p \<leftarrow> r_PID s; rd \<leftarrow> r_U32; rv \<leftarrow> r_U32; rm \<leftarrow> r_U32; rw \<leftarrow> r_U32; rl \<leftarrow> r_U32; rr \<leftarrow> r_U32;
       td \<leftarrow> r_U32; tv \<leftarrow> r_U32; tm \<leftarrow> r_U32; tw \<leftarrow> r_U32; tl \<leftarrow> r_U32; tr \<leftarrow> r_U32; ra \<leftarrow> r_U32;
       State_Monad.return (t\<lparr>st_UniqueID := u, st_Category := c, st_PID := p, st_RecentDisconnection := rd, st_RecentViolation := rv,
         st_RecentMismatch := rm, st_RecentWin := rw, st_RecentLoss := rl, st_RecentDraw := rr, st_TotalDisconnect := td,
         st_TotalViolation := tv, st_TotalMismatch := tm, st_TotalWin := tw, st_TotalLoss := tl, st_TotalDraw := tr,
         st_RatingValue := ra\<rparr>) })\<rparr>]"

record stats_target =
  tg_PID :: u64
  tg_Category :: u32

definition target_zero :: stats_target where "target_zero = \<lparr>tg_PID = 0, tg_Category = 0\<rparr>"

definition MatchmakeRefereeStatsTarget_levels :: "stats_target level list" where
  "MatchmakeRefereeStatsTarget_levels = [\<lparr>lv_Version = 0,
     lv_Save = Some (\<lambda>s t. w_PID s (tg_PID t) @ w_U32 (tg_Category t)),
     lv_Load = Some (\<lambda>s t. do { p \<leftarrow> r_PID s; c \<leftarrow> r_U32; State_Monad.return (t\<lparr>tg_PID := p, tg_Category := c\<rparr>) })\<rparr>]"

record stats_init =
  si_Category :: u32
  si_InitialRatingValue :: u32

definition init_zero :: stats_init where "init_zero = \<lparr>si_Category = 0, si_InitialRatingValue = 0\<rparr>"

definition MatchmakeRefereeStatsInitParam_levels :: "stats_init level list" where
  "MatchmakeRefereeStatsInitParam_levels = [\<lparr>lv_Version = 0,
     lv_Save = Some (\<lambda>s p. w_U32 (si_Category p) @ w_U32 (si_InitialRatingValue p)),
     lv_Load = Some (\<lambda>s p. do { c \<leftarrow> r_U32; v \<leftarrow> r_U32; State_Monad.return (p\<lparr>si_Category := c, si_InitialRatingValue := v\<rparr>) })\<rparr>]"

text \<open>The signed change of the rating is the word of the same bits.\<close>

record round_result =
  rr_PID :: u64
  rr_PersonalRoundResultFlag :: u32
  rr_RoundWinLoss :: u32
  rr_RatingValueChange :: "32 word"
  rr_Buffer :: bytes
  rr_ReportSummaryMode :: u8
  rr_EventID :: u32

definition result_zero :: round_result where
  "result_zero = \<lparr>rr_PID = 0, rr_PersonalRoundResultFlag = 0, rr_RoundWinLoss = 0, rr_RatingValueChange = 0, rr_Buffer = [],
     rr_ReportSummaryMode = 0, rr_EventID = 0\<rparr>"

definition PersonalRoundResult_levels :: "round_result level list" where
  "PersonalRoundResult_levels = [\<lparr>lv_Version = 0,
     lv_Save = Some (\<lambda>s r. w_PID s (rr_PID r) @ w_U32 (rr_PersonalRoundResultFlag r) @ w_U32 (rr_RoundWinLoss r) @
       w_U32 (rr_RatingValueChange r) @ w_QBuffer (rr_Buffer r) @ w_U8 (rr_ReportSummaryMode r) @ w_U32 (rr_EventID r)),
     lv_Load = Some (\<lambda>s r. do { p \<leftarrow> r_PID s; f \<leftarrow> r_U32; w \<leftarrow> r_U32; d \<leftarrow> r_S32; b \<leftarrow> r_QBuffer; m \<leftarrow> r_U8; e \<leftarrow> r_U32;
       State_Monad.return (r\<lparr>rr_PID := p, rr_PersonalRoundResultFlag := f, rr_RoundWinLoss := w, rr_RatingValueChange := d,
         rr_Buffer := b, rr_ReportSummaryMode := m, rr_EventID := e\<rparr>) })\<rparr>]"

record end_round =
  er_RoundID :: u64
  er_PersonalRoundResults :: "round_result list"

definition end_round_zero :: end_round where "end_round_zero = \<lparr>er_RoundID = 0, er_PersonalRoundResults = []\<rparr>"

definition EndRoundParam_levels :: "end_round level list" where
  "EndRoundParam_levels = [\<lparr>lv_Version = 0,
     lv_Save = Some (\<lambda>s p. w_U64 (er_RoundID p) @ w_U32 (of_nat (length (er_PersonalRoundResults p))) @
       concat (map (WriteStructure s PersonalRoundResult_levels) (er_PersonalRoundResults p))),
     lv_Load = Some (\<lambda>s p. do { i \<leftarrow> r_U64; n \<leftarrow> r_U32; st \<leftarrow> State_Monad.get;
       if n > 128 \<or> Err st \<noteq> None then State_Monad.return (p\<lparr>er_RoundID := i\<rparr>)
       else do { rs \<leftarrow> r_repeat (unat n) (ReadStructure s PersonalRoundResult_levels result_zero);
         State_Monad.return (p\<lparr>er_RoundID := i, er_PersonalRoundResults := rs\<rparr>) } })\<rparr>]"

subsection \<open>The store of balances\<close>

type_synonym cle_stats = "u64 \<times> u32"

record referee_state =
  rf_compteurManches :: u64
  rf_manches :: "(u64, bytes) gomap"
  rf_parCle :: "(cle_stats, referee_stats) gomap"
  rf_modifie :: bool
  rf_file :: "((cle_stats \<times> referee_stats) list) option"

record referee_env =
  rf_endpoint :: bool
  rf_chemin :: bool
  rf_writes :: bool

definition referee_start :: "((cle_stats \<times> referee_stats) list) option \<Rightarrow> referee_state" where
  "referee_start f = \<lparr>rf_compteurManches = 0, rf_manches = [], rf_parCle = [], rf_modifie = False, rf_file = f\<rparr>"

definition fresh_stats :: "u64 \<Rightarrow> u32 \<Rightarrow> u32 \<Rightarrow> referee_stats" where
  "fresh_stats pid categorie rating = (stats_zero categorie pid)\<lparr>st_UniqueID := pid XOR push_bit 48 (ucast categorie), st_RatingValue := rating\<rparr>"

definition obtenirOuCreer :: "u64 \<Rightarrow> u32 \<Rightarrow> u32 \<Rightarrow> referee_state \<Rightarrow> referee_stats \<times> referee_state" where
  "obtenirOuCreer pid categorie ratingInitial m =
     (case map_of (rf_parCle m) (pid, categorie) of
        Some t \<Rightarrow> (t, m)
      | None \<Rightarrow> (let t = fresh_stats pid categorie ratingInitial in
          (t, m\<lparr>rf_parCle := AList.update (pid, categorie) t (rf_parCle m), rf_modifie := True\<rparr>)))"

definition lire :: "u64 \<Rightarrow> u32 \<Rightarrow> referee_state \<Rightarrow> referee_stats" where
  "lire pid categorie m = (case map_of (rf_parCle m) (pid, categorie) of None \<Rightarrow> stats_zero categorie pid | Some t \<Rightarrow> t)"

definition toutesCategories :: "u64 \<Rightarrow> referee_state \<Rightarrow> referee_stats list" where
  "toutesCategories pid m = map snd (filter (\<lambda>(k, _). fst k = pid) (rf_parCle m))"

definition count_result :: "u32 \<Rightarrow> referee_stats \<Rightarrow> referee_stats" where
  "count_result winLoss t =
     (if winLoss = 1 then t\<lparr>st_RecentWin := st_RecentWin t + 1, st_TotalWin := st_TotalWin t + 1\<rparr>
      else if winLoss = 2 then t\<lparr>st_RecentLoss := st_RecentLoss t + 1, st_TotalLoss := st_TotalLoss t + 1\<rparr>
      else if winLoss = 3 then t\<lparr>st_RecentDraw := st_RecentDraw t + 1, st_TotalDraw := st_TotalDraw t + 1\<rparr>
      else t)"

text \<open>The negation of the 32-bit change wraps, as in the source.\<close>

definition change_rating :: "32 word \<Rightarrow> u32 \<Rightarrow> u32" where
  "change_rating delta rating =
     (if delta <s 0 \<and> - delta > rating then 0 else word_of_int (uint rating + sint delta))"

definition appliquerResultat :: "u32 \<Rightarrow> round_result \<Rightarrow> referee_state \<Rightarrow> referee_state" where
  "appliquerResultat categorie r m =
     (let (t, m1) = obtenirOuCreer (rr_PID r) categorie 0 m;
          t1 = count_result (rr_RoundWinLoss r) t;
          t2 = t1\<lparr>st_RatingValue := change_rating (rr_RatingValueChange r) (st_RatingValue t1)\<rparr>
      in m1\<lparr>rf_parCle := AList.update (rr_PID r, categorie) t2 (rf_parCle m1), rf_modifie := True\<rparr>)"

definition reinitialiser :: "u64 \<Rightarrow> referee_state \<Rightarrow> nat \<times> referee_state" where
  "reinitialiser pid m =
     (let n = length (filter (\<lambda>(k, _). fst k = pid) (rf_parCle m))
      in (n, m\<lparr>rf_parCle := filter (\<lambda>(k, _). fst k \<noteq> pid) (rf_parCle m), rf_modifie := (rf_modifie m \<or> n > 0)\<rparr>))"

definition ChargerStats :: "referee_env \<Rightarrow> referee_state \<Rightarrow> referee_state" where
  "ChargerStats env m = (if \<not> rf_chemin env then m else case rf_file m of None \<Rightarrow> m
     | Some l \<Rightarrow> m\<lparr>rf_parCle := fold (\<lambda>(k, t). AList.update k t) l (rf_parCle m)\<rparr>)"

definition EcrireStats :: "referee_env \<Rightarrow> referee_state \<Rightarrow> referee_state" where
  "EcrireStats env m = (if \<not> rf_chemin env \<or> \<not> rf_modifie m then m
     else m\<lparr>rf_modifie := False, rf_file := (if rf_writes env then Some (rf_parCle m) else rf_file m)\<rparr>)"

subsection \<open>Reading the parameter of a round\<close>

definition mancheParam :: "u64 \<Rightarrow> referee_state \<Rightarrow> bytes" where
  "mancheParam manche m = (case map_of (rf_manches m) manche of None \<Rightarrow> [] | Some b \<Rightarrow> b)"

definition skip_header :: "settings \<Rightarrow> unit reader" where
  "skip_header s = (if StructHeader s then do { _ \<leftarrow> r_U8; _ \<leftarrow> r_U32; State_Monad.return () } else State_Monad.return ())"

definition refereeCategorie :: "settings \<Rightarrow> bytes \<Rightarrow> u32" where
  "refereeCategorie s corps =
     (if corps = [] then 0
      else case run_state (do { _ \<leftarrow> skip_header s; r_U32 }) (NewStreamIn corps) of
        (cat, st) \<Rightarrow> if Err st \<noteq> None then 0 else cat)"

definition refereePIDs :: "settings \<Rightarrow> bytes \<Rightarrow> u64 list" where
  "refereePIDs s corps =
     (case run_state (do { _ \<leftarrow> skip_header s; _ \<leftarrow> r_U32; _ \<leftarrow> r_U32; r_U32 }) (NewStreamIn corps) of
        (n, st) \<Rightarrow> if n > 128 \<or> Err st \<noteq> None then []
          else case run_state (r_repeat (unat n) (r_PID s)) st of (out, st') \<Rightarrow> if Err st' \<noteq> None then [] else out)"

subsection \<open>The handler\<close>

definition rf_reply :: "rmc_message \<Rightarrow> bytes \<Rightarrow> rmc_message" where
  "rf_reply req body = NewRMCSuccess ProtocolMatchmakeReferee (rm_Method req) (rm_CallID req) body"

definition round_event :: "u64 \<Rightarrow> u64 \<Rightarrow> notification_event" where
  "round_event pid manche = event_zero\<lparr>ne_PIDSource := pid, ne_Type := NotificationRefereeRoundStarted, ne_Param1 := manche\<rparr>"

definition startRound :: "referee_env \<Rightarrow> 'a mm_config \<Rightarrow> nat \<Rightarrow> rmc_message \<Rightarrow> referee_state \<times> 'a mm_state \<Rightarrow> rmc_message \<times> referee_state \<times> 'a mm_state" where
  "startRound env cfg h req me =
     (let (m, e) = me; manche = rf_compteurManches m + 1;
          m1 = m\<lparr>rf_compteurManches := manche, rf_manches := AList.update manche (rm_Body req) (rf_manches m)\<rparr>;
          e1 = (if rf_endpoint env then notify_pids cfg (round_event (conn_pid h e) manche) (refereePIDs (mc_Settings cfg) (rm_Body req)) e else e)
      in (rf_reply req (w_U64 manche), m1, e1))"

definition getStartRoundParam :: "rmc_message \<Rightarrow> referee_state \<Rightarrow> rmc_message" where
  "getStartRoundParam req m =
     (case map_of (rf_manches m) (fst (run_state r_U64 (NewStreamIn (rm_Body req)))) of
        None \<Rightarrow> notImplemented ProtocolMatchmakeReferee req
      | Some param \<Rightarrow> rf_reply req param)"

definition endRound :: "referee_env \<Rightarrow> settings \<Rightarrow> rmc_message \<Rightarrow> referee_state \<Rightarrow> rmc_message \<times> referee_state" where
  "endRound env s req m =
     (let p = fst (run_state (ReadStructure s EndRoundParam_levels end_round_zero) (NewStreamIn (rm_Body req)));
          cat = refereeCategorie s (mancheParam (er_RoundID p) m)
      in (rf_reply req [], EcrireStats env (fold (appliquerResultat cat) (er_PersonalRoundResults p) m)))"

definition getRoundParticipants :: "settings \<Rightarrow> rmc_message \<Rightarrow> referee_state \<Rightarrow> rmc_message" where
  "getRoundParticipants s req m =
     (let pids = refereePIDs s (mancheParam (fst (run_state r_U64 (NewStreamIn (rm_Body req)))) m)
      in rf_reply req (WriteList (w_PID s) pids))"

definition read_init :: "settings \<Rightarrow> rmc_message \<Rightarrow> stats_init" where
  "read_init s req = fst (run_state (ReadStructure s MatchmakeRefereeStatsInitParam_levels init_zero) (NewStreamIn (rm_Body req)))"

definition read_target :: "settings \<Rightarrow> rmc_message \<Rightarrow> stats_target" where
  "read_target s req = fst (run_state (ReadStructure s MatchmakeRefereeStatsTarget_levels target_zero) (NewStreamIn (rm_Body req)))"

definition createStats :: "referee_env \<Rightarrow> settings \<Rightarrow> u64 \<Rightarrow> rmc_message \<Rightarrow> referee_state \<Rightarrow> rmc_message \<times> referee_state" where
  "createStats env s pid req m =
     (let p = read_init s req
      in (rf_reply req [], EcrireStats env (snd (obtenirOuCreer pid (si_Category p) (si_InitialRatingValue p) m))))"

definition getOrCreateStats :: "referee_env \<Rightarrow> settings \<Rightarrow> u64 \<Rightarrow> rmc_message \<Rightarrow> referee_state \<Rightarrow> rmc_message \<times> referee_state" where
  "getOrCreateStats env s pid req m =
     (let p = read_init s req; m1 = EcrireStats env (snd (obtenirOuCreer pid (si_Category p) (si_InitialRatingValue p) m))
      in (rf_reply req (WriteStructure s MatchmakeRefereeStats_levels (lire pid (si_Category p) m1)), m1))"

definition getStatsPrimary :: "settings \<Rightarrow> rmc_message \<Rightarrow> referee_state \<Rightarrow> rmc_message" where
  "getStatsPrimary s req m =
     (let t = read_target s req in rf_reply req (WriteStructure s MatchmakeRefereeStats_levels (lire (tg_PID t) (tg_Category t) m)))"

definition getStatsPrimaries :: "settings \<Rightarrow> rmc_message \<Rightarrow> referee_state \<Rightarrow> rmc_message" where
  "getStatsPrimaries s req m =
     (let (n, st) = run_state r_U32 (NewStreamIn (rm_Body req)) in
      if n > 128 then notImplemented ProtocolMatchmakeReferee req
      else let cibles = fst (run_state (r_repeat (unat n) (ReadStructure s MatchmakeRefereeStatsTarget_levels target_zero)) st) in
        rf_reply req (w_U32 n @ concat (map (\<lambda>t. WriteStructure s MatchmakeRefereeStats_levels (lire (tg_PID t) (tg_Category t) m)) cibles) @
          w_U32 n @ concat (replicate (unat n) (w_Result 0x00010001))))"

definition getStatsAll :: "settings \<Rightarrow> rmc_message \<Rightarrow> referee_state \<Rightarrow> rmc_message" where
  "getStatsAll s req m =
     (let tous = toutesCategories (tg_PID (read_target s req)) m
      in rf_reply req (w_U32 (of_nat (length tous)) @ concat (map (WriteStructure s MatchmakeRefereeStats_levels) tous)))"

definition resetStats :: "referee_env \<Rightarrow> u64 \<Rightarrow> rmc_message \<Rightarrow> referee_state \<Rightarrow> rmc_message \<times> referee_state" where
  "resetStats env pid req m = (rf_reply req [], EcrireStats env (snd (reinitialiser pid m)))"

definition MatchmakeRefereeHandler :: "referee_env \<Rightarrow> 'a mm_config \<Rightarrow> nat \<Rightarrow> rmc_message \<Rightarrow> referee_state \<times> 'a mm_state \<Rightarrow>
    rmc_message \<times> referee_state \<times> 'a mm_state" where
  "MatchmakeRefereeHandler env cfg h req me =
     (let (m, e) = me; s = mc_Settings cfg; pid = conn_pid h e; me_th = rm_Method req;
          keep = (\<lambda>resp. (resp, m, e)); upd = (\<lambda>(resp, m1). (resp, m1, e))
      in if me_th = MethodRefereeStartRound then startRound env cfg h req (m, e)
         else if me_th = MethodRefereeGetStartRoundParam then keep (getStartRoundParam req m)
         else if me_th = MethodRefereeEndRound \<or> me_th = MethodRefereeEndRoundPartialReport then upd (endRound env s req m)
         else if me_th = MethodRefereeEndRoundWithoutReport then keep (rf_reply req [])
         else if me_th = MethodRefereeGetRoundParticipants then keep (getRoundParticipants s req m)
         else if me_th = MethodRefereeCreateStats then upd (createStats env s pid req m)
         else if me_th = MethodRefereeGetOrCreateStats then upd (getOrCreateStats env s pid req m)
         else if me_th = MethodRefereeGetStatsPrimary then keep (getStatsPrimary s req m)
         else if me_th = MethodRefereeGetStatsPrimaries then keep (getStatsPrimaries s req m)
         else if me_th = MethodRefereeGetStatsAll then keep (getStatsAll s req m)
         else if me_th = MethodRefereeResetStats then upd (resetStats env pid req m)
         else keep (notImplemented ProtocolMatchmakeReferee req))"

end
