(* ===== verification/Nex_Referee_Props.thy ===== *)
theory Nex_Referee_Props
  imports Nex_Referee Nex_Lobby_Props
begin

section \<open>Properties of the referee\<close>

text \<open>
  A round from its opening to the requests that come back to it; reports and balances; what stays true of
  the balances under every sequence of requests, and their file.
\<close>

subsection \<open>A round\<close>

text \<open>The parameter of StartRound as a client writes it: the header, the category, the lobby, the players, and the rest.\<close>

definition round_param :: "settings \<Rightarrow> u8 \<Rightarrow> u32 \<Rightarrow> u32 \<Rightarrow> u32 \<Rightarrow> u64 list \<Rightarrow> bytes \<Rightarrow> bytes" where
  "round_param s version len cat gid pids rest =
     (if StructHeader s then w_U8 version @ w_U32 len else []) @ w_U32 cat @ w_U32 gid @ WriteList (w_PID s) pids @ rest"

lemma skip_header_reads: "run_state (skip_header s) (cursor pre ((if StructHeader s then w_U8 version @ w_U32 len else []) @ post)) =
    ((), cursor (pre @ (if StructHeader s then w_U8 version @ w_U32 len else [])) post)"
  by (simp add: skip_header_def run_U8 run_U32)

lemma refereePIDs_param:
  assumes "length pids \<le> 128" "\<forall>p \<in> set pids. pid_ok s p"
  shows "refereePIDs s (round_param s version len cat gid pids rest) = pids"
proof -
  let ?n = "of_nat (length pids) :: u32"
  have n: "unat ?n = length pids" "\<not> ?n > 128" using assms(1) by (simp_all add: unat_of_nat_len word_less_nat_alt)
  have rep: "run_state (r_repeat (length pids) (r_PID s)) (cursor pre (concat (map (w_PID s) pids) @ post)) =
      (pids, cursor (pre @ concat (map (w_PID s) pids)) post)" for pre post
    by (rule cPID.repeat_enc) (use assms(2) in blast)
  show ?thesis
    unfolding refereePIDs_def round_param_def NewStreamIn_cursor WriteList_def
    using skip_header_reads [of s "[]" version len] n rep by (simp add: run_U32)
qed

lemma refereeCategorie_param: "refereeCategorie s (round_param s version len cat gid pids rest) = cat"
  unfolding refereeCategorie_def round_param_def NewStreamIn_cursor
  using skip_header_reads [of s "[]" version len] by (simp add: run_U32)

definition serve_referee :: "referee_env \<Rightarrow> 'a mm_config \<Rightarrow> nat \<times> rmc_message \<Rightarrow> referee_state \<times> 'a mm_state \<Rightarrow> referee_state \<times> 'a mm_state" where
  "serve_referee env cfg ev me = snd (MatchmakeRefereeHandler env cfg (fst ev) (snd ev) me)"

lemma obtenir_rounds [simp]: "rf_manches (snd (obtenirOuCreer p c v m)) = rf_manches m"
  "rf_compteurManches (snd (obtenirOuCreer p c v m)) = rf_compteurManches m"
  by (simp_all add: obtenirOuCreer_def Let_def split: option.split)

lemma appliquer_rounds [simp]: "rf_manches (appliquerResultat c r m) = rf_manches m"
  "rf_compteurManches (appliquerResultat c r m) = rf_compteurManches m"
  unfolding appliquerResultat_def Let_def by (simp_all add: case_prod_beta)

lemma fold_appliquer_rounds [simp]: "rf_manches (fold (appliquerResultat c) rs m) = rf_manches m"
  "rf_compteurManches (fold (appliquerResultat c) rs m) = rf_compteurManches m"
  by (induction rs arbitrary: m) simp_all

lemma Ecrire_rounds [simp]: "rf_manches (EcrireStats env m) = rf_manches m" "rf_compteurManches (EcrireStats env m) = rf_compteurManches m"
  by (simp_all add: EcrireStats_def)

lemma reinitialiser_rounds [simp]: "rf_manches (snd (reinitialiser p m)) = rf_manches m"
  "rf_compteurManches (snd (reinitialiser p m)) = rf_compteurManches m"
  by (simp_all add: reinitialiser_def Let_def)

lemma handler_rounds:
  "(rf_compteurManches (fst (serve_referee env cfg ev (m, e))), rf_manches (fst (serve_referee env cfg ev (m, e)))) =
     (if rm_Method (snd ev) = MethodRefereeStartRound
      then (rf_compteurManches m + 1, AList.update (rf_compteurManches m + 1) (rm_Body (snd ev)) (rf_manches m))
      else (rf_compteurManches m, rf_manches m))"
  unfolding serve_referee_def MatchmakeRefereeHandler_def Let_def
  by (simp add: startRound_def endRound_def createStats_def getOrCreateStats_def resetStats_def Let_def)

lemma round_kept:
  "map_of (rf_manches m) n = Some b \<Longrightarrow> rf_compteurManches m = n + of_nat k \<Longrightarrow> k + length evs < 2 ^ 64 \<Longrightarrow>
   map_of (rf_manches (fst (fold (serve_referee env cfg) evs (m, e)))) n = Some b"
proof (induction evs arbitrary: m e k)
  case (Cons ev evs)
  obtain m1 e1 where s: "serve_referee env cfg ev (m, e) = (m1, e1)" by force
  show ?case
  proof (cases "rm_Method (snd ev) = MethodRefereeStartRound")
    case True
    have m1: "rf_compteurManches m1 = n + of_nat (Suc k)" "rf_manches m1 = AList.update (n + of_nat (Suc k)) (rm_Body (snd ev)) (rf_manches m)"
      using handler_rounds [of env cfg ev m e] True Cons.prems(2) s by (simp_all add: ac_simps)
    have "(of_nat (Suc k) :: u64) \<noteq> 0"
    proof
      assume "(of_nat (Suc k) :: u64) = 0"
      then have "unat (of_nat (Suc k) :: u64) = 0" by simp
      then show False using Cons.prems(3) unat_of_nat_len [of "Suc k", where 'a = 64] by simp
    qed
    then have "map_of (rf_manches m1) n = Some b" using m1(2) Cons.prems(1) by (simp del: of_nat_Suc gomap_lookup)
    from Cons.IH [OF this m1(1), of e1] Cons.prems(3) s show ?thesis by simp
  next
    case False
    then have "map_of (rf_manches m1) n = Some b" "rf_compteurManches m1 = n + of_nat k"
      using handler_rounds [of env cfg ev m e] Cons.prems(1,2) s by simp_all
    from Cons.IH [OF this, of e1] Cons.prems(3) s show ?thesis by simp
  qed
qed simp

text \<open>C28: Opening a round reaches its players and its parameter can be asked back.  A StartRound that names up to 128 players gets
  the next number; every player of the list who is connected is told that this round starts, in the order of the list, and
  nobody else; and after any number of further requests below the counter's range the number still gives back the
  parameter byte for byte, and with it the players and the category.\<close>

theorem round_start_reaches_its_players:
  assumes env: "rf_endpoint env" "s = mc_Settings cfg"
    and req: "rm_Method req = MethodRefereeStartRound" "rm_Body req = round_param s version len cat gid pids rest"
      "length pids \<le> 128" "\<forall>p \<in> set pids. pid_ok s p"
    and run: "MatchmakeRefereeHandler env cfg h req (m, e) = (resp, m1, e1)" "n = rf_compteurManches m + 1"
    and later: "length evs < 2 ^ 64" "fold (serve_referee env cfg) evs (m1, e1) = me2"
    and ask: "rm_Method q = MethodRefereeGetStartRoundParam" "rm_Body q = w_U64 n"
  shows "rm_Body resp = w_U64 n \<and>
    pushed e1 = pushed e @ map (\<lambda>t. (t, round_event (conn_pid h e) n)) (List.map_filter (\<lambda>p. FindConnectionByPID p e) pids) \<and>
    rm_Body (fst (MatchmakeRefereeHandler env cfg h2 q me2)) = rm_Body req \<and>
    refereePIDs s (mancheParam n (fst me2)) = pids \<and> refereeCategorie s (mancheParam n (fst me2)) = cat"
proof -
  note pids = refereePIDs_param [OF req(3,4), of version len cat gid rest]
  have run': "resp = rf_reply req (w_U64 n)" "rf_compteurManches m1 = n + of_nat 0" "map_of (rf_manches m1) n = Some (rm_Body req)"
    "e1 = notify_pids cfg (round_event (conn_pid h e) n) pids e"
    using run env req pids by (auto simp: MatchmakeRefereeHandler_def startRound_def Let_def)
  obtain m2 e2 where me2: "me2 = (m2, e2)" by (cases me2)
  have kept: "map_of (rf_manches m2) n = Some (rm_Body req)"
    using round_kept [OF run'(3,2), of evs env cfg e1] later me2 by simp
  then have "mancheParam n m2 = round_param s version len cat gid pids rest" by (simp add: mancheParam_def req(2))
  moreover have "rm_Body (fst (MatchmakeRefereeHandler env cfg h2 q me2)) = rm_Body req"
    using ask kept by (simp add: me2 MatchmakeRefereeHandler_def referee_methods getStartRoundParam_def NewStreamIn_cursor
        run_U64_end rf_reply_def NewRMCSuccess_def Let_def del: gomap_lookup)
  ultimately show ?thesis
    using run' pids by (simp add: me2 refereeCategorie_param pushed_notify_pids rf_reply_def NewRMCSuccess_def)
qed

subsection \<open>Reports and balances\<close>

text \<open>A report that gains or loses rating: losses stop at zero, gains wrap at \<open>2\<^sup>3\<^sup>2\<close>.\<close>

lemma sint_neg_uint: "delta <s 0 \<Longrightarrow> uint (- delta) = - sint (delta :: 32 word)"
proof -
  assume d: "delta <s 0"
  then have s: "sint delta < 0" by (simp add: word_sless_alt)
  have b: "- (2 ^ 31) \<le> sint delta" using sint_ge [of delta] by simp
  have "- delta = word_of_int (- sint delta)" by simp
  then have "uint (- delta) = (- sint delta) mod 2 ^ 32" by (simp only: uint_word_of_int) simp
  then show ?thesis using s b by simp
qed

lemma change_rating_uint:
  "uint (change_rating delta rating) = (if uint rating + sint delta < 0 then 0 else (uint rating + sint delta) mod 2 ^ 32)"
proof -
  have wrap: "uint (word_of_int (uint rating + sint delta) :: u32) = (uint rating + sint delta) mod 2 ^ 32"
    by (simp only: uint_word_of_int) simp
  show ?thesis
  proof (cases "delta <s 0")
    case True
    have "- delta > rating \<longleftrightarrow> uint rating + sint delta < 0"
      using sint_neg_uint [OF True] by (simp add: word_less_def) linarith
    then show ?thesis using True wrap unfolding change_rating_def by (simp only: if_True simp_thms split: if_split) simp
  next
    case False
    then have "0 \<le> sint delta" by (simp add: word_sless_alt)
    then have "\<not> uint rating + sint delta < 0" using uint_ge_0 [of rating] by linarith
    then show ?thesis using False wrap unfolding change_rating_def by (simp only: simp_thms if_False)
  qed
qed

definition settle :: "round_result \<Rightarrow> referee_stats \<Rightarrow> referee_stats" where
  "settle r t = (count_result (rr_RoundWinLoss r) t)\<lparr>st_RatingValue := change_rating (rr_RatingValueChange r) (st_RatingValue t)\<rparr>"

lemma count_rating [simp]: "st_RatingValue (count_result w t) = st_RatingValue t"
  by (simp add: count_result_def)

definition balance :: "u64 \<Rightarrow> u32 \<Rightarrow> referee_state \<Rightarrow> referee_stats" where
  "balance pid cat m = (case map_of (rf_parCle m) (pid, cat) of None \<Rightarrow> fresh_stats pid cat 0 | Some t \<Rightarrow> t)"

lemma appliquer_lookup:
  "map_of (rf_parCle (appliquerResultat cat r m)) k =
     (if k = (rr_PID r, cat) then Some (settle r (balance (rr_PID r) cat m)) else map_of (rf_parCle m) k)"
  by (cases "map_of (rf_parCle m) (rr_PID r, cat)")
    (simp_all add: appliquerResultat_def obtenirOuCreer_def Let_def settle_def balance_def)

lemma fold_appliquer_balance:
  "balance pid cat (fold (appliquerResultat cat) rs m) = fold settle (filter (\<lambda>r. rr_PID r = pid) rs) (balance pid cat m)"
  by (induction rs arbitrary: m) (simp_all add: balance_def appliquer_lookup)

lemma fold_appliquer_other:
  "k \<notin> (\<lambda>r. (rr_PID r, cat)) ` set rs \<Longrightarrow> map_of (rf_parCle (fold (appliquerResultat cat) rs m)) k = map_of (rf_parCle m) k"
  by (induction rs arbitrary: m) (auto simp: appliquer_lookup)

lemma fold_appliquer_present:
  "map_of (rf_parCle m) k \<noteq> None \<or> k \<in> (\<lambda>r. (rr_PID r, cat)) ` set rs \<Longrightarrow> map_of (rf_parCle (fold (appliquerResultat cat) rs m)) k \<noteq> None"
  by (induction rs arbitrary: m) (auto simp: appliquer_lookup)

lemma Ecrire_parCle [simp]: "rf_parCle (EcrireStats env m) = rf_parCle m"
  by (simp add: EcrireStats_def)

definition result_ok :: "settings \<Rightarrow> round_result \<Rightarrow> bool" where
  "result_ok s r \<longleftrightarrow> pid_ok s (rr_PID r) \<and> length (rr_Buffer r) < 2 ^ 16"

interpretation cResult: structure_codec s PersonalRoundResult_levels result_zero "result_ok s"
proof unfold_locales
  fix v :: round_result and pre post
  assume ok: "result_ok s v"
  have "length (w_PID s (rr_PID v)) \<le> 8" by (simp add: w_PID_def Let_def)
  then have "length (level_body s (hd PersonalRoundResult_levels) v) < 2 ^ 32"
    using ok by (simp add: PersonalRoundResult_levels_def level_body_def result_ok_def w_QBuffer_def)
  then have "loads (hd PersonalRoundResult_levels) s result_zero v v"
    using ok by (simp add: loads_def PersonalRoundResult_levels_def level_body_def result_ok_def result_zero_def run_PID run_U32 run_U8
        run_QBuffer r_S32_def)
  then show "run_state (ReadStructure s PersonalRoundResult_levels result_zero) (cursor pre (WriteStructure s PersonalRoundResult_levels v @ post))
      = (v, cursor (pre @ WriteStructure s PersonalRoundResult_levels v) post)"
    using single_level_read_write by (simp add: PersonalRoundResult_levels_def)
qed

definition report_ok :: "settings \<Rightarrow> end_round \<Rightarrow> bool" where
  "report_ok s p \<longleftrightarrow> length (er_PersonalRoundResults p) \<le> 128 \<and> (\<forall>r \<in> set (er_PersonalRoundResults p). result_ok s r) \<and>
     length (level_body s (hd EndRoundParam_levels) p) < 2 ^ 32"

interpretation cEndRound: structure_codec s EndRoundParam_levels end_round_zero "report_ok s"
proof unfold_locales
  fix v :: end_round and pre post
  assume ok: "report_ok s v"
  let ?n = "of_nat (length (er_PersonalRoundResults v)) :: u32"
  have n: "unat ?n = length (er_PersonalRoundResults v)" "\<not> ?n > 128"
    using ok by (simp_all add: report_ok_def unat_of_nat_len word_less_nat_alt)
  have rep: "run_state (r_repeat (length (er_PersonalRoundResults v)) (ReadStructure s PersonalRoundResult_levels result_zero))
      (cursor p (concat (map (WriteStructure s PersonalRoundResult_levels) (er_PersonalRoundResults v)) @ q))
      = (er_PersonalRoundResults v, cursor (p @ concat (map (WriteStructure s PersonalRoundResult_levels) (er_PersonalRoundResults v))) q)" for p q
    by (rule cResult.repeat_enc) (use ok in \<open>auto simp: report_ok_def\<close>)
  have "loads (hd EndRoundParam_levels) s end_round_zero v v"
    using ok n rep by (simp add: loads_def EndRoundParam_levels_def level_body_def report_ok_def end_round_zero_def run_U64 run_U32)
  then show "run_state (ReadStructure s EndRoundParam_levels end_round_zero) (cursor pre (WriteStructure s EndRoundParam_levels v @ post))
      = (v, cursor (pre @ WriteStructure s EndRoundParam_levels v) post)"
    using single_level_read_write by (simp add: EndRoundParam_levels_def)
qed

text \<open>C29: A report settles exactly the balances of the players it names, and who sends it does not matter.  When a round's report is
  handled, the balance of a player in the round's category is his former one (a fresh one with rating 0 if he had none)
  after each of his results in the report, in order; balances of players not named, and of other categories, stay.  The
  effect is the same whichever connection sends the report: nothing relates the sender to the round or to the players he
  reports on.\<close>

theorem report_settles_the_named_players:
  assumes req: "rm_Method req = MethodRefereeEndRound \<or> rm_Method req = MethodRefereeEndRoundPartialReport"
      "rm_Body req = WriteStructure s EndRoundParam_levels p @ rest" "report_ok s p" "s = mc_Settings cfg"
    and round: "refereeCategorie s (mancheParam (er_RoundID p) m) = cat"
    and run: "MatchmakeRefereeHandler env cfg h req (m, e) = (resp, m1, e1)"
  shows "(if pid \<in> rr_PID ` set (er_PersonalRoundResults p) \<and> c = cat
      then lire pid c m1 = fold settle (filter (\<lambda>r. rr_PID r = pid) (er_PersonalRoundResults p)) (balance pid c m)
      else lire pid c m1 = lire pid c m) \<and>
    MatchmakeRefereeHandler env cfg h' req (m, e) = (resp, m1, e1)"
proof -
  let ?rs = "er_PersonalRoundResults p"
  have h: "MatchmakeRefereeHandler env cfg k req (m, e) = (rf_reply req [], EcrireStats env (fold (appliquerResultat cat) ?rs m), e)" for k
    using req round by (auto simp: MatchmakeRefereeHandler_def referee_methods endRound_def NewStreamIn_cursor cEndRound.read_write Let_def)
  then have m1: "m1 = EcrireStats env (fold (appliquerResultat cat) ?rs m)" using run by simp
  have "lire pid cat m1 = fold settle (filter (\<lambda>r. rr_PID r = pid) ?rs) (balance pid cat m)" if "pid \<in> rr_PID ` set ?rs"
  proof -
    have "map_of (rf_parCle (fold (appliquerResultat cat) ?rs m)) (pid, cat) \<noteq> None"
      by (rule fold_appliquer_present) (use that in auto)
    then have "lire pid cat m1 = balance pid cat (fold (appliquerResultat cat) ?rs m)"
      by (auto simp: m1 lire_def balance_def)
    then show ?thesis by (simp add: fold_appliquer_balance)
  qed
  moreover have "lire pid c m1 = lire pid c m" if "pid \<notin> rr_PID ` set ?rs \<or> c \<noteq> cat"
  proof -
    have "(pid, c) \<notin> (\<lambda>r. (rr_PID r, cat)) ` set ?rs" using that by auto
    from fold_appliquer_other [OF this, of m] show ?thesis by (simp add: m1 lire_def)
  qed
  ultimately show ?thesis using run h by auto
qed

text \<open>A rating never falls below zero, but can wrap above.  A report changes the rating by its signed change computed in the
  integers: below zero it stops at zero, and a sum of \<open>2\<^sup>3\<^sup>2\<close> or more starts again from zero, for the largest change of either sign;
  a win, loss or draw moves only its own two counters.\<close>

theorem rating_stops_at_zero_and_wraps_above:
  "uint (st_RatingValue (settle r t)) =
     (let v = uint (st_RatingValue t) + sint (rr_RatingValueChange r) in if v < 0 then 0 else v mod 2 ^ 32) \<and>
   st_TotalWin (settle r t) = st_TotalWin t + (if rr_RoundWinLoss r = 1 then 1 else 0) \<and>
   st_TotalLoss (settle r t) = st_TotalLoss t + (if rr_RoundWinLoss r = 2 then 1 else 0) \<and>
   st_TotalDraw (settle r t) = st_TotalDraw t + (if rr_RoundWinLoss r = 3 then 1 else 0)"
  unfolding settle_def Let_def by (simp add: change_rating_uint) (simp add: count_result_def)

subsection \<open>What stays true of the balances\<close>

definition stats_ok :: "cle_stats \<Rightarrow> referee_stats \<Rightarrow> bool" where
  "stats_ok k t \<longleftrightarrow> st_PID t = fst k \<and> st_Category t = snd k \<and> st_UniqueID t = fst k XOR push_bit 48 (ucast (snd k)) \<and>
     st_RecentWin t = st_TotalWin t \<and> st_RecentLoss t = st_TotalLoss t \<and> st_RecentDraw t = st_TotalDraw t \<and>
     st_TotalDisconnect t = 0 \<and> st_TotalViolation t = 0 \<and> st_TotalMismatch t = 0 \<and>
     st_RecentDisconnection t = 0 \<and> st_RecentViolation t = 0 \<and> st_RecentMismatch t = 0"

lemma stats_ok_fresh: "stats_ok (pid, cat) (fresh_stats pid cat v)"
  by (simp add: stats_ok_def fresh_stats_def stats_zero_def)

lemma stats_ok_settle: "stats_ok k t \<Longrightarrow> stats_ok k (settle r t)"
  by (auto simp: stats_ok_def settle_def count_result_def)

abbreviation balances_ok :: "referee_state \<Rightarrow> bool" where
  "balances_ok m \<equiv> gomap_all stats_ok (rf_parCle m)"

lemma balances_ok_obtenir: "balances_ok m \<Longrightarrow> balances_ok (snd (obtenirOuCreer pid cat v m))"
  by (simp add: obtenirOuCreer_def Let_def stats_ok_fresh split: option.split)

lemma appliquer_parCle: "rf_parCle (appliquerResultat cat r m) =
    AList.update (rr_PID r, cat) (settle r (balance (rr_PID r) cat m)) (rf_parCle (snd (obtenirOuCreer (rr_PID r) cat 0 m)))"
  by (cases "map_of (rf_parCle m) (rr_PID r, cat)")
    (simp_all add: appliquerResultat_def obtenirOuCreer_def Let_def settle_def balance_def)

lemma balances_ok_appliquer:
  assumes "balances_ok m"
  shows "balances_ok (appliquerResultat cat r m)"
proof -
  have "stats_ok (rr_PID r, cat) (balance (rr_PID r) cat m)"
    using gomap_all_lookup [OF assms] by (auto simp: balance_def stats_ok_fresh split: option.split)
  then show ?thesis using balances_ok_obtenir [OF assms] by (simp add: appliquer_parCle stats_ok_settle)
qed

lemma balances_ok_fold: "balances_ok m \<Longrightarrow> balances_ok (fold (appliquerResultat cat) rs m)"
  by (induction rs arbitrary: m) (simp_all add: balances_ok_appliquer)

lemma balances_ok_reset: "balances_ok m \<Longrightarrow> balances_ok (snd (reinitialiser pid m))"
  by (auto simp: reinitialiser_def Let_def gomap_all_def)

text \<open>The changes the handler makes to the balances and their file.\<close>

inductive balance_step :: "referee_env \<Rightarrow> referee_state \<Rightarrow> referee_state \<Rightarrow> bool" for env where
  same: "rf_parCle m' = rf_parCle m \<Longrightarrow> rf_modifie m' = rf_modifie m \<Longrightarrow> rf_file m' = rf_file m \<Longrightarrow> balance_step env m m'"
| report: "balance_step env m (EcrireStats env (fold (appliquerResultat cat) rs m))"
| create: "balance_step env m (EcrireStats env (snd (obtenirOuCreer pid cat v m)))"
| reset: "balance_step env m (EcrireStats env (snd (reinitialiser pid m)))"

lemma handler_step: "balance_step env m (fst (serve_referee env cfg ev (m, e)))"
proof -
  let ?s = "mc_Settings cfg" and ?req = "snd ev" and ?pid = "conn_pid (fst ev) e"
  have "balance_step env m m" "balance_step env m (fst (snd (startRound env cfg (fst ev) ?req (m, e))))"
    by (rule balance_step.same, simp_all add: startRound_def Let_def)+
  moreover have "balance_step env m (snd (endRound env ?s ?req m))" "balance_step env m (snd (createStats env ?s ?pid ?req m))"
    "balance_step env m (snd (getOrCreateStats env ?s ?pid ?req m))" "balance_step env m (snd (resetStats env ?pid ?req m))"
    unfolding endRound_def createStats_def getOrCreateStats_def resetStats_def Let_def snd_conv
    by (rule balance_step.report balance_step.create balance_step.reset)+
  ultimately show ?thesis
    unfolding serve_referee_def MatchmakeRefereeHandler_def Let_def by (simp add: case_prod_beta)
qed

lemma step_balances_ok: "balance_step env m m' \<Longrightarrow> balances_ok m \<Longrightarrow> balances_ok m'"
  by (induction rule: balance_step.induct) (simp_all add: balances_ok_fold balances_ok_obtenir balances_ok_reset)

definition stats_in_file :: "referee_state \<Rightarrow> bool" where
  "stats_in_file m \<longleftrightarrow> rf_parCle m = (case rf_file m of None \<Rightarrow> [] | Some l \<Rightarrow> l) \<and> \<not> rf_modifie m"

lemma marked_or_same:
  "(rf_parCle m' = rf_parCle m \<and> rf_modifie m' = rf_modifie m) \<or> rf_modifie m' \<Longrightarrow> rf_file m' = rf_file m \<Longrightarrow>
   rf_chemin env \<Longrightarrow> rf_writes env \<Longrightarrow> stats_in_file m \<Longrightarrow> stats_in_file (EcrireStats env m')"
  by (auto simp: stats_in_file_def EcrireStats_def)

lemma obtenir_marked: "snd (obtenirOuCreer pid cat v m) = m \<or> rf_modifie (snd (obtenirOuCreer pid cat v m))"
  "rf_file (snd (obtenirOuCreer pid cat v m)) = rf_file m"
  by (simp_all add: obtenirOuCreer_def Let_def split: option.split)

lemma appliquer_marked: "rf_modifie (appliquerResultat cat r m)" "rf_file (appliquerResultat cat r m) = rf_file m"
  using obtenir_marked(2) [of "rr_PID r" cat 0 m] by (auto simp: appliquerResultat_def Let_def case_prod_beta)

lemma fold_marked: "fold (appliquerResultat cat) rs m = m \<or> rf_modifie (fold (appliquerResultat cat) rs m)"
  "rf_file (fold (appliquerResultat cat) rs m) = rf_file m"
proof (induction rs arbitrary: m)
  case (Cons r rs)
  {
    case 1
    show ?case using Cons(1) [of "appliquerResultat cat r m"] appliquer_marked(1) [of cat r m] by auto
  next
    case 2
    show ?case using Cons(2) [of "appliquerResultat cat r m"] appliquer_marked(2) by simp
  }
qed simp_all

lemma reset_marked: "(rf_parCle (snd (reinitialiser pid m)) = rf_parCle m \<and> rf_modifie (snd (reinitialiser pid m)) = rf_modifie m) \<or>
    rf_modifie (snd (reinitialiser pid m))" "rf_file (snd (reinitialiser pid m)) = rf_file m"
  by (auto simp: reinitialiser_def Let_def filter_id_conv filter_empty_conv)

lemma step_in_file:
  assumes "rf_chemin env" "rf_writes env"
  shows "balance_step env m m' \<Longrightarrow> stats_in_file m \<Longrightarrow> stats_in_file m'"
proof (induction rule: balance_step.induct)
  case (report m cat rs)
  then show ?case using fold_marked [of cat rs m] by (intro marked_or_same [OF _ _ assms]) auto
next
  case (create m pid cat v)
  then show ?case using obtenir_marked [of pid cat v m] by (intro marked_or_same [OF _ _ assms]) auto
next
  case (reset m pid)
  then show ?case by (intro marked_or_same [OF reset_marked(1,2) assms])
qed (simp add: stats_in_file_def)

lemma fold_steps:
  assumes "\<And>m m'. balance_step env m m' \<Longrightarrow> P m \<Longrightarrow> P m'"
  shows "P m \<Longrightarrow> P (fst (fold (serve_referee env cfg) evs (m, e)))"
proof (induction evs arbitrary: m e)
  case (Cons ev evs)
  obtain m1 e1 where s: "serve_referee env cfg ev (m, e) = (m1, e1)" by force
  have "P m1" using assms [OF handler_step Cons.prems, of cfg ev e] s by simp
  from Cons.IH [OF this, of e1] s show ?case by simp
qed simp

lemma reload: "gomap_wf l \<Longrightarrow> distinct (map fst (acc @ l)) \<Longrightarrow> fold (\<lambda>(k, t). AList.update k t) l acc = acc @ l"
proof (induction l arbitrary: acc)
  case (Cons p l)
  obtain k t where p: "p = (k, t)" by (cases p)
  have "AList.update k t acc = acc @ [(k, t)]" by (rule update_fresh) (use Cons.prems p in auto)
  then show ?case using Cons.IH [of "acc @ [(k, t)]"] Cons.prems p by (simp add: gomap_wf_def)
qed simp

text \<open>C30: Every balance is filed under the player and category it names, with the identifier derived from them, its recent
  counts equal to its total ones and no count that nothing reports, whatever requests were served; and when its file can
  be written, a restart reads back exactly the balances there were.\<close>

theorem balances_stay_well_formed:
  assumes m: "m = fst (fold (serve_referee env cfg) evs (referee_start None, e))"
  shows "gomap_all stats_ok (rf_parCle m) \<and>
    (rf_chemin env \<and> rf_writes env \<longrightarrow> rf_parCle (ChargerStats env (referee_start (rf_file m))) = rf_parCle m)"
proof -
  have ok: "gomap_all stats_ok (rf_parCle m)"
    unfolding m by (rule fold_steps [where P = balances_ok, OF step_balances_ok]) (simp_all add: referee_start_def)
  have "rf_parCle (ChargerStats env (referee_start (rf_file m))) = rf_parCle m" if env: "rf_chemin env" "rf_writes env"
  proof -
    have "stats_in_file m"
      unfolding m by (rule fold_steps [where P = stats_in_file, OF step_in_file [OF env]]) (simp_all add: referee_start_def stats_in_file_def)
    then show ?thesis
      using env reload [of "rf_parCle m" "[]"] gomap_all_wf [OF ok]
      by (auto simp: ChargerStats_def referee_start_def stats_in_file_def gomap_wf_def split: option.splits)
  qed
  then show ?thesis using ok by blast
qed

subsection \<open>Examples\<close>

definition referee_disk :: referee_env where
  "referee_disk = \<lparr>rf_endpoint = True, rf_chemin = True, rf_writes = True\<rparr>"

abbreviation referee_settings :: settings where
  "referee_settings \<equiv> NewSwitchSettings ''key'' 40302"

lemma demo_config_settings [simp]: "mc_Settings (zero_config s) = s"
  by (simp add: zero_config_def)

definition referee_request :: "u32 \<Rightarrow> bytes \<Rightarrow> rmc_message" where
  "referee_request method body = NewRMCRequest ProtocolMatchmakeReferee method 1 body"

lemma referee_request_sel [simp]: "rm_Body (referee_request m b) = b" "rm_Method (referee_request m b) = m"
  by (simp_all add: referee_request_def NewRMCRequest_def rmc_zero_def)

abbreviation demo_round :: bytes where
  "demo_round \<equiv> round_param referee_settings 0 20 7 1 [20, 30] []"

theorem round_start_reaches_its_players_witness:
  "\<exists>m1 e1. MatchmakeRefereeHandler referee_disk demo_config 1 (referee_request MethodRefereeStartRound demo_round) (referee_start None, demo_state) =
      (rf_reply (referee_request MethodRefereeStartRound demo_round) (w_U64 1), m1, e1) \<and>
    pushed e1 = [(2, round_event 10 1), (3, round_event 10 1)] \<and> refereePIDs referee_settings (mancheParam 1 m1) = [20, 30]"
proof -
  let ?req = "referee_request MethodRefereeStartRound demo_round"
  obtain resp m1 e1 where run: "MatchmakeRefereeHandler referee_disk demo_config 1 ?req (referee_start None, demo_state) = (resp, m1, e1)"
    by (metis prod_cases3)
  have env: "rf_endpoint referee_disk" by (simp add: referee_disk_def)
  have pids: "length [20, 30::u64] \<le> 128" "\<forall>p \<in> set [20, 30]. pid_ok referee_settings p"
    by (simp_all add: pid_ok_def NewSwitchSettings_def Interne_def Publique_def)
  have n: "1 = rf_compteurManches (referee_start None) + 1" by (simp add: referee_start_def)
  have later: "length ([] :: (nat \<times> rmc_message) list) < 2 ^ 64" "fold (serve_referee referee_disk demo_config) [] (m1, e1) = (m1, e1)" by simp_all
  note all = round_start_reaches_its_players [where cfg = demo_config and s = referee_settings and h = 1 and req = ?req and pids = "[20, 30]"
      and version = 0 and len = 20 and cat = 7 and gid = 1 and rest = "[]" and n = 1 and q = "referee_request MethodRefereeGetStartRoundParam (w_U64 1)",
      OF env _ _ _ pids run n later]
  have "rm_Body resp = w_U64 1 \<and> pushed e1 = [(2, round_event 10 1), (3, round_event 10 1)] \<and>
      refereePIDs referee_settings (mancheParam 1 (fst (m1, e1))) = [20, 30]"
    using all by (simp add: demo_find List.map_filter_simps pushed_def demo_world_def NewMatchmaking_def)
  moreover have "resp = rf_reply ?req (w_U64 1)"
    using run n by (simp add: MatchmakeRefereeHandler_def startRound_def Let_def)
  ultimately show ?thesis using run by simp
qed

definition demo_report :: end_round where
  "demo_report = \<lparr>er_RoundID = 1, er_PersonalRoundResults = [result_zero\<lparr>rr_PID := 20, rr_RoundWinLoss := 1, rr_RatingValueChange := 15\<rparr>]\<rparr>"

theorem report_settles_the_named_players_witness:
  "\<exists>m1. MatchmakeRefereeHandler referee_disk demo_config 3
      (referee_request MethodRefereeEndRound (WriteStructure referee_settings EndRoundParam_levels demo_report @ [])) (referee_start None, demo_state) =
      (rf_reply (referee_request MethodRefereeEndRound (WriteStructure referee_settings EndRoundParam_levels demo_report @ [])) [], m1, demo_state) \<and>
    st_RatingValue (lire 20 0 m1) = 15 \<and> st_TotalWin (lire 20 0 m1) = 1"
proof -
  let ?req = "referee_request MethodRefereeEndRound (WriteStructure referee_settings EndRoundParam_levels demo_report @ [])"
  obtain resp m1 e1 where run: "MatchmakeRefereeHandler referee_disk demo_config 1 ?req (referee_start None, demo_state) = (resp, m1, e1)"
    by (metis prod_cases3)
  have fixed: "resp = rf_reply ?req []" "e1 = demo_state"
    using run by (auto simp: MatchmakeRefereeHandler_def referee_methods endRound_def Let_def)
  have m: "rm_Method ?req = MethodRefereeEndRound \<or> rm_Method ?req = MethodRefereeEndRoundPartialReport" by simp
  have ok: "report_ok referee_settings demo_report"
    by (simp add: report_ok_def demo_report_def result_ok_def result_zero_def pid_ok_def NewSwitchSettings_def Interne_def Publique_def
        EndRoundParam_levels_def level_body_def PersonalRoundResult_levels_def WriteStructure_def WriteLevel_def w_QBuffer_def w_Buffer_def w_PID_def)
  have cat: "refereeCategorie referee_settings (mancheParam (er_RoundID demo_report) (referee_start None)) = 0"
    by (simp add: refereeCategorie_def mancheParam_def referee_start_def)
  note all = report_settles_the_named_players [where cfg = demo_config and s = referee_settings and pid = 20 and c = 0 and h' = 3,
      OF m referee_request_sel(1) ok _ cat run]
  have "lire 20 0 m1 = settle (result_zero\<lparr>rr_PID := 20, rr_RoundWinLoss := 1, rr_RatingValueChange := 15\<rparr>) (fresh_stats 20 0 0)"
    using all by (simp add: demo_report_def balance_def referee_start_def)
  moreover have "change_rating 15 0 = (15 :: u32)"
    by (simp add: change_rating_def word_sless_alt)
  ultimately show ?thesis using all fixed
    by (simp add: settle_def count_result_def fresh_stats_def stats_zero_def result_zero_def)
qed

theorem balances_stay_well_formed_witness:
  "gomap_all stats_ok (rf_parCle (fst (fold (serve_referee referee_disk demo_config)
      [(1, referee_request MethodRefereeStartRound demo_round), (2, referee_request MethodRefereeResetStats [])] (referee_start None, demo_state))))"
  using balances_stay_well_formed [OF refl, where env = referee_disk and cfg = demo_config] by blast

end
