(* ===== verification/Nex_Datastore.thy ===== *)
theory Nex_Datastore
  imports Nex_Ranking Nex_Auth
begin

section \<open>The profiles of SMM2 (datastore\_smm2.go, datastore\_smm2\_persist.go)\<close>

text \<open>
  The profiles the players registered and the answers of protocol 0x73.  \<open>smm2Profils\<close> is a map of the
  record \<open>smm2_state\<close>, beside the list of profiles decoded from its file: \<open>None\<close> when the file is missing or
  unreadable.  The functions the game may supply (\<open>SMM2PIDJoueurFn\<close>, \<open>SMM2PaysFn\<close>, ...) are optional fields of
  \<open>smm2_config\<close>, like the path of the file and whether replacing it succeeds.  The names learnt at the login
  are the store of the ticket-granting service, an argument.  \<open>encoding/json\<close> writes a string as the code points
  of its UTF-8 reading, so an invalid byte comes back as U+FFFD.
\<close>

definition ProtocolDataStoreSMM2 :: u16 where "ProtocolDataStoreSMM2 = 0x73"
definition MethodDataStoreRegisterUser :: u32 where "MethodDataStoreRegisterUser = 47"
definition MethodDataStoreGetUsers :: u32 where "MethodDataStoreGetUsers = 48"
definition MethodDataStoreSyncUserProfile :: u32 where "MethodDataStoreSyncUserProfile = 49"
definition MethodDataStoreSearchCoursesPostedBy :: u32 where "MethodDataStoreSearchCoursesPostedBy = 74"
definition MethodDataStoreGetEventCourseStatus :: u32 where "MethodDataStoreGetEventCourseStatus = 154"
definition MethodDataStoreCanPostCourse :: u32 where "MethodDataStoreCanPostCourse = 60"
definition MethodDataStoreGetMiiClothes :: u32 where "MethodDataStoreGetMiiClothes = 63"
definition ResultDataStoreNotFound :: u32 where "ResultDataStoreNotFound = 0x00690004"
definition smm2MaxPublications :: u32 where "smm2MaxPublications = 32"
definition maxPIDs :: nat where "maxPIDs = 256"

lemmas datastore_methods = MethodDataStoreRegisterUser_def MethodDataStoreGetUsers_def MethodDataStoreSyncUserProfile_def
  MethodDataStoreSearchCoursesPostedBy_def MethodDataStoreGetEventCourseStatus_def MethodDataStoreCanPostCourse_def
  MethodDataStoreGetMiiClothes_def

record smm2_profil =
  sp_PID :: u64
  sp_Nom :: string
  sp_Mii :: bytes
  sp_Langue :: u8
  sp_Pays :: string
  sp_Appareil :: string
  sp_Unk :: "u16 list"

definition profil_zero :: "u64 \<Rightarrow> smm2_profil" where
  "profil_zero pid = \<lparr>sp_PID = pid, sp_Nom = [], sp_Mii = [], sp_Langue = 0, sp_Pays = [], sp_Appareil = [], sp_Unk = [0, 0, 0, 0]\<rparr>"

record smm2_stats_joueur =
  sj_Parties :: u32
  sj_Reussites :: u32
  sj_Tentatives :: u32
  sj_PremieresReussites :: u32
  sj_Records :: u32

record smm2_config =
  sc_Settings :: settings
  sc_fichier :: bool
  sc_ecrit :: bool
  SMM2PIDJoueurFn :: "(u64 \<Rightarrow> u64) option"
  SMM2PaysFn :: "(u64 \<Rightarrow> string \<Rightarrow> string) option"
  SMM2StatsMultijoueurFn :: "(u64 \<Rightarrow> (u8, u32) gomap) option"
  SMM2RecordsEndlessFn :: "(u64 \<Rightarrow> u32 \<times> u32 \<times> u32 \<times> u32) option"
  SMM2SuperMondeIDFn :: "(u64 \<Rightarrow> string) option"
  SMM2CompteurPublies :: "(u64 \<Rightarrow> u32) option"
  SMM2CompteurStats :: "(u64 \<Rightarrow> smm2_stats_joueur) option"
  SMM2MasqueBooleensFn :: "u32 option"

record smm2_state =
  smm2Profils :: "(u64, smm2_profil) gomap"
  smm2_file :: "(u64, smm2_profil) gomap option"

subsection \<open>What the game supplies\<close>

definition SMM2Pays :: "smm2_config \<Rightarrow> u64 \<Rightarrow> string \<Rightarrow> string" where
  "SMM2Pays cfg pid declare0 = (case SMM2PaysFn cfg of None \<Rightarrow> declare0
     | Some f \<Rightarrow> (let c = f pid declare0 in if c \<noteq> [] then c else declare0))"

definition SMM2PIDJoueur :: "smm2_config \<Rightarrow> u64 \<Rightarrow> u64" where
  "SMM2PIDJoueur cfg i = (case SMM2PIDJoueurFn cfg of None \<Rightarrow> i | Some f \<Rightarrow> f i)"

definition SMM2StatsMultijoueur :: "smm2_config \<Rightarrow> u64 \<Rightarrow> (u8, u32) gomap" where
  "SMM2StatsMultijoueur cfg pid = (case SMM2StatsMultijoueurFn cfg of None \<Rightarrow> [] | Some f \<Rightarrow> f pid)"

definition SMM2RecordsEndless :: "smm2_config \<Rightarrow> u64 \<Rightarrow> u32 \<times> u32 \<times> u32 \<times> u32" where
  "SMM2RecordsEndless cfg pid = (case SMM2RecordsEndlessFn cfg of None \<Rightarrow> (0, 0, 0, 0) | Some f \<Rightarrow> f pid)"

definition SMM2SuperMondeID :: "smm2_config \<Rightarrow> u64 \<Rightarrow> string" where
  "SMM2SuperMondeID cfg pid = (case SMM2SuperMondeIDFn cfg of None \<Rightarrow> [] | Some f \<Rightarrow> f pid)"

definition SMM2NombrePublies :: "smm2_config \<Rightarrow> u64 \<Rightarrow> u32" where
  "SMM2NombrePublies cfg pid = (case SMM2CompteurPublies cfg of None \<Rightarrow> 0 | Some f \<Rightarrow> f pid)"

definition SMM2StatsDe :: "smm2_config \<Rightarrow> u64 \<Rightarrow> smm2_stats_joueur" where
  "SMM2StatsDe cfg pid = (case SMM2CompteurStats cfg of
     None \<Rightarrow> \<lparr>sj_Parties = 0, sj_Reussites = 0, sj_Tentatives = 0, sj_PremieresReussites = 0, sj_Records = 0\<rparr>
   | Some f \<Rightarrow> f pid)"

definition SMM2MasqueBooleens :: "smm2_config \<Rightarrow> u32" where
  "SMM2MasqueBooleens cfg = (case SMM2MasqueBooleensFn cfg of None \<Rightarrow> 0 | Some n \<Rightarrow> n)"

subsection \<open>The store of profiles and its file\<close>

definition SMM2ProfilDe :: "u64 \<Rightarrow> smm2_state \<Rightarrow> smm2_profil option" where
  "SMM2ProfilDe pid m = map_of (smm2Profils m) pid"

definition json_string :: "string \<Rightarrow> string" where
  "json_string s = nat_string (concat (map utf8_encode (utf8_runes (string_nats s))))"

definition json_profil :: "smm2_profil \<Rightarrow> smm2_profil" where
  "json_profil p = p\<lparr>sp_Nom := json_string (sp_Nom p), sp_Pays := json_string (sp_Pays p), sp_Appareil := json_string (sp_Appareil p)\<rparr>"

definition smm2SauverProfils :: "smm2_config \<Rightarrow> smm2_state \<Rightarrow> smm2_state" where
  "smm2SauverProfils cfg m =
     (if \<not> sc_fichier cfg then m
      else let l = fold (\<lambda>(_, p). AList.update (sp_PID p) (json_profil p)) (smm2Profils m) []
        in if sc_ecrit cfg then m\<lparr>smm2_file := Some l\<rparr> else m)"

definition SMM2ChargerProfils :: "smm2_config \<Rightarrow> smm2_state \<Rightarrow> smm2_state" where
  "SMM2ChargerProfils cfg m =
     (if \<not> sc_fichier cfg then m
      else case smm2_file m of None \<Rightarrow> m
      | Some l \<Rightarrow> m\<lparr>smm2Profils := fold (\<lambda>(_, p) st. if sp_PID p \<noteq> 0 then AList.update (sp_PID p) p st else st) l (smm2Profils m)\<rparr>)"

definition SMM2PseudoDe :: "u64 \<Rightarrow> smm2_state \<Rightarrow> string" where
  "SMM2PseudoDe pid m = (case SMM2ProfilDe pid m of Some p \<Rightarrow> sp_Nom p | None \<Rightarrow> [])"

definition SMM2MiiDe :: "u64 \<Rightarrow> smm2_state \<Rightarrow> bytes" where
  "SMM2MiiDe pid m = (case SMM2ProfilDe pid m of Some p \<Rightarrow> sp_Mii p | None \<Rightarrow> [])"

text \<open>A profile under the number the game uses: a PID, or the login name that stands for one.\<close>

definition profilPourIdentifiant :: "auth_store \<Rightarrow> u64 \<Rightarrow> u64 \<Rightarrow> smm2_state \<Rightarrow> smm2_profil option" where
  "profilPourIdentifiant au demande appelant m =
     (case SMM2ProfilDe demande m of Some p \<Rightarrow> Some p
      | None \<Rightarrow> (case PIDForLoginName (FormatUint demande) au of
          Some pid \<Rightarrow> (case SMM2ProfilDe pid m of Some p \<Rightarrow> Some p | None \<Rightarrow> None)
        | None \<Rightarrow> None))"

subsection \<open>Writing a profile\<close>

definition maker_alphabet :: string where "maker_alphabet = ''0123456789BCDFGHJKLMNPQRSTVWXY''"

primrec maker_digits :: "nat \<Rightarrow> u64 \<Rightarrow> string" where
  "maker_digits 0 v = []"
| "maker_digits (Suc k) v = (maker_alphabet ! unat (v mod 30)) # maker_digits k (v div 30)"

definition codeMakerDe :: "u64 \<Rightarrow> string" where "codeMakerDe pid = maker_digits 9 pid"

definition dateTimeEpoqueNex :: u64 where "dateTimeEpoqueNex = MakeDateTime 1970 1 1 0 0 0"

text \<open>A nested structure: a version byte 0 and a sized body when the settings have structure headers.\<close>

definition w_nested :: "settings \<Rightarrow> bytes \<Rightarrow> bytes" where
  "w_nested s b = (if StructHeader s then w_U8 0 @ w_Buffer b else b)"

definition w_unk :: "u16 list \<Rightarrow> bytes" where "w_unk vs = concat (map w_U16 vs)"

definition w_stats :: "u32 list \<Rightarrow> bytes" where
  "w_stats vals = WriteMap w_U8 w_U32 (zip (map of_nat [0..<length vals]) vals)"

definition ecrireUserInfo :: "smm2_config \<Rightarrow> smm2_profil \<Rightarrow> bytes" where
  "ecrireUserInfo cfg p =
     (let s = sc_Settings cfg; mBool = SMM2MasqueBooleens cfg; st = SMM2StatsDe cfg (sp_PID p);
          (r0, r1, r2, r3) = SMM2RecordsEndless cfg (sp_PID p);
          champs = w_PID s (sp_PID p) @ w_String (codeMakerDe (sp_PID p)) @ w_String (sp_Nom p) @ w_nested s (w_unk (sp_Unk p)) @
            w_QBuffer (sp_Mii p) @ w_String (SMM2Pays cfg (sp_PID p) (sp_Pays p)) @ w_U8 0 @ w_DateTime dateTimeEpoqueNex @
            w_Bool (mBool AND 1 \<noteq> 0) @ w_Bool (mBool AND 2 \<noteq> 0) @ w_Bool (mBool AND 4 \<noteq> 0) @
            w_stats [sj_Parties st, sj_Reussites st, sj_Tentatives st, 0] @ w_stats [0, 0] @ w_stats [r0, r1, r2, r3] @
            WriteMap w_U8 w_U32 (SMM2StatsMultijoueur cfg (sp_PID p)) @ w_stats [0] @ WriteList (\<lambda>_. []) ([] :: unit list) @
            w_stats [sj_PremieresReussites st, sj_Records st] @ w_stats [SMM2NombrePublies cfg (sp_PID p), smm2MaxPublications] @
            w_Bool False @ w_DateTime dateTimeEpoqueNex @ w_Bool False @
            w_nested s (w_Bool False @ w_DateTime dateTimeEpoqueNex) @
            w_StringVideZero (SMM2SuperMondeID cfg (sp_PID p)) @ w_stats [0] @ w_Bool True
      in if StructHeader s then w_U8 3 @ w_Buffer champs else champs)"

subsection \<open>The handlers\<close>

definition ds_reply :: "rmc_message \<Rightarrow> bytes \<Rightarrow> rmc_message" where
  "ds_reply req body = NewRMCSuccess ProtocolDataStoreSMM2 (rm_Method req) (rm_CallID req) body"

definition body_stream :: "settings \<Rightarrow> bytes \<Rightarrow> stream_in" where
  "body_stream s b = (if StructHeader s then fst (run_state (do { _ \<leftarrow> r_U8; r_Substream }) (NewStreamIn b)) else NewStreamIn b)"

text \<open>The block of four words: its values, and the error of the stream it was read from when that is its own.\<close>

definition read_unk :: "settings \<Rightarrow> (u16 list \<times> go_error option) reader" where
  "read_unk s = (if StructHeader s
     then do { _ \<leftarrow> r_U8; unk \<leftarrow> r_Substream;
       State_Monad.return (let (vs, st) = run_state (r_repeat 4 r_U16) unk in (vs, Err st)) }
     else do { vs \<leftarrow> r_repeat 4 r_U16; State_Monad.return (vs, None) })"

definition register_reader :: "settings \<Rightarrow> u64 \<Rightarrow> smm2_profil reader" where
  "register_reader s pid = do { nom \<leftarrow> r_String; unk \<leftarrow> read_unk s; mii \<leftarrow> r_QBuffer; langue \<leftarrow> r_U8; pays \<leftarrow> r_String; app \<leftarrow> r_String;
     State_Monad.return \<lparr>sp_PID = pid, sp_Nom = nom, sp_Mii = mii, sp_Langue = langue, sp_Pays = pays, sp_Appareil = app, sp_Unk = fst unk\<rparr> }"

definition handleDataStoreRegisterUser :: "smm2_config \<Rightarrow> u64 \<Rightarrow> rmc_message \<Rightarrow> smm2_state \<Rightarrow> rmc_message \<times> smm2_state" where
  "handleDataStoreRegisterUser cfg pid req m =
     (let s = sc_Settings cfg; (p, body) = run_state (register_reader s pid) (body_stream s (rm_Body req))
      in if Err body \<noteq> None then (NewRMCError ProtocolDataStoreSMM2 (rm_CallID req) ResultCoreInvalidArgument, m)
         else (ds_reply req [], smm2SauverProfils cfg (m\<lparr>smm2Profils := AList.update pid p (smm2Profils m)\<rparr>)))"

definition smm2_demandes :: "smm2_config \<Rightarrow> u64 \<Rightarrow> u64 list \<Rightarrow> u64 list" where
  "smm2_demandes cfg pid asked = (let pids = take maxPIDs (map (SMM2PIDJoueur cfg) asked) in if pids = [] then [pid] else pids)"

definition handleDataStoreGetUsers :: "smm2_config \<Rightarrow> auth_store \<Rightarrow> u64 \<Rightarrow> rmc_message \<Rightarrow> smm2_state \<Rightarrow> rmc_message" where
  "handleDataStoreGetUsers cfg au pid req m =
     (let s = sc_Settings cfg; asked = fst (run_state (ReadList (r_PID s)) (body_stream s (rm_Body req)));
          rep = map (\<lambda>d. profilPourIdentifiant au d pid m) (smm2_demandes cfg pid asked); trouves = List.map_filter (\<lambda>r. r) rep
      in ds_reply req (w_U32 (of_nat (length trouves)) @ concat (map (ecrireUserInfo cfg) trouves) @
           w_U32 (of_nat (length rep)) @ concat (map (\<lambda>r. w_Result (if r \<noteq> None then 0 else ResultDataStoreNotFound)) rep)))"

definition handleDataStoreSearchCoursesPostedBy :: "rmc_message \<Rightarrow> rmc_message" where
  "handleDataStoreSearchCoursesPostedBy req = ds_reply req (WriteList (\<lambda>_. []) ([] :: unit list) @ w_Bool False)"

definition handleDataStoreCanPostCourse :: "rmc_message \<Rightarrow> rmc_message" where
  "handleDataStoreCanPostCourse req = ds_reply req (w_Bool True @ w_U32 0)"

definition sync_reader :: "settings \<Rightarrow> (string \<times> (u16 list \<times> go_error option) \<times> bytes) reader" where
  "sync_reader s = do { nom \<leftarrow> r_String; unk \<leftarrow> read_unk s; mii \<leftarrow> r_QBuffer; State_Monad.return (nom, unk, mii) }"

definition sync_update :: "smm2_config \<Rightarrow> u64 \<Rightarrow> rmc_message \<Rightarrow> smm2_profil \<Rightarrow> smm2_state \<Rightarrow> smm2_profil \<times> smm2_state" where
  "sync_update cfg pid req p m =
     (if rm_Body req = [] then (p, m)
      else let s = sc_Settings cfg;
          ((nom, unk, mii), body) = run_state (sync_reader s) (body_stream s (rm_Body req))
        in if Err body = None \<and> snd unk = None then
             let p1 = p\<lparr>sp_Unk := fst unk\<rparr>; p2 = (if nom \<noteq> [] then p1\<lparr>sp_Nom := nom\<rparr> else p1);
                 p3 = (if mii \<noteq> [] then p2\<lparr>sp_Mii := mii\<rparr> else p2)
             in (p3, smm2SauverProfils cfg (m\<lparr>smm2Profils := AList.update pid p3 (smm2Profils m)\<rparr>))
           else (p, m))"

definition sync_reply :: "smm2_config \<Rightarrow> smm2_profil \<Rightarrow> bytes" where
  "sync_reply cfg p = (let s = sc_Settings cfg in w_nested s
     (w_U64 (Publique s (sp_PID p)) @ w_String (sp_Nom p) @ w_nested s (w_unk (sp_Unk p)) @ w_QBuffer (sp_Mii p) @ w_U8 (sp_Langue p) @
      w_String (SMM2Pays cfg (sp_PID p) (sp_Pays p)) @ w_U8 0 @ w_Bool False @ w_Bool False))"

definition handleDataStoreSyncUserProfile :: "smm2_config \<Rightarrow> u64 \<Rightarrow> rmc_message \<Rightarrow> smm2_state \<Rightarrow> rmc_message \<times> smm2_state" where
  "handleDataStoreSyncUserProfile cfg pid req m =
     (case SMM2ProfilDe pid m of
        None \<Rightarrow> (NewRMCError ProtocolDataStoreSMM2 (rm_CallID req) ResultDataStoreNotFound, m)
      | Some p \<Rightarrow> (let (p1, m1) = sync_update cfg pid req p m in (ds_reply req (sync_reply cfg p1), m1)))"

definition DataStoreSMM2Handler :: "smm2_config \<Rightarrow> auth_store \<Rightarrow> u64 \<Rightarrow> rmc_message \<Rightarrow> smm2_state \<Rightarrow> rmc_message \<times> smm2_state" where
  "DataStoreSMM2Handler cfg au pid req m =
     (let me = rm_Method req in
      if me = MethodDataStoreRegisterUser then handleDataStoreRegisterUser cfg pid req m
      else if me = MethodDataStoreGetUsers then (handleDataStoreGetUsers cfg au pid req m, m)
      else if me = MethodDataStoreSearchCoursesPostedBy then (handleDataStoreSearchCoursesPostedBy req, m)
      else if me = MethodDataStoreSyncUserProfile then handleDataStoreSyncUserProfile cfg pid req m
      else if me = MethodDataStoreCanPostCourse then (handleDataStoreCanPostCourse req, m)
      else if me = MethodDataStoreGetEventCourseStatus \<or> me = MethodDataStoreGetMiiClothes then (ds_reply req [], m)
      else (notImplemented ProtocolDataStoreSMM2 req, m))"

end
