(* ===== verification/Nex_Datastore_Props.thy ===== *)
theory Nex_Datastore_Props
  imports Nex_Datastore
begin

section \<open>Properties of the SMM2 profiles\<close>

text \<open>
  The maker code of a player; a profile from its registration to the answers that show it, through requests of
  other players and restarts; what a shortened block of words does; the shape of the answer to GetUsers.
\<close>

subsection \<open>Maker codes\<close>

lemma alphabet_inj: "i < 30 \<Longrightarrow> j < 30 \<Longrightarrow> (maker_alphabet ! i = maker_alphabet ! j) = (i = j)"
proof -
  have "distinct maker_alphabet" "length maker_alphabet = 30" by (simp_all add: maker_alphabet_def)
  then show "i < 30 \<Longrightarrow> j < 30 \<Longrightarrow> (maker_alphabet ! i = maker_alphabet ! j) = (i = j)"
    by (simp add: nth_eq_iff_index_eq)
qed

lemma maker_digits_eq: "maker_digits k v = maker_digits k w \<longleftrightarrow> unat v mod 30 ^ k = unat w mod 30 ^ k"
proof (induction k arbitrary: v w)
  case (Suc k)
  have digit: "unat (x mod 30 :: u64) = unat x mod 30" "unat (x div 30 :: u64) = unat x div 30" for x
    by (simp_all add: unat_mod_distrib unat_div_distrib)
  have split: "a mod (30 * n) = b mod (30 * n) \<longleftrightarrow> a mod 30 = b mod 30 \<and> a div 30 mod n = b div 30 mod n" for a b n :: nat
  proof
    assume "a mod (30 * n) = b mod (30 * n)"
    then have e: "30 * (a div 30 mod n) + a mod 30 = 30 * (b div 30 mod n) + b mod 30" by (simp add: mod_mult2_eq)
    from arg_cong [OF e, of "\<lambda>x. x mod 30"] have m: "a mod 30 = b mod 30" by simp
    with e show "a mod 30 = b mod 30 \<and> a div 30 mod n = b div 30 mod n" by simp
  qed (simp add: mod_mult2_eq)
  show ?case using Suc.IH split by (simp add: alphabet_inj digit)
qed simp

lemma maker_digits_alphabet: "length (maker_digits k v) = k \<and> set (maker_digits k v) \<subseteq> set maker_alphabet"
proof (induction k arbitrary: v)
  case (Suc k)
  have "unat (v mod 30) < length maker_alphabet" by (simp add: maker_alphabet_def unat_mod_distrib)
  then show ?case using Suc.IH by simp
qed simp

text \<open>Maker codes tell players apart up to \<open>30\<^sup>9\<close>.  The code shown beside a profile has nine characters of the
  alphabet, and two players have the same code exactly when their PIDs agree modulo \<open>30\<^sup>9\<close>: different for PIDs below
  that bound, the same again for PIDs that far apart.\<close>

theorem maker_codes_tell_players_apart:
  "(codeMakerDe p = codeMakerDe q \<longleftrightarrow> unat p mod 30 ^ 9 = unat q mod 30 ^ 9) \<and>
   length (codeMakerDe p) = 9 \<and> set (codeMakerDe p) \<subseteq> set maker_alphabet"
  using maker_digits_alphabet [of 9 p] by (simp add: codeMakerDe_def maker_digits_eq)

subsection \<open>The file of profiles\<close>

datatype smm2_event = Request auth_store u64 rmc_message | Restart

definition smm2_start :: "(u64, smm2_profil) gomap option \<Rightarrow> smm2_state" where
  "smm2_start f = \<lparr>smm2Profils = [], smm2_file = f\<rparr>"

fun smm2_step :: "smm2_config \<Rightarrow> smm2_event \<Rightarrow> smm2_state \<Rightarrow> smm2_state" where
  "smm2_step cfg (Request au pid req) m = snd (DataStoreSMM2Handler cfg au pid req m)"
| "smm2_step cfg Restart m = SMM2ChargerProfils cfg (smm2_start (smm2_file m))"

abbreviation filed :: "(u64, smm2_profil) gomap \<Rightarrow> bool" where
  "filed l \<equiv> gomap_all (\<lambda>k p. sp_PID p = k) l"

lemma json_PID [simp]: "sp_PID (json_profil p) = sp_PID p"
  by (simp add: json_profil_def)

lemma filed_fold: "filed acc \<Longrightarrow> (\<And>p. sp_PID (f p) = sp_PID p) \<Longrightarrow>
    filed (fold (\<lambda>(_, p) st. if P p then AList.update (sp_PID p) (f p) st else st) l acc)"
  by (induction l arbitrary: acc) (auto split: prod.split)

lemma lookup_fold: "filed l \<Longrightarrow> map_of (fold (\<lambda>(_, p) st. if P p then AList.update (sp_PID p) (f p) st else st) l acc) k =
    (case map_of l k of None \<Rightarrow> map_of acc k | Some p \<Rightarrow> if P p then Some (f p) else map_of acc k)"
proof (induction l arbitrary: acc)
  case (Cons x l)
  obtain j p where x: "x = (j, p)" by (cases x)
  have l: "filed l" "sp_PID p = j" "map_of l j = None"
    using Cons.prems x by (auto simp: gomap_all_def gomap_wf_def map_of_eq_None_iff)
  show ?case using Cons.IH [OF l(1)] l(2,3) x by (auto split: option.split)
qed simp

lemmas save_lookup = lookup_fold [where P = "\<lambda>_. True" and acc = "[]", simplified if_True]
lemmas save_filed = filed_fold [where P = "\<lambda>_. True" and acc = "[]", simplified if_True]

text \<open>A profile is held: under its player in memory, and in the file when there is one.\<close>

definition held :: "u64 \<Rightarrow> smm2_profil \<Rightarrow> smm2_state \<Rightarrow> bool" where
  "held pid p m \<longleftrightarrow> filed (smm2Profils m) \<and> SMM2ProfilDe pid m = Some p \<and>
     (case smm2_file m of None \<Rightarrow> False | Some l \<Rightarrow> filed l \<and> map_of l pid = Some p)"

definition stored_ok :: "smm2_state \<Rightarrow> bool" where
  "stored_ok m \<longleftrightarrow> filed (smm2Profils m) \<and> (case smm2_file m of None \<Rightarrow> True | Some l \<Rightarrow> filed l)"

lemma save_stored: "stored_ok m \<Longrightarrow> stored_ok (smm2SauverProfils cfg m)"
  by (simp add: stored_ok_def smm2SauverProfils_def Let_def save_filed)

lemma load_stored: "stored_ok m \<Longrightarrow> stored_ok (SMM2ChargerProfils cfg m)"
  by (auto simp: stored_ok_def SMM2ChargerProfils_def filed_fold split: option.splits)

lemma save_held: "filed (smm2Profils m) \<Longrightarrow> SMM2ProfilDe pid m = Some p \<Longrightarrow> json_profil p = p \<Longrightarrow> sc_fichier cfg \<Longrightarrow> sc_ecrit cfg \<Longrightarrow>
    held pid p (smm2SauverProfils cfg m)"
  by (simp add: held_def smm2SauverProfils_def SMM2ProfilDe_def Let_def save_filed save_lookup)

lemma load_held:
  assumes h: "held pid p m" and pid: "pid \<noteq> 0" and fi: "sc_fichier cfg"
  shows "held pid p (SMM2ChargerProfils cfg (smm2_start (smm2_file m)))"
proof -
  obtain l where l: "smm2_file m = Some l" "filed l" "map_of l pid = Some p" using h by (auto simp: held_def split: option.splits)
  have "sp_PID p \<noteq> 0" using gomap_all_lookup [OF l(2,3)] pid by simp
  then show ?thesis
    using l fi by (simp add: held_def smm2_start_def SMM2ChargerProfils_def SMM2ProfilDe_def filed_fold lookup_fold del: gomap_lookup)
qed

lemma update_filed: "filed (smm2Profils m) \<Longrightarrow> sp_PID p = pid \<Longrightarrow> filed (smm2Profils (m\<lparr>smm2Profils := AList.update pid p (smm2Profils m)\<rparr>))"
  by simp

text \<open>What a request does to the store: nothing, or a new profile of its sender, saved.\<close>

lemma handler_stores:
  assumes "filed (smm2Profils m)"
  shows "snd (DataStoreSMM2Handler cfg au pid req m) = m \<or> (\<exists>p. sp_PID p = pid \<and>
    snd (DataStoreSMM2Handler cfg au pid req m) = smm2SauverProfils cfg (m\<lparr>smm2Profils := AList.update pid p (smm2Profils m)\<rparr>))"
proof -
  have "snd (handleDataStoreRegisterUser cfg pid req m) = m \<or> (\<exists>p. sp_PID p = pid \<and>
      snd (handleDataStoreRegisterUser cfg pid req m) = smm2SauverProfils cfg (m\<lparr>smm2Profils := AList.update pid p (smm2Profils m)\<rparr>))"
  proof -
    let ?r = "run_state (register_reader (sc_Settings cfg) pid) (body_stream (sc_Settings cfg) (rm_Body req))"
    have "snd (handleDataStoreRegisterUser cfg pid req m) = (if Err (snd ?r) \<noteq> None then m
        else smm2SauverProfils cfg (m\<lparr>smm2Profils := AList.update pid (fst ?r) (smm2Profils m)\<rparr>))"
      by (simp add: handleDataStoreRegisterUser_def Let_def case_prod_beta)
    moreover have "sp_PID (fst ?r) = pid" by (simp add: register_reader_def case_prod_beta)
    ultimately show ?thesis by (metis (no_types))
  qed
  moreover have "snd (handleDataStoreSyncUserProfile cfg pid req m) = m \<or> (\<exists>p. sp_PID p = pid \<and>
      snd (handleDataStoreSyncUserProfile cfg pid req m) = smm2SauverProfils cfg (m\<lparr>smm2Profils := AList.update pid p (smm2Profils m)\<rparr>))"
  proof (cases "SMM2ProfilDe pid m")
    case (Some q)
    have "sp_PID q = pid" using gomap_all_lookup [OF assms] Some by (simp add: SMM2ProfilDe_def del: gomap_lookup)
    then have "sync_update cfg pid req q m = (q, m) \<or> (\<exists>p. sp_PID p = pid \<and>
        sync_update cfg pid req q m = (p, smm2SauverProfils cfg (m\<lparr>smm2Profils := AList.update pid p (smm2Profils m)\<rparr>)))"
      unfolding sync_update_def Let_def by (auto simp: case_prod_beta)
    then show ?thesis using Some by (auto simp: handleDataStoreSyncUserProfile_def)
  qed (simp add: handleDataStoreSyncUserProfile_def)
  ultimately show ?thesis by (simp add: DataStoreSMM2Handler_def Let_def)
qed

lemma step_stored: "stored_ok m \<Longrightarrow> stored_ok (smm2_step cfg ev m)"
proof (cases ev)
  case (Request au pid req)
  assume ok: "stored_ok m"
  then have f: "filed (smm2Profils m)" by (simp add: stored_ok_def)
  have "stored_ok (smm2SauverProfils cfg (m\<lparr>smm2Profils := AList.update pid p (smm2Profils m)\<rparr>))" if "sp_PID p = pid" for p
    by (rule save_stored) (use ok that in \<open>auto simp: stored_ok_def\<close>)
  then show ?thesis using handler_stores [OF f, of cfg au pid req] ok Request by auto
next
  case Restart
  assume "stored_ok m"
  then have "stored_ok (smm2_start (smm2_file m))" by (simp add: smm2_start_def stored_ok_def)
  then show ?thesis using Restart by (simp add: load_stored)
qed

lemma run_stored: "stored_ok m \<Longrightarrow> stored_ok (fold (smm2_step cfg) evs m)"
  by (induction evs arbitrary: m) (simp_all add: step_stored)

definition foreign :: "u64 \<Rightarrow> smm2_event \<Rightarrow> bool" where
  "foreign pid ev = (case ev of Request _ q _ \<Rightarrow> q \<noteq> pid | Restart \<Rightarrow> True)"

lemma step_held:
  assumes h: "held pid p m" and ev: "foreign pid ev" and p: "json_profil p = p" "pid \<noteq> 0" and cfg: "sc_fichier cfg" "sc_ecrit cfg"
  shows "held pid p (smm2_step cfg ev m)"
proof (cases ev)
  case (Request au q req)
  then have q: "q \<noteq> pid" using ev by (simp add: foreign_def)
  have f: "filed (smm2Profils m)" using h by (simp add: held_def)
  have "held pid p (smm2SauverProfils cfg (m\<lparr>smm2Profils := AList.update q p' (smm2Profils m)\<rparr>))" if "sp_PID p' = q" for p'
    by (rule save_held [OF _ _ p(1) cfg]) (use f h q that in \<open>simp_all add: held_def SMM2ProfilDe_def update_conv' del: gomap_lookup\<close>)
  then show ?thesis using handler_stores [OF f, of cfg au q req] h Request by auto
next
  case Restart
  then show ?thesis using load_held [OF h p(2) cfg(1)] by simp
qed

lemma run_held: "held pid p m \<Longrightarrow> list_all (foreign pid) evs \<Longrightarrow> json_profil p = p \<Longrightarrow> pid \<noteq> 0 \<Longrightarrow> sc_fichier cfg \<Longrightarrow> sc_ecrit cfg \<Longrightarrow>
    held pid p (fold (smm2_step cfg) evs m)"
  by (induction evs arbitrary: m) (simp_all add: step_held)

subsection \<open>Reading the parameters\<close>

text \<open>The parameter of RegisterUser as a console writes it, and the same with any block of words in it.\<close>

definition param :: "settings \<Rightarrow> u8 \<Rightarrow> bytes \<Rightarrow> bytes" where
  "param s version b = (if StructHeader s then w_U8 version @ w_Buffer b else b)"

definition register_fields :: "settings \<Rightarrow> smm2_profil \<Rightarrow> bytes" where
  "register_fields s p = w_String (sp_Nom p) @ w_nested s (w_unk (sp_Unk p)) @ w_QBuffer (sp_Mii p) @ w_U8 (sp_Langue p) @
     w_String (sp_Pays p) @ w_String (sp_Appareil p)"

definition fields_ok :: "smm2_profil \<Rightarrow> bool" where
  "fields_ok p \<longleftrightarrow> string_ok (sp_Nom p) \<and> string_ok (sp_Pays p) \<and> string_ok (sp_Appareil p) \<and> length (sp_Mii p) < 2 ^ 16 \<and> length (sp_Unk p) \<le> 4"

lemma length_w_unk: "length (w_unk vs) = 2 * length vs"
  by (induction vs) (simp_all add: w_unk_def)

lemma length_w_nested: "length (w_nested s b) \<le> 5 + length b"
  by (simp add: w_nested_def w_Buffer_def)

lemma length_register_fields: "fields_ok p \<Longrightarrow> length (register_fields s p) < 2 ^ 32"
  using length_w_nested [of s "w_unk (sp_Unk p)"]
  by (simp add: register_fields_def fields_ok_def string_ok_def w_String_def w_QBuffer_def length_w_unk)

lemma body_stream_param: "length b < 2 ^ 32 \<Longrightarrow> body_stream s (param s version b) = cursor [] b"
  by (simp add: body_stream_def param_def NewStreamIn_cursor r_Substream_def run_U8 run_Buffer_end)

lemma failed_words: "si_err st \<noteq> None \<Longrightarrow> run_state (r_repeat n r_U16) st = (replicate n 0, st)"
proof (induction n)
  case (Suc n)
  then have "run_state r_U16 st = (0, st)" by (auto simp: r_U16_def r_Read_def)
  then show ?case using Suc by simp
qed simp

lemma run_words_short: "length vs < n \<Longrightarrow> run_state (r_repeat n r_U16) (cursor pre (w_unk vs)) =
    (vs @ replicate (n - length vs) 0, (cursor (pre @ w_unk vs) [])\<lparr>si_err := Some ErrUnexpectedEOF\<rparr>)"
proof (induction n arbitrary: vs pre)
  case (Suc n)
  show ?case
  proof (cases vs)
    case Nil
    have "run_state r_U16 (cursor pre []) = (0, (cursor pre [])\<lparr>si_err := Some ErrUnexpectedEOF\<rparr>)"
      by (simp add: r_U16_def run_Read_short [of "[]" 2, simplified])
    then show ?thesis using Nil by (simp add: w_unk_def failed_words)
  next
    case (Cons v us)
    then show ?thesis using Suc.IH [of us "pre @ w_U16 v"] Suc.prems by (simp add: w_unk_def run_U16)
  qed
qed simp

lemma run_unk: "length vs = 4 \<Longrightarrow> run_state (read_unk s) (cursor pre (w_nested s (w_unk vs) @ post)) = ((vs, None), cursor (pre @ w_nested s (w_unk vs)) post)"
proof -
  assume n: "length vs = 4"
  have rep: "run_state (r_repeat 4 r_U16) (cursor p (w_unk vs @ q)) = (vs, cursor (p @ w_unk vs) q)" for p q
    using cU16.repeat_enc [of vs p q] n by (simp add: w_unk_def)
  show ?thesis
    using rep [of "[]" "[]"] rep [of pre post] n
    by (simp add: read_unk_def w_nested_def r_Substream_def run_U8 run_Buffer length_w_unk NewStreamIn_cursor)
qed

lemma run_unk_short: "StructHeader s \<Longrightarrow> length vs < 4 \<Longrightarrow> run_state (read_unk s) (cursor pre (w_nested s (w_unk vs) @ post)) =
    ((vs @ replicate (4 - length vs) 0, Some ErrUnexpectedEOF), cursor (pre @ w_nested s (w_unk vs)) post)"
  by (simp add: read_unk_def w_nested_def r_Substream_def run_U8 run_Buffer length_w_unk NewStreamIn_cursor run_words_short Err_def)

text \<open>A reader of the block that moves on past it: what the two requests make of their parameter.\<close>

lemma register_reads:
  assumes "fields_ok p" "\<And>pre post. run_state (read_unk s) (cursor pre (w_nested s (w_unk (sp_Unk p)) @ post)) = ((vs, er), cursor (pre @ w_nested s (w_unk (sp_Unk p))) post)"
  shows "run_state (register_reader s pid) (cursor [] (register_fields s p)) = (p\<lparr>sp_PID := pid, sp_Unk := vs\<rparr>, cursor (register_fields s p) [])"
    and "\<exists>st. run_state (sync_reader s) (cursor [] (register_fields s p)) = ((sp_Nom p, (vs, er), sp_Mii p), st) \<and> Err st = None"
proof -
  note ok = assms(1) [unfolded fields_ok_def]
  show "run_state (register_reader s pid) (cursor [] (register_fields s p)) = (p\<lparr>sp_PID := pid, sp_Unk := vs\<rparr>, cursor (register_fields s p) [])"
    using ok by (simp add: register_reader_def register_fields_def assms(2) run_String run_QBuffer run_U8 run_String_end)
  show "\<exists>st. run_state (sync_reader s) (cursor [] (register_fields s p)) = ((sp_Nom p, (vs, er), sp_Mii p), st) \<and> Err st = None"
    using ok by (simp add: sync_reader_def register_fields_def assms(2) run_String run_QBuffer)
qed

lemma save_profiles [simp]: "smm2Profils (smm2SauverProfils cfg m) = smm2Profils m"
  by (simp add: smm2SauverProfils_def Let_def)

lemma register_runs:
  assumes "rm_Method req = MethodDataStoreRegisterUser" "rm_Body req = param (sc_Settings cfg) version (register_fields (sc_Settings cfg) p)" "fields_ok p"
    and unk: "\<And>pre post. run_state (read_unk (sc_Settings cfg)) (cursor pre (w_nested (sc_Settings cfg) (w_unk (sp_Unk p)) @ post)) =
      ((vs, er), cursor (pre @ w_nested (sc_Settings cfg) (w_unk (sp_Unk p))) post)"
  shows "DataStoreSMM2Handler cfg au pid req m =
     (ds_reply req [], smm2SauverProfils cfg (m\<lparr>smm2Profils := AList.update pid (p\<lparr>sp_PID := pid, sp_Unk := vs\<rparr>) (smm2Profils m)\<rparr>))"
  using assms(1,2) register_reads(1) [OF assms(3) unk] body_stream_param [OF length_register_fields [OF assms(3)]]
  by (simp add: DataStoreSMM2Handler_def handleDataStoreRegisterUser_def Let_def)

subsection \<open>From the registration to the answers\<close>

text \<open>ASCII text is among the text a JSON file gives back unchanged.\<close>

lemma utf8_ascii: "list_all (\<lambda>n. n < 128) ns \<Longrightarrow> concat (map utf8_encode (utf8_runes ns)) = ns"
proof (induction ns)
  case (Cons n ns)
  then have "utf8_encode n = [n]" by (simp add: utf8_encode_def)
  then show ?case using Cons by (subst utf8_runes.simps) (simp add: decode_rune_def Let_def)
qed (simp add: utf8_runes.simps)

lemma json_ascii:
  assumes "list_all (\<lambda>c. of_char c < (128 :: nat)) s"
  shows "json_string s = s"
proof -
  have "list_all (\<lambda>n. n < 128) (string_nats s)" using assms by (simp add: string_nats_def list.pred_map o_def)
  then show ?thesis by (simp add: json_string_def utf8_ascii) (simp add: nat_string_def string_nats_def o_def)
qed

text \<open>The answer to SyncUserProfile as a console reads it.\<close>

definition sync_answer :: "settings \<Rightarrow> (u64 \<times> string \<times> u16 list \<times> bytes \<times> u8 \<times> string) reader" where
  "sync_answer s = do { pid \<leftarrow> r_U64; nom \<leftarrow> r_String; unk \<leftarrow> read_unk s; mii \<leftarrow> r_QBuffer; langue \<leftarrow> r_U8; pays \<leftarrow> r_String;
     State_Monad.return (pid, nom, fst unk, mii, langue, pays) }"

lemma sync_reply_read:
  assumes ok: "fields_ok p" "length (sp_Unk p) = 4" "string_ok (SMM2Pays cfg (sp_PID p) (sp_Pays p))" and s: "s = sc_Settings cfg"
  shows "fst (run_state (sync_answer s) (body_stream s (sync_reply cfg p))) =
     (Publique s (sp_PID p), sp_Nom p, sp_Unk p, sp_Mii p, sp_Langue p, SMM2Pays cfg (sp_PID p) (sp_Pays p))"
proof -
  let ?b = "w_U64 (Publique s (sp_PID p)) @ w_String (sp_Nom p) @ w_nested s (w_unk (sp_Unk p)) @ w_QBuffer (sp_Mii p) @ w_U8 (sp_Langue p) @
      w_String (SMM2Pays cfg (sp_PID p) (sp_Pays p)) @ w_U8 0 @ w_Bool False @ w_Bool False"
  have "sync_reply cfg p = param s 0 ?b" by (simp add: sync_reply_def param_def w_nested_def s)
  moreover have "length ?b < 2 ^ 32"
    using ok length_w_nested [of s "w_unk (sp_Unk p)"] by (simp add: fields_ok_def string_ok_def w_String_def w_QBuffer_def length_w_unk)
  ultimately have "body_stream s (sync_reply cfg p) = cursor [] ?b" by (simp only: body_stream_param)
  then show ?thesis
    using ok by (simp add: fields_ok_def sync_answer_def run_U64 run_String run_unk run_QBuffer run_U8)
qed

text \<open>C31: A registered profile is served as it was registered, across restarts.  When profiles are kept in a file that can be
  written and the texts are UTF-8, a well-formed RegisterUser is acknowledged with an empty answer, and after any requests
  of other players and any restarts of the server its player's SyncUserProfile reads back the public PID, the name, the four words, the
  Mii, the language and the country that is shown for him.\<close>

theorem registered_profile_is_served:
  assumes start: "m0 = fold (smm2_step cfg) before (smm2_start None)"
    and reg: "rm_Method req = MethodDataStoreRegisterUser" "rm_Body req = param s version (register_fields s p)" "s = sc_Settings cfg"
      "fields_ok p" "length (sp_Unk p) = 4"
    and kept: "sc_fichier cfg" "sc_ecrit cfg" "pid \<noteq> 0" "json_profil p = p"
    and run: "DataStoreSMM2Handler cfg au pid req m0 = (resp, m1)"
    and later: "list_all (foreign pid) after" "m = fold (smm2_step cfg) after m1"
    and ask: "rm_Method q = MethodDataStoreSyncUserProfile" "rm_Body q = []" "string_ok (SMM2Pays cfg pid (sp_Pays p))"
  shows "resp = ds_reply req [] \<and> SMM2ProfilDe pid m = Some (p\<lparr>sp_PID := pid\<rparr>) \<and>
    fst (run_state (sync_answer s) (body_stream s (rm_Body (fst (DataStoreSMM2Handler cfg au' pid q m))))) =
      (Publique s pid, sp_Nom p, sp_Unk p, sp_Mii p, sp_Langue p, SMM2Pays cfg pid (sp_Pays p))"
proof -
  let ?p = "p\<lparr>sp_PID := pid\<rparr>"
  have "filed (smm2Profils m0)"
    using run_stored [of "smm2_start None" cfg before] by (simp add: start stored_ok_def smm2_start_def)
  then have f: "filed (smm2Profils (m0\<lparr>smm2Profils := AList.update pid ?p (smm2Profils m0)\<rparr>))" by simp
  have r: "DataStoreSMM2Handler cfg au pid req m0 =
      (ds_reply req [], smm2SauverProfils cfg (m0\<lparr>smm2Profils := AList.update pid (p\<lparr>sp_PID := pid, sp_Unk := sp_Unk p\<rparr>) (smm2Profils m0)\<rparr>))"
    by (rule register_runs) (use reg in \<open>simp_all add: run_unk\<close>)
  have json: "json_profil ?p = ?p" using kept(4) by (cases p) (simp add: json_profil_def)
  have "held pid ?p m1"
    using r run save_held [OF f _ json kept(1,2), of pid] by (simp add: SMM2ProfilDe_def update_conv' del: gomap_lookup)
  then have "held pid ?p m" using run_held [OF _ later(1) json kept(3,1,2)] later(2) by simp
  then have m: "SMM2ProfilDe pid m = Some ?p" by (simp add: held_def)
  then have "rm_Body (fst (DataStoreSMM2Handler cfg au' pid q m)) = sync_reply cfg ?p"
    using ask by (simp add: DataStoreSMM2Handler_def datastore_methods handleDataStoreSyncUserProfile_def sync_update_def ds_reply_def NewRMCSuccess_def Let_def)
  moreover have "fields_ok ?p" using reg(4) by (simp add: fields_ok_def)
  ultimately show ?thesis using sync_reply_read [of ?p cfg s] r run reg(3,5) ask(3) m by simp
qed

text \<open>RegisterUser keeps a request whose block of words is cut short.  With structure headers the block is a stream of its own,
  and only SyncUserProfile looks at that stream's error: a registration with fewer than four words is acknowledged
  and stored with zeros for the missing ones, although nothing of a request that could not be read is meant to be
  kept, while the same parameter in SyncUserProfile leaves the stored profile as it was.\<close>

theorem short_block_is_registered:
  assumes "StructHeader s" "s = sc_Settings cfg" "fields_ok p" "length (sp_Unk p) < 4"
    and reg: "rm_Method req = MethodDataStoreRegisterUser" "rm_Body req = param s version (register_fields s p)"
    and sync: "rm_Method q = MethodDataStoreSyncUserProfile" "rm_Body q = rm_Body req" "SMM2ProfilDe pid m = Some old"
  shows "fst (DataStoreSMM2Handler cfg au pid req m) = ds_reply req [] \<and>
    SMM2ProfilDe pid (snd (DataStoreSMM2Handler cfg au pid req m)) =
      Some (p\<lparr>sp_PID := pid, sp_Unk := sp_Unk p @ replicate (4 - length (sp_Unk p)) 0\<rparr>) \<and>
    DataStoreSMM2Handler cfg au pid q m = (ds_reply q (sync_reply cfg old), m)"
proof -
  note unk = run_unk_short [OF assms(1,4)]
  have r: "DataStoreSMM2Handler cfg au pid req m = (ds_reply req [], smm2SauverProfils cfg
      (m\<lparr>smm2Profils := AList.update pid (p\<lparr>sp_PID := pid, sp_Unk := sp_Unk p @ replicate (4 - length (sp_Unk p)) 0\<rparr>) (smm2Profils m)\<rparr>))"
    by (rule register_runs) (use reg assms unk in simp_all)
  obtain st where "run_state (sync_reader s) (body_stream s (rm_Body q)) =
      ((sp_Nom p, (sp_Unk p @ replicate (4 - length (sp_Unk p)) 0, Some ErrUnexpectedEOF), sp_Mii p), st)"
    using register_reads(2) [OF assms(3) unk] body_stream_param [OF length_register_fields [OF assms(3)]] reg(2) sync(2) by auto
  then have "sync_update cfg pid q old m = (old, m)"
    by (simp add: sync_update_def Let_def flip: assms(2))
  then have "DataStoreSMM2Handler cfg au pid q m = (ds_reply q (sync_reply cfg old), m)"
    using sync by (simp add: DataStoreSMM2Handler_def datastore_methods handleDataStoreSyncUserProfile_def Let_def)
  then show ?thesis using r by (simp add: SMM2ProfilDe_def update_conv' del: gomap_lookup)
qed

subsection \<open>Asking for players\<close>

text \<open>GetUsers answers every player it is asked about, in order, and a missing one like a found one.  The answer is the list
  of the profiles that were found and one result per player, for at most 256 players and the caller alone when the list
  is empty, found under the translated identifier or the PID its login name stands for; but the result of a player
  without a profile lacks the error bit, so both results are a success to \<open>Result.IsSuccess\<close>.\<close>

theorem every_asked_player_gets_a_result:
  assumes req: "rm_Method req = MethodDataStoreGetUsers" "rm_Body req = param s version (WriteList (w_PID s) asked @ w_U32 option)"
      "s = sc_Settings cfg" "\<forall>p \<in> set asked. pid_ok s p" "length asked < 2 ^ 28"
    and who: "who = (if asked = [] then [pid] else take 256 (map (SMM2PIDJoueur cfg) asked))"
      "found = (\<lambda>d. profilPourIdentifiant au d pid m)"
  shows "DataStoreSMM2Handler cfg au pid req m =
      (ds_reply req (WriteList (ecrireUserInfo cfg) (List.map_filter found who) @
         WriteList w_Result (map (\<lambda>d. if found d \<noteq> None then 0 else ResultDataStoreNotFound) who)), m) \<and>
    0 < length who \<and> length who \<le> 256 \<and> IsSuccess \<lparr>Code = ResultDataStoreNotFound\<rparr> \<and> IsSuccess \<lparr>Code = 0\<rparr>"
proof -
  have "length (WriteList (w_PID s) asked) \<le> 4 + 8 * length asked"
    by (induction asked) (auto simp: WriteList_def w_PID_def Let_def)
  then have len: "length (WriteList (w_PID s) asked @ w_U32 option) < 2 ^ 32" using req(5) by simp
  have "fst (run_state (ReadList (r_PID s)) (body_stream s (rm_Body req))) = asked"
    using cPID.list_enc [of asked s "[]" "w_U32 option"] req(2,4,5) body_stream_param [OF len] by simp
  moreover have "IsSuccess \<lparr>Code = ResultDataStoreNotFound\<rparr>" "IsSuccess \<lparr>Code = 0\<rparr>"
    by (simp_all add: IsSuccess_def ResultDataStoreNotFound_def ResultErrorMask_def)
  moreover have w: "smm2_demandes cfg pid asked = who" "0 < length who" "length who \<le> 256"
    by (simp_all add: who(1) smm2_demandes_def maxPIDs_def Let_def)
  moreover have "List.map_filter (\<lambda>r. r) (map found xs) = List.map_filter found xs" for xs
    by (induction xs) (simp_all add: List.map_filter_simps split: option.split)
  ultimately show ?thesis
    using req(1,3)
    by (simp add: DataStoreSMM2Handler_def datastore_methods handleDataStoreGetUsers_def Let_def WriteList_def o_def flip: who(2))
qed

subsection \<open>Examples\<close>

definition smm2_disk :: smm2_config where
  "smm2_disk = \<lparr>sc_Settings = NewSwitchSettings [] 40000, sc_fichier = True, sc_ecrit = True, SMM2PIDJoueurFn = None, SMM2PaysFn = None,
     SMM2StatsMultijoueurFn = None, SMM2RecordsEndlessFn = None, SMM2SuperMondeIDFn = None, SMM2CompteurPublies = None,
     SMM2CompteurStats = None, SMM2MasqueBooleensFn = None\<rparr>"

lemma smm2_disk_sel [simp]: "sc_Settings smm2_disk = NewSwitchSettings [] 40000" "sc_fichier smm2_disk" "sc_ecrit smm2_disk"
  "SMM2Pays smm2_disk pid pays = pays" "SMM2PIDJoueur smm2_disk pid = pid"
  by (simp_all add: smm2_disk_def SMM2Pays_def SMM2PIDJoueur_def)

definition mario :: "u16 list \<Rightarrow> smm2_profil" where
  "mario unk = (profil_zero 0)\<lparr>sp_Nom := ''Ma'', sp_Mii := [9, 8], sp_Langue := 2, sp_Pays := ''FR'', sp_Unk := unk\<rparr>"

lemma mario_sel [simp]: "sp_Nom (mario u) = ''Ma''" "sp_Unk (mario u) = u" "sp_Mii (mario u) = [9, 8]" "sp_Langue (mario u) = 2"
  "sp_Pays (mario u) = ''FR''" "sp_Appareil (mario u) = []"
  by (simp_all add: mario_def profil_zero_def)

lemma mario_ok: "length u \<le> 4 \<Longrightarrow> fields_ok (mario u)"
  by (simp add: fields_ok_def string_ok_def)

lemma mario_json: "json_profil (mario u) = mario u"
proof -
  have "json_string ''Ma'' = ''Ma''" "json_string ''FR'' = ''FR''" "json_string [] = []"
    by (rule json_ascii, simp)+
  then show ?thesis by (simp add: json_profil_def mario_def profil_zero_def)
qed

definition smm2_request :: "u32 \<Rightarrow> bytes \<Rightarrow> rmc_message" where
  "smm2_request method body = NewRMCRequest ProtocolDataStoreSMM2 method 1 body"

lemma smm2_request_sel [simp]: "rm_Body (smm2_request m b) = b" "rm_Method (smm2_request m b) = m"
  by (simp_all add: smm2_request_def NewRMCRequest_def rmc_zero_def)

abbreviation register_mario :: "u16 list \<Rightarrow> rmc_message" where
  "register_mario u \<equiv> smm2_request MethodDataStoreRegisterUser
     (param (NewSwitchSettings [] 40000) 0 (register_fields (NewSwitchSettings [] 40000) (mario u)))"

theorem registered_profile_is_served_witness:
  "fst (run_state (sync_answer (NewSwitchSettings [] 40000)) (body_stream (NewSwitchSettings [] 40000) (rm_Body (fst
      (DataStoreSMM2Handler smm2_disk auth_empty 7 (smm2_request MethodDataStoreSyncUserProfile [])
        (smm2_step smm2_disk Restart (snd (DataStoreSMM2Handler smm2_disk auth_empty 7 (register_mario [1, 2, 3, 4]) (smm2_start None))))))))) =
     (7, ''Ma'', [1, 2, 3, 4], [9, 8], 2, ''FR'')"
proof -
  let ?s = "NewSwitchSettings [] 40000"
  obtain resp m1 where run: "DataStoreSMM2Handler smm2_disk auth_empty 7 (register_mario [1, 2, 3, 4]) (smm2_start None) = (resp, m1)" by force
  have start: "smm2_start None = fold (smm2_step smm2_disk) [] (smm2_start None)" by simp
  have later: "list_all (foreign 7) [Restart]" "smm2_step smm2_disk Restart m1 = fold (smm2_step smm2_disk) [Restart] m1"
    by (simp_all add: foreign_def)
  have s: "?s = sc_Settings smm2_disk" "fields_ok (mario [1, 2, 3, 4])" "length (sp_Unk (mario [1, 2, 3, 4])) = 4" by (simp_all add: mario_ok)
  have ask: "string_ok (SMM2Pays smm2_disk 7 (sp_Pays (mario [1, 2, 3, 4])))" by (simp add: string_ok_def)
  have pid: "(7 :: u64) \<noteq> 0" by simp
  show ?thesis
    using registered_profile_is_served [OF start smm2_request_sel(2,1) s smm2_disk_sel(2,3) pid mario_json run later
        smm2_request_sel(2,1) ask, of auth_empty] run
    by (simp add: NewSwitchSettings_def Publique_def del: smm2_step.simps)
qed

theorem short_block_is_registered_witness:
  "SMM2ProfilDe 7 (snd (DataStoreSMM2Handler smm2_disk auth_empty 7 (register_mario [5]) ((smm2_start None)\<lparr>smm2Profils := [(7, mario [])]\<rparr>))) =
     Some ((mario [5])\<lparr>sp_PID := 7, sp_Unk := [5, 0, 0, 0]\<rparr>)"
proof -
  let ?s = "NewSwitchSettings [] 40000"
  have s: "StructHeader ?s" "?s = sc_Settings smm2_disk" "fields_ok (mario [5])" "length (sp_Unk (mario [5])) < 4"
    by (simp add: NewSwitchSettings_def) (simp_all add: mario_ok)
  have old: "SMM2ProfilDe 7 ((smm2_start None)\<lparr>smm2Profils := [(7, mario [])]\<rparr>) = Some (mario [])" by (simp add: SMM2ProfilDe_def)
  show ?thesis
    using short_block_is_registered [OF s smm2_request_sel(2,1) smm2_request_sel(2) _ old, where version = 0 and au = auth_empty]
    by (simp add: numeral_eq_Suc)
qed

theorem every_asked_player_gets_a_result_witness:
  "DataStoreSMM2Handler smm2_disk auth_empty 7 (smm2_request MethodDataStoreGetUsers
      (param (NewSwitchSettings [] 40000) 0 (WriteList (w_PID (NewSwitchSettings [] 40000)) [8, 9] @ w_U32 0))) (smm2_start None) =
    (ds_reply (smm2_request MethodDataStoreGetUsers
      (param (NewSwitchSettings [] 40000) 0 (WriteList (w_PID (NewSwitchSettings [] 40000)) [8, 9] @ w_U32 0)))
      (WriteList (ecrireUserInfo smm2_disk) [] @ WriteList w_Result [ResultDataStoreNotFound, ResultDataStoreNotFound]), smm2_start None)"
proof -
  let ?s = "NewSwitchSettings [] 40000"
  have s: "?s = sc_Settings smm2_disk" by simp
  have pids: "\<forall>p \<in> set [8, 9]. pid_ok ?s p" by (simp add: pid_ok_def NewSwitchSettings_def Interne_def Publique_def)
  have n: "length [8, 9 :: u64] < 2 ^ 28" by simp
  have none: "profilPourIdentifiant auth_empty d 7 (smm2_start None) = None" for d
    by (simp add: profilPourIdentifiant_def SMM2ProfilDe_def smm2_start_def PIDForLoginName_def auth_empty_def)
  show ?thesis
    using every_asked_player_gets_a_result [OF smm2_request_sel(2,1) s pids n refl refl, where pid = 7 and au = auth_empty and m = "smm2_start None"]
    by (simp add: none List.map_filter_simps)
qed

end
