(* ===== verification/Nex_Utility.thy ===== *)
theory Nex_Utility
  imports Nex_Tournament
begin

section \<open>Settings and unique identifiers (utility.go)\<close>

text \<open>
  The Utility protocol keeps no state.  The process environment is a function from names to values (an unset name
  is the empty text), the map \<open>UtilityReglagesJeu\<close> of the game an argument; both are the record
  \<open>utility_env\<close>.  The variables read when the package starts are definitions over the same environment.
\<close>

definition ProtocolUtility :: u16 where "ProtocolUtility = 0x6E"
definition MethodGetIntegerSettings :: u32 where "MethodGetIntegerSettings = 0x7"
definition MethodGetStringSettings :: u32 where "MethodGetStringSettings = 0x8"
definition MethodAcquireNexUniqueID :: u32 where "MethodAcquireNexUniqueID = 0x1"
definition MethodAcquireNexUniqueIDWithPassword :: u32 where "MethodAcquireNexUniqueIDWithPassword = 0x2"
definition MethodAssociateNexUniqueIDWithMyPrincipalID :: u32 where "MethodAssociateNexUniqueIDWithMyPrincipalID = 0x3"
definition MethodGetAssociatedNexUniqueIDWithMyPrincipalID :: u32 where "MethodGetAssociatedNexUniqueIDWithMyPrincipalID = 0x5"
definition nexUniqueIDPasswordSalt :: u64 where "nexUniqueIDPasswordSalt = 0x4e45585f50574421"

lemmas utility_methods = MethodGetIntegerSettings_def MethodGetStringSettings_def MethodAcquireNexUniqueID_def
  MethodAcquireNexUniqueIDWithPassword_def MethodAssociateNexUniqueIDWithMyPrincipalID_def
  MethodGetAssociatedNexUniqueIDWithMyPrincipalID_def

record utility_env =
  ut_Getenv :: "string \<Rightarrow> string"
  UtilityReglagesJeu :: "(int, 32 word) gomap"

definition reglages_count :: "string \<Rightarrow> int option" where
  "reglages_count raw = (case Atoi raw of (n, ok) \<Rightarrow> if \<not> ok \<or> n < 0 \<or> n > 4096 then None else Some n)"

definition utilityNbReglages :: "utility_env \<Rightarrow> int" where
  "utilityNbReglages env = (case reglages_count (ut_Getenv env ''NEX_UTILITY_REGLAGES'') of None \<Rightarrow> 0 | Some n \<Rightarrow> n)"

definition reglage_pair :: "string \<Rightarrow> (int \<times> 32 word) option" where
  "reglage_pair part0 =
     (let part = TrimSpace part0 in
      if part = [] then None
      else case Cut (CHR ''='') part of None \<Rightarrow> None
      | Some (k, v) \<Rightarrow>
          (let (ki, ok1) = Atoi (TrimSpace k); (vi, ok2) = Atoi (TrimSpace v) in
           if \<not> ok1 \<or> \<not> ok2 \<or> ki < 0 \<or> ki > 0xFFFF then None else Some (ki, word_of_int vi)))"

definition analyserValeursReglages :: "string \<Rightarrow> (int, 32 word) gomap" where
  "analyserValeursReglages brut = fold (\<lambda>(k, v). AList.update k v) (List.map_filter reglage_pair (Split (CHR '','') brut)) []"

definition utilityValeursReglages :: "utility_env \<Rightarrow> (int, 32 word) gomap" where
  "utilityValeursReglages env = analyserValeursReglages (ut_Getenv env ''NEX_UTILITY_VALEURS'')"

definition utilityClesU32 :: "utility_env \<Rightarrow> bool" where
  "utilityClesU32 env \<longleftrightarrow> ut_Getenv env ''NEX_UTILITY_CLES_U32'' = ''1''"

definition utilityReglagesPour :: "utility_env \<Rightarrow> int \<Rightarrow> int \<times> (int, 32 word) gomap" where
  "utilityReglagesPour env idx =
     (case (if idx \<ge> 0 then reglages_count (ut_Getenv env (''NEX_UTILITY_REGLAGES_'' @ Itoa idx)) else None) of
        Some n \<Rightarrow> (n, analyserValeursReglages (ut_Getenv env (''NEX_UTILITY_VALEURS_'' @ Itoa idx)))
      | None \<Rightarrow>
          if utilityNbReglages env = 0 \<and> UtilityReglagesJeu env \<noteq> []
          then (fold (\<lambda>(k, _) n. if k + 1 > n then k + 1 else n) (UtilityReglagesJeu env) 0, UtilityReglagesJeu env)
          else (utilityNbReglages env, utilityValeursReglages env))"

record unique_id_info =
  NEXUniqueID :: u64
  NEXUniqueIDPassword :: u64

definition UniqueIDInfo_levels :: "unique_id_info level list" where
  "UniqueIDInfo_levels = [\<lparr>lv_Version = 0,
     lv_Save = Some (\<lambda>s u. w_U64 (NEXUniqueID u) @ w_U64 (NEXUniqueIDPassword u)),
     lv_Load = Some (\<lambda>s u. do { i \<leftarrow> r_U64; p \<leftarrow> r_U64; State_Monad.return (u\<lparr>NEXUniqueID := i, NEXUniqueIDPassword := p\<rparr>) })\<rparr>]"

definition settings_index :: "bytes \<Rightarrow> int" where
  "settings_index body = (if length body \<ge> 4 then uint (fst (run_state r_U32 (NewStreamIn body))) else -1)"

definition w_setting :: "bool \<Rightarrow> (int, 32 word) gomap \<Rightarrow> nat \<Rightarrow> bytes" where
  "w_setting wide valeurs k = (if wide then w_U32 (of_nat k) else w_U16 (of_nat k)) @
     w_U32 (case map_of valeurs (int k) of None \<Rightarrow> 0 | Some v \<Rightarrow> v)"

definition ut_reply :: "rmc_message \<Rightarrow> bytes \<Rightarrow> rmc_message" where
  "ut_reply req body = NewRMCSuccess ProtocolUtility (rm_Method req) (rm_CallID req) body"

definition unique_id :: "u64 \<Rightarrow> unique_id_info" where
  "unique_id pid = \<lparr>NEXUniqueID = pid, NEXUniqueIDPassword = pid XOR nexUniqueIDPasswordSalt\<rparr>"

definition UtilityHandler :: "utility_env \<Rightarrow> settings \<Rightarrow> u64 \<Rightarrow> rmc_message \<Rightarrow> rmc_message" where
  "UtilityHandler env s pid req =
     (let me = rm_Method req in
      if me = MethodGetIntegerSettings \<or> me = MethodGetStringSettings then
        (let (nb, valeurs) = utilityReglagesPour env (settings_index (rm_Body req)) in
         ut_reply req (if me = MethodGetIntegerSettings \<and> nb > 0
           then w_U32 (word_of_int nb) @ concat (map (w_setting (utilityClesU32 env) valeurs) [0..<nat nb]) else w_U32 0))
      else if me = MethodAcquireNexUniqueID then ut_reply req (w_U64 pid)
      else if me = MethodAcquireNexUniqueIDWithPassword then ut_reply req (WriteStructure s UniqueIDInfo_levels (unique_id pid))
      else if me = MethodAssociateNexUniqueIDWithMyPrincipalID then ut_reply req []
      else if me = MethodGetAssociatedNexUniqueIDWithMyPrincipalID then ut_reply req (WriteStructure s UniqueIDInfo_levels (unique_id pid))
      else notImplemented ProtocolUtility req)"

subsection \<open>Properties\<close>

lemma run_settings: "run_state (r_repeat (length ks) (do { k \<leftarrow> (if wide then do { k \<leftarrow> r_U32; State_Monad.return (uint k) } else do { k \<leftarrow> r_U16; State_Monad.return (uint k) });
      v \<leftarrow> r_U32; State_Monad.return (k, v) })) (cursor pre (concat (map (w_setting wide vals) ks))) =
    (map (\<lambda>k. (int k mod (if wide then 2 ^ 32 else 2 ^ 16), case map_of vals (int k) of None \<Rightarrow> 0 | Some v \<Rightarrow> v)) ks,
     cursor (pre @ concat (map (w_setting wide vals) ks)) [])"
proof (induction ks arbitrary: pre)
  case (Cons k ks)
  then show ?case
    by (cases wide) (simp_all add: w_setting_def run_U32 run_U16 unsigned_of_nat take_bit_eq_mod of_nat_mod)
qed simp

text \<open>The answer to GetIntegerSettings as a console reads it: a count, then keys of its width and values.\<close>

definition settings_answer :: "bool \<Rightarrow> (int \<times> 32 word) list reader" where
  "settings_answer wide = do { n \<leftarrow> r_U32; r_repeat (unat n) (do {
     k \<leftarrow> (if wide then do { k \<leftarrow> r_U32; State_Monad.return (uint k) } else do { k \<leftarrow> r_U16; State_Monad.return (uint k) });
     v \<leftarrow> r_U32; State_Monad.return (k, v) }) }"

definition valeur :: "(int, 32 word) gomap \<Rightarrow> int \<Rightarrow> 32 word" where
  "valeur vals k = (case map_of vals k of None \<Rightarrow> 0 | Some v \<Rightarrow> v)"

lemma answer_reads:
  assumes "rm_Method req = MethodGetIntegerSettings" "utilityReglagesPour env (settings_index (rm_Body req)) = (nb, vals)"
    "0 \<le> nb" "nb \<le> (if utilityClesU32 env then 2 ^ 31 else 2 ^ 16)"
  shows "fst (run_state (settings_answer (utilityClesU32 env)) (NewStreamIn (rm_Body (UtilityHandler env s pid req)))) =
    map (\<lambda>k. (int k, valeur vals (int k))) [0..<nat nb]"
proof -
  let ?w = "utilityClesU32 env"
  have body: "rm_Body (UtilityHandler env s pid req) = w_U32 (word_of_int nb) @ concat (map (w_setting ?w vals) [0..<nat nb])"
    using assms(1,2,3) by (simp add: UtilityHandler_def ut_reply_def NewRMCSuccess_def)
  have n: "unat (word_of_int nb :: u32) = length [0..<nat nb]"
    using assms(3,4) by (auto simp: unat_eq_nat_uint uint_word_of_int split: if_splits)
  have small: "int k mod (if ?w then 2 ^ 32 else 2 ^ 16) = int k" if "k \<in> set [0..<nat nb]" for k
    using that assms(3,4) by (auto split: if_splits)
  show ?thesis
    using run_settings [of "[0..<nat nb]" ?w "w_U32 (word_of_int nb)" vals] n small
    by (simp add: body NewStreamIn_cursor settings_answer_def run_U32 valeur_def del: length_upt)
qed

lemma fold_bound:
  fixes g :: "(int \<times> 'v) list"
  defines "bound \<equiv> fold (\<lambda>(k, _) n. if k + 1 > n then k + 1 else n)"
  shows "a \<le> bound g a \<and> (\<forall>k \<in> fst ` set g. k < bound g a) \<and> (bound g a = a \<or> bound g a - 1 \<in> fst ` set g)"
proof (induction g arbitrary: a)
  case (Cons x g)
  obtain k v where x: "x = (k, v)" by (cases x)
  show ?case using Cons.IH [of "if k + 1 > a then k + 1 else a"] by (auto simp: bound_def x split: if_splits)
qed (simp add: bound_def)

text \<open>A game's own settings reach the console at the positions it reads.  When the environment sets nothing for the
  group that is asked for nor for all groups, the console reads the positions from 0 up to the largest key of the
  game's map and no further, each key's value at its own position, zero at a position without one.\<close>

theorem game_settings_at_their_positions:
  assumes env: "reglages_count (ut_Getenv env (''NEX_UTILITY_REGLAGES_'' @ Itoa (settings_index (rm_Body req)))) = None"
      "utilityNbReglages env = 0" "UtilityReglagesJeu env = g"
    and g: "gomap_wf g" "g \<noteq> []" "\<forall>k \<in> fst ` set g. 0 \<le> k \<and> k < 2 ^ 16"
    and req: "rm_Method req = MethodGetIntegerSettings"
    and read: "l = fst (run_state (settings_answer (utilityClesU32 env)) (NewStreamIn (rm_Body (UtilityHandler env s pid req))))"
  shows "int (length l) = Max (fst ` set g) + 1 \<and> (\<forall>i < length l. l ! i = (int i, valeur g (int i))) \<and>
    (\<forall>(k, v) \<in> set g. nat k < length l \<and> l ! nat k = (k, v))"
proof -
  let ?n = "fold (\<lambda>(k, _) n. if k + 1 > n then k + 1 else n) g (0 :: int)"
  note b = fold_bound [of 0 g]
  have max: "?n = Max (fst ` set g) + 1"
  proof -
    obtain k where "k \<in> fst ` set g" using g(2) by (cases g) auto
    with b g(3) have "?n - 1 \<in> fst ` set g" by fastforce
    moreover have "\<forall>k \<in> fst ` set g. k \<le> ?n - 1" using b by fastforce
    ultimately have "Max (fst ` set g) = ?n - 1" by (intro Max_eqI) auto
    then show ?thesis by simp
  qed
  have "?n \<le> 2 ^ 16" using max g(2,3) Max_in [of "fst ` set g"] by force
  then have l: "l = map (\<lambda>k. (int k, valeur g (int k))) [0..<nat ?n]"
    unfolding read by (intro answer_reads [OF req]) (use env g(2) b in \<open>auto simp: utilityReglagesPour_def\<close>)
  have at: "nat k < nat ?n \<and> valeur g k = v \<and> int (nat k) = k" if "(k, v) \<in> set g" for k v
    using that g(1,3) b by (force simp: valeur_def gomap_wf_def)
  have "\<forall>(k, v) \<in> set g. nat k < length l \<and> l ! nat k = (k, v)"
  proof clarify
    fix k v
    assume "(k, v) \<in> set g"
    from at [OF this] show "nat k < length l \<and> l ! nat k = (k, v)" by (simp add: l)
  qed
  moreover have "int (length l) = Max (fst ` set g) + 1" using max b by (simp add: l)
  ultimately show ?thesis by (simp add: l)
qed

interpretation cUnique: structure_codec s UniqueIDInfo_levels u "\<lambda>_. True"
proof unfold_locales
  fix v :: unique_id_info and pre post
  have "loads (hd UniqueIDInfo_levels) s u v v"
    by (simp add: loads_def UniqueIDInfo_levels_def level_body_def run_U64)
  then show "run_state (ReadStructure s UniqueIDInfo_levels u) (cursor pre (WriteStructure s UniqueIDInfo_levels v @ post))
      = (v, cursor (pre @ WriteStructure s UniqueIDInfo_levels v) post)"
    using single_level_read_write by (simp add: UniqueIDInfo_levels_def)
qed

text \<open>A unique identifier is the player's PID, whichever way it is asked for.  The three ways to get it read back the PID of the
  caller, the two that give a password the same password; so identifiers and passwords differ between players.\<close>

theorem unique_id_is_the_pid:
  "fst (run_state r_U64 (NewStreamIn (rm_Body (UtilityHandler env s pid (NewRMCRequest ProtocolUtility MethodAcquireNexUniqueID c b))))) = pid \<and>
   fst (run_state (ReadStructure s UniqueIDInfo_levels u) (NewStreamIn (rm_Body (UtilityHandler env s pid
     (NewRMCRequest ProtocolUtility MethodAcquireNexUniqueIDWithPassword c b))))) = unique_id pid \<and>
   fst (run_state (ReadStructure s UniqueIDInfo_levels u) (NewStreamIn (rm_Body (UtilityHandler env s pid
     (NewRMCRequest ProtocolUtility MethodGetAssociatedNexUniqueIDWithMyPrincipalID c b))))) = unique_id pid \<and>
   (unique_id pid = unique_id q \<longleftrightarrow> pid = q) \<and>
   (NEXUniqueIDPassword (unique_id pid) = NEXUniqueIDPassword (unique_id q) \<longleftrightarrow> pid = q)"
proof -
  have xor: "pid XOR x = q XOR x \<longleftrightarrow> pid = q" for x :: u64
  proof
    assume "pid XOR x = q XOR x"
    then have "(pid XOR x) XOR x = (q XOR x) XOR x" by (rule arg_cong)
    then show "pid = q" by (simp add: xor.assoc)
  qed simp
  show ?thesis
    by (simp add: UtilityHandler_def utility_methods ut_reply_def NewRMCSuccess_def NewRMCRequest_def rmc_zero_def NewStreamIn_cursor run_U64_end
        cUnique.read_write [where post = "[]", simplified] xor unique_id_def)
qed

definition mario_settings :: utility_env where
  "mario_settings = \<lparr>ut_Getenv = (\<lambda>_. []), UtilityReglagesJeu = [(2, 30), (0, 7)]\<rparr>"

theorem game_settings_at_their_positions_witness:
  "fst (run_state (settings_answer False) (NewStreamIn (rm_Body (UtilityHandler mario_settings (NewSwitchSettings [] 40000) 7
      (NewRMCRequest ProtocolUtility MethodGetIntegerSettings 1 [0, 0, 0, 0]))))) ! 2 = (2, 30)"
proof -
  let ?req = "NewRMCRequest ProtocolUtility MethodGetIntegerSettings 1 [0, 0, 0, 0]"
  have env: "reglages_count (ut_Getenv mario_settings (''NEX_UTILITY_REGLAGES_'' @ Itoa (settings_index (rm_Body ?req)))) = None"
    "utilityNbReglages mario_settings = 0" "UtilityReglagesJeu mario_settings = [(2, 30), (0, 7)]"
    by (simp_all add: mario_settings_def utilityNbReglages_def reglages_count_def Atoi_def parse_dec_def)
  have g: "gomap_wf [(2 :: int, 30 :: 32 word), (0, 7)]" "[(2 :: int, 30 :: 32 word), (0, 7)] \<noteq> []"
    "\<forall>k \<in> fst ` set [(2 :: int, 30 :: 32 word), (0, 7)]. 0 \<le> k \<and> k < 2 ^ 16"
    by (simp_all add: gomap_wf_def)
  have req: "rm_Method ?req = MethodGetIntegerSettings" by (simp add: NewRMCRequest_def)
  have narrow: "\<not> utilityClesU32 mario_settings" by (simp add: utilityClesU32_def mario_settings_def)
  show ?thesis
    using game_settings_at_their_positions [OF env g req refl, of "NewSwitchSettings [] 40000" 7] narrow by simp
qed

end
