(* ===== verification/Nex_Handoff.thy ===== *)
theory Nex_Handoff
  imports Nex_Lobby
begin

section \<open>Tokens: the hand-off to Eagle and the bound login (eagle\_handoff.go, authbinding.go)\<close>

text \<open>
  The token a player presents to the Eagle relay with the notification that carries it, and the token found in the data of a
  login.  SHA-256 (FIPS 180-4), its HMAC and base64 (RFC 4648) are those of Go's standard library, executable.
  \<open>json.Marshal\<close> of the token writes its fields in order; every text in it consists of characters that need no
  escape.  Reading a claim out of a JSON payload is the argument \<open>claim\<close>: the value \<open>json.Unmarshal\<close>
  gives the field of that name, \<open>None\<close> for an error.
\<close>

subsection \<open>SHA-256 and base64\<close>

definition be_bytes :: "nat \<Rightarrow> 'a::len word \<Rightarrow> bytes" where "be_bytes n w = rev (le_bytes n w)"
definition be_word :: "bytes \<Rightarrow> 'a::len word" where "be_word b = le_word (rev b)"

text \<open>The constants of SHA-256: the first 32 bits after the point of the cube roots of the first 64 primes and of the square roots
  of the first 8.  \<open>floor_root d n\<close> is the integer root of degree \<open>d\<close> of a number below \<open>2 ^ (36 * d)\<close>, found bit by bit.\<close>

definition floor_root :: "nat \<Rightarrow> int \<Rightarrow> int" where
  "floor_root d n = fold (\<lambda>k r. if (r + 2 ^ k) ^ d \<le> n then r + 2 ^ k else r) (rev [0..<36]) 0"

definition sha256_primes :: "int list" where
  "sha256_primes = filter (\<lambda>p. list_all (\<lambda>q. p mod q \<noteq> 0) [2..p - 1]) [2..311]"

definition sha256_K :: "u32 list" where
  "sha256_K = map (\<lambda>p. word_of_int (floor_root 3 (p * 2 ^ 96))) sha256_primes"

definition sha256_start :: "u32 list" where
  "sha256_start = map (\<lambda>p. word_of_int (floor_root 2 (p * 2 ^ 64))) (take 8 sha256_primes)"

text \<open>The schedule of a block, kept in reverse: each new word is made of the 2nd, 7th, 15th and 16th before it.\<close>

definition sha256_schedule :: "bytes \<Rightarrow> u32 list" where
  "sha256_schedule blk = rev (fold (\<lambda>_ W.
     let x = W ! 14; y = W ! 1;
         s0 = word_rotr 7 x XOR word_rotr 18 x XOR drop_bit 3 x; s1 = word_rotr 17 y XOR word_rotr 19 y XOR drop_bit 10 y
     in (W ! 15 + s0 + W ! 6 + s1) # W) [0..<48] (rev (map be_word (chunks 4 blk))))"

definition sha256_round :: "u32 \<times> u32 \<Rightarrow> u32 list \<Rightarrow> u32 list" where
  "sha256_round kw st = (case st of [a, b, c, d, e, f, g, h] \<Rightarrow>
     (let s1 = word_rotr 6 e XOR word_rotr 11 e XOR word_rotr 25 e; ch = (e AND f) XOR (NOT e AND g);
          t1 = h + s1 + ch + fst kw + snd kw;
          s0 = word_rotr 2 a XOR word_rotr 13 a XOR word_rotr 22 a; maj = (a AND b) XOR (a AND c) XOR (b AND c)
      in [t1 + s0 + maj, a, b, c, d + t1, e, f, g]) | _ \<Rightarrow> st)"

definition sha256_block :: "bytes \<Rightarrow> u32 list \<Rightarrow> u32 list" where
  "sha256_block blk st = map2 (+) st (fold sha256_round (zip sha256_K (sha256_schedule blk)) st)"

definition sha256 :: "bytes \<Rightarrow> bytes" where
  "sha256 bs = concat (map (be_bytes 4) (fold sha256_block
     (chunks 64 (bs @ [0x80] @ replicate ((119 - length bs mod 64) mod 64) 0 @ be_bytes 8 (of_nat (8 * length bs) :: u64)))
     sha256_start))"

definition hmacSHA256 :: "bytes \<Rightarrow> bytes \<Rightarrow> bytes" where
  "hmacSHA256 key data = (let k = (if length key > 64 then sha256 key else key); k' = k @ replicate (64 - length k) 0
     in sha256 (map (\<lambda>b. b XOR 0x5C) k' @ sha256 (map (\<lambda>b. b XOR 0x36) k' @ data)))"

fun b64_sextets :: "bytes \<Rightarrow> nat list" where
  "b64_sextets [] = []"
| "b64_sextets [a] = [unat a div 4, unat a mod 4 * 16]"
| "b64_sextets [a, b] = [unat a div 4, unat a mod 4 * 16 + unat b div 16, unat b mod 16 * 4]"
| "b64_sextets (a # b # c # r) =
     [unat a div 4, unat a mod 4 * 16 + unat b div 16, unat b mod 16 * 4 + unat c div 64, unat c mod 64] @ b64_sextets r"

fun b64_bytes :: "nat list \<Rightarrow> bytes option" where
  "b64_bytes [] = Some []"
| "b64_bytes [x] = None"
| "b64_bytes [x, y] = Some [of_nat (x * 4 + y div 16)]"
| "b64_bytes [x, y, z] = Some [of_nat (x * 4 + y div 16), of_nat (y mod 16 * 16 + z div 4)]"
| "b64_bytes (x # y # z # w # r) =
     map_option (\<lambda>bs. of_nat (x * 4 + y div 16) # of_nat (y mod 16 * 16 + z div 4) # of_nat (z mod 4 * 64 + w) # bs) (b64_bytes r)"

definition b64_std :: string where "b64_std = ''ABCDEFGHIJKLMNOPQRSTUVWXYZabcdefghijklmnopqrstuvwxyz0123456789+/''"
definition b64_url :: string where "b64_url = ''ABCDEFGHIJKLMNOPQRSTUVWXYZabcdefghijklmnopqrstuvwxyz0123456789-_''"

definition b64_encode :: "bytes \<Rightarrow> string" where
  "b64_encode b = map (\<lambda>i. b64_std ! i) (b64_sextets b) @ replicate ((3 - length b mod 3) mod 3) (CHR ''='')"

definition b64_raw_url :: "bytes \<Rightarrow> string" where
  "b64_raw_url b = map (\<lambda>i. b64_url ! i) (b64_sextets b)"

definition sextet_of :: "string \<Rightarrow> char \<Rightarrow> nat option" where
  "sextet_of table c = List.find (\<lambda>i. table ! i = c) [0..<64]"

definition b64_raw_url_decode :: "string \<Rightarrow> bytes option" where
  "b64_raw_url_decode s = Option.bind (those (map (sextet_of b64_url) s)) b64_bytes"

subsection \<open>The token of a player\<close>

definition json_text :: "string \<Rightarrow> string" where "json_text s = CHR 0x22 # s @ [CHR 0x22]"

definition json_member :: "string \<Rightarrow> string \<Rightarrow> string" where "json_member k v = json_text k @ '':'' @ v"

definition hex16 :: "u64 \<Rightarrow> string" where
  "hex16 v = map (\<lambda>i. hex_digit (unat (drop_bit (4 * i) v AND 15))) (rev [0..<16])"

record eagle_payload =
  eg_ExpiresAt :: string
  eg_ServerEnv :: string
  eg_ServerID :: string
  eg_UserID :: string

definition eagle_payload_json :: "eagle_payload \<Rightarrow> string" where
  "eagle_payload_json p = ''{'' @ json_member ''expires_at'' (json_text (eg_ExpiresAt p)) @ '','' @
     json_member ''server_env'' (json_text (eg_ServerEnv p)) @ '','' @ json_member ''server_id'' (json_text (eg_ServerID p)) @ '','' @
     json_member ''user_id'' (json_text (eg_UserID p)) @ ''}''"

definition eagle_token_json :: "string \<Rightarrow> string \<Rightarrow> string" where
  "eagle_token_json payload signature = ''{'' @ json_member ''payload'' payload @ '','' @
     json_member ''signature'' (json_text signature) @ '','' @ json_member ''version'' ''1'' @ ''}''"

definition eagle_payload_of :: "int \<Rightarrow> int \<Rightarrow> u64 \<Rightarrow> u32 \<Rightarrow> eagle_payload" where
  "eagle_payload_of now duree pid gid = \<lparr>eg_ExpiresAt = Itoa ((now + duree) div 10 ^ 9), eg_ServerEnv = ''lp1'',
     eg_ServerID = FormatUint (ucast gid), eg_UserID = hex16 pid\<rparr>"

definition BuildEagleToken :: "int \<Rightarrow> bytes \<Rightarrow> u64 \<Rightarrow> u32 \<Rightarrow> int \<Rightarrow> string" where
  "BuildEagleToken now secret pid gid duree =
     (let brut = eagle_payload_json (eagle_payload_of now duree pid gid); mac = hmacSHA256 secret (string_bytes brut)
      in b64_encode (string_bytes (eagle_token_json brut (b64_encode mac))))"

subsection \<open>The notification that carries it\<close>

definition EagleNotificationType :: u32 where "EagleNotificationType = 200000"
definition EagleNotificationSource :: u64 where "EagleNotificationSource = 257049437023956657"

record notification_event_v1 =
  n1_PIDSource :: u64
  n1_Type :: u32
  n1_Param1 :: u64
  n1_Param2 :: u64
  n1_StrParam :: string
  n1_Param3 :: u64
  n1_MapParam :: "(string, variant) gomap"

definition event_v1_zero :: notification_event_v1 where
  "event_v1_zero = \<lparr>n1_PIDSource = 0, n1_Type = 0, n1_Param1 = 0, n1_Param2 = 0, n1_StrParam = [], n1_Param3 = 0, n1_MapParam = []\<rparr>"

text \<open>\<open>params32\<close> is the environment switch of narrow parameters; only the writer knows it.\<close>

definition NotificationEventV1_levels :: "bool \<Rightarrow> notification_event_v1 level list" where
  "NotificationEventV1_levels params32 = [\<lparr>lv_Version = 1,
     lv_Save = Some (\<lambda>s n. w_PID s (n1_PIDSource n) @ w_U32 (n1_Type n) @
       (if params32 then w_U32 (ucast (n1_Param1 n)) @ w_U32 (ucast (n1_Param2 n)) @ w_StringVideZero (n1_StrParam n) @ w_U32 (ucast (n1_Param3 n))
        else w_U64 (n1_Param1 n) @ w_U64 (n1_Param2 n) @ w_StringVideZero (n1_StrParam n) @ w_U64 (n1_Param3 n)) @
       WriteMap w_String w_Variant (n1_MapParam n)),
     lv_Load = Some (\<lambda>s n. do { src \<leftarrow> r_PID s; ty \<leftarrow> r_U32; p1 \<leftarrow> r_U64; p2 \<leftarrow> r_U64; st \<leftarrow> r_String; p3 \<leftarrow> r_U64;
       c \<leftarrow> r_U32; m \<leftarrow> r_map_loop (unat c) r_String r_Variant [];
       State_Monad.return (n\<lparr>n1_PIDSource := src, n1_Type := ty, n1_Param1 := p1, n1_Param2 := p2, n1_StrParam := st, n1_Param3 := p3,
         n1_MapParam := m\<rparr>) })\<rparr>]"

definition eagle_event :: "bool \<Rightarrow> u32 \<Rightarrow> string \<Rightarrow> string \<Rightarrow> notification_event_v1" where
  "eagle_event tokenFirst gid url token =
     (let u = (''url'', (variant_zero VariantString)\<lparr>vr_String := url\<rparr>); t = (''token'', (variant_zero VariantString)\<lparr>vr_String := token\<rparr>)
      in event_v1_zero\<lparr>n1_PIDSource := EagleNotificationSource, n1_Type := EagleNotificationType, n1_Param1 := ucast gid,
           n1_MapParam := (if tokenFirst then [t, u] else [u, t])\<rparr>)"

text \<open>The counter of calls is the first component of the state; \<open>tokenFirst\<close> is the order the map is written in.\<close>

definition SendEagleHandoff :: "bool \<Rightarrow> bool \<Rightarrow> settings \<Rightarrow> nat \<Rightarrow> u32 \<Rightarrow> string \<Rightarrow> string \<Rightarrow> u32 \<times> 'w endpoint \<Rightarrow> u32 \<times> 'w endpoint" where
  "SendEagleHandoff params32 tokenFirst s target gid url token st =
     (let n = fst st + 1; body = WriteStructure s (NotificationEventV1_levels params32) (eagle_event tokenFirst gid url token)
      in (n, SendRMC s target (NewRMCRequest ProtocolNotifications MethodProcessNotificationEvent (0xFFFD0000 + n) body) (snd st)))"

definition SendNotificationTest :: "bool \<Rightarrow> settings \<Rightarrow> nat \<Rightarrow> u32 \<Rightarrow> u64 \<Rightarrow> u32 \<times> 'w endpoint \<Rightarrow> u32 \<times> 'w endpoint" where
  "SendNotificationTest strVideZero s target typ param1 st =
     (let n = fst st + 1;
          ev = event_zero\<lparr>ne_PIDSource := conn_pid target (snd st), ne_Type := typ, ne_Param1 := param1\<rparr>;
          body = WriteStructure s (NotificationEvent_levels strVideZero) ev
      in (n, SendRMC s target (NewRMCRequest ProtocolNotifications MethodProcessNotificationEvent (0xFFFC0000 + n) body) (snd st)))"

subsection \<open>The token bound to a login\<close>

definition isJWTByte :: "u8 \<Rightarrow> bool" where
  "isJWTByte b \<longleftrightarrow> b = 46 \<or> b = 45 \<or> b = 95 \<or> (48 \<le> b \<and> b \<le> 57) \<or> (65 \<le> b \<and> b \<le> 90) \<or> (97 \<le> b \<and> b \<le> 122)"

fun from_eyJ :: "bytes \<Rightarrow> bytes option" where
  "from_eyJ [] = None"
| "from_eyJ (b # bs) = (if take 3 (b # bs) = [101, 121, 74] then Some (b # bs) else from_eyJ bs)"

definition decodeLoginJWTPayload :: "bytes \<Rightarrow> bytes option" where
  "decodeLoginJWTPayload extraData =
     (case from_eyJ extraData of None \<Rightarrow> None
      | Some r \<Rightarrow> (let segments = Split (CHR ''.'') (bytes_string (takeWhile isJWTByte r)) in
          if length segments < 2 then None
          else b64_raw_url_decode (rev (dropWhile (\<lambda>c. c = CHR ''='') (rev (segments ! 1))))))"

definition login_claim :: "(string \<Rightarrow> bytes \<Rightarrow> string option) \<Rightarrow> string \<Rightarrow> bytes \<Rightarrow> string option" where
  "login_claim claim name extraData =
     (case decodeLoginJWTPayload extraData of None \<Rightarrow> None
      | Some payload \<Rightarrow> (case claim name payload of None \<Rightarrow> None | Some v \<Rightarrow> if v = [] then None else Some v))"

definition NexTokenFromLoginExtraData :: "(string \<Rightarrow> bytes \<Rightarrow> string option) \<Rightarrow> bytes \<Rightarrow> string option" where
  "NexTokenFromLoginExtraData claim extraData = login_claim claim ''nnex'' extraData"

definition TitleVersionFromLoginExtraData :: "(string \<Rightarrow> bytes \<Rightarrow> string option) \<Rightarrow> bytes \<Rightarrow> string option" where
  "TitleVersionFromLoginExtraData claim extraData = login_claim claim ''tv'' extraData"

end
