(* ===== verification/Nex_Handoff_Props.thy ===== *)
theory Nex_Handoff_Props
  imports Nex_Handoff
begin

section \<open>Properties of the tokens\<close>

text \<open>
  base64 can be read back; two Eagle tokens are equal only for one player, lobby and second of expiry; a console
  reads the hand-off as it was sent; the token bound to a login is found behind any framing.
\<close>

subsection \<open>base64\<close>

lemma divmod_block: "(r :: nat) < n \<Longrightarrow> (m * n + r) div n = m \<and> (m * n + r) mod n = r"
  by simp

lemma byte_parts:
  fixes b :: nat
  assumes "b < 256"
  shows "b div 16 < 16" "b div 64 < 4" "b div 4 < 64" "b mod 16 < 16" "b mod 4 < 4" "b mod 64 < 64"
  using assms by (simp_all add: less_mult_imp_div_less)

lemma sextet_arith:
  fixes a b c :: nat
  assumes "b < 256" "c < 256"
  shows "a div 4 * 4 + (a mod 4 * 16 + b div 16) div 16 = a" "a div 4 * 4 + a mod 4 * 16 div 16 = a"
    "(a mod 4 * 16 + b div 16) mod 16 * 16 + (b mod 16 * 4 + c div 64) div 4 = b"
    "(a mod 4 * 16 + b div 16) mod 16 * 16 + b mod 16 * 4 div 4 = b"
    "(b mod 16 * 4 + c div 64) mod 4 * 64 + c mod 64 = c"
  using divmod_block [of "b div 16" 16 "a mod 4"] divmod_block [of "c div 64" 4 "b mod 16"] byte_parts [OF assms(1)] byte_parts [OF assms(2)]
  by (simp_all add: div_mult_mod_eq)

lemma unat_u8 [simp]: "unat (a :: u8) < 256"
  using unsigned_less [where w = a] by simp

lemma byte_of_unat: "n = unat (a :: u8) \<Longrightarrow> of_nat n = a"
  by simp

lemma b64_read_back: "b64_bytes (b64_sextets bs) = Some bs"
  by (induction bs rule: b64_sextets.induct)
    (simp_all only: b64_sextets.simps b64_bytes.simps append.simps option.map option.inject list.inject simp_thms
      byte_of_unat [OF sextet_arith(1) [OF unat_u8 unat_u8]] byte_of_unat [OF sextet_arith(2) [OF unat_u8 unat_u8]]
      byte_of_unat [OF sextet_arith(3) [OF unat_u8 unat_u8]] byte_of_unat [OF sextet_arith(4) [OF unat_u8 unat_u8]]
      byte_of_unat [OF sextet_arith(5) [OF unat_u8 unat_u8]])

lemma b64_small: "\<forall>x \<in> set (b64_sextets bs). x < 64"
proof (induction bs rule: b64_sextets.induct)
  case (2 a)
  then show ?case using byte_parts [OF unat_u8 [of a]] by simp
next
  case (3 a b)
  have "unat a div 4 < 64" "unat a mod 4 * 16 + unat b div 16 < 64" "unat b mod 16 * 4 < 64"
    using byte_parts [OF unat_u8 [of a]] byte_parts [OF unat_u8 [of b]] by linarith+
  then show ?case by simp
next
  case (4 a b c r)
  have "unat a div 4 < 64" "unat a mod 4 * 16 + unat b div 16 < 64" "unat b mod 16 * 4 + unat c div 64 < 64" "unat c mod 64 < 64"
    using byte_parts [OF unat_u8 [of a]] byte_parts [OF unat_u8 [of b]] byte_parts [OF unat_u8 [of c]] by linarith+
  then show ?case using 4 by simp
qed simp

lemma b64_tables: "distinct b64_std" "length b64_std = 64" "distinct b64_url" "length b64_url = 64" "CHR ''='' \<notin> set b64_std" "CHR ''='' \<notin> set b64_url"
  by (simp_all add: b64_std_def b64_url_def)

lemma sextet_of_nth:
  assumes "distinct t" "length t = 64" "i < 64"
  shows "sextet_of t (t ! i) = Some i"
proof -
  have "i < length [0..<64] \<and> t ! ([0..<64] ! i) = t ! i \<and> i = [0..<64] ! i \<and> (\<forall>j < i. t ! ([0..<64] ! j) \<noteq> t ! i)"
    using assms by (simp add: nth_eq_iff_index_eq)
  then show ?thesis unfolding sextet_of_def find_Some_iff by blast
qed

lemma those_map: "(\<And>x. x \<in> set xs \<Longrightarrow> f x = Some x) \<Longrightarrow> those (map f xs) = Some xs"
  by (induction xs) simp_all

lemma raw_url_read_back: "b64_raw_url_decode (b64_raw_url b) = Some b"
proof -
  have "those (map (sextet_of b64_url) (b64_raw_url b)) = Some (b64_sextets b)"
    unfolding b64_raw_url_def map_map o_def by (rule those_map) (use b64_small [of b] b64_tables in \<open>auto intro: sextet_of_nth\<close>)
  then show ?thesis by (simp add: b64_raw_url_decode_def b64_read_back)
qed

lemma nth_table: "\<forall>x \<in> set xs. x < length t \<Longrightarrow> set (map (\<lambda>i. t ! i) xs) \<subseteq> set t"
  by auto

lemma map_nth_inject: "distinct t \<Longrightarrow> \<forall>x \<in> set xs. x < length t \<Longrightarrow> \<forall>y \<in> set ys. y < length t \<Longrightarrow>
    map (\<lambda>i. t ! i) xs = map (\<lambda>i. t ! i) ys \<Longrightarrow> xs = ys"
  by (rule map_inj_on) (auto intro!: inj_on_nth)

lemma b64_encode_inject:
  assumes "b64_encode b = b64_encode b'"
  shows "b = b'"
proof -
  have body: "takeWhile (\<lambda>c. c \<noteq> CHR ''='') (b64_encode x) = map (\<lambda>i. b64_std ! i) (b64_sextets x)" for x
  proof -
    have "c \<noteq> CHR ''=''" if "c \<in> set (map (\<lambda>i. b64_std ! i) (b64_sextets x))" for c
      using that nth_table [of "b64_sextets x" b64_std] b64_small [of x] b64_tables by auto
    then show ?thesis unfolding b64_encode_def by (subst takeWhile_append2) (auto simp: takeWhile_replicate)
  qed
  have "b64_sextets b = b64_sextets b'"
  proof (rule map_nth_inject [OF b64_tables(1)])
    show "map (\<lambda>i. b64_std ! i) (b64_sextets b) = map (\<lambda>i. b64_std ! i) (b64_sextets b')"
      unfolding body [symmetric] assms by (rule refl)
  qed (use b64_small in \<open>simp_all add: b64_tables(2)\<close>)
  from arg_cong [OF this, of b64_bytes] show ?thesis by (simp only: b64_read_back option.inject)
qed

subsection \<open>Texts between quotes\<close>

lemma quoted_inject: "q \<notin> set a \<Longrightarrow> q \<notin> set b \<Longrightarrow> a @ q # x = b @ q # y \<Longrightarrow> a = b \<and> x = y"
proof -
  assume a: "q \<notin> set a" and b: "q \<notin> set b" and eq: "a @ q # x = b @ q # y"
  have front: "takeWhile (\<lambda>c. c \<noteq> q) (l @ q # z) = l" if "q \<notin> set l" for l z
    using that by (subst takeWhile_append2) auto
  have ab: "a = b" using front [OF a, of x] front [OF b, of y] eq by (metis (no_types))
  have "b @ q # x = b @ q # y" using eq unfolding ab .
  then have "x = y" by simp
  with ab show "a = b \<and> x = y" ..
qed

lemma hex_digit_value: "i < 16 \<Longrightarrow> (of_char (hex_digit i) :: nat) = (if i < 10 then 48 + i else 87 + i)"
  by (simp add: hex_digit_def)

lemma hex_digit_inject: "i < 16 \<Longrightarrow> j < 16 \<Longrightarrow> hex_digit i = hex_digit j \<Longrightarrow> i = j"
proof -
  assume lt: "i < 16" "j < 16" and eq: "hex_digit i = hex_digit j"
  have "(if i < 10 then 48 + i else 87 + i) = (if j < 10 then 48 + j else 87 + j)"
    unfolding hex_digit_value [OF lt(1), symmetric] hex_digit_value [OF lt(2), symmetric] eq by (rule refl)
  then show "i = j" by (cases "i < 10"; cases "j < 10") simp_all
qed

lemma nibble_small: "unat (drop_bit k x AND 15 :: u64) < 16"
proof -
  have "drop_bit k x AND 15 \<le> (15 :: u64)" by (rule word_and_le1)
  then show ?thesis by (simp add: word_le_nat_alt)
qed

lemma hex16_inject:
  assumes "hex16 v = hex16 w"
  shows "v = w"
proof (rule bit_word_eqI)
  fix n
  assume n: "n < LENGTH(64)"
  have "hex_digit (unat (drop_bit (4 * i) v AND 15)) = hex_digit (unat (drop_bit (4 * i) w AND 15))" if "i < 16" for i
  proof -
    have "\<forall>i \<in> set (rev [0..<16]). hex_digit (unat (drop_bit (4 * i) v AND 15)) = hex_digit (unat (drop_bit (4 * i) w AND 15))"
      using assms unfolding hex16_def by (simp only: map_eq_conv)
    then show ?thesis using that by simp
  qed
  then have "drop_bit (4 * (n div 4)) v AND 15 = drop_bit (4 * (n div 4)) w AND 15"
    using hex_digit_inject [OF nibble_small nibble_small] n by (auto simp: word_unat_eq_iff)
  then have "bit (drop_bit (4 * (n div 4)) v AND 15) (n mod 4) = bit (drop_bit (4 * (n div 4)) w AND 15) (n mod 4)" by simp
  moreover have "bit (15 :: u64) (n mod 4)"
  proof -
    have "(15 :: u64) = mask 4" by (simp add: mask_eq_exp_minus_1)
    then have "bit (15 :: u64) (n mod 4) \<longleftrightarrow> bit (mask 4 :: u64) (n mod 4)" by (rule arg_cong)
    then show ?thesis by (simp only: bit_mask_iff) simp
  qed
  ultimately show "bit v n = bit w n" by (simp add: bit_and_iff bit_drop_bit_eq)
qed

lemma digits_no_quote: "CHR 0x22 \<notin> set (nat_str n)"
proof
  assume "CHR 0x22 \<in> set (nat_str n)"
  then have "is_digit (CHR 0x22)" using nat_str_digits [of n] by (auto simp: list_all_iff)
  then show False by (simp add: is_digit_def)
qed

lemma hex_no_quote: "CHR 0x22 \<notin> set (hex16 v)"
proof
  assume "CHR 0x22 \<in> set (hex16 v)"
  then obtain d where "CHR 0x22 = hex_digit d" "d < 16"
    using nibble_small unfolding hex16_def set_map image_iff by blast
  then have "(of_char (CHR 0x22) :: nat) = (if d < 10 then 48 + d else 87 + d)" using hex_digit_value [of d] by simp
  then show False by (simp split: if_splits)
qed

lemma Itoa_no_quote: "CHR 0x22 \<notin> set (Itoa n)"
  by (simp add: Itoa_def digits_no_quote)

lemma Itoa_inject:
  assumes "Itoa m = Itoa n"
  shows "m = n"
proof -
  have num: "parse_dec (nat_str k) = Some k" "nat_str k \<noteq> []" "hd (nat_str k) \<noteq> CHR ''-''" for k
    using nat_str_digits [of k] nat_str_head [of k] by simp_all
  have same: "nat_str i = nat_str j \<Longrightarrow> i = j" for i j by (metis num(1) option.inject)
  have sign: "(hd (Itoa k) = CHR ''-'') = (k < 0)" for k using num(2,3) by (auto simp: Itoa_def)
  have "m < 0 \<longleftrightarrow> n < 0" using sign [of m] sign [of n] unfolding assms by blast
  then show ?thesis using assms by (auto simp: Itoa_def split: if_splits dest!: same)
qed

definition plain :: "eagle_payload \<Rightarrow> bool" where
  "plain p \<longleftrightarrow> CHR 0x22 \<notin> set (eg_ExpiresAt p) \<and> CHR 0x22 \<notin> set (eg_ServerEnv p) \<and> CHR 0x22 \<notin> set (eg_ServerID p) \<and>
     CHR 0x22 \<notin> set (eg_UserID p)"

lemma payload_inject:
  assumes "plain p" "plain q" "eagle_payload_json p @ x = eagle_payload_json q @ y"
  shows "p = q"
proof -
  note parts = quoted_inject [where q = "CHR 0x22"]
  note ok = assms(1,2) [unfolded plain_def]
  have "eg_ExpiresAt p @ CHR 0x22 # '',\"server_env\":\"'' @ eg_ServerEnv p @ CHR 0x22 # '',\"server_id\":\"'' @ eg_ServerID p @
      CHR 0x22 # '',\"user_id\":\"'' @ eg_UserID p @ CHR 0x22 # ''}'' @ x =
    eg_ExpiresAt q @ CHR 0x22 # '',\"server_env\":\"'' @ eg_ServerEnv q @ CHR 0x22 # '',\"server_id\":\"'' @ eg_ServerID q @
      CHR 0x22 # '',\"user_id\":\"'' @ eg_UserID q @ CHR 0x22 # ''}'' @ y"
    using assms(3) by (simp add: eagle_payload_json_def json_member_def json_text_def)
  from parts [OF _ _ this] have 1: "eg_ExpiresAt p = eg_ExpiresAt q" and
    "eg_ServerEnv p @ CHR 0x22 # '',\"server_id\":\"'' @ eg_ServerID p @ CHR 0x22 # '',\"user_id\":\"'' @ eg_UserID p @ CHR 0x22 # ''}'' @ x =
     eg_ServerEnv q @ CHR 0x22 # '',\"server_id\":\"'' @ eg_ServerID q @ CHR 0x22 # '',\"user_id\":\"'' @ eg_UserID q @ CHR 0x22 # ''}'' @ y"
    using ok by auto
  from parts [OF _ _ this(2)] have 2: "eg_ServerEnv p = eg_ServerEnv q" and
    "eg_ServerID p @ CHR 0x22 # '',\"user_id\":\"'' @ eg_UserID p @ CHR 0x22 # ''}'' @ x =
     eg_ServerID q @ CHR 0x22 # '',\"user_id\":\"'' @ eg_UserID q @ CHR 0x22 # ''}'' @ y"
    using ok by auto
  from parts [OF _ _ this(2)] have 3: "eg_ServerID p = eg_ServerID q" and
    "eg_UserID p @ CHR 0x22 # ''}'' @ x = eg_UserID q @ CHR 0x22 # ''}'' @ y"
    using ok by auto
  from parts [OF _ _ this(2)] have "eg_UserID p = eg_UserID q" using ok by auto
  with 1 2 3 have "eg_ExpiresAt p = eg_ExpiresAt q" "eg_ServerEnv p = eg_ServerEnv q" "eg_ServerID p = eg_ServerID q" "eg_UserID p = eg_UserID q" by simp_all
  then show ?thesis by (cases p; cases q) simp
qed

subsection \<open>The token of the relay\<close>

text \<open>An Eagle token belongs to one player, one lobby and one second of expiry.  Whatever keys signed them and whenever they were
  made, two tokens are the same text only when they name the same player and the same lobby and expire in the same
  second.\<close>

theorem eagle_token_names_its_player:
  assumes "BuildEagleToken now secret pid gid duree = BuildEagleToken now' secret' pid' gid' duree'"
  shows "pid = pid' \<and> gid = gid' \<and> (now + duree) div 10 ^ 9 = (now' + duree') div 10 ^ 9"
proof -
  let ?p = "eagle_payload_of now duree pid gid" and ?q = "eagle_payload_of now' duree' pid' gid'"
  obtain x y where "eagle_payload_json ?p @ x = eagle_payload_json ?q @ y"
    using b64_encode_inject [OF assms [unfolded BuildEagleToken_def Let_def]]
    by (auto simp: eagle_token_json_def json_member_def json_text_def)
  moreover have "plain ?p" "plain ?q"
    by (simp_all add: plain_def eagle_payload_of_def Itoa_no_quote FormatUint_def digits_no_quote hex_no_quote)
  ultimately have "?p = ?q" by (rule payload_inject [rotated 2])
  then have "Itoa ((now + duree) div 10 ^ 9) = Itoa ((now' + duree') div 10 ^ 9)" "FormatUint (ucast gid) = FormatUint (ucast gid')"
      "hex16 pid = hex16 pid'" by (simp_all add: eagle_payload_of_def)
  moreover have "gid = gid'" if "FormatUint (ucast gid) = FormatUint (ucast gid')"
  proof -
    have "ParseUint (FormatUint (ucast gid)) = ParseUint (FormatUint (ucast gid'))" using that by simp
    then have "(ucast (ucast gid :: u64) :: u32) = ucast (ucast gid' :: u64)" by simp
    moreover have "ucast (ucast g :: u64) = g" for g :: u32 by (rule bit_word_eqI) (simp add: bit_ucast_iff)
    ultimately show ?thesis by (simp only:)
  qed
  ultimately show ?thesis using Itoa_inject hex16_inject by blast
qed

subsection \<open>The hand-off\<close>

definition event_ok :: "settings \<Rightarrow> notification_event_v1 \<Rightarrow> bool" where
  "event_ok s n \<longleftrightarrow> pid_ok s (n1_PIDSource n) \<and> string_ok (n1_StrParam n) \<and> gomap_wf (n1_MapParam n) \<and>
     cParams.pair_ok (n1_MapParam n) \<and> length (n1_MapParam n) < 2 ^ 32 \<and> length (level_body s (hd (NotificationEventV1_levels False)) n) < 2 ^ 32"

interpretation cEventV1: structure_codec s "NotificationEventV1_levels False" event_v1_zero "event_ok s"
proof unfold_locales
  fix v :: notification_event_v1 and pre post
  assume ok: "event_ok s v"
  have "loads (hd (NotificationEventV1_levels False)) s event_v1_zero v v"
    using ok cParams.loop_enc [where m = "n1_MapParam v" and acc = "[]"]
    by (simp add: loads_def NotificationEventV1_levels_def level_body_def event_ok_def gomap_wf_def WriteMap_def event_v1_zero_def
        run_PID run_U32 run_U64 run_StringVideZero)
  then show "run_state (ReadStructure s (NotificationEventV1_levels False) event_v1_zero) (cursor pre (WriteStructure s (NotificationEventV1_levels False) v @ post))
      = (v, cursor (pre @ WriteStructure s (NotificationEventV1_levels False) v) post)"
    using single_level_read_write by (simp add: NotificationEventV1_levels_def)
qed

lemma eagle_event_ok:
  assumes "pid_ok s EagleNotificationSource" "string_ok url" "string_ok token"
  shows "event_ok s (eagle_event first gid url token)"
proof -
  have txt_ok: "variant_ok ((variant_zero VariantString)\<lparr>vr_String := t\<rparr>)" if "string_ok t" for t
    using that by (simp add: variant_ok_def variant_zero_def variant_tags Let_def)
  have names: "string_ok ''url''" "string_ok ''token''" "string_ok []" by (simp_all add: string_ok_def)
  have len: "length (w_String t) < 2 ^ 16 + 2" if "string_ok t" for t using that by (simp add: string_ok_def w_String_def Let_def)
  have "length (level_body s (hd (NotificationEventV1_levels False)) (eagle_event first gid url token)) < 2 ^ 32"
    using len [OF assms(2)] len [OF assms(3)]
    by (simp add: level_body_def NotificationEventV1_levels_def eagle_event_def event_v1_zero_def WriteMap_def w_Variant_def variant_zero_def
        variant_tags w_PID_def w_StringVideZero_def Let_def) (simp add: w_String_def Let_def)
  then show ?thesis
    using assms names by (simp add: event_ok_def eagle_event_def event_v1_zero_def gomap_wf_def cParams.pair_ok_def txt_ok Let_def)
qed

text \<open>C24: A console that reads the hand-off reads the lobby, the address and its token.  With wide parameters the request
  that SendEagleHandoff pushes has the next call id, and the structure in its body loads to an event of the Eagle type
  with the lobby's id whose map has the address under url and the token under token, in whatever order the map is
  written.\<close>

theorem handoff_is_read_back:
  assumes "pid_ok s EagleNotificationSource" "string_ok url" "string_ok token"
    and send: "SendEagleHandoff False first s target gid url token (n, e) = (n', e')"
  shows "n' = n + 1 \<and> (\<exists>req. e' = SendRMC s target req e \<and> rm_Protocol req = ProtocolNotifications \<and> rm_CallID req = 0xFFFD0000 + n' \<and>
    (let ev = fst (run_state (ReadStructure s (NotificationEventV1_levels False) event_v1_zero) (NewStreamIn (rm_Body req))) in
     n1_Type ev = EagleNotificationType \<and> n1_Param1 ev = ucast gid \<and>
     map_option vr_String (map_of (n1_MapParam ev) ''url'') = Some url \<and> map_option vr_String (map_of (n1_MapParam ev) ''token'') = Some token))"
proof -
  let ?ev = "eagle_event first gid url token"
  let ?req = "NewRMCRequest ProtocolNotifications MethodProcessNotificationEvent (0xFFFD0000 + n')
      (WriteStructure s (NotificationEventV1_levels False) ?ev)"
  have "fst (run_state (ReadStructure s (NotificationEventV1_levels False) event_v1_zero) (NewStreamIn (rm_Body ?req))) = ?ev"
    using cEventV1.read_write [OF eagle_event_ok [OF assms(1-3), of first gid], of "[]" "[]"] by (simp add: NewStreamIn_cursor NewRMCRequest_def)
  moreover have "n' = n + 1" "e' = SendRMC s target ?req e" using send by (auto simp: SendEagleHandoff_def Let_def)
  ultimately show ?thesis
    by (intro conjI exI [of _ ?req]) (simp_all add: NewRMCRequest_def eagle_event_def event_v1_zero_def variant_zero_def Let_def)
qed

subsection \<open>The token bound to a login\<close>

lemma from_eyJ_skip: "from_eyJ before = None \<Longrightarrow> from_eyJ (before @ 101 # 121 # 74 # r) = Some (101 # 121 # 74 # r)"
proof (induction before)
  case (Cons b bs)
  have "from_eyJ bs = None" "take 3 (b # bs) \<noteq> [101, 121, 74]" using Cons.prems by (simp_all split: if_splits)
  moreover have "take 3 (b # bs @ 101 # 121 # 74 # r) \<noteq> [101, 121, 74]"
    using calculation(2) by (cases bs rule: list.exhaust [case_product list.exhaust]; cases "tl bs") auto
  ultimately show ?case using Cons.IH by simp
qed simp

lemma jwt_dot: "char_of_byte b = CHR ''.'' \<longleftrightarrow> b = 46"
proof -
  have "byte_of_char (CHR ''.'') = 46" by (simp add: byte_of_char_def)
  then show ?thesis by (metis byte_of_char_of_byte char_of_byte_of_char)
qed

lemma url_chars_jwt: "\<forall>c \<in> set b64_url. isJWTByte (byte_of_char c) \<and> c \<noteq> CHR ''.'' \<and> c \<noteq> CHR ''=''"
  by (simp add: b64_url_def isJWTByte_def byte_of_char_def)

lemma raw_url_chars: "c \<in> set (b64_raw_url p) \<Longrightarrow> isJWTByte (byte_of_char c) \<and> c \<noteq> CHR ''.'' \<and> c \<noteq> CHR ''=''"
  using url_chars_jwt nth_table [of "b64_sextets p" b64_url] b64_small [of p] b64_tables unfolding b64_raw_url_def by (metis subsetD)

lemma eyJ_run: "\<forall>b \<in> set hdr. isJWTByte b \<and> b \<noteq> 46 \<Longrightarrow> \<forall>b \<in> set (101 # 121 # 74 # hdr). isJWTByte b \<and> b \<noteq> 46"
proof -
  have "isJWTByte 101" "isJWTByte 121" "isJWTByte 74" by (simp_all add: isJWTByte_def)
  then show "\<forall>b \<in> set hdr. isJWTByte b \<and> b \<noteq> 46 \<Longrightarrow> ?thesis" by simp
qed

lemma first_segments:
  assumes "\<forall>b \<in> set hdr. isJWTByte b \<and> b \<noteq> 46"
  shows "takeWhile isJWTByte (hdr @ 46 # r) = hdr @ 46 # takeWhile isJWTByte r"
    "Split (CHR ''.'') (bytes_string (hdr @ 46 # r)) = bytes_string hdr # Split (CHR ''.'') (bytes_string r)"
proof -
  have dot: "isJWTByte 46" "char_of_byte (46 :: u8) = CHR ''.''" by (simp_all add: isJWTByte_def jwt_dot)
  show "takeWhile isJWTByte (hdr @ 46 # r) = hdr @ 46 # takeWhile isJWTByte r"
    using assms dot(1) by (subst takeWhile_append2) auto
  have "CHR ''.'' \<notin> set (bytes_string hdr)" using assms by (auto simp: bytes_string_def jwt_dot dest: sym)
  then show "Split (CHR ''.'') (bytes_string (hdr @ 46 # r)) = bytes_string hdr # Split (CHR ''.'') (bytes_string r)"
    using dot(2) Split_append_sep by (simp add: bytes_string_def)
qed

lemma raw_url_segment: "\<forall>b \<in> set (string_bytes (b64_raw_url p)). isJWTByte b \<and> b \<noteq> 46"
proof
  fix b assume "b \<in> set (string_bytes (b64_raw_url p))"
  then obtain c where c: "c \<in> set (b64_raw_url p)" "b = byte_of_char c" by (auto simp: string_bytes_def)
  then show "isJWTByte b \<and> b \<noteq> 46" using raw_url_chars [OF c(1)] jwt_dot [of b] by simp
qed

lemma login_payload:
  assumes "from_eyJ before = None" "\<forall>b \<in> set hdr. isJWTByte b \<and> b \<noteq> 46"
  shows "decodeLoginJWTPayload (before @ [101, 121, 74] @ hdr @ [46] @ string_bytes (b64_raw_url payload) @ [46] @ rest) = Some payload"
proof -
  let ?hdr = "101 # 121 # 74 # hdr" and ?body = "string_bytes (b64_raw_url payload)"
  have hdr: "\<forall>b \<in> set ?hdr. isJWTByte b \<and> b \<noteq> 46" using assms(2) by (rule eyJ_run)
  have run: "takeWhile isJWTByte (?hdr @ 46 # ?body @ 46 # rest) = ?hdr @ 46 # ?body @ 46 # takeWhile isJWTByte rest"
    by (simp only: first_segments(1) [OF hdr] first_segments(1) [OF raw_url_segment])
  have segs: "Split (CHR ''.'') (bytes_string (?hdr @ 46 # ?body @ 46 # r)) =
      bytes_string ?hdr # b64_raw_url payload # Split (CHR ''.'') (bytes_string r)" for r
    by (simp only: first_segments(2) [OF hdr] first_segments(2) [OF raw_url_segment] bytes_string_bytes)
  have trim: "dropWhile (\<lambda>c. c = CHR ''='') (rev (b64_raw_url payload)) = rev (b64_raw_url payload)"
    using raw_url_chars [of "last (b64_raw_url payload)" payload]
    by (cases "b64_raw_url payload" rule: rev_cases) auto
  have "from_eyJ (before @ ?hdr @ 46 # ?body @ 46 # rest) = Some (?hdr @ 46 # ?body @ 46 # rest)"
    using from_eyJ_skip [OF assms(1)] by simp
  then show ?thesis
    using run segs [of "takeWhile isJWTByte rest"] by (simp add: decodeLoginJWTPayload_def Let_def trim raw_url_read_back)
qed

text \<open>A token bound to a login is found behind any framing.  Whatever comes before the first run of eyJ and after the payload
  segment, the token of the nnex claim of a compact JWT with that payload is returned.\<close>

theorem bound_token_is_found:
  assumes "from_eyJ before = None" "\<forall>b \<in> set hdr. isJWTByte b \<and> b \<noteq> 46" "claim ''nnex'' payload = Some token" "token \<noteq> []"
  shows "NexTokenFromLoginExtraData claim
      (before @ [101, 121, 74] @ hdr @ [46] @ string_bytes (b64_raw_url payload) @ [46] @ rest) = Some token"
  using login_payload [OF assms(1,2), of payload rest] assms(3,4) by (simp add: NexTokenFromLoginExtraData_def login_claim_def)

text \<open>Only the first run that begins with eyJ is looked at: three letters of a name in the framing hide the token behind them.\<close>

theorem earlier_run_hides_the_token:
  assumes "from_eyJ before = None" "\<forall>b \<in> set run. isJWTByte b \<and> b \<noteq> 46" "\<not> isJWTByte x"
  shows "NexTokenFromLoginExtraData claim (before @ [101, 121, 74] @ run @ [x] @ login) = None"
proof -
  let ?run = "101 # 121 # 74 # run"
  have run: "\<forall>b \<in> set ?run. isJWTByte b \<and> b \<noteq> 46" using assms(2) by (rule eyJ_run)
  have "takeWhile isJWTByte (?run @ x # login) = ?run" using run assms(3) by (subst takeWhile_append2) auto
  moreover have "Split (CHR ''.'') (bytes_string ?run) = [bytes_string ?run]"
    using run by (intro Split_no_sep) (auto simp: bytes_string_def jwt_dot dest: sym)
  moreover have "from_eyJ (before @ ?run @ x # login) = Some (?run @ x # login)" using from_eyJ_skip [OF assms(1)] by simp
  ultimately show ?thesis by (simp add: NexTokenFromLoginExtraData_def login_claim_def decodeLoginJWTPayload_def Let_def)
qed

text \<open>A login with three bytes of framing, a header eyJhb and a signature cut by a zero byte.\<close>

theorem bound_token_is_found_witness:
  "NexTokenFromLoginExtraData (\<lambda>k p. if k = ''nnex'' \<and> p = [123, 125] then Some ''nx2.t'' else None)
      ([4, 0, 0] @ [101, 121, 74] @ [104, 98] @ [46] @ string_bytes (b64_raw_url [123, 125]) @ [46] @ [97, 98, 0]) = Some ''nx2.t''"
  by (rule bound_token_is_found) (simp_all add: isJWTByte_def)

subsection \<open>Examples\<close>

theorem eagle_token_names_its_player_witness:
  "(7 :: u64) = 7 \<and> (9 :: u32) = 9 \<and> (10 ^ 9 + 2 * 10 ^ 9 :: int) div 10 ^ 9 = (2 * 10 ^ 9 + 10 ^ 9) div 10 ^ 9"
proof (rule eagle_token_names_its_player)
  show "BuildEagleToken (10 ^ 9) [1] 7 9 (2 * 10 ^ 9) = BuildEagleToken (2 * 10 ^ 9) [1] 7 9 (10 ^ 9)"
    by (simp add: BuildEagleToken_def eagle_payload_of_def)
qed

definition handoff_settings :: settings where "handoff_settings = NewSwitchSettings ''key'' 40000"

theorem handoff_is_read_back_witness:
  "\<forall>e :: unit endpoint. \<exists>req. snd (SendEagleHandoff False True handoff_settings 0 9 ''wss://relay'' ''tok'' (3, e)) =
       SendRMC handoff_settings 0 req e \<and> rm_CallID req = 0xFFFD0004 \<and>
     n1_Param1 (fst (run_state (ReadStructure handoff_settings (NotificationEventV1_levels False) event_v1_zero) (NewStreamIn (rm_Body req)))) = 9"
proof
  fix e :: "unit endpoint"
  have "pid_ok handoff_settings EagleNotificationSource" "string_ok ''wss://relay''" "string_ok ''tok''"
    by (simp_all add: handoff_settings_def NewSwitchSettings_def pid_ok_def Publique_def Interne_def string_ok_def)
  from handoff_is_read_back [OF this prod.collapse [symmetric], of True 0 9 3 e]
  show "\<exists>req. snd (SendEagleHandoff False True handoff_settings 0 9 ''wss://relay'' ''tok'' (3, e)) =
       SendRMC handoff_settings 0 req e \<and> rm_CallID req = 0xFFFD0004 \<and>
     n1_Param1 (fst (run_state (ReadStructure handoff_settings (NotificationEventV1_levels False) event_v1_zero) (NewStreamIn (rm_Body req)))) = 9"
    by (auto simp: Let_def)
qed

end
