(* ===== verification/Nex_Recall.thy ===== *)
theory Nex_Recall
  imports Nex_Auth
begin

section \<open>The recall table on disk (ticketgranting.go)\<close>

text \<open>
  The file the recall of logins is kept in across restarts: loading it once, the flusher, and a restart of the process.
  The JSON text is the map it holds; \<open>None\<close> is a file that is missing or cannot be read or parsed.  Whether the
  write and the rename of a save succeed is an argument, and so is the order in which the table is ranged over.
  The name of the file is set by the environment: \<open>named\<close> tells that there is one.
\<close>

record recall_saved =
  rs_pid :: u64
  rs_at :: int

record recall_proc =
  rp_store :: auth_store
  rp_once :: bool
  rp_flusher :: bool
  rp_dirty :: bool
  rp_file :: "(string, recall_saved) gomap option"

definition authRecallMax :: nat where "authRecallMax = 50000"

text \<open>\<open>time.Unix(s, 0)\<close> and \<open>Time.Unix\<close> on nanoseconds.\<close>

definition from_unix :: "int \<Rightarrow> int" where "from_unix s = s * 10 ^ 9"
definition to_unix :: "int \<Rightarrow> int" where "to_unix t = t div 10 ^ 9"

definition recall_load :: "int \<Rightarrow> (string, recall_saved) gomap \<Rightarrow> (string, auth_recall) gomap \<Rightarrow> (string, auth_recall) gomap" where
  "recall_load now m tb = fold (\<lambda>(ip, rec) tb.
     if rs_pid rec = 0 \<or> now - from_unix (rs_at rec) > authRecallTTL then tb
     else AList.update ip \<lparr>ar_pid = rs_pid rec, ar_at = from_unix (rs_at rec)\<rparr> tb) m tb"

definition authRecallInit :: "bool \<Rightarrow> int \<Rightarrow> recall_proc \<Rightarrow> recall_proc" where
  "authRecallInit named now st =
     (if rp_once st then st
      else if \<not> named then st\<lparr>rp_once := True\<rparr>
      else let tb = authPIDByIP (rp_store st) in
        st\<lparr>rp_once := True, rp_flusher := True,
           rp_store := (rp_store st)\<lparr>authPIDByIP := (case rp_file st of None \<Rightarrow> tb | Some m \<Rightarrow> recall_load now m tb)\<rparr>\<rparr>)"

text \<open>One entry of the range: the table, from which an expired entry is dropped, and what will be written.\<close>

definition recall_collect :: "int \<Rightarrow> string \<Rightarrow> (string, auth_recall) gomap \<times> (string, recall_saved) gomap
    \<Rightarrow> (string, auth_recall) gomap \<times> (string, recall_saved) gomap" where
  "recall_collect now ip = (\<lambda>(tb, out). case map_of tb ip of
     None \<Rightarrow> (tb, out)
   | Some rec \<Rightarrow>
       if ip = [] then (tb, out)
       else if now - ar_at rec > authRecallTTL then (AList.delete ip tb, out)
       else (tb, if length out < authRecallMax then AList.update ip \<lparr>rs_pid = ar_pid rec, rs_at = to_unix (ar_at rec)\<rparr> out else out))"

text \<open>One tick of the flusher, which runs only when it was started.\<close>

definition authRecallFlusher :: "string list \<Rightarrow> bool \<Rightarrow> int \<Rightarrow> recall_proc \<Rightarrow> recall_proc" where
  "authRecallFlusher order written now st =
     (if \<not> rp_flusher st \<or> \<not> rp_dirty st then st
      else let (tb, out) = fold (recall_collect now) order (authPIDByIP (rp_store st), []) in
        st\<lparr>rp_dirty := False, rp_store := (rp_store st)\<lparr>authPIDByIP := tb\<rparr>,
           rp_file := (if written then Some out else rp_file st)\<rparr>)"

definition remember_auth :: "bool \<Rightarrow> int \<Rightarrow> string \<Rightarrow> u64 \<Rightarrow> recall_proc \<Rightarrow> recall_proc" where
  "remember_auth named now addr pid st =
     (let st1 = authRecallInit named now st in st1\<lparr>rp_store := RememberAuthPID now addr pid (rp_store st1), rp_dirty := True\<rparr>)"

definition recall_auth :: "bool \<Rightarrow> int \<Rightarrow> string \<Rightarrow> recall_proc \<Rightarrow> u64 option \<times> recall_proc" where
  "recall_auth named now addr st =
     (let st1 = authRecallInit named now st; (r, au) = RecallAuthPID now addr (rp_store st1) in (r, st1\<lparr>rp_store := au\<rparr>))"

text \<open>A restart keeps the file only.\<close>

definition process_restart :: "recall_proc \<Rightarrow> recall_proc" where
  "process_restart st = \<lparr>rp_store = auth_empty, rp_once = False, rp_flusher = False, rp_dirty = False, rp_file = rp_file st\<rparr>"

subsection \<open>Loading and saving\<close>

lemma recall_load_Cons: "recall_load now ((ip, rec) # m) tb = recall_load now m
    (if rs_pid rec = 0 \<or> now - from_unix (rs_at rec) > authRecallTTL then tb
     else AList.update ip \<lparr>ar_pid = rs_pid rec, ar_at = from_unix (rs_at rec)\<rparr> tb)"
  by (simp add: recall_load_def)

lemma recall_load_lookup:
  assumes "gomap_wf m"
  shows "map_of (recall_load now m tb) k = (case map_of m k of
     None \<Rightarrow> map_of tb k
   | Some rec \<Rightarrow> if rs_pid rec = 0 \<or> now - from_unix (rs_at rec) > authRecallTTL then map_of tb k
       else Some \<lparr>ar_pid = rs_pid rec, ar_at = from_unix (rs_at rec)\<rparr>)"
  using assms
proof (induction m arbitrary: tb)
  case Nil
  then show ?case by (simp add: recall_load_def)
next
  case (Cons e m)
  obtain ip rec where e: "e = (ip, rec)" by (cases e)
  have wf: "gomap_wf m" and new: "map_of m ip = None"
    using Cons.prems by (auto simp: gomap_wf_def e map_of_eq_None_iff)
  show ?case using new by (simp add: e recall_load_Cons Cons.IH [OF wf] del: gomap_lookup split: option.split)
qed

lemma length_update_le: "length (AList.update k v m) \<le> length m + 1"
  by (induction m) auto

lemma collect_lookup:
  assumes "distinct order" "length out + length order \<le> authRecallMax"
  shows "map_of (snd (fold (recall_collect now) order (tb, out))) k = (case map_of tb k of
     Some rec \<Rightarrow> if k \<in> set order \<and> k \<noteq> [] \<and> now - ar_at rec \<le> authRecallTTL
       then Some \<lparr>rs_pid = ar_pid rec, rs_at = to_unix (ar_at rec)\<rparr> else map_of out k
   | None \<Rightarrow> map_of out k)"
  using assms
proof (induction order arbitrary: tb out)
  case Nil
  then show ?case by (simp split: option.split)
next
  case (Cons ip order)
  obtain tb' out' where step: "recall_collect now ip (tb, out) = (tb', out')" by force
  have "length out' \<le> length out + 1"
    using step by (auto simp: recall_collect_def intro: length_update_le [THEN order_trans] split: option.splits if_splits)
  then have room: "distinct order" "length out' + length order \<le> authRecallMax" using Cons.prems by simp_all
  have other: "map_of tb' j = map_of tb j" "map_of out' j = map_of out j" if "j \<noteq> ip" for j
    using step that by (auto simp: recall_collect_def simp del: gomap_lookup split: option.splits if_splits)
  show ?case
  proof (cases "k = ip")
    case True
    then have "k \<notin> set order" using Cons.prems(1) by simp
    moreover have "length out < authRecallMax" using Cons.prems(2) by simp
    ultimately show ?thesis using step Cons.IH [OF room, of tb'] True
      by (auto simp: recall_collect_def simp del: gomap_lookup split: option.splits if_splits)
  next
    case False
    then show ?thesis using Cons.IH [OF room, of tb'] other [OF False] by (simp add: step del: gomap_lookup split: option.split)
  qed
qed

lemma collect_wf: "gomap_wf tb \<Longrightarrow> gomap_wf out \<Longrightarrow>
    gomap_wf (fst (fold (recall_collect now) order (tb, out))) \<and> gomap_wf (snd (fold (recall_collect now) order (tb, out)))"
proof (induction order arbitrary: tb out)
  case (Cons ip order)
  obtain tb' out' where step: "recall_collect now ip (tb, out) = (tb', out')" by force
  have "gomap_wf tb'" "gomap_wf out'"
    using step Cons.prems by (auto simp: recall_collect_def simp del: gomap_lookup split: option.splits if_splits)
  then show ?case using Cons.IH [of tb' out'] by (simp add: step)
qed simp

lemma to_unix_le: "from_unix (to_unix t) \<le> t"
  by (simp add: from_unix_def to_unix_def)

text \<open>C4: A login survives a restart of the server.  Once the flusher has saved the table after a login, the process that
  starts from the file recalls that player for the address the login came from, as long as the time to live has not
  passed since the second of the login.\<close>

theorem recall_survives_a_restart:
  assumes "gomap_wf (authPIDByIP (rp_store (authRecallInit True t0 st)))" "rp_once st \<Longrightarrow> rp_flusher st" "pid \<noteq> 0" "ipHost addr \<noteq> []"
    and order: "distinct order" "ipHost addr \<in> set order" "length order \<le> authRecallMax"
    and time: "t1 - t0 \<le> authRecallTTL" "t2 - from_unix (to_unix t0) \<le> authRecallTTL" "ipHost addr' = ipHost addr"
  shows "fst (recall_auth True t2 addr' (process_restart (authRecallFlusher order True t1 (remember_auth True t0 addr pid st)))) = Some pid"
proof -
  let ?st1 = "remember_auth True t0 addr pid st"
  let ?saved = "snd (fold (recall_collect t1) order (authPIDByIP (rp_store ?st1), []))"
  have dirty: "rp_dirty ?st1" "rp_flusher ?st1"
    using assms(2) by (auto simp: remember_auth_def authRecallInit_def Let_def)
  have wf1: "gomap_wf (authPIDByIP (rp_store ?st1))" using assms(1) by (simp add: remember_auth_def RememberAuthPID_def Let_def)
  have here: "map_of (authPIDByIP (rp_store ?st1)) (ipHost addr) = Some \<lparr>ar_pid = pid, ar_at = t0\<rparr>"
    by (simp add: remember_auth_def RememberAuthPID_def Let_def del: gomap_lookup)
  have disk: "rp_file (process_restart (authRecallFlusher order True t1 ?st1)) = Some ?saved"
    using dirty by (simp add: process_restart_def authRecallFlusher_def split: prod.split)
  have entry: "map_of ?saved (ipHost addr) = Some \<lparr>rs_pid = pid, rs_at = to_unix t0\<rparr>"
    using collect_lookup [of order "[]" t1 "authPIDByIP (rp_store ?st1)" "ipHost addr"] order time assms(4) here
    by (simp del: gomap_lookup)
  have "gomap_wf ?saved" using collect_wf [OF wf1 gomap_wf_Nil] by simp
  from recall_load_lookup [OF this, of t2 "[]" "ipHost addr"] entry time(2) assms(3)
  have "map_of (recall_load t2 ?saved []) (ipHost addr) = Some \<lparr>ar_pid = pid, ar_at = from_unix (to_unix t0)\<rparr>"
    by (simp del: gomap_lookup)
  then show ?thesis using disk time(2,3) assms(3)
    by (simp add: recall_auth_def authRecallInit_def process_restart_def RecallAuthPID_def auth_empty_def Let_def del: gomap_lookup)
qed

theorem recall_survives_a_restart_witness:
  "fst (recall_auth True (7200 * 10 ^ 9) ''10.0.0.9:99'' (process_restart (authRecallFlusher [''10.0.0.9''] True (12 * 10 ^ 9)
     (remember_auth True (10 * 10 ^ 9 + 5) ''10.0.0.9:1'' 7 (process_restart undefined\<lparr>rp_file := None\<rparr>))))) = Some 7"
  by (rule recall_survives_a_restart)
    (simp_all add: process_restart_def authRecallInit_def auth_empty_def ipHost_def SplitHostPort_def last_colon_def authRecallTTL_def
      authRecallMax_def from_unix_def to_unix_def)

text \<open>The flag is cleared before the file is written: a save that fails is not tried again until the next login.\<close>

theorem failed_save_is_not_retried:
  "authRecallFlusher order' ok now' (authRecallFlusher order False now st) = authRecallFlusher order False now st"
  by (simp add: authRecallFlusher_def split: prod.split)

subsection \<open>Where a recalled identity comes from\<close>

text \<open>The operations of a server and of its restarts, each with the clock.\<close>

datatype recall_op =
    OpLogin string u64
  | OpRecall string
  | OpFlush "string list" bool
  | OpRestart

fun recall_step :: "bool \<Rightarrow> int \<times> recall_op \<Rightarrow> recall_proc \<Rightarrow> recall_proc" where
  "recall_step named (t, OpLogin addr pid) st = remember_auth named t addr pid st"
| "recall_step named (t, OpRecall addr) st = snd (recall_auth named t addr st)"
| "recall_step named (t, OpFlush order ok) st = authRecallFlusher order ok t st"
| "recall_step named (t, OpRestart) st = process_restart st"

text \<open>An entry of the table or of the file comes from a login at that address no earlier than its time.\<close>

definition came_from :: "(int \<times> recall_op) set \<Rightarrow> string \<Rightarrow> u64 \<Rightarrow> int \<Rightarrow> bool" where
  "came_from ops ip pid at \<longleftrightarrow> (\<exists>t a. (t, OpLogin a pid) \<in> ops \<and> ipHost a = ip \<and> at \<le> t)"

definition recall_inv :: "(int \<times> recall_op) set \<Rightarrow> recall_proc \<Rightarrow> bool" where
  "recall_inv ops st \<longleftrightarrow> gomap_all (\<lambda>ip rec. came_from ops ip (ar_pid rec) (ar_at rec)) (authPIDByIP (rp_store st)) \<and>
     (\<forall>m. rp_file st = Some m \<longrightarrow> gomap_all (\<lambda>ip rec. came_from ops ip (rs_pid rec) (from_unix (rs_at rec))) m)"

lemma came_from_mono: "came_from ops ip pid at \<Longrightarrow> ops \<subseteq> ops' \<Longrightarrow> came_from ops' ip pid at"
  by (auto simp: came_from_def)

lemma came_from_earlier: "came_from ops ip pid at \<Longrightarrow> at' \<le> at \<Longrightarrow> came_from ops ip pid at'"
  by (fastforce simp: came_from_def)

abbreviation table_came where
  "table_came ops \<equiv> gomap_all (\<lambda>ip rec. came_from ops ip (ar_pid rec) (ar_at rec))"
abbreviation file_came where
  "file_came ops \<equiv> gomap_all (\<lambda>ip rec. came_from ops ip (rs_pid rec) (from_unix (rs_at rec)))"

lemma load_came: "file_came ops m \<Longrightarrow> table_came ops tb \<Longrightarrow> table_came ops (recall_load now m tb)"
proof (induction m arbitrary: tb)
  case Nil
  then show ?case by (simp add: recall_load_def)
next
  case (Cons e m)
  obtain ip rec where e: "e = (ip, rec)" by (cases e)
  have "file_came ops m" "came_from ops ip (rs_pid rec) (from_unix (rs_at rec))"
    using Cons.prems(1) by (auto simp: gomap_all_def gomap_wf_def e)
  then show ?case using Cons.IH Cons.prems(2) by (simp add: e recall_load_Cons)
qed

lemma collect_came:
  assumes "table_came ops tb" "file_came ops out"
  shows "table_came ops (fst (fold (recall_collect now) order (tb, out))) \<and> file_came ops (snd (fold (recall_collect now) order (tb, out)))"
  using assms
proof (induction order arbitrary: tb out)
  case (Cons ip order)
  obtain tb' out' where step: "recall_collect now ip (tb, out) = (tb', out')" by force
  have "came_from ops ip (ar_pid rec) (from_unix (to_unix (ar_at rec)))" if "map_of tb ip = Some rec" for rec
    using gomap_all_lookup [OF Cons.prems(1) that] by (rule came_from_earlier) (rule to_unix_le)
  then have "table_came ops tb'" "file_came ops out'"
    using step Cons.prems by (auto simp: recall_collect_def simp del: gomap_lookup split: option.splits if_splits)
  then show ?case using Cons.IH [of tb' out'] by (simp add: step)
qed simp

lemma init_inv: "recall_inv ops st \<Longrightarrow> recall_inv ops (authRecallInit named now st)"
  by (auto simp: recall_inv_def authRecallInit_def Let_def load_came split: option.split)

lemma recall_inv_mono: "recall_inv ops st \<Longrightarrow> ops \<subseteq> ops' \<Longrightarrow> recall_inv ops' st"
  unfolding recall_inv_def gomap_all_def by (blast intro: came_from_mono)

lemma step_inv: "recall_inv (set ops) st \<Longrightarrow> recall_inv (set (ops @ [(t, op)])) (recall_step named (t, op) st)"
proof -
  assume "recall_inv (set ops) st"
  then have st: "recall_inv (set (ops @ [(t, op)])) st" by (rule recall_inv_mono) auto
  let ?ops = "set (ops @ [(t, op)])"
  show ?thesis
  proof (cases op)
    case (OpLogin addr pid)
    have "came_from ?ops (ipHost addr) pid t" using OpLogin by (auto simp: came_from_def)
    then show ?thesis using init_inv [OF st, of named t] OpLogin
      by (simp add: recall_inv_def remember_auth_def RememberAuthPID_def Let_def)
  next
    case (OpRecall addr)
    then show ?thesis using init_inv [OF st, of named t]
      by (auto simp: recall_inv_def recall_auth_def RecallAuthPID_def Let_def simp del: gomap_lookup split: prod.split option.split)
  next
    case (OpFlush order ok)
    have "table_came ?ops (authPIDByIP (rp_store st))" using st by (simp add: recall_inv_def)
    from collect_came [OF this gomap_all_Nil, of t order] show ?thesis using st OpFlush
      by (auto simp: recall_inv_def authRecallFlusher_def split: prod.split)
  next
    case OpRestart
    then show ?thesis using st by (simp add: recall_inv_def process_restart_def auth_empty_def)
  qed
qed

definition recall_fresh :: recall_proc where
  "recall_fresh = \<lparr>rp_store = auth_empty, rp_once = False, rp_flusher = False, rp_dirty = False, rp_file = None\<rparr>"

lemma history_inv: "recall_inv (set ops) (fold (recall_step named) ops recall_fresh)"
proof (induction ops rule: rev_induct)
  case Nil
  then show ?case by (simp add: recall_inv_def recall_fresh_def auth_empty_def)
next
  case (snoc op ops)
  then show ?case using step_inv [of ops _ "fst op" "snd op" named] by simp
qed

text \<open>C3: No history of logins, recalls, saves, failed saves and restarts invents an identity: whatever player the server
  recalls for an address logged in from that address, at most 24 hours ago.\<close>

theorem recalled_player_had_logged_in:
  assumes "fst (recall_auth named now addr (fold (recall_step named) ops recall_fresh)) = Some pid"
  shows "\<exists>t a. (t, OpLogin a pid) \<in> set ops \<and> ipHost a = ipHost addr \<and> now - t \<le> authRecallTTL \<and> pid \<noteq> 0"
proof -
  let ?st = "authRecallInit named now (fold (recall_step named) ops recall_fresh)"
  obtain rec where rec: "map_of (authPIDByIP (rp_store ?st)) (ipHost addr) = Some rec" "pid = ar_pid rec" "pid \<noteq> 0"
      "now - ar_at rec \<le> authRecallTTL"
    using assms by (auto simp: recall_auth_def RecallAuthPID_def Let_def simp del: gomap_lookup split: prod.splits option.splits if_splits)
  have "came_from (set ops) (ipHost addr) (ar_pid rec) (ar_at rec)"
    using init_inv [OF history_inv [of ops named], of named now] gomap_all_lookup [OF _ rec(1)] by (auto simp: recall_inv_def)
  then show ?thesis using rec by (fastforce simp: came_from_def)
qed

theorem recalled_player_had_logged_in_witness:
  "\<exists>t a. (t, OpLogin a 8) \<in> set [(1, OpLogin ''1.2.3.4:5'' 8), (2, OpFlush [''1.2.3.4''] True), (3, OpRestart)] \<and>
     ipHost a = ipHost ''1.2.3.4:9'' \<and> 4 - t \<le> authRecallTTL \<and> (8 :: u64) \<noteq> 0"
proof (rule recalled_player_had_logged_in [of True])
  show "fst (recall_auth True 4 ''1.2.3.4:9'' (fold (recall_step True)
      [(1, OpLogin ''1.2.3.4:5'' 8), (2, OpFlush [''1.2.3.4''] True), (3, OpRestart)] recall_fresh)) = Some 8"
    by (simp add: recall_fresh_def recall_auth_def RecallAuthPID_def RememberAuthPID_def authRecallInit_def remember_auth_def
        authRecallFlusher_def recall_collect_def recall_load_def process_restart_def auth_empty_def ipHost_def SplitHostPort_def
        last_colon_def authRecallTTL_def authRecallMax_def from_unix_def to_unix_def Let_def)
qed

end
