(* ===== verification/Nex_Transport.thy ===== *)
theory Nex_Transport
  imports Nex_Recall Nex_Nat
begin

section \<open>Sockets, the PROXY header and monitoring (server.go, proxyproto.go, dashboard\_data.go, reaper.go)\<close>

text \<open>
  The WebSocket server's callbacks over the endpoint: a socket is a number, and \<open>ws_conns\<close> is the map from sockets to
  the handles of their connections.  The handshakes of TLS and WebSocket are the libraries'; what the program adds is the
  choice between an upgrade and plain HTTP, the PROXY header read before TLS, and what a connection is told of its address.
  A frame whose handling panics is recovered by the transport, which is the state \<open>Feed\<close> leaves.
\<close>

subsection \<open>Addresses in print\<close>

fun hex_str :: "nat \<Rightarrow> string" where
  "hex_str n = (if n < 16 then [hex_digit n] else hex_str (n div 16) @ [hex_digit (n mod 16)])"

declare hex_str.simps [simp del]

definition ip_groups :: "bytes \<Rightarrow> nat list" where
  "ip_groups ip = map (\<lambda>i. unat (ip ! (2 * i)) * 256 + unat (ip ! (2 * i + 1))) [0..<8]"

text \<open>The first of the longest runs of at least two zero groups: where it starts and its length.\<close>

definition zero_run :: "nat list \<Rightarrow> nat \<times> nat" where
  "zero_run g = foldl (\<lambda>(s, l) i. let r = length (takeWhile (\<lambda>x. x = 0) (drop i g)) in if r \<ge> 2 \<and> r > l then (i, r) else (s, l)) (0, 0) [0..<8]"

definition ip6_str :: "bytes \<Rightarrow> string" where
  "ip6_str ip = (let g = ip_groups ip; (s, l) = zero_run g in
     if l = 0 then Join '':'' (map hex_str g)
     else Join '':'' (map hex_str (take s g)) @ ''::'' @ Join '':'' (map hex_str (drop (s + l) g)))"

text \<open>\<open>TCPAddr.String\<close>.\<close>

record tcp_addr =
  ta_IP :: bytes
  ta_Port :: int

definition tcp_addr_str :: "tcp_addr \<Rightarrow> string" where
  "tcp_addr_str a = (case To4 (ta_IP a) of Some v \<Rightarrow> ip4_str v | None \<Rightarrow> ''['' @ ip6_str (ta_IP a) @ '']'') @ '':'' @ Itoa (ta_Port a)"

text \<open>The IPv4 address and port \<open>ConnectionSignature\<close> finds in an address.\<close>

definition peer_of :: "string \<Rightarrow> (bytes \<times> u16) option" where
  "peer_of addr = (case SplitHostPort addr of None \<Rightarrow> None
     | Some (host, port) \<Rightarrow> (case Option.bind (ParseIP host) To4 of None \<Rightarrow> None
        | Some ip \<Rightarrow> if snd (Atoi port) then Some (ip, word_of_int (fst (Atoi port))) else None))"

subsection \<open>The PROXY header\<close>

definition proxy_source :: "string \<Rightarrow> tcp_addr option" where
  "proxy_source line = (let f = Fields (TrimSpace line) in
     if length f \<ge> 6 \<and> (f ! 1 = ''TCP4'' \<or> f ! 1 = ''TCP6'')
     then map_option (\<lambda>ip. \<lparr>ta_IP = ip, ta_Port = fst (Atoi (f ! 4))\<rparr>) (ParseIP (f ! 2)) else None)"

text \<open>What the listener makes of the bytes a peer sends: the address of the header, and the bytes left to read.  A header
  line that never ends is consumed.\<close>

definition proxy_Accept :: "bytes \<Rightarrow> tcp_addr option \<times> bytes" where
  "proxy_Accept inp =
     (if take 6 inp = string_bytes ''PROXY '' then
        (let line = takeWhile (\<lambda>b. b \<noteq> 10) inp; after = dropWhile (\<lambda>b. b \<noteq> 10) inp in
         if after = [] then (None, []) else (proxy_source (bytes_string (line @ [10])), tl after))
      else (None, inp))"

definition proxy_RemoteAddr :: "tcp_addr option \<Rightarrow> tcp_addr \<Rightarrow> tcp_addr" where
  "proxy_RemoteAddr found own = (case found of Some a \<Rightarrow> a | None \<Rightarrow> own)"

subsection \<open>The WebSocket server\<close>

record 'w ws_server =
  ws_Endpoint :: "'w endpoint"
  ws_conns :: "(nat, nat) gomap"
  ws_fresh :: nat

definition OnOpen :: "nat \<Rightarrow> string \<Rightarrow> 'w ws_server \<Rightarrow> 'w ws_server" where
  "OnOpen socket addr st = (let h = ws_fresh st in
     st\<lparr>ws_Endpoint := on_conn h (\<lambda>_. NewConnection addr (peer_of addr)) (ws_Endpoint st),
        ws_conns := AList.update socket h (ws_conns st), ws_fresh := h + 1\<rparr>)"

definition OnClose :: "'w hooks \<Rightarrow> nat \<Rightarrow> 'w ws_server \<Rightarrow> 'w ws_server" where
  "OnClose hk socket st = (case map_of (ws_conns st) socket of
     None \<Rightarrow> st
   | Some h \<Rightarrow> st\<lparr>ws_conns := AList.delete socket (ws_conns st), ws_Endpoint := close_conn hk h (ws_Endpoint st)\<rparr>)"

definition OpcodeBinary :: nat where "OpcodeBinary = 2"

definition OnMessage :: "'w hooks \<Rightarrow> bytes \<Rightarrow> nat \<Rightarrow> nat \<Rightarrow> bytes \<Rightarrow> 'w ws_server \<Rightarrow> 'w ws_server" where
  "OnMessage hk rnd socket opcode data st =
     (if opcode \<noteq> OpcodeBinary then st
      else case map_of (ws_conns st) socket of
        None \<Rightarrow> st
      | Some h \<Rightarrow> st\<lparr>ws_Endpoint := Feed hk rnd h data (ws_Endpoint st)\<rparr>)"

text \<open>How a request is answered: \<open>strings.ToLower\<close> maps the Kelvin sign and the dotted capital I into ASCII, every other
  code point beyond ASCII outside it.\<close>

datatype http_answer = HttpUpgrade | HttpCustom | HttpNotFound

fun ToLower :: "string \<Rightarrow> string" where
  "ToLower [] = []"
| "ToLower (c # s) =
     (if take 3 (c # s) = map char_of [0xE2, 0x84, 0xAA :: nat] then CHR ''k'' # ToLower (drop 2 s)
      else if take 2 (c # s) = map char_of [0xC4, 0xB0 :: nat] then CHR ''i'' # ToLower (drop 1 s)
      else (let n = of_char c in if 65 \<le> n \<and> n \<le> 90 then char_of (n + 32 :: nat) else c) # ToLower s)"

definition mux :: "string \<Rightarrow> string \<Rightarrow> bool \<Rightarrow> http_answer" where
  "mux upgrade key custom =
     (if ToLower upgrade = ''websocket'' \<or> key \<noteq> [] then HttpUpgrade else if custom then HttpCustom else HttpNotFound)"

subsection \<open>Monitoring\<close>

record gathering_info =
  gi_ID :: u32
  gi_OwnerPID :: u64
  gi_HostPID :: u64
  gi_Participants :: "u64 list"
  gi_GameMode :: u32
  gi_VR :: u32
  gi_Attribs :: "u32 list"
  gi_MaxPart :: u16
  gi_State :: u32
  gi_Code :: string

definition gathering_snapshot :: "u32 \<Rightarrow> gathering \<Rightarrow> gathering_info" where
  "gathering_snapshot gid g = (let s = gt_session g in
     \<lparr>gi_ID = gid, gi_OwnerPID = g_OwnerPID s, gi_HostPID = g_HostPID s, gi_Participants = gt_participants g,
      gi_GameMode = s_GameMode s, gi_VR = (if length (s_Attribs s) > 1 then s_Attribs s ! 1 else 0), gi_Attribs = s_Attribs s,
      gi_MaxPart = g_MaxParticipants s, gi_State = g_State s, gi_Code = gt_code g\<rparr>)"

definition Snapshot :: "'a mm_world_scheme \<Rightarrow> gathering_info list" where
  "Snapshot w = map (\<lambda>(gid, g). gathering_snapshot gid g) (mm_gatherings w)"

record conn_info =
  ci_PID :: u64
  ci_ID :: u32
  ci_Addr :: string

definition SnapshotConnections :: "'w endpoint \<Rightarrow> conn_info list" where
  "SnapshotConnections e = map (\<lambda>(_, h). let c = ep_heap e h in \<lparr>ci_PID = c_PID c, ci_ID = c_ID c, ci_Addr = c_RemoteAddr c\<rparr>) (ep_connections e)"

text \<open>The state of the relay (relaypair.go).  A socket that has carried nothing yet is idle for the longest duration there is.\<close>

record pair_stat =
  pt_Port :: int
  pt_PIDs :: "u64 list"
  pt_Attendus :: "string list"
  pt_Places :: "string list"
  pt_Recus :: u64
  pt_Relayes :: u64
  pt_RelayesVers :: "u64 list"
  pt_Rejets :: u64
  pt_Remaps :: u64
  pt_Rejetees :: "(string, u64) gomap"
  pt_InactifSec :: int

record relay_stats =
  st_Actif :: bool
  st_Host :: string
  st_PortBase :: int
  st_PortSpan :: int
  st_Paires :: nat
  st_Total :: pair_totaux
  st_Vivantes :: "pair_stat list"

definition pair_snapshot :: "int \<Rightarrow> int \<Rightarrow> pair_socket \<Rightarrow> pair_stat" where
  "pair_snapshot now port ps = \<lparr>pt_Port = port, pt_PIDs = [ps_pidLo ps, ps_pidHi ps], pt_Attendus = ps_attendus ps,
     pt_Places = map (\<lambda>v. case v of None \<Rightarrow> [] | Some a \<Rightarrow> udp_addr_str a) (ps_vus ps), pt_Recus = ps_recus ps, pt_Relayes = ps_relayes ps,
     pt_RelayesVers = ps_relayesVers ps, pt_Rejets = ps_rejets ps, pt_Remaps = ps_remaps ps,
     pt_Rejetees = (case ps_rejetVu ps of None \<Rightarrow> [] | Some m \<Rightarrow> m),
     pt_InactifSec = (case ps_dernier ps of None \<Rightarrow> 9223372036 | Some d \<Rightarrow> (if now - d \<ge> 0 then (now - d) div 10 ^ 9 else - ((d - now) div 10 ^ 9)))\<rparr>"

definition PairRelayStats :: "int \<Rightarrow> relay_state \<Rightarrow> relay_stats" where
  "PairRelayStats now st = \<lparr>st_Actif = PairRelayActive st, st_Host = rl_host st, st_PortBase = rl_portBase st, st_PortSpan = rl_portSpan st,
     st_Paires = length (rl_socks st), st_Total = rl_total st, st_Vivantes = map (\<lambda>(port, ps). pair_snapshot now port ps) (rl_socks st)\<rparr>"

definition coteDe :: "pair_socket \<Rightarrow> udp_addr option \<Rightarrow> string" where
  "coteDe ps a = (case a of None \<Rightarrow> ''-'' | Some a \<Rightarrow>
     (case find (\<lambda>i. case ps_vus ps ! i of None \<Rightarrow> False | Some v \<Rightarrow> same_addr v a) [0..<length (ps_vus ps)] of
        None \<Rightarrow> ''?'' | Some i \<Rightarrow> [char_of (65 + i)]))"

subsection \<open>Starting the reaper\<close>

text \<open>A number of seconds from the environment, as a 64-bit count of nanoseconds.\<close>

definition go_seconds :: "int \<Rightarrow> int" where
  "go_seconds n = (n * 10 ^ 9 + 2 ^ 63) mod 2 ^ 64 - 2 ^ 63"

definition envSeconds :: "string \<Rightarrow> int \<Rightarrow> int" where
  "envSeconds v def = (if v \<noteq> [] \<and> snd (Atoi v) \<and> fst (Atoi v) \<ge> 0 then go_seconds (fst (Atoi v)) else go_seconds def)"

definition ReapIdleTimeout :: "string \<Rightarrow> int" where
  "ReapIdleTimeout v = envSeconds v 600"

text \<open>The flag of \<open>reaperOnce\<close>, one for the process, and the loops that run: endpoint, limit and pause.\<close>

definition StartReaper :: "string \<Rightarrow> string \<Rightarrow> nat \<Rightarrow> bool \<times> (nat \<times> int \<times> int) list \<Rightarrow> bool \<times> (nat \<times> int \<times> int) list" where
  "StartReaper idle every endpoint st =
     (let maxIdle = ReapIdleTimeout idle in
      if maxIdle \<le> 0 \<or> fst st then st
      else (True, snd st @ [(endpoint, maxIdle, envSeconds every 60)]))"

end
