(* ===== verification/Nex_Transport_Props.thy ===== *)
theory Nex_Transport_Props
  imports Nex_Transport
begin

section \<open>Properties of the transport\<close>

text \<open>
  A login that arrives through the TLS front is remembered under the console's own address; a socket that was closed is
  silent; a connection that was only kicked is not: its socket keeps feeding it.
\<close>

subsection \<open>Words of a header\<close>

lemma until_word: "list_all graphic w \<Longrightarrow> until_space (w @ s) = (case until_space s of (f, r) \<Rightarrow> (w @ f, r))"
  by (induction w) (simp_all add: first_prefix_graphic split_beta)

definition word_ok :: "string \<Rightarrow> bool" where "word_ok w \<longleftrightarrow> list_all graphic w \<and> w \<noteq> []"

lemma space_is_space: "ascii_space (CHR '' '')"
  by (simp add: ascii_space_def)

lemma trim_word: "word_ok w \<Longrightarrow> trim_front space_encodings (w @ s) = w @ s"
  by (cases w) (simp_all add: word_ok_def trim_front_graphic)

lemma fields_first: "word_ok w \<Longrightarrow> Fields (w @ CHR '' '' # s) = w # Fields s"
proof -
  assume w: "word_ok w"
  have "until_space (w @ CHR '' '' # s) = (w, CHR '' '' # s)"
    using until_word [of w "CHR '' '' # s"] w by (simp add: word_ok_def first_prefix_space space_is_space)
  then have "Fields (w @ CHR '' '' # s) = w # Fields (CHR '' '' # s)"
    using w by (subst Fields.simps) (simp add: trim_word Let_def word_ok_def)
  also have "Fields (CHR '' '' # s) = Fields s"
    using trim_front_spaces [of space_encodings "[CHR '' '']" s] by (simp add: Fields.simps [of "CHR '' '' # s"] Fields.simps [of s] space_is_space)
  finally show ?thesis .
qed

lemma fields_last: "word_ok w \<Longrightarrow> Fields w = [w]"
proof -
  assume w: "word_ok w"
  have "until_space w = (w, [])" using until_word [of w "[]"] w by (simp add: word_ok_def)
  then show ?thesis using w trim_word [OF w, of "[]"]
    by (simp add: Fields.simps [of w] Fields.simps [of "[]"] trim_front.simps [of _ "[]"] word_ok_def)
qed

lemma number_word: "word_ok (nat_str n)"
  using nat_str_digits [of n] by (auto simp: word_ok_def list_all_iff is_digit_graphic)

lemma graphic_dot: "graphic (CHR ''.'')" "graphic (CHR '':'')"
  by (simp_all add: graphic_def)

lemma ip4_word: "word_ok (ip4_str [a, b, c, d])"
  using number_word by (simp add: word_ok_def ip4_str_def graphic_dot)

lemma literal_words: "word_ok ''PROXY''" "word_ok ''TCP4''"
  by (simp_all add: word_ok_def graphic_def)

lemma number_read: "n < 2 ^ 63 \<Longrightarrow> Atoi (nat_str n) = (int n, True)"
proof -
  assume n: "n < 2 ^ 63"
  have d: "list_all is_digit (nat_str n)" "nat_str n \<noteq> []" using nat_str_digits [of n] by simp_all
  then obtain c r where cr: "nat_str n = c # r" by (cases "nat_str n") auto
  then have "is_digit c" using d by simp
  then have c: "c \<noteq> CHR ''-''" "c \<noteq> CHR ''+''" by (auto simp: is_digit_def)
  have "parse_dec (c # r) = Some n" unfolding cr [symmetric] by simp
  moreover have "int n \<le> 2 ^ 63 - 1" using n by simp
  ultimately show ?thesis using c unfolding cr by (simp add: Atoi_def)
qed

subsection \<open>Splitting an address\<close>

lemma split_at:
  assumes "c \<notin> set xs"
  shows "takeWhile (\<lambda>x. x \<noteq> c) (xs @ c # ys) = xs" "dropWhile (\<lambda>x. x \<noteq> c) (xs @ c # ys) = c # ys"
  using assms by (induction xs) auto

lemma split_ip4: "SplitHostPort (ip4_str [a, b, c, d] @ CHR '':'' # nat_str n) = Some (ip4_str [a, b, c, d], nat_str n)"
proof -
  have digit: "\<forall>x \<in> set (nat_str k). x \<noteq> CHR '':'' \<and> x \<noteq> CHR ''['' \<and> x \<noteq> CHR '']''" for k
    using nat_str_digits [of k] by (auto simp: list_all_iff is_digit_def)
  let ?ip = "ip4_str [a, b, c, d]"
  have ip: "CHR '':'' \<notin> set ?ip" "CHR ''['' \<notin> set ?ip" "CHR '']'' \<notin> set ?ip" using digit by (auto simp: ip4_str_def)
  have port: "CHR '':'' \<notin> set (nat_str n)" "CHR ''['' \<notin> set (nat_str n)" "CHR '']'' \<notin> set (nat_str n)" using digit by blast+
  have ne: "?ip \<noteq> []" using ip4_word by (simp add: word_ok_def)
  then obtain x r where xr: "?ip = x # r" by (cases ?ip) auto
  have "last_colon (?ip @ CHR '':'' # nat_str n) = Some (?ip, nat_str n)"
    using split_at [of "CHR '':''" "rev (nat_str n)" "rev ?ip"] port(1) by (simp add: last_colon_def)
  moreover have "(?ip @ CHR '':'' # nat_str n) ! 0 \<noteq> CHR ''[''" using ip(2) xr by auto
  ultimately show ?thesis using ip port by (simp add: SplitHostPort_def)
qed

lemma address_host: "ipHost (ip4_str [a, b, c, d] @ CHR '':'' # nat_str n) = ip4_str [a, b, c, d]"
  by (simp add: ipHost_def split_ip4)

subsection \<open>The PROXY header\<close>

text \<open>The line a front writes before the bytes of the console it forwards.\<close>

definition proxy_line :: "string \<Rightarrow> string \<Rightarrow> string \<Rightarrow> string \<Rightarrow> string" where
  "proxy_line src dst sport dport = ''PROXY TCP4 '' @ src @ CHR '' '' # dst @ CHR '' '' # sport @ CHR '' '' # dport"

lemma proxy_source_line:
  assumes "word_ok src" "word_ok dst" "word_ok dport" "ParseIP src = Some ip" "n < 2 ^ 63"
  shows "proxy_source (proxy_line src dst (nat_str n) dport @ map char_of [13, 10 :: nat]) = Some \<lparr>ta_IP = ip, ta_Port = int n\<rparr>"
proof -
  let ?l = "proxy_line src dst (nat_str n) dport"
  have ends: "?l \<noteq> []" "graphic (hd ?l)" "graphic (last ?l)"
    using assms(3) by (auto simp: proxy_line_def graphic_def word_ok_def list_all_iff)
  have crlf: "list_all ascii_space (map char_of [13, 10 :: nat])" by (simp add: ascii_space_def)
  have trim: "TrimSpace (?l @ map char_of [13, 10 :: nat]) = ?l"
    using TrimSpace_padded [of "[]" _ ?l, OF _ crlf ends] by simp
  have split: "?l = ''PROXY'' @ CHR '' '' # ''TCP4'' @ CHR '' '' # src @ CHR '' '' # dst @ CHR '' '' # nat_str n @ CHR '' '' # dport"
    by (simp add: proxy_line_def)
  have "Fields ?l = [''PROXY'', ''TCP4'', src, dst, nat_str n, dport]"
    unfolding split fields_first [OF literal_words(1)] fields_first [OF literal_words(2)] fields_first [OF assms(1)]
      fields_first [OF assms(2)] fields_first [OF number_word] fields_last [OF assms(3)] by (rule refl)
  then show ?thesis using assms(4) number_read [OF assms(5)] unfolding proxy_source_def trim by simp
qed

lemma newline_byte: "byte_of_char c = 10 \<longleftrightarrow> c = char_of (10 :: nat)"
proof -
  have "byte_of_char (char_of (10 :: nat)) = 10" by (simp add: byte_of_char_def)
  then show ?thesis by (metis char_of_byte_of_char)
qed

lemma accept_line:
  assumes "word_ok src" "word_ok dst" "word_ok dport" "ParseIP src = Some ip" "n < 2 ^ 63"
  shows "proxy_Accept (string_bytes (proxy_line src dst (nat_str n) dport) @ [13, 10] @ rest) = (Some \<lparr>ta_IP = ip, ta_Port = int n\<rparr>, rest)"
proof -
  let ?l = "proxy_line src dst (nat_str n) dport"
  have "\<forall>c \<in> set ?l. 32 \<le> (of_char c :: nat)"
    using assms(1-3) number_word [of n] by (auto simp: proxy_line_def word_ok_def list_all_iff graphic_def)
  moreover have "\<not> 32 \<le> (of_char (char_of (10 :: nat) :: char) :: nat)" by simp
  ultimately have "char_of (10 :: nat) \<notin> set ?l" by blast
  then have "10 \<notin> byte_of_char ` set ?l" using newline_byte by (metis imageE)
  then have "10 \<notin> set (string_bytes ?l @ [13])" by (simp add: string_bytes_def)
  note at = split_at [OF this, of rest]
  have head: "take 6 (string_bytes ?l @ r) = string_bytes ''PROXY ''" for r by (simp add: proxy_line_def string_bytes_def)
  have line: "bytes_string ((string_bytes ?l @ [13]) @ [10]) = ?l @ map char_of [13, 10 :: nat]"
    using bytes_string_bytes [of ?l] by (simp add: bytes_string_def char_of_byte_def)
  have inp: "string_bytes ?l @ [13, 10] @ rest = (string_bytes ?l @ [13]) @ 10 # rest" by simp
  show ?thesis unfolding proxy_Accept_def inp at Let_def line proxy_source_line [OF assms]
    using head [of "[13] @ 10 # rest"] by simp
qed

text \<open>C13: A console behind the TLS front is known by its own address.  When the front writes the header of a console at an IPv4
  address and port, the listener takes exactly the header off the stream, the socket's connection carries the console's
  address, and a login over it is what the secure server recalls for a connection the console makes directly, from any
  of its ports.\<close>

theorem proxied_login_is_recalled:
  assumes "word_ok dst" "word_ok dport" "n < 2 ^ 63" "pid \<noteq> 0"
    and inp: "inp = string_bytes (proxy_line (ip4_str [a, b, c, d]) dst (nat_str n) dport) @ [13, 10] @ rest"
    and addr: "addr = tcp_addr_str (proxy_RemoteAddr (fst (proxy_Accept inp)) own)"
    and time: "t - t0 \<le> authRecallTTL"
  shows "snd (proxy_Accept inp) = rest \<and> c_RemoteAddr (ep_heap (ws_Endpoint (OnOpen socket addr st)) (ws_fresh st)) = addr \<and>
    fst (RecallAuthPID t (ip4_str [a, b, c, d] @ CHR '':'' # nat_str m) (RememberAuthPID t0 addr pid au)) = Some pid"
proof -
  have acc: "proxy_Accept inp = (Some \<lparr>ta_IP = map_v4 [a, b, c, d], ta_Port = int n\<rparr>, rest)"
    unfolding inp by (rule accept_line [OF ip4_word assms(1,2) ParseIP_ip4_str assms(3)])
  have "To4 (map_v4 [a, b, c, d]) = Some [a, b, c, d]" by (simp add: To4_def map_v4_def nth_append list_all_iff)
  then have "addr = ip4_str [a, b, c, d] @ CHR '':'' # nat_str n"
    unfolding addr acc by (simp add: proxy_RemoteAddr_def tcp_addr_str_def Itoa_def)
  then have "ipHost addr = ip4_str [a, b, c, d]" by (simp add: address_host)
  then show ?thesis using acc time assms(4)
    by (simp add: RecallAuthPID_def RememberAuthPID_def address_host OnOpen_def Let_def NewConnection_def del: gomap_lookup)
qed

text \<open>A peer that writes no header is known by the address of its own socket, and nothing it sent is lost.\<close>

theorem headerless_peer_passes_through:
  "take 6 inp \<noteq> string_bytes ''PROXY '' \<Longrightarrow> proxy_RemoteAddr (fst (proxy_Accept inp)) own = own \<and> snd (proxy_Accept inp) = inp"
  by (simp add: proxy_Accept_def proxy_RemoteAddr_def)

subsection \<open>Closed sockets\<close>

definition ws_inv :: "'w ws_server \<Rightarrow> bool" where
  "ws_inv st \<longleftrightarrow> gomap_wf (ws_conns st) \<and> distinct (map snd (ws_conns st)) \<and> (\<forall>h \<in> snd ` set (ws_conns st). h < ws_fresh st)"

lemma ws_inv_steps:
  assumes "ws_inv st"
  shows "map_of (ws_conns st) socket = None \<Longrightarrow> ws_inv (OnOpen socket addr st)" "ws_inv (OnClose hk socket st)" "ws_inv (OnMessage hk rnd socket opcode data st)"
proof -
  show "ws_inv (OnOpen socket addr st)" if "map_of (ws_conns st) socket = None"
  proof -
    have "AList.update socket (ws_fresh st) (ws_conns st) = ws_conns st @ [(socket, ws_fresh st)]"
      by (rule update_fresh) (use that in \<open>simp add: map_of_eq_None_iff\<close>)
    then show ?thesis using assms that by (fastforce simp: ws_inv_def OnOpen_def Let_def gomap_wf_def map_of_eq_None_iff)
  qed
  have "distinct (map snd (AList.delete socket (ws_conns st)))"
    using assms by (simp add: ws_inv_def delete_is_filter distinct_map_filter)
  then show "ws_inv (OnClose hk socket st)" using assms by (auto simp: ws_inv_def OnClose_def split: option.split)
  show "ws_inv (OnMessage hk rnd socket opcode data st)" using assms by (auto simp: ws_inv_def OnMessage_def split: option.split)
qed

lemma close_unlists:
  assumes "table_ok e" "hk_OnDisconnect hk = None"
  shows "c_state (ep_heap (close_conn hk h e) h) = stateClosed \<and> h \<notin> snd ` set (ep_connections (close_conn hk h e))"
proof (cases "h \<in> snd ` set (ep_connections e)")
  case True
  then obtain i where i: "(i, h) \<in> set (ep_connections e)" by auto
  have "c_state (ep_heap e h) \<noteq> stateClosed" using table_okD(2) [OF assms(1) i] by (simp add: conn_states)
  then have "c_state (ep_heap (close_conn hk h e) h) = stateClosed"
    using assms(2) by (simp add: close_conn_def unregisterConnection_def Let_def)
  then show ?thesis using table_ok_close(1) [OF assms i] by auto
next
  case False
  then show ?thesis using assms(2)
    by (auto simp: close_conn_def unregisterConnection_def Let_def)
qed

text \<open>A socket that closed is silent for good: its connection is closed and no longer listed, and no later frame of that
  socket changes anything.\<close>

theorem closed_socket_is_silent:
  assumes "table_ok (ws_Endpoint st)" "hk_OnDisconnect hk = None" "map_of (ws_conns st) socket = Some h" "st' = OnClose hk socket st"
  shows "c_state (ep_heap (ws_Endpoint st') h) = stateClosed \<and> h \<notin> snd ` set (ep_connections (ws_Endpoint st')) \<and>
    (\<forall>rnd opcode data. OnMessage hk rnd socket opcode data st' = st')"
  using close_unlists [OF assms(1,2), of h] assms(3,4) by (simp add: OnClose_def OnMessage_def del: gomap_lookup)

subsection \<open>Kicked players\<close>

lemma kick_loop_heap:
  assumes "hk_OnDisconnect hk = None"
  shows "\<exists>x. ep_heap (snd (kick_pid_loop hk pid hs n e)) h = (ep_heap e h)\<lparr>c_state := x\<rparr> \<and>
    (c_PID (ep_heap e h) = pid \<and> (h \<in> set hs \<or> c_state (ep_heap e h) = stateClosed) \<longrightarrow> x = stateClosed)"
proof (induction hs arbitrary: n e)
  case Nil
  show ?case by (rule exI [of _ "c_state (ep_heap e h)"]) simp
next
  case (Cons g hs)
  let ?e = "if c_PID (ep_heap e g) = pid then close_conn hk g e else e"
  obtain y where y: "ep_heap ?e h = (ep_heap e h)\<lparr>c_state := y\<rparr>"
      "c_PID (ep_heap e h) = pid \<and> (h = g \<or> c_state (ep_heap e h) = stateClosed) \<longrightarrow> y = stateClosed"
  proof
    let ?y = "c_state (ep_heap ?e h)"
    show "ep_heap ?e h = (ep_heap e h)\<lparr>c_state := ?y\<rparr>"
      using assms by (simp add: close_conn_def unregisterConnection_def Let_def)
    show "c_PID (ep_heap e h) = pid \<and> (h = g \<or> c_state (ep_heap e h) = stateClosed) \<longrightarrow> ?y = stateClosed"
      using assms by (auto simp: close_conn_def unregisterConnection_def Let_def)
  qed
  let ?m = "if c_PID (ep_heap e g) = pid then n + 1 else n"
  have m: "kick_pid_loop hk pid (g # hs) n e = kick_pid_loop hk pid hs ?m ?e" by (cases "c_PID (ep_heap e g) = pid") simp_all
  obtain x where "ep_heap (snd (kick_pid_loop hk pid hs ?m ?e)) h = (ep_heap ?e h)\<lparr>c_state := x\<rparr>"
      "c_PID (ep_heap ?e h) = pid \<and> (h \<in> set hs \<or> c_state (ep_heap ?e h) = stateClosed) \<longrightarrow> x = stateClosed"
    using Cons.IH [of ?m ?e] by blast
  then show ?case unfolding m y(1) using y(2) by (intro exI [of _ x]) auto
qed

lemma KickPID_heap:
  assumes "hk_OnDisconnect hk = None" "pid \<noteq> 0" "(i, h) \<in> set (ep_connections e)" "c_PID (ep_heap e h) = pid"
  shows "ep_heap (snd (KickPID hk pid e)) h = (ep_heap e h)\<lparr>c_state := stateClosed\<rparr>"
proof -
  have "h \<in> set (snapshotConns e)" using assms(3) by (force simp: snapshotConns_def)
  then show ?thesis
    using kick_loop_heap [OF assms(1), of pid "snapshotConns e" 0 e h] assms(2,4) by (auto simp: KickPID_def)
qed

lemma receive_whole:
  assumes "\<not> HasFlag p FlagMultiACK" "\<not> HasFlag p FlagACK" "pk_FragmentID p = 0"
    and "HasFlag p FlagNeedACK \<Longrightarrow> \<not> fst (dejaRecu (pk_PacketID p) c)"
  shows "\<exists>c'. receiveData p c = (Some (c_fragBuf c @ pk_Payload p), c') \<and> c_PID c' = c_PID c \<and> c_state c' = c_state c"
  using assms by (auto simp: receiveData_def reassemble_def dejaRecu_def sendAck_def c_send_def Let_def split: if_splits)

lemma OnMessage_request:
  assumes "map_of (ws_conns st) socket = Some h" "hk_OnRMC hk = None" "c_recvBuf (ep_heap (ws_Endpoint st) h) = []"
    and p: "lite_packet_ok p" "pk_Type p = PacketDATA" "\<not> HasFlag p FlagMultiACK" "\<not> HasFlag p FlagACK" "pk_FragmentID p = 0"
    and "HasFlag p FlagNeedACK \<Longrightarrow> \<not> fst (dejaRecu (pk_PacketID p) (ep_heap (ws_Endpoint st) h))"
    and "c_fragBuf (ep_heap (ws_Endpoint st) h) = []" "ParseRMC (pk_Payload p) = Inr req" "rm_Mode req = RMCRequest"
      "find_handler (rm_Protocol req) hk = Some f"
  shows "\<exists>e2. c_PID (ep_heap e2 h) = c_PID (ep_heap (ws_Endpoint st) h) \<and> c_state (ep_heap e2 h) = c_state (ep_heap (ws_Endpoint st) h) \<and>
    ws_Endpoint (OnMessage hk rnd socket OpcodeBinary (EncodePacket p) st) =
      (case f h req e2 of (None, e3) \<Rightarrow> e3 | (Some resp, e3) \<Rightarrow> SendRMC (hk_Settings hk) h resp e3)"
proof -
  let ?e = "ws_Endpoint st"
  let ?c = "(ep_heap ?e h)\<lparr>c_recvBuf := [], c_lastSeen := ep_now ?e\<rparr>"
  have dec: "DecodePackets (EncodePacket p) = ([p], [], None)" using decode_packets [of "[p]"] p(1) by simp
  have "fst (dejaRecu (pk_PacketID p) ?c) = fst (dejaRecu (pk_PacketID p) (ep_heap ?e h))" by (simp add: dejaRecu_def)
  then obtain c' where c': "receiveData p ?c = (Some (pk_Payload p), c')" "c_PID c' = c_PID (ep_heap ?e h)" "c_state c' = c_state (ep_heap ?e h)"
    using receive_whole [OF p(3-5), of ?c] assms(9,10) by auto
  let ?e1 = "on_conn h (\<lambda>c. c\<lparr>c_lastSeen := ep_now ?e\<rparr>) (on_conn h (\<lambda>c. c\<lparr>c_recvBuf := []\<rparr>) ?e)"
  have "Feed hk rnd h (EncodePacket p) ?e = dispatchRMC hk h (pk_Payload p) (on_conn h (\<lambda>_. c') ?e1)"
    using assms(3) dec p(2) c'(1) by (simp add: Feed_def handlePacket_def processData_def Let_def packet_types)
  then have "ws_Endpoint (OnMessage hk rnd socket OpcodeBinary (EncodePacket p) st) =
      (case f h req (on_conn h (\<lambda>_. c') ?e1) of (None, e3) \<Rightarrow> e3 | (Some resp, e3) \<Rightarrow> SendRMC (hk_Settings hk) h resp e3)"
    using assms(1,2,11-13) by (simp add: OnMessage_def dispatchRMC_def Let_def del: gomap_lookup)
  then show ?thesis using c'(2,3) by (intro exI [of _ "on_conn h (\<lambda>_. c') ?e1"]) simp
qed

text \<open>C14: A kick does not stop the player it kicks.  After KickPID the player's connection is closed and no longer listed, yet
  the next request that arrives on its socket runs its handler as that player, and the answer is sent.\<close>

theorem kicked_player_is_still_served:
  assumes "table_ok (ws_Endpoint st)" "(i, h) \<in> set (ep_connections (ws_Endpoint st))" "c_PID (ep_heap (ws_Endpoint st) h) = pid" "pid \<noteq> 0"
    and "hk_OnDisconnect hk = None" "hk_OnRMC hk = None" "map_of (ws_conns st) socket = Some h"
    and "c_recvBuf (ep_heap (ws_Endpoint st) h) = []" "c_fragBuf (ep_heap (ws_Endpoint st) h) = []"
    and p: "lite_packet_ok p" "pk_Type p = PacketDATA" "\<not> HasFlag p FlagMultiACK" "\<not> HasFlag p FlagACK" "pk_FragmentID p = 0"
      "HasFlag p FlagNeedACK \<Longrightarrow> \<not> fst (dejaRecu (pk_PacketID p) (ep_heap (ws_Endpoint st) h))"
    and "ParseRMC (pk_Payload p) = Inr req" "rm_Mode req = RMCRequest" "find_handler (rm_Protocol req) hk = Some f"
    and "st' = st\<lparr>ws_Endpoint := snd (KickPID hk pid (ws_Endpoint st))\<rparr>"
  shows "c_state (ep_heap (ws_Endpoint st') h) = stateClosed \<and> h \<notin> snd ` set (ep_connections (ws_Endpoint st')) \<and>
    (\<exists>e2. c_PID (ep_heap e2 h) = pid \<and> c_state (ep_heap e2 h) = stateClosed \<and> ws_Endpoint (OnMessage hk rnd socket OpcodeBinary (EncodePacket p) st') =
      (case f h req e2 of (None, e3) \<Rightarrow> e3 | (Some resp, e3) \<Rightarrow> SendRMC (hk_Settings hk) h resp e3))"
proof -
  let ?e = "ws_Endpoint st"
  have heap: "ep_heap (ws_Endpoint st') h = (ep_heap ?e h)\<lparr>c_state := stateClosed\<rparr>"
    using KickPID_heap [OF assms(5,4,2,3)] assms(19) by simp
  have "h \<notin> snd ` set (ep_connections (ws_Endpoint st'))"
    using KickPID_spec [OF assms(1,5,4)] assms(3,19) by auto
  moreover have "fst (dejaRecu (pk_PacketID p) (ep_heap (ws_Endpoint st') h)) = fst (dejaRecu (pk_PacketID p) (ep_heap ?e h))"
    unfolding heap by (simp add: dejaRecu_def)
  ultimately show ?thesis
    using OnMessage_request [of st' socket h hk p req f rnd] assms heap by (simp del: gomap_lookup)
qed

subsection \<open>The reaper and the dashboards\<close>

text \<open>The flag is shared by all endpoints of the process: whichever starts its reaper first is the only one ever reaped.\<close>

theorem second_endpoint_is_never_reaped:
  assumes "0 < ReapIdleTimeout idle" "e1 \<noteq> e2"
  shows "(e2, m, w) \<notin> set (snd (StartReaper idle every e2 (StartReaper idle every e1 (False, []))))"
  using assms by (simp add: StartReaper_def Let_def)

text \<open>A limit of 0 disables the eviction; so does one of three centuries, whose nanoseconds overflow.\<close>

lemma reaper_limits: "ReapIdleTimeout [] = 600 * 10 ^ 9" "ReapIdleTimeout ''0'' = 0" "ReapIdleTimeout ''9223372037'' < 0" "ReapIdleTimeout ''-5'' = 600 * 10 ^ 9"
  by (simp_all add: ReapIdleTimeout_def envSeconds_def go_seconds_def Atoi_def parse_dec_def is_digit_def digit_val_def)

text \<open>A snapshot lists every gathering once, and every connection once.\<close>

lemma snapshots_list_everything:
  "gomap_wf (mm_gatherings w) \<Longrightarrow> map gi_ID (Snapshot w) = map fst (mm_gatherings w) \<and> distinct (map gi_ID (Snapshot w))"
  "table_ok e \<Longrightarrow> map ci_ID (SnapshotConnections e) = ConnectionIDs e"
proof -
  show "gomap_wf (mm_gatherings w) \<Longrightarrow> map gi_ID (Snapshot w) = map fst (mm_gatherings w) \<and> distinct (map gi_ID (Snapshot w))"
    by (simp add: Snapshot_def gathering_snapshot_def gomap_wf_def Let_def split_def comp_def)
  show "table_ok e \<Longrightarrow> map ci_ID (SnapshotConnections e) = ConnectionIDs e"
    by (auto simp: SnapshotConnections_def ConnectionIDs_def Let_def table_ok_def)
qed

subsection \<open>Examples\<close>

definition front_line :: bytes where
  "front_line = string_bytes (proxy_line (ip4_str [81, 2, 3, 4]) ''10.0.0.1'' (nat_str 50000) ''443'') @ [13, 10] @ [22, 3]"

text \<open>One connected player, seven, on socket five; the handlers count their calls.\<close>

definition ws_example :: "nat ws_server" where
  "ws_example = \<lparr>ws_Endpoint = \<lparr>ep_heap = (\<lambda>_. (NewConnection ''1.2.3.4:5'' None)\<lparr>c_ID := 1, c_PID := 7, c_state := stateConnected\<rparr>),
     ep_connections = [(1, 0)], ep_connCounter = 1, ep_auth = auth_empty, ep_now = 5, ep_world = 0\<rparr>, ws_conns = [(5, 0)], ws_fresh = 1\<rparr>"

definition counting_hooks :: "nat hooks" where
  "counting_hooks = Register 10 (\<lambda>_ _ e. (None, e\<lparr>ep_world := ep_world e + 1\<rparr>)) (NewEndpoint (NewSwitchSettings ''key'' 40000))"

lemma ws_example_ok: "table_ok (ws_Endpoint ws_example)" "hk_OnDisconnect counting_hooks = None" "hk_OnRMC counting_hooks = None"
    "map_of (ws_conns ws_example) 5 = Some 0"
  by (simp_all add: ws_example_def counting_hooks_def table_ok_def gomap_wf_def Register_def NewEndpoint_def)

theorem proxied_login_is_recalled_witness:
  "snd (proxy_Accept front_line) = [22, 3] \<and>
   fst (RecallAuthPID 20 (ip4_str [81, 2, 3, 4] @ CHR '':'' # nat_str 7)
     (RememberAuthPID 10 (tcp_addr_str (proxy_RemoteAddr (fst (proxy_Accept front_line)) \<lparr>ta_IP = [10, 0, 0, 1], ta_Port = 1\<rparr>)) 7 auth_empty)) = Some 7"
proof -
  have "word_ok ''10.0.0.1''" "word_ok ''443''" by (simp_all add: word_ok_def graphic_def)
  from proxied_login_is_recalled [OF this, where n = 50000 and pid = 7 and inp = front_line and a = 81 and b = 2 and c = 3 and d = 4 and
      rest = "[22, 3]" and own = "\<lparr>ta_IP = [10, 0, 0, 1], ta_Port = 1\<rparr>" and t = 20 and ?t0.0 = 10 and st = ws_example and socket = 5 and m = 7
      and au = auth_empty, OF _ _ front_line_def refl]
  show ?thesis by (simp add: authRecallTTL_def)
qed

theorem closed_socket_is_silent_witness:
  "c_state (ep_heap (ws_Endpoint (OnClose counting_hooks 5 ws_example)) 0) = stateClosed \<and>
   OnMessage counting_hooks [] 5 OpcodeBinary [1] (OnClose counting_hooks 5 ws_example) = OnClose counting_hooks 5 ws_example"
  using closed_socket_is_silent [OF ws_example_ok(1,2,4) refl] by blast

definition kicked_request :: rmc_message where "kicked_request = NewRMCRequest 10 2 1 [3, 4]"

definition kicked_packet :: packet where
  "kicked_packet = data_packet (Encode kicked_request) 0 (NewConnection [] None)"

lemma kicked_packet_ok: "lite_packet_ok kicked_packet"
  unfolding kicked_packet_def by (rule data_packet_ok) (simp_all add: NewConnection_def kicked_request_def NewRMCRequest_def Encode_def rmc_payload_def rmc_zero_def w_U8_def w_U32_def Let_def)

lemma kicked_request_read: "ParseRMC (Encode kicked_request) = Inr kicked_request"
proof (rule parse_encode)
  show "rmc_ok kicked_request"
    unfolding rmc_ok_def kicked_request_def by (auto simp: NewRMCRequest_def rmc_zero_def)
qed

theorem kicked_player_is_still_served_witness:
  "\<exists>e2. c_state (ep_heap e2 0) = stateClosed \<and> ws_Endpoint (OnMessage counting_hooks [] 5 OpcodeBinary (EncodePacket kicked_packet)
      (ws_example\<lparr>ws_Endpoint := snd (KickPID counting_hooks 7 (ws_Endpoint ws_example))\<rparr>)) = e2\<lparr>ep_world := ep_world e2 + 1\<rparr>"
proof -
  have conn: "(1, 0) \<in> set (ep_connections (ws_Endpoint ws_example))" "c_PID (ep_heap (ws_Endpoint ws_example) 0) = 7" "(7 :: u64) \<noteq> 0"
      "c_recvBuf (ep_heap (ws_Endpoint ws_example) 0) = []" "c_fragBuf (ep_heap (ws_Endpoint ws_example) 0) = []"
    by (simp_all add: ws_example_def NewConnection_def)
  have flags: "pk_Type kicked_packet = PacketDATA" "\<not> HasFlag kicked_packet FlagMultiACK" "\<not> HasFlag kicked_packet FlagACK"
      "pk_FragmentID kicked_packet = 0" "pk_Payload kicked_packet = Encode kicked_request"
    by (simp_all add: kicked_packet_def data_packet_def HasFlag_def packet_flags packet_zero_def)
  have new: "\<not> fst (dejaRecu (pk_PacketID kicked_packet) (ep_heap (ws_Endpoint ws_example) 0))"
    by (simp add: dejaRecu_def ws_example_def NewConnection_def list_ex_iff window_size_def)
  have req: "rm_Mode kicked_request = RMCRequest"
      "find_handler (rm_Protocol kicked_request) counting_hooks = Some (\<lambda>_ _ e. (None, e\<lparr>ep_world := ep_world e + 1\<rparr>))"
    by (simp_all add: kicked_request_def NewRMCRequest_def counting_hooks_def find_handler_def Register_def NewEndpoint_def)
  have read: "ParseRMC (pk_Payload kicked_packet) = Inr kicked_request" by (simp only: flags(5) kicked_request_read)
  from kicked_player_is_still_served [OF ws_example_ok(1) conn(1-3) ws_example_ok(2-4) conn(4,5) kicked_packet_ok flags(1-4) new read req refl]
  show ?thesis by auto
qed

end
