(* ===== verification/Nex_Answers.thy ===== *)
theory Nex_Answers
  imports Nex_Nat Nex_Ranking2 Nex_Ranking Nex_Referee Nex_Datastore Nex_Utility
begin

section \<open>Requests and their answers\<close>

text \<open>
  A console matches an answer with its call by the protocol, the method and the call id.  \<open>rmc_service\<close> is the contract
  between the dispatcher of the endpoint and the handler of a protocol; every handler of the package keeps it.
\<close>

definition names_request :: "u16 \<Rightarrow> rmc_message \<Rightarrow> rmc_message \<Rightarrow> bool" where
  "names_request proto req resp \<longleftrightarrow>
     (\<exists>body. resp = NewRMCSuccess proto (rm_Method req) (rm_CallID req) body) \<or> (\<exists>code. resp = NewRMCError proto (rm_CallID req) code)"

named_theorems answering

lemma success_names [answering]: "names_request proto req (NewRMCSuccess proto (rm_Method req) (rm_CallID req) body)"
  by (auto simp: names_request_def)

lemma method_names [answering]:
  "rm_Method req = m \<Longrightarrow> names_request proto req (NewRMCSuccess proto m (rm_CallID req) body)"
  by (auto simp: names_request_def)

lemma error_names [answering]: "names_request proto req (NewRMCError proto (rm_CallID req) code)"
  by (auto simp: names_request_def)

lemma replies_name [answering]:
  "names_request proto req (reply proto req body)" "names_request proto req (refuse proto req code)"
  "names_request proto req (boolResponse proto req v)" "names_request proto req (emptyList proto req)"
  "names_request proto req (notImplemented proto req)" "names_request ProtocolRanking req (rk_reply req body)"
  "names_request ProtocolRanking2 req (reply2 req body)" "names_request ProtocolMatchmakeReferee req (rf_reply req body)"
  "names_request ProtocolDataStoreSMM2 req (ds_reply req body)" "names_request ProtocolUtility req (ut_reply req body)"
  by (simp_all add: reply_def refuse_def boolResponse_def emptyList_def notImplemented_def rk_reply_def reply2_def rf_reply_def ds_reply_def
      ut_reply_def answering)

subsection \<open>The methods\<close>

lemma setParticipation_names [answering]: "names_request ProtocolMatchmakeExtension req (fst (setParticipation h req b e))"
  by (simp add: setParticipation_def Let_def split_beta answering split: option.split list.split)

lemma autoMatchmake_names [answering]: "names_request ProtocolMatchmakeExtension req (fst (autoMatchmake cfg h req e))"
  by (simp add: autoMatchmake_def Let_def split_beta answering split: option.split list.split)

lemma createSession_names [answering]: "names_request ProtocolMatchmakeExtension req (fst (createSession cfg h req e))"
  by (simp add: createSession_def Let_def split_beta answering split: option.split list.split)

lemma joinSession_names [answering]: "names_request ProtocolMatchmakeExtension req (fst (joinSession cfg h req e))"
  by (simp add: joinSession_def Let_def split_beta answering split: option.split list.split)

lemma findBySingleID_names [answering]: "names_request ProtocolMatchmakeExtension req (findBySingleID cfg req e)"
  by (simp add: findBySingleID_def Let_def split_beta answering split: option.split list.split)

lemma findByGatheringIDDetail_names [answering]: "names_request ProtocolMatchmakeExtension req (findByGatheringIDDetail cfg req e)"
  by (simp add: findByGatheringIDDetail_def Let_def split_beta answering split: option.split list.split)

lemma privateRoomCreate_names [answering]: "names_request ProtocolMatchmakeExtension req (fst (privateRoomCreate req e))"
  by (simp add: privateRoomCreate_def Let_def split_beta answering split: option.split list.split)

lemma resolveCode_names [answering]: "names_request ProtocolMatchmakeExtension req (resolveCode req e)"
  by (simp add: resolveCode_def Let_def split_beta answering split: option.split list.split)

lemma playingSession_names [answering]: "names_request ProtocolMatchmakeExtension req (playingSession cfg h req e)"
  by (simp add: playingSession_def Let_def split_beta answering split: option.split list.split)

lemma findByParticipant_names [answering]: "names_request ProtocolMatchmakeExtension req (findByParticipant cfg h req e)"
  by (simp add: findByParticipant_def Let_def split_beta answering split: option.split list.split)

lemma updateNotificationData_names [answering]: "names_request ProtocolMatchmakeExtension req (fst (updateNotificationData cfg h req e))"
  by (simp add: updateNotificationData_def Let_def split_beta answering split: option.split list.split)

lemma getFriendNotificationData_names [answering]: "names_request ProtocolMatchmakeExtension req (fst (getFriendNotificationData cfg h req b e))"
  by (simp add: getFriendNotificationData_def Let_def split_beta answering split: option.split list.split)

lemma updateSessionPart_names [answering]: "names_request ProtocolMatchmakeExtension req (fst (updateSessionPart cfg req e))"
  by (simp add: updateSessionPart_def Let_def split_beta answering split: option.split list.split)

lemma updateApplicationBuffer_names [answering]: "names_request ProtocolMatchmakeExtension req (fst (updateApplicationBuffer h req e))"
  by (simp add: updateApplicationBuffer_def Let_def split_beta answering split: option.split list.split)

lemma updateMatchmakeSessionAttribute_names [answering]: "names_request ProtocolMatchmakeExtension req (fst (updateMatchmakeSessionAttribute h req e))"
  by (simp add: updateMatchmakeSessionAttribute_def Let_def split_beta answering split: option.split list.split)

lemma findByGidList_names [answering]: "names_request ProtocolMatchmakeExtension req (findByGidList cfg req e)"
  by (simp add: findByGidList_def Let_def split_beta answering split: option.split list.split)

lemma browseNoHolder_names [answering]: "names_request ProtocolMatchmakeExtension req (browseNoHolder cfg req e)"
  by (simp add: browseNoHolder_def Let_def split_beta answering split: option.split list.split)

lemma tournamentsByIDs_names [answering]: "names_request ProtocolMatchmakeExtension req (tournamentsByIDs req ts)"
  by (simp add: tournamentsByIDs_def Let_def split_beta answering split: option.split list.split)

lemma searchTournaments_names [answering]: "names_request ProtocolMatchmakeExtension req (searchTournaments req ts)"
  by (simp add: searchTournaments_def Let_def split_beta answering split: option.split list.split)

lemma createTournament_names [answering]:
  "names_request ProtocolMatchmakeExtension req (fst (createTournament a b now pid req ts))"
  by (simp add: createTournament_def Let_def split_beta answering split: option.split list.split)

lemma mm_createTournament_names [answering]: "names_request ProtocolMatchmakeExtension req (fst (mm_createTournament cfg h req e))"
  by (simp add: mm_createTournament_def Let_def split_beta answering split: option.split list.split)

lemma removeTournament_names [answering]: "names_request ProtocolMatchmakeExtension req (fst (removeTournament pid req ts))"
  by (simp add: removeTournament_def Let_def split_beta answering split: option.split list.split)

lemma registerTournament_names [answering]: "names_request ProtocolMatchmakeExtension req (fst (registerTournament pid req ts))"
  by (simp add: registerTournament_def Let_def split_beta answering split: option.split list.split)

lemma getDetailedParticipants_names [answering]: "names_request ProtocolMatchMaking req (getDetailedParticipants cfg req e)"
  by (simp add: getDetailedParticipants_def Let_def split_beta answering split: option.split list.split)

lemma migrateGatheringOwnership_names [answering]: "names_request ProtocolMatchMaking req (fst (migrateGatheringOwnership cfg h req b e))"
  by (simp add: migrateGatheringOwnership_def Let_def split_beta answering split: option.split list.split)

lemma updateGatheringOwnership_names [answering]: "names_request ProtocolMatchMaking req (updateGatheringOwnership req)"
  by (simp add: updateGatheringOwnership_def Let_def split_beta answering split: option.split list.split)

lemma findBySingleID15_names [answering]: "names_request ProtocolMatchMaking req (findBySingleID15 cfg req e)"
  by (simp add: findBySingleID15_def Let_def split_beta answering split: option.split list.split)

lemma startRound_names [answering]: "names_request ProtocolMatchmakeReferee req (fst (startRound env cfg h req me))"
  by (simp add: startRound_def Let_def split_beta answering split: option.split list.split)

lemma getStartRoundParam_names [answering]: "names_request ProtocolMatchmakeReferee req (getStartRoundParam req m)"
  by (simp add: getStartRoundParam_def Let_def split_beta answering split: option.split list.split)

lemma endRound_names [answering]: "names_request ProtocolMatchmakeReferee req (fst (endRound env s req m))"
  by (simp add: endRound_def Let_def split_beta answering split: option.split list.split)

lemma getRoundParticipants_names [answering]: "names_request ProtocolMatchmakeReferee req (getRoundParticipants s req m)"
  by (simp add: getRoundParticipants_def Let_def split_beta answering split: option.split list.split)

lemma createStats_names [answering]: "names_request ProtocolMatchmakeReferee req (fst (createStats env s pid req m))"
  by (simp add: createStats_def Let_def split_beta answering split: option.split list.split)

lemma getOrCreateStats_names [answering]: "names_request ProtocolMatchmakeReferee req (fst (getOrCreateStats env s pid req m))"
  by (simp add: getOrCreateStats_def Let_def split_beta answering split: option.split list.split)

lemma getStatsPrimary_names [answering]: "names_request ProtocolMatchmakeReferee req (getStatsPrimary s req m)"
  by (simp add: getStatsPrimary_def Let_def split_beta answering split: option.split list.split)

lemma getStatsPrimaries_names [answering]: "names_request ProtocolMatchmakeReferee req (getStatsPrimaries s req m)"
  by (simp add: getStatsPrimaries_def Let_def split_beta answering split: option.split list.split)

lemma getStatsAll_names [answering]: "names_request ProtocolMatchmakeReferee req (getStatsAll s req m)"
  by (simp add: getStatsAll_def Let_def split_beta answering split: option.split list.split)

lemma resetStats_names [answering]: "names_request ProtocolMatchmakeReferee req (fst (resetStats env pid req m))"
  by (simp add: resetStats_def Let_def split_beta answering split: option.split list.split)

lemma uploadCommonData_names [answering]: "names_request ProtocolRanking req (fst (uploadCommonData pid req st))"
  by (simp add: uploadCommonData_def Let_def split_beta answering split: option.split list.split)

lemma commonDataByPIDs_names [answering]: "names_request ProtocolRanking req (fst (commonDataByPIDs s req st))"
  by (simp add: commonDataByPIDs_def Let_def split_beta answering split: option.split list.split)

lemma competitionRanking_names [answering]: "names_request ProtocolRanking req (fst (competitionRanking req st))"
  by (simp add: competitionRanking_def Let_def split_beta answering split: option.split list.split)

lemma submitResult_names [answering]: "names_request ProtocolRanking req (fst (submitResult now pid req st))"
  by (simp add: submitResult_def Let_def split_beta answering split: option.split list.split)

lemma putScore_names [answering]: "names_request ProtocolRanking2 req (fst (putScore env s pid req r))"
  by (simp add: putScore_def Let_def split_beta answering split: option.split list.split)

lemma putCommonData_names [answering]: "names_request ProtocolRanking2 req (fst (putCommonData pid req r))"
  by (simp add: putCommonData_def Let_def split_beta answering split: option.split list.split)

lemma getCommonData_names [answering]: "names_request ProtocolRanking2 req (getCommonData s pid req r)"
  by (simp add: getCommonData_def Let_def split_beta answering split: option.split list.split)

lemma delCommonData_names [answering]: "names_request ProtocolRanking2 req (fst (delCommonData pid req r))"
  by (simp add: delCommonData_def Let_def split_beta answering split: option.split list.split)

lemma getRanking_names [answering]: "names_request ProtocolRanking2 req (getRanking s req r)"
  by (simp add: getRanking_def Let_def split_beta answering split: option.split list.split)

lemma getRankingByPIDs_names [answering]: "names_request ProtocolRanking2 req (getRankingByPIDs s req r)"
  by (simp add: getRankingByPIDs_def Let_def split_beta answering split: option.split list.split)

lemma getEstimateMyRank_names [answering]: "names_request ProtocolRanking2 req (getEstimateMyRank s pid req r)"
  by (simp add: getEstimateMyRank_def Let_def split_beta answering split: option.split list.split)

lemma getCategorySetting_names [answering]: "names_request ProtocolRanking2 req (getCategorySetting s req)"
  by (simp add: getCategorySetting_def Let_def split_beta answering split: option.split list.split)

lemma handleDataStoreRegisterUser_names [answering]: "names_request ProtocolDataStoreSMM2 req (fst (handleDataStoreRegisterUser cfg pid req m))"
  by (simp add: handleDataStoreRegisterUser_def Let_def split_beta answering split: option.split list.split)

lemma handleDataStoreGetUsers_names [answering]: "names_request ProtocolDataStoreSMM2 req (handleDataStoreGetUsers cfg au pid req m)"
  by (simp add: handleDataStoreGetUsers_def Let_def split_beta answering split: option.split list.split)

lemma handleDataStoreSearchCoursesPostedBy_names [answering]: "names_request ProtocolDataStoreSMM2 req (handleDataStoreSearchCoursesPostedBy req)"
  by (simp add: handleDataStoreSearchCoursesPostedBy_def Let_def split_beta answering split: option.split list.split)

lemma handleDataStoreSyncUserProfile_names [answering]: "names_request ProtocolDataStoreSMM2 req (fst (handleDataStoreSyncUserProfile cfg pid req m))"
  by (simp add: handleDataStoreSyncUserProfile_def Let_def split_beta answering split: option.split list.split)

lemma handleDataStoreCanPostCourse_names [answering]: "names_request ProtocolDataStoreSMM2 req (handleDataStoreCanPostCourse req)"
  by (simp add: handleDataStoreCanPostCourse_def Let_def split_beta answering split: option.split list.split)

subsection \<open>The contract of a protocol\<close>

text \<open>The client's side: bytes are the answer to a call when they parse to a response with its protocol and call
  id, and with its method unless they refuse it.  An answer of four gigabytes cannot be framed.\<close>

definition matches_call :: "u16 \<Rightarrow> rmc_message \<Rightarrow> bytes \<Rightarrow> bool" where
  "matches_call proto req wire = (case ParseRMC wire of
     Inl _ \<Rightarrow> False
   | Inr r \<Rightarrow> rm_Mode r = RMCResponse \<and> rm_Protocol r = proto \<and> rm_CallID r = rm_CallID req \<and>
       (rm_IsError r \<or> rm_Method r = rm_Method req))"

definition framable :: "rmc_message \<Rightarrow> bool" where
  "framable m \<longleftrightarrow> length (rm_Body m) < 2 ^ 32 - 16"

lemma named_answer_matches:
  assumes "names_request proto req resp" "proto \<noteq> 0x7F" "\<not> bit (rm_Method req) 15" "framable resp"
  shows "matches_call proto req (Encode resp)"
proof -
  have fields: "rm_Mode resp = RMCResponse" "rm_Protocol resp = proto" "rm_CallID resp = rm_CallID req"
    "rm_IsError resp \<or> rm_Method resp = rm_Method req"
    using assms(1) by (auto simp: names_request_def NewRMCSuccess_def NewRMCError_def rmc_zero_def)
  have "rmc_ok resp"
    using assms fields(2) unfolding rmc_ok_def names_request_def framable_def by metis
  then show ?thesis using fields by (simp add: matches_call_def parse_encode)
qed

definition answered :: "'w hooks \<Rightarrow> nat \<Rightarrow> bytes \<Rightarrow> rmc_message \<Rightarrow> 'w endpoint \<Rightarrow> bool" where
  "answered hk h payload req e \<longleftrightarrow>
     (\<exists>resp e2. names_request (rm_Protocol req) req resp \<and> dispatchRMC hk h payload e = SendRMC (hk_Settings hk) h resp e2)"

locale rmc_service =
  fixes proto :: u16 and handle :: "nat \<Rightarrow> rmc_message \<Rightarrow> 'w endpoint \<Rightarrow> rmc_message option \<times> 'w endpoint"
    and silent :: "u32 \<Rightarrow> bool"
  assumes names_call: "fst (handle h req e) = Some resp \<Longrightarrow> names_request proto req resp"
    and speaks: "\<not> silent (rm_Method req) \<Longrightarrow> fst (handle h req e) \<noteq> None"
begin

lemma dispatch_answers:
  assumes parsed: "ParseRMC payload = Inr req" "rm_Mode req = RMCRequest"
    and installed: "rm_Protocol req = proto" "f = handle" "find_handler (rm_Protocol req) hk = Some f" "\<not> silent (rm_Method req)"
  shows "answered hk h payload req e"
proof -
  let ?e1 = "case hk_OnRMC hk of None \<Rightarrow> e | Some f \<Rightarrow> f h req e"
  obtain resp e2 where r: "handle h req ?e1 = (Some resp, e2)" using speaks [OF installed(4), of h ?e1] by (cases "handle h req ?e1") auto
  then have "names_request proto req resp" using names_call [of h req ?e1 resp] by simp
  moreover have "dispatchRMC hk h payload e = SendRMC (hk_Settings hk) h resp e2"
    using parsed installed r by (simp add: dispatchRMC_def Let_def)
  ultimately show ?thesis using installed(1) unfolding answered_def by blast
qed

end

text \<open>A handler whose state is a part of the world of its server.\<close>

definition on_part ::
  "('w \<Rightarrow> 's) \<Rightarrow> ('s \<Rightarrow> 'w \<Rightarrow> 'w) \<Rightarrow> (u64 \<Rightarrow> rmc_message \<Rightarrow> 'w endpoint \<Rightarrow> 's \<Rightarrow> rmc_message \<times> 's) \<Rightarrow>
   nat \<Rightarrow> rmc_message \<Rightarrow> 'w endpoint \<Rightarrow> rmc_message option \<times> 'w endpoint" where
  "on_part get put f h req e =
     (let (resp, st) = f (conn_pid h e) req e (get (ep_world e)) in (Some resp, e\<lparr>ep_world := put st (ep_world e)\<rparr>))"

lemma fst_on_part [simp]: "fst (on_part get put f h req e) = Some (fst (f (conn_pid h e) req e (get (ep_world e))))"
  by (simp add: on_part_def split_beta)

subsection \<open>Every handler keeps it\<close>

lemma buildResponse_names [answering]: "names_request ProtocolTicketGranting req (buildResponse cfg env req code pid ticket sp)"
  by (simp add: buildResponse_def Let_def answering)

interpretation auth_service: rmc_service ProtocolTicketGranting "auth_handler cfg env"
  "\<lambda>m. m \<in> {MethodLogin, MethodLoginEx, MethodLoginWithContext}"
proof
  fix h req and e :: "'a endpoint" and resp
  show "fst (auth_handler cfg env h req e) = Some resp \<Longrightarrow> names_request ProtocolTicketGranting req resp"
    by (auto simp: auth_handler_def AuthHandler_def handleLogin_def handleLoginWithContext_def Let_def answering
        split: prod.splits sum.splits option.splits if_splits go_error.splits)
  show "rm_Method req \<notin> {MethodLogin, MethodLoginEx, MethodLoginWithContext} \<Longrightarrow> fst (auth_handler cfg env h req e) \<noteq> None"
    by (simp add: auth_handler_def AuthHandler_def)
qed

interpretation secure_service: rmc_service ProtocolSecureConnection "SecureConnectionHandlerWithConfig s cfg" "\<lambda>_. False"
  by unfold_locales
     (auto simp: SecureConnectionHandlerWithConfig_def handleRegister_def handleReplaceURL_def Let_def split_beta answering split: if_splits)

interpretation nat_service: rmc_service ProtocolNATTraversal "NATTraversalHandler cfg" "\<lambda>_. False"
  by unfold_locales
     (auto simp: NATTraversalHandler_def natAck_def relaySignatureKey_def Let_def answering split: if_splits)

lemma getSessionURLs_names: "fst (getSessionURLs cfg h req e) = Some resp \<Longrightarrow> names_request ProtocolMatchMaking req resp"
  by (auto simp: getSessionURLs_def sessionURLsResponse_def Let_def split_beta answering split: if_splits option.splits)

interpretation matchmaking_service: rmc_service ProtocolMatchMaking "MatchMakingProtocol ncfg cfg" "\<lambda>m. m = MethodGetSessionURLs"
  by unfold_locales
     (auto simp: MatchMakingProtocol_def MatchMakingHandler_def Let_def answering dest: getSessionURLs_names split: if_splits)

interpretation matchmaking_ext_service: rmc_service ProtocolMatchMakingExt MatchMakingExtHandler "\<lambda>_. False"
  by unfold_locales (auto simp: MatchMakingExtHandler_def answering split: if_splits)

interpretation delivery_service: rmc_service ProtocolMessageDelivery "MessageDeliveryHandler cfg" "\<lambda>_. True"
  by unfold_locales (simp_all add: MessageDeliveryHandler_def)

text \<open>A method that never returns answers nothing.\<close>

definition extension_call :: "'a mm_config \<Rightarrow> nat \<Rightarrow> rmc_message \<Rightarrow> 'a mm_state \<Rightarrow> rmc_message option \<times> 'a mm_state" where
  "extension_call cfg h req e = (case ExtensionHandler cfg h req e of None \<Rightarrow> (None, e) | Some (resp, e') \<Rightarrow> (Some resp, e'))"

lemma modifyCurrentGameAttribute_names [answering]:
  "pred_option (\<lambda>r. names_request ProtocolMatchmakeExtension req (fst r)) (modifyCurrentGameAttribute h req e)"
  by (auto simp: modifyCurrentGameAttribute_def Let_def split_beta answering split: option.split)

lemma ExtensionHandler_names:
  "pred_option (\<lambda>r. names_request ProtocolMatchmakeExtension req (fst r)) (ExtensionHandler cfg h req e)"
  by (simp add: ExtensionHandler_def Let_def split_beta answering)

interpretation extension_service: rmc_service ProtocolMatchmakeExtension "extension_call cfg" "\<lambda>m. m = MethodModifyCurrentGameAttribute"
proof
  fix h req and e :: "'a mm_state" and resp
  show "fst (extension_call cfg h req e) = Some resp \<Longrightarrow> names_request ProtocolMatchmakeExtension req resp"
    using ExtensionHandler_names [of req cfg h e] by (auto simp: extension_call_def split: option.splits)
  show "rm_Method req \<noteq> MethodModifyCurrentGameAttribute \<Longrightarrow> fst (extension_call cfg h req e) \<noteq> None"
    by (simp add: extension_call_def ExtensionHandler_def Let_def split_beta)
qed

subsection \<open>A game server\<close>

text \<open>The world of a server that installs every protocol of the package on one endpoint: the lobbies and stations,
  and beside them the state each other handler closes over.\<close>

record game_world = net_world +
  gw_referee :: referee_state
  gw_ranking :: ranking_state
  gw_ranking2 :: ranking2_store
  gw_profiles :: smm2_state

type_synonym game_state = "game_world endpoint"

record game_config =
  gm_Settings :: settings
  gm_secure :: secure_config
  gm_net :: "unit game_world_ext net_config"
  gm_lobby :: "unit game_world_ext net_world_ext mm_config"
  gm_referee :: "game_state \<Rightarrow> referee_env"
  gm_ranking2 :: "game_state \<Rightarrow> r2_env"
  gm_profiles :: "game_state \<Rightarrow> smm2_config"
  gm_utility :: "game_state \<Rightarrow> utility_env"

definition referee_call :: "game_config \<Rightarrow> nat \<Rightarrow> rmc_message \<Rightarrow> game_state \<Rightarrow> rmc_message option \<times> game_state" where
  "referee_call g h req e =
     (case MatchmakeRefereeHandler (gm_referee g e) (gm_lobby g) h req (gw_referee (ep_world e), e) of
        (resp, m, e1) \<Rightarrow> (Some resp, e1\<lparr>ep_world := (ep_world e1)\<lparr>gw_referee := m\<rparr>\<rparr>))"

definition ranking_call :: "game_config \<Rightarrow> nat \<Rightarrow> rmc_message \<Rightarrow> game_state \<Rightarrow> rmc_message option \<times> game_state" where
  "ranking_call g = on_part gw_ranking (\<lambda>st. gw_ranking_update (\<lambda>_. st))
     (\<lambda>pid req e. RankingHandler (gm_Settings g) (mm_tournaments (ep_world e)) (ep_now e) pid req)"

definition ranking2_call :: "game_config \<Rightarrow> nat \<Rightarrow> rmc_message \<Rightarrow> game_state \<Rightarrow> rmc_message option \<times> game_state" where
  "ranking2_call g = on_part gw_ranking2 (\<lambda>st. gw_ranking2_update (\<lambda>_. st))
     (\<lambda>pid req e. Ranking2Handler (gm_ranking2 g e) (gm_Settings g) pid req)"

definition profiles_call :: "game_config \<Rightarrow> nat \<Rightarrow> rmc_message \<Rightarrow> game_state \<Rightarrow> rmc_message option \<times> game_state" where
  "profiles_call g = on_part gw_profiles (\<lambda>st. gw_profiles_update (\<lambda>_. st))
     (\<lambda>pid req e. DataStoreSMM2Handler (gm_profiles g e) (ep_auth e) pid req)"

definition utility_call :: "game_config \<Rightarrow> nat \<Rightarrow> rmc_message \<Rightarrow> game_state \<Rightarrow> rmc_message option \<times> game_state" where
  "utility_call g h req e = (Some (UtilityHandler (gm_utility g e) (gm_Settings g) (conn_pid h e) req), e)"

interpretation referee_service: rmc_service ProtocolMatchmakeReferee "referee_call g" "\<lambda>_. False"
proof -
  have "names_request ProtocolMatchmakeReferee req (fst (MatchmakeRefereeHandler env cfg h req (m, e)))" for env cfg h req m and e :: game_state
    by (simp add: MatchmakeRefereeHandler_def Let_def split_beta answering)
  then show "rmc_service ProtocolMatchmakeReferee (referee_call g) (\<lambda>_. False)"
    by unfold_locales (auto simp: referee_call_def split_beta)
qed

interpretation ranking_service: rmc_service ProtocolRanking "ranking_call g" "\<lambda>_. False"
  by unfold_locales (auto simp: ranking_call_def RankingHandler_def answering)

interpretation ranking2_service: rmc_service ProtocolRanking2 "ranking2_call g" "\<lambda>_. False"
  by unfold_locales (auto simp: ranking2_call_def Ranking2Handler_def answering)

interpretation profiles_service: rmc_service ProtocolDataStoreSMM2 "profiles_call g" "\<lambda>_. False"
  by unfold_locales (auto simp: profiles_call_def DataStoreSMM2Handler_def Let_def answering)

interpretation utility_service: rmc_service ProtocolUtility "utility_call g" "\<lambda>_. False"
  by unfold_locales (auto simp: utility_call_def UtilityHandler_def Let_def split_beta answering)

definition game_services :: "game_config \<Rightarrow> (u16 \<times> (nat \<Rightarrow> rmc_message \<Rightarrow> game_state \<Rightarrow> rmc_message option \<times> game_state)) list" where
  "game_services g =
    [(ProtocolSecureConnection, SecureConnectionHandlerWithConfig (gm_Settings g) (gm_secure g)),
     (ProtocolNATTraversal, NATTraversalHandler (gm_net g)),
     (ProtocolMatchMaking, MatchMakingProtocol (gm_net g) (gm_lobby g)),
     (ProtocolMatchMakingExt, MatchMakingExtHandler),
     (ProtocolMatchmakeExtension, extension_call (gm_lobby g)),
     (ProtocolMessageDelivery, MessageDeliveryHandler (gm_lobby g)),
     (ProtocolMatchmakeReferee, referee_call g),
     (ProtocolRanking, ranking_call g),
     (ProtocolRanking2, ranking2_call g),
     (ProtocolDataStoreSMM2, profiles_call g),
     (ProtocolUtility, utility_call g)]"

definition game_hooks :: "game_config \<Rightarrow> game_world hooks \<Rightarrow> game_world hooks" where
  "game_hooks g base = fold (\<lambda>(pr, f). Register pr f) (game_services g) base"

text \<open>The calls that are not answered at once: a delivered message, the stations of a lobby, which may have to wait
  for their host, and the change of an attribute, which may loop.\<close>

definition deferred_call :: "u16 \<Rightarrow> u32 \<Rightarrow> bool" where
  "deferred_call pr m \<longleftrightarrow> pr = ProtocolMessageDelivery \<or> (pr = ProtocolMatchMaking \<and> m = MethodGetSessionURLs) \<or>
     (pr = ProtocolMatchmakeExtension \<and> m = MethodModifyCurrentGameAttribute)"

lemmas game_protocols = ProtocolSecureConnection_def ProtocolNATTraversal_def ProtocolMatchMaking_def ProtocolMatchMakingExt_def
  ProtocolMatchmakeExtension_def ProtocolMessageDelivery_def ProtocolMatchmakeReferee_def ProtocolRanking_def ProtocolRanking2_def
  ProtocolDataStoreSMM2_def ProtocolUtility_def

lemma find_registered: "find_handler pr (Register p f hk) = (if pr = p then Some f else find_handler pr hk)"
  by (simp add: find_handler_def Register_def update_conv' split: option.split)

lemma hk_Settings_Register: "hk_Settings (Register p f hk) = hk_Settings hk" "hk_OnRMC (Register p f hk) = hk_OnRMC hk"
  by (simp_all add: Register_def)

lemma find_registered_all:
  "distinct (map fst fs) \<Longrightarrow> find_handler pr (fold (\<lambda>(p, f). Register p f) fs hk) = (case map_of fs pr of Some f \<Rightarrow> Some f | None \<Rightarrow> find_handler pr hk)"
proof (induction fs arbitrary: hk)
  case (Cons x fs)
  then show ?case using map_of_eq_None_iff [of fs pr] by (cases x) (auto simp: find_registered simp del: gomap_lookup split: option.split)
qed simp

lemma game_find: "find_handler pr (game_hooks g base) = (case map_of (game_services g) pr of Some f \<Rightarrow> Some f | None \<Rightarrow> find_handler pr base)"
  unfolding game_hooks_def by (rule find_registered_all) (simp add: game_services_def game_protocols)

lemma game_settings: "hk_Settings (game_hooks g base) = hk_Settings base"
  by (simp add: game_hooks_def game_services_def hk_Settings_Register)

lemma unserved_call:
  assumes "ParseRMC payload = Inr req" "rm_Mode req = RMCRequest" "find_handler (rm_Protocol req) hk = None"
  shows "answered hk h payload req e"
  using assms error_names [of "rm_Protocol req" req ResultCoreNotImplemented] by (auto simp: answered_def dispatchRMC_def Let_def)

lemma game_dispatch:
  assumes call: "ParseRMC payload = Inr req" "rm_Mode req = RMCRequest" "\<not> deferred_call (rm_Protocol req) (rm_Method req)"
    and base: "hk_handlers base = []" "hk_fallback base = None"
  shows "answered (game_hooks g base) h payload req e"
proof (cases "map_of (game_services g) (rm_Protocol req)")
  case None
  then have "find_handler (rm_Protocol req) (game_hooks g base) = None"
    using base find_handler_def [of "rm_Protocol req" base] by (simp add: game_find)
  from unserved_call [OF call(1,2) this] show ?thesis .
next
  case (Some f)
  then have f: "find_handler (rm_Protocol req) (game_hooks g base) = Some f" by (simp add: game_find)
  note answers = secure_service.dispatch_answers nat_service.dispatch_answers matchmaking_service.dispatch_answers
    matchmaking_ext_service.dispatch_answers extension_service.dispatch_answers referee_service.dispatch_answers
    ranking_service.dispatch_answers ranking2_service.dispatch_answers profiles_service.dispatch_answers utility_service.dispatch_answers
  have "rm_Protocol req = ProtocolMatchMaking \<Longrightarrow> rm_Method req \<noteq> MethodGetSessionURLs"
    "rm_Protocol req = ProtocolMatchmakeExtension \<Longrightarrow> rm_Method req \<noteq> MethodModifyCurrentGameAttribute"
    "rm_Protocol req \<noteq> ProtocolMessageDelivery"
    using call(3) by (simp_all add: deferred_call_def)
  with map_of_SomeD [OF Some] f show ?thesis
    unfolding game_services_def set_simps insert_iff empty_iff prod.inject
    by - (elim disjE conjE; ((rule answers [OF call(1,2)]; (assumption | (simp; fail))) | simp))
qed

text \<open>C32: A server with every protocol of the package answers every call of a client, whatever its protocol, method and
  body, with one response that carries the call's protocol, method and call id, or the refusal of it; a client that parses
  the bytes sent finds its call in them.  The exceptions are the delivery of a message, the stations of a lobby and the
  change of an attribute.\<close>

theorem game_server_answers_every_call:
  assumes "ParseRMC payload = Inr req" "rm_Mode req = RMCRequest" "\<not> deferred_call (rm_Protocol req) (rm_Method req)"
    and "hk_handlers base = []" "hk_fallback base = None"
  shows "\<exists>resp e2. dispatchRMC (game_hooks g base) h payload e = SendRMC (hk_Settings base) h resp e2 \<and>
    names_request (rm_Protocol req) req resp \<and>
    (rm_Protocol req \<noteq> 0x7F \<and> \<not> bit (rm_Method req) 15 \<and> framable resp \<longrightarrow> matches_call (rm_Protocol req) req (Encode resp))"
  using game_dispatch [OF assms, of g h e] named_answer_matches unfolding answered_def game_settings by blast

theorem game_server_answers_every_call_witness:
  "\<forall>g h e. \<exists>resp e2.
     dispatchRMC (game_hooks g (NewEndpoint (NewSwitchSettings ''key'' 40302))) h
       (Encode (NewRMCRequest ProtocolUtility MethodAcquireNexUniqueID 7 [])) e =
     SendRMC (NewSwitchSettings ''key'' 40302) h resp e2 \<and>
     names_request ProtocolUtility (NewRMCRequest ProtocolUtility MethodAcquireNexUniqueID 7 []) resp \<and>
     (framable resp \<longrightarrow> matches_call ProtocolUtility (NewRMCRequest ProtocolUtility MethodAcquireNexUniqueID 7 []) (Encode resp))"
proof (intro allI)
  fix g h and e :: game_state
  let ?req = "NewRMCRequest ProtocolUtility MethodAcquireNexUniqueID 7 []" and ?base = "NewEndpoint (NewSwitchSettings ''key'' 40302) :: game_world hooks"
  have f: "rm_Protocol ?req = ProtocolUtility" "rm_Mode ?req = RMCRequest" "rm_Method ?req = MethodAcquireNexUniqueID" "rm_Body ?req = []"
    by (simp_all add: NewRMCRequest_def rmc_zero_def)
  have "rmc_ok ?req" using f by (auto simp: rmc_ok_def ProtocolUtility_def)
  then have p: "ParseRMC (Encode ?req) = Inr ?req" by (rule parse_encode)
  have d: "\<not> deferred_call (rm_Protocol ?req) (rm_Method ?req)" unfolding f by (simp add: deferred_call_def game_protocols)
  have b: "hk_handlers ?base = []" "hk_fallback ?base = None" "hk_Settings ?base = NewSwitchSettings ''key'' 40302"
    by (simp_all add: NewEndpoint_def)
  have n: "ProtocolUtility \<noteq> 0x7F" "\<not> bit MethodAcquireNexUniqueID 15" by (simp_all add: ProtocolUtility_def MethodAcquireNexUniqueID_def)
  show "\<exists>resp e2. dispatchRMC (game_hooks g ?base) h (Encode ?req) e = SendRMC (NewSwitchSettings ''key'' 40302) h resp e2 \<and>
     names_request ProtocolUtility ?req resp \<and> (framable resp \<longrightarrow> matches_call ProtocolUtility ?req (Encode resp))"
    using game_server_answers_every_call [OF p f(2) d b(1,2), of g h e] n unfolding f(1,3) b(3) by blast
qed

end
