(* ===== verification/Spec2Isabelle.thy ===== *)
theory Spec2Isabelle
  imports Nex_Udp_Server Nex_Nat_Props Nex_Ranking2_Props Nex_Ranking_Props Nex_Referee_Props Nex_Datastore_Props Nex_Utility
    Nex_Handoff_Props Nex_Transport_Props Nex_Answers
begin

text \<open>
  The program is a server stack for Nintendo's NEX protocols, written in Go (package nex).  A console opens a
  WebSocket, speaks PRUDP-Lite packets over it, and inside them RMC requests to the protocols of a game.  The
  development follows the code from the bytes up:

    Nex\_Prelude     bytes, little-endian words, Go strings and maps, the error values
    Nex\_Stream      settings.go, stream.go: the wire profile, StreamOut and StreamIn
    Nex\_Codec       the interface of a reader and its writer (locales codec, codec\_nonempty, map\_codec) and
                    the safety of readers on hostile input
    Nex\_Types       types.go: structures and their levels (locale structure\_codec), results, dates, variants
    Nex\_Station     types.go: station URLs with the strconv and strings functions they use
    Nex\_Rmc         rmc.go, resultcodes.go: RMC messages
    Nex\_Crypto      MD5, HMAC-MD5 and RC4 of Go's standard library, as kerberos.go and prudp\_udp.go call them
    Nex\_Kerberos    kerberos.go: key derivation and the two tickets
    Nex\_Prudp\_Lite  prudp\_lite.go: PRUDP-Lite packets
    Nex\_Prudp\_Udp   prudp\_udp.go: PRUDP V1 packets
    Nex\_Auth        ticketgranting.go: logins and what they leave behind
    Nex\_Recall      ticketgranting.go: the recall table across restarts, with its properties
    Nex\_Connection  endpoint.go: one connection (window, fragments, acknowledgements)
    Nex\_Endpoint    endpoint.go, reaper.go: handshake, dispatch, connection table, eviction
    Nex\_Session     matchmaking.go, matchmaking\_acnh.go, notification.go: the matchmaking structures
    Nex\_Criteria    matchmaking\_criteria.go: search criteria
    Nex\_Tournament  tournament.go: tournaments
    Nex\_Lobby       matchmaking\_handlers.go and its companions: the store of gatherings
    Nex\_Matchmaking the handlers of the matchmaking protocols and message delivery
    Nex\_Frame       what notifying leaves alone (locale mm\_frame) and whom notifications reach
    Nex\_Lobby\_Inv   the contract of an invariant of gatherings (locale gathering\_inv), its two instances, and
                    the reachable states of the store
    Nex\_Lobby\_Laws  what each loop over the store does to one gathering
    Nex\_Lobby\_Props the properties of matchmaking and tournaments
    Nex\_Ip          addresses: net.ParseIP and the classes of IP addresses
    Nex\_Relay       relaypair.go, relaybesoin.go, relayvu.go, relayvolontaires.go: the relay of player pairs
    Nex\_Relay\_Props its registry of ports, its forwarding, who is sent through it
    Nex\_Nat         secureconnection.go, natbridge.go, nattraversal.go: stations, session URLs, hole punching
    Nex\_Nat\_Props   the host after a departure, joiners who wait
    Nex\_Udp\_Server  prudp\_udp\_server.go: the raw UDP server, with its property
    Nex\_Slice       sorting with a comparison function and cutting the result (locale slice\_order)
    Nex\_Ranking2    ranking2.go, ranking2\_scores.go: ladders of best scores and presentation blocks
    Nex\_Ranking2\_Props  the ladders against the deposits made, their file, and a page as a client reads it
    Nex\_Ranking     ranking.go, ranking\_board.go, ranking\_names.go: profiles, tournament boards, names
    Nex\_Ranking\_Props  profiles and boards under every sequence of requests and ticks of their writers
    Nex\_Referee     referee.go, referee\_stats.go: rounds, reports and balances
    Nex\_Referee\_Props  a round and its players, what a report settles, what stays true of the balances
    Nex\_Datastore   datastore\_smm2.go, datastore\_smm2\_persist.go: the profiles of SMM2
    Nex\_Datastore\_Props  maker codes, a profile from its registration to the answers, GetUsers
    Nex\_Utility     utility.go: settings by position and unique identifiers, with their properties
    Nex\_Handoff     eagle\_handoff.go, authbinding.go: relay tokens and the token bound to a login
    Nex\_Handoff\_Props  base64 read back, what a relay token names, the hand-off as a console reads it
    Nex\_Transport   server.go, proxyproto.go, dashboard\_data.go, reaper.go: sockets, the PROXY header, monitoring
    Nex\_Transport\_Props  a console behind the TLS front, closed sockets, kicked players
    Nex\_Answers     the contract of a protocol's handler (locale rmc\_service), kept by every handler, and a
                    server with all of them: which calls are answered, and how a client recognises its answer

  State.  A record of a theory has the fields of the Go struct, with a prefix where two structs share a name.  A Go
  map is an association list with distinct keys whose order is the order a range loop visits it in; no theorem
  depends on that order.  Objects shared by pointer (connections) live in a heap indexed by handles.  Go's integers
  are words of their width; int is int.  Times are nanoseconds.  A nil slice and an empty slice are both the empty
  list.  An error return is a value of go\_error; a panic is the error GoPanic, and the caller stops there.

  Concurrency.  The operations of one connection run in the goroutine of its socket.  An operation that outlives its
  caller is part of the state, and one turn of it is a step: a message of several fragments still being sent
  (\<open>sender_step\<close>), a notification behind a timer (\<open>fire_timer\<close>), a joiner waiting for the host's stations
  (\<open>answerSessionURLsWhenHostIsReady\<close>), the loop of a relay port (\<open>boucle_step\<close>) and its reaper (\<open>reap_round\<close>).  A
  handler of the matchmaking store runs with the store locked, so it is one step; \<open>mm_step\<close> and \<open>relay_step\<close> are the
  steps of the two shared stores, and their invariants hold for every interleaving.

  Parameters.  Random bytes, the clock, the peer's parsed address (peer\_of in Nex\_Transport) and the callbacks a game installs are arguments or
  fields; a server that installs the handlers is game\_hooks in Nex\_Answers.  What a theorem needs of the callbacks is the locale keeping\_hooks, interpreted on the auth server, and the
  predicate callbacks\_quiet for the callbacks of a title's matchmaking.  The functions an SMM2 server supplies are fields
  of smm2\_config, the process environment of the Utility protocol a function, and the tables of unicode.IsGraphic
  beyond Latin-1 an argument.

  Files.  A store that is kept in a file holds, beside its map, the list its file decodes to, and flags that say whether
  a path is configured and whether writing it succeeds; the atomic replacement of the file is one step.  The writers
  that run behind a ticker (profiles, boards, tournaments) are steps of their own.  Sorting with an unstable sort is specified by
  Nex\_Slice: where the comparison separates all entries the result does not depend on the order of the map.

  The properties below say of each part what makes it correct; the ones that show a defect say so in their text.
  The lemmas they rest on are in the component theories.

  Loops.  Every loop of the source ends but one: the loop that grows the attributes of a session is a partial
  function whose divergence is the property attribute\_index\_can\_hang\_the\_server.  No definition needs fuel.

  Not modelled: the sockets themselves, with the TLS and WebSocket handshakes of the libraries; JSON text and files
  (what they decode to is modelled; the lookup of a claim in the JSON payload of a login token is the argument claim of
  Nex\_Handoff); reading environment variables (their values are arguments where they matter); logging; the relay's
  packet dump and the cut of a datagram longer than its 2048-byte buffer.  SHA-256, HMAC, MD5, RC4 and base64 of the standard library are definitions.
\<close>

section \<open>Properties\<close>

text \<open>C1: An account that logs in on the auth server can open a session on the secure server.  For a resolved
  login the answer carries, in the fields a client reads, the success code, the account's PID and a client ticket;
  the source key opens that ticket, and with the ticket's internal part and session key the client's CONNECT
  payload is accepted by a secure endpoint that uses the same account: the connection takes the account's PID,
  and the response proves the session key by returning the check value plus one.\<close>

theorem login_then_connect:
  assumes cfg: "auth_ok cfg env" "station_cfg_ok cfg"
    and pid: "pid_ok (cfg_Settings cfg) pid" "PIDSize (cfg_Settings cfg) = 4 \<or> PIDSize (cfg_Settings cfg) = 8"
    and user: "cfg_resolve cfg username extraData = (pid, sourceKey, 0)" "sourceKey \<noteq> []" "length sourceKey \<le> 256"
    and req: "rm_Body req = w_String username @ extraData" "string_ok username"
    and key: "ae_sessionKey env (nat (keyLen cfg)) = Some sk" "int (length sk) = KerberosKeySize (cfg_Settings cfg)"
      "0 < length sk" "length sk \<le> 256" "0 \<le> keyLen cfg"
    and secure: "hk_Settings hk0 = cfg_Settings cfg" "hk = SetSecureAccount (SecurePassword cfg) (SecurePID cfg) hk0"
  shows "\<exists>resp st' ticket ct. handleLogin cfg env conn req st = (Inr resp, st') \<and>
     (case fst (run_state (login_answer (cfg_Settings cfg)) (NewStreamIn (rm_Body resp))) of
        (retval, pid', ticket', rvcd, name) \<Rightarrow> retval = ResultCoreUnknown \<and> pid' = pid \<and> ticket' = ticket) \<and>
     DecryptClientTicket ticket sourceKey (cfg_Settings cfg) = Inr ct \<and>
     (\<forall>cid check. \<exists>request.
        kerberosEncrypt (ct_SessionKey ct) (client_request (cfg_Settings cfg) pid cid check) = Inr request \<and>
        processLoginRequest hk h (w_Buffer (ct_Internal ct) @ w_Buffer request) e =
          (Inr (w_U32 4 @ w_U32 (check + 1)),
           on_conn h (\<lambda>c. c\<lparr>c_PID := pid, c_CID := cid, c_sessionKey := ct_SessionKey ct\<rparr>) e))"
proof -
  let ?s = "cfg_Settings cfg"
  obtain ticket where mint: "mint_tickets cfg env pid sourceKey = Inr ticket"
    using mint_tickets_total [OF key(1,2,5) user(2,3)] by blast
  have m: "minted cfg env pid sourceKey ticket" "length ticket < 2 ^ 32"
    using mint_tickets_minted [OF cfg(1) pid(1) mint] by simp_all
  obtain ct tk where ct: "DecryptClientTicket ticket sourceKey ?s = Inr ct" "length (ct_Internal ct) < 2 ^ 32"
    and tk: "DecryptServerTicket (ct_Internal ct) (hk_SecureKey hk) ?s = Inr tk" "tk_Source tk = pid"
      "tk_SessionKey tk = ct_SessionKey ct" "length (ct_SessionKey ct) = length sk"
    using m(1) secure key(2) unfolding minted_def by (auto simp: SetSecureAccount_def)
  let ?resp = "buildResponse cfg env req ResultCoreUnknown pid ticket sourceKey"
  have run: "handleLogin cfg env conn req st = (Inr ?resp, remember_login env conn username pid st)"
    using user req mint by (simp add: handleLogin_def Let_def NewStreamIn_cursor run_String run_ReadAll)
  have hk: "hk_Secure hk" "hk_Settings hk = ?s" using secure by (simp_all add: SetSecureAccount_def)
  have "\<exists>request. kerberosEncrypt (ct_SessionKey ct) (client_request ?s pid cid check) = Inr request \<and>
      processLoginRequest hk h (w_Buffer (ct_Internal ct) @ w_Buffer request) e = (Inr (w_U32 4 @ w_U32 (check + 1)),
        on_conn h (\<lambda>c. c\<lparr>c_PID := pid, c_CID := cid, c_sessionKey := ct_SessionKey ct\<rparr>) e)" for cid check
  proof -
    obtain request where rq: "kerberosEncrypt (ct_SessionKey ct) (client_request ?s pid cid check) = Inr request"
      using encrypt_total [of "ct_SessionKey ct"] key(3,4) tk(4) by (metis length_greater_0_conv)
    then show ?thesis using login_accepts [of hk tk "ct_Internal ct" cid check request h e] hk pid tk ct(2) by auto
  qed
  then show ?thesis using run login_answer_read [OF cfg(2) pid(1) m(2)] ct(1)
    by (intro exI conjI) (auto simp: Let_def)
qed

definition example_cfg :: auth_config where
  "example_cfg = \<lparr>cfg_Settings = NewSwitchSettings ''key'' 40000, SecurePID = 2, SecurePassword = ''pw'', SecureStationURL = None,
     SpecialProtocols = [], ServerName = ''server'', SessionKeyLength = 0,
     ResolveUser = (\<lambda>name extra. if name = ''7'' then Some (7, [1, 2, 3]) else None), ResolveUserEx = None,
     ContextResultTrailingU64 = False\<rparr>"

definition example_env :: auth_env where
  "example_env = \<lparr>ae_now = 1, ae_date = 5, ae_sessionKey = (\<lambda>n. Some (replicate n 9)), ae_ticketKey = replicate 16 3\<rparr>"

theorem login_then_connect_witness:
  "\<exists>resp st' ticket ct. handleLogin example_cfg example_env None (NewRMCRequest 10 2 1 (w_String ''7'')) auth_empty = (Inr resp, st') \<and>
     DecryptClientTicket ticket [1, 2, 3] (cfg_Settings example_cfg) = Inr ct \<and>
     (\<forall>cid check. \<exists>request.
        kerberosEncrypt (ct_SessionKey ct) (client_request (cfg_Settings example_cfg) 7 cid check) = Inr request \<and>
        processLoginRequest (SetSecureAccount ''pw'' 2 (NewEndpoint (cfg_Settings example_cfg))) 0
          (w_Buffer (ct_Internal ct) @ w_Buffer request)
          \<lparr>ep_heap = (\<lambda>_. NewConnection ''1.2.3.4:5'' None), ep_connections = [], ep_connCounter = 0, ep_auth = auth_empty, ep_now = 0, ep_world = ()\<rparr> =
          (Inr (w_U32 4 @ w_U32 (check + 1)),
           on_conn 0 (\<lambda>c. c\<lparr>c_PID := 7, c_CID := cid, c_sessionKey := ct_SessionKey ct\<rparr>)
          \<lparr>ep_heap = (\<lambda>_. NewConnection ''1.2.3.4:5'' None), ep_connections = [], ep_connCounter = 0, ep_auth = auth_empty, ep_now = 0, ep_world = ()\<rparr>))"
  using login_then_connect [of example_cfg example_env 7 "''7''" "[]" "[1, 2, 3]" "NewRMCRequest 10 2 1 (w_String ''7'')" "replicate 32 9"
      "NewEndpoint (cfg_Settings example_cfg)" "SetSecureAccount ''pw'' 2 (NewEndpoint (cfg_Settings example_cfg))" None auth_empty 0
      "\<lparr>ep_heap = (\<lambda>_. NewConnection ''1.2.3.4:5'' None), ep_connections = [], ep_connCounter = 0, ep_auth = auth_empty, ep_now = 0, ep_world = ()\<rparr>"]
  by (simp add: auth_ok_def example_cfg_def example_env_def NewSwitchSettings_def pid_ok_def Publique_def Interne_def
      station_cfg_ok_def orEmptyStation_def prudp_station_ok string_ok_def cfg_resolve_def NewRMCRequest_def keyLen_def NewEndpoint_def)
     blast

text \<open>C2: On a secure endpoint whose handlers leave identities alone, a packet changes the identity of a connection
  (its PID, CID and session key) only when it is a CONNECT to that very connection, carries the signature the access
  key requires, and its own payload grants the new identity.  A payload grants it when its first buffer is a ticket
  that the server's own key opens, with the new PID as its source and the new session key inside, and its second
  buffer is a request that this session key decrypts to the same PID and to the new CID.  An empty payload grants a
  PID, and nothing else, to the address that PID has recently logged in from.\<close>

theorem identity_only_from_ticket_or_recent_login:
  assumes "keeping_hooks hk identity" "hk_Secure hk" "handlePacket hk rnd h p e = (r, e')"
    "identity (ep_heap e' k) \<noteq> identity (ep_heap e k)"
  shows "k = h \<and> pk_Type p = PacketCONNECT \<and>
    pk_Signature p = LitePacketSignature (AccessKey (hk_Settings hk)) p (c_connectionSig (ep_heap e h)) \<and>
    granted hk e (pk_Payload p) (ep_heap e h) (identity (ep_heap e' h))"
  by (rule handlePacket_identity [OF assms])

definition secure_example :: "unit hooks" where
  "secure_example = SetSecureAccount ''pw'' 2 (NewEndpoint (NewSwitchSettings ''key'' 40000))"

definition example_endpoint :: "unit endpoint" where
  "example_endpoint = \<lparr>ep_heap = (\<lambda>_. NewConnection ''1.2.3.4:5'' None), ep_connections = [], ep_connCounter = 0,
     ep_auth = RememberAuthPID 10 ''1.2.3.4:77'' 7 auth_empty, ep_now = 20, ep_world = ()\<rparr>"

definition empty_connect :: packet where
  "empty_connect = packet_zero\<lparr>pk_Type := PacketCONNECT\<rparr>"

definition example_ticket :: server_ticket where
  "example_ticket = \<lparr>tk_Timestamp = 0, tk_Source = 7, tk_SessionKey = replicate 32 1\<rparr>"

lemma ServerTicket_total:
  assumes "int (length (tk_SessionKey t)) = KerberosKeySize s" "KerberosTicketVersion s = 1"
  shows "\<exists>c. ServerTicket_Encrypt ticketKey t key s = Inr c"
proof -
  have "md5 (key @ ticketKey) \<noteq> []" "length (md5 (key @ ticketKey)) \<le> 256" by auto
  from encrypt_total [OF this] obtain enc
    where "kerberosEncrypt (md5 (key @ ticketKey)) (w_DateTime (tk_Timestamp t) @ w_PID s (tk_Source t) @ tk_SessionKey t) = Inr enc"
    by blast
  then show ?thesis using assms by (simp add: ServerTicket_Encrypt_def Let_def)
qed

lemma example_login:
  "\<exists>payload response. payload \<noteq> [] \<and> processLoginRequest secure_example 0 payload e =
     (Inr response, on_conn 0 (\<lambda>c. c\<lparr>c_PID := 7, c_CID := 9, c_sessionKey := replicate 32 1\<rparr>) e)"
proof -
  let ?s = "NewSwitchSettings ''key'' 40000"
  have s: "hk_Secure secure_example" "hk_Settings secure_example = ?s" by (simp_all add: secure_example_def SetSecureAccount_def NewEndpoint_def)
  have t: "server_ticket_ok ?s example_ticket" "length (replicate 16 (0 :: u8)) = 16"
    by (simp_all add: server_ticket_ok_def example_ticket_def NewSwitchSettings_def pid_ok_def Interne_def Publique_def)
  obtain c where c: "ServerTicket_Encrypt (replicate 16 0) example_ticket (hk_SecureKey secure_example) ?s = Inr c"
    using ServerTicket_total [of example_ticket ?s] t(1) by (auto simp: server_ticket_ok_def NewSwitchSettings_def)
  have key: "tk_SessionKey example_ticket = replicate 32 1" "tk_Source example_ticket = 7" by (simp_all add: example_ticket_def)
  have "replicate 32 (1 :: u8) \<noteq> []" "length (replicate 32 (1 :: u8)) \<le> 256" by simp_all
  then obtain request where rq: "kerberosEncrypt (replicate 32 1) (client_request ?s 7 9 0) = Inr request"
    using encrypt_total by blast
  have "length c < 2 ^ 32" using length_ServerTicket [OF c t(2)] by (simp add: key)
  moreover have "DecryptServerTicket c (hk_SecureKey secure_example) ?s = Inr example_ticket"
    by (rule DecryptServerTicket_Encrypt [OF t c])
  moreover have "PIDSize ?s = 8" "pid_ok ?s 7" by (simp_all add: NewSwitchSettings_def pid_ok_def Interne_def Publique_def)
  ultimately have "processLoginRequest secure_example 0 (w_Buffer c @ w_Buffer request) e =
     (Inr (w_U32 4 @ w_U32 (0 + 1)), on_conn 0 (\<lambda>c. c\<lparr>c_PID := 7, c_CID := 9, c_sessionKey := replicate 32 1\<rparr>) e)"
    using login_accepts [OF s(1), of example_ticket c 9 0 request 0 e] rq s(2) key by simp
  moreover have "w_Buffer c @ w_Buffer request \<noteq> []" by simp
  ultimately show ?thesis by blast
qed

theorem identity_only_from_ticket_or_recent_login_witness:
  "granted secure_example example_endpoint [] (ep_heap example_endpoint 0)
     (identity (ep_heap (snd (handlePacket secure_example [] 0 empty_connect example_endpoint)) 0)) \<and>
   (\<exists>payload. payload \<noteq> [] \<and> granted secure_example example_endpoint payload (ep_heap example_endpoint 0) (7, 9, replicate 32 1))"
proof -
  have kp: "keeping_hooks secure_example identity"
    unfolding secure_example_def by (rule secure_identity.keeping_hooks_axioms)
  have sec: "hk_Secure secure_example" by (simp add: secure_example_def SetSecureAccount_def)
  note run = secure_example_def example_endpoint_def empty_connect_def handlePacket_def processCONNECT_def
    SetSecureAccount_def NewEndpoint_def LitePacketSignature_def HasFlag_def packet_zero_def packet_types packet_flags NewConnection_def
    identity_def registerConnection_def Let_def c_send_def
  have "identity (ep_heap (snd (handlePacket secure_example [] 0 empty_connect example_endpoint)) 0) \<noteq> identity (ep_heap example_endpoint 0)"
    by (simp add: run processLoginRequest_def RecallAuthPID_def RememberAuthPID_def auth_empty_def ipHost_def SplitHostPort_def last_colon_def
        authRecallTTL_def)
  note recalled = identity_only_from_ticket_or_recent_login [OF kp sec prod.collapse [symmetric] this]
  let ?e = "on_conn 0 (\<lambda>c. c\<lparr>c_lastSeen := ep_now example_endpoint\<rparr>) example_endpoint"
  obtain payload response where l: "payload \<noteq> []" "processLoginRequest secure_example 0 payload ?e =
      (Inr response, on_conn 0 (\<lambda>c. c\<lparr>c_PID := 7, c_CID := 9, c_sessionKey := replicate 32 1\<rparr>) ?e)"
    using example_login [of ?e] by blast
  let ?p = "empty_connect\<lparr>pk_Payload := payload\<rparr>"
  have after: "identity (ep_heap (snd (handlePacket secure_example [] 0 ?p example_endpoint)) 0) = (7, 9, replicate 32 1)"
    using l(2) by (simp add: run)
  have "identity (ep_heap example_endpoint 0) \<noteq> (7, 9, replicate 32 1)" by (simp add: example_endpoint_def NewConnection_def identity_def)
  then have "identity (ep_heap (snd (handlePacket secure_example [] 0 ?p example_endpoint)) 0) \<noteq> identity (ep_heap example_endpoint 0)"
    unfolding after by metis
  from identity_only_from_ticket_or_recent_login [OF kp sec prod.collapse [symmetric] this]
  have "granted secure_example example_endpoint payload (ep_heap example_endpoint 0) (7, 9, replicate 32 1)" unfolding after by simp
  moreover have "pk_Payload empty_connect = []" by (simp add: empty_connect_def packet_zero_def)
  ultimately show ?thesis using recalled l(1) by auto
qed

text \<open>C5: A message handed to an open connection on which no other message is being sent arrives: after the turns
  of its sender every fragment is on the wire in order, the packets decode, and a receiver that has seen none of
  their sequence numbers recently puts them together to exactly the message, provided it needs at most 256
  fragments; the sender has then ended.\<close>

theorem message_is_reassembled:
  assumes "c_state c \<noteq> stateClosed" "c_senders c = []" "unat (c_srcType c) < 16" "unat (c_dstType c) < 16"
    and "fragSize s < 2 ^ 16" "length data \<le> fragSize s * 256"
    and "window_of acc d" "fresh_for (c_outReliable c) acc" "c_fragBuf d = []"
    and "c' = (sender_step s 0 ^^ sender_turns s data) (sendData s data c)"
  shows "c_senders c' = [] \<and> (\<exists>ps d'. c_sent c' = c_sent c @ map EncodePacket ps \<and>
     DecodePackets (concat (map EncodePacket ps)) = (ps, [], None) \<and>
     receive_all ps d = ([data], d') \<and> c_fragBuf d' = [])"
  using message_arrives [OF assms(1-5) assms(7-10)] assms(6) by simp

definition example_message :: "nat \<Rightarrow> bytes" where
  "example_message n = replicate n 1"

lemma length_example_message [simp]: "length (example_message n) = n"
  by (simp add: example_message_def)

lemma fresh_connection:
  "c_state (NewConnection a p) \<noteq> stateClosed" "c_senders (NewConnection a p) = []"
  "unat (c_srcType (NewConnection a p)) < 16" "unat (c_dstType (NewConnection a p)) < 16"
  "fresh_for (c_outReliable (NewConnection a p)) []" "c_fragBuf (NewConnection a p) = []" "c_sent (NewConnection a p) = []"
  by (simp_all add: NewConnection_def conn_states fresh_for_def last_n_def)

lemma switch_fragSize: "fragSize (NewSwitchSettings k n) = 1300" "fragSize (NewSwitchSettings k n) < 2 ^ 16"
  by (simp_all add: fragSize_def NewSwitchSettings_def)

theorem message_is_reassembled_witness:
  "\<exists>ps d'. c_sent ((sender_step (NewSwitchSettings [] 0) 0 ^^ sender_turns (NewSwitchSettings [] 0) (example_message 3000))
       (sendData (NewSwitchSettings [] 0) (example_message 3000) (NewConnection [] None))) = map EncodePacket ps \<and>
     receive_all ps (NewConnection [] None) = ([example_message 3000], d')"
proof -
  have "length (example_message 3000) \<le> fragSize (NewSwitchSettings [] 0) * 256" by (simp add: switch_fragSize)
  from message_is_reassembled [OF fresh_connection(1-4) switch_fragSize(2) this window_of_new fresh_connection(5,6) refl]
  show ?thesis unfolding fresh_connection(7) append_Nil by blast
qed

text \<open>C6: The fragment id is one byte, and zero marks the last fragment: of a message that needs more than 256
  fragments the sender delivers the first 256 and ends, so the receiver takes a prefix for the whole message.\<close>

theorem oversized_message_is_cut:
  assumes "c_state c \<noteq> stateClosed" "c_senders c = []" "unat (c_srcType c) < 16" "unat (c_dstType c) < 16"
    and "fragSize s < 2 ^ 16" "fragSize s * 256 < length data"
    and "window_of acc d" "fresh_for (c_outReliable c) acc" "c_fragBuf d = []"
    and "c' = (sender_step s 0 ^^ sender_turns s data) (sendData s data c)"
  shows "c_senders c' = [] \<and> (\<exists>ps d' pre. c_sent c' = c_sent c @ map EncodePacket ps \<and>
     receive_all ps d = ([pre], d') \<and> pre = take (fragSize s * 256) data \<and> pre \<noteq> data)"
proof -
  have "length (take (fragSize s * 256) data) < length data" using assms(6) by simp
  then have cut: "take (fragSize s * 256) data \<noteq> data" by (metis nat_neq_iff)
  note arrives = message_arrives [OF assms(1-5) assms(7-10)]
  obtain ps d' where "c_sent c' = c_sent c @ map EncodePacket ps" "receive_all ps d = ([take (fragSize s * 256) data], d')"
    using arrives(2) by auto
  then show ?thesis using arrives(1) cut by auto
qed

theorem oversized_message_is_cut_witness:
  "\<exists>ps d' pre. c_sent ((sender_step (NewSwitchSettings [] 0) 0 ^^ sender_turns (NewSwitchSettings [] 0) (example_message 400000))
       (sendData (NewSwitchSettings [] 0) (example_message 400000) (NewConnection [] None))) = map EncodePacket ps \<and>
     receive_all ps (NewConnection [] None) = ([pre], d') \<and> pre \<noteq> example_message 400000"
proof -
  have "fragSize (NewSwitchSettings [] 0) * 256 < length (example_message 400000)" by (simp add: switch_fragSize)
  from oversized_message_is_cut [OF fresh_connection(1-4) switch_fragSize(2) this window_of_new fresh_connection(5,6) refl]
  show ?thesis unfolding fresh_connection(7) append_Nil by blast
qed

text \<open>Two messages sent at once on one connection can destroy each other: some interleaving of their two
  senders puts the fragments on the wire so that the receiver completes two messages, neither of which was sent.\<close>

definition tiny_fragments :: settings where
  "tiny_fragments = (NewSwitchSettings [] 0)\<lparr>FragmentSize := 1\<rparr>"

theorem concurrent_senders_mix_fragments:
  "\<exists>schedule. let c = foldl (\<lambda>c i. sender_step tiny_fragments i c)
       (sendData tiny_fragments [3, 4] (sendData tiny_fragments [1, 2] (NewConnection [] None))) schedule
     in c_senders c = [] \<and>
        fst (receive_all (fst (DecodePackets (concat (c_sent c)))) (NewConnection [] None)) = [[1, 3, 2], [4]]"
proof -
  let ?c = "foldl (\<lambda>c i. sender_step tiny_fragments i c)
       (sendData tiny_fragments [3, 4] (sendData tiny_fragments [1, 2] (NewConnection [] None))) [0, 1, 0, 0]"
  have "c_senders ?c = [] \<and> fst (receive_all (fst (DecodePackets (concat (c_sent ?c)))) (NewConnection [] None)) = [[1, 3, 2], [4]]"
    by code_simp
  then show ?thesis unfolding Let_def by blast
qed

text \<open>C7: The ring of received sequence numbers is the list of the last 128 accepted ones: a number is recognised as
  already received exactly when it is among them, a new one is appended, and a recognised one changes nothing.\<close>

theorem duplicate_window_is_last_128:
  assumes "window_of acc c"
  shows "case dejaRecu seq c of (seen, c') \<Rightarrow>
     (seen \<longleftrightarrow> seq \<in> set (last_n 128 acc)) \<and> window_of (if seen then acc else acc @ [seq]) c' \<and> (seen \<longrightarrow> c' = c)"
proof -
  have mem: "fst (dejaRecu seq c) \<longleftrightarrow> seq \<in> set (last_n 128 acc)"
    using dejaRecu_mem [OF assms] by (simp add: window_size_def)
  show ?thesis
  proof (cases "fst (dejaRecu seq c)")
    case True
    then have "dejaRecu seq c = (True, c)" by (simp add: dejaRecu_def split: if_splits)
    then show ?thesis using mem assms by simp
  next
    case False
    then show ?thesis using mem dejaRecu_window [OF assms False] by (simp add: case_prod_unfold)
  qed
qed

theorem duplicate_window_is_last_128_witness:
  "fst (dejaRecu 5 (snd (dejaRecu 5 (NewConnection [] None))))"
  using duplicate_window_is_last_128 [of "[5]" "snd (dejaRecu 5 (NewConnection [] None))" 5]
    dejaRecu_window [OF window_of_new, of 5 "[]" None] dejaRecu_mem [OF window_of_new, of 5 "[]" None]
  by (simp add: last_n_def case_prod_unfold)

text \<open>One round of eviction closes exactly the connections that have been idle for the limit or longer, keeps every
  other one in its place, returns the number it closed, and leaves the table consistent.\<close>

theorem reap_closes_exactly_the_idle:
  assumes "table_ok e" "hk_OnDisconnect hk = None" "0 < maxIdle"
  shows "fst (ReapIdle hk maxIdle e) = length (filter (stale maxIdle e) (snapshotConns e)) \<and>
    ep_connections (snd (ReapIdle hk maxIdle e)) = filter (\<lambda>(i, h). \<not> stale maxIdle e h) (ep_connections e) \<and>
    table_ok (snd (ReapIdle hk maxIdle e))"
  by (rule ReapIdle_spec [OF assms])

definition two_connections :: "unit endpoint" where
  "two_connections = example_endpoint\<lparr>
     ep_heap := (\<lambda>h. (NewConnection [] None)\<lparr>c_ID := of_nat h, c_state := stateConnected, c_lastSeen := (if h = 1 then 3 else 19)\<rparr>),
     ep_connections := [(1, 1), (2, 2)], ep_connCounter := 2\<rparr>"

lemma two_connections_ok: "table_ok two_connections"
  by (simp add: table_ok_def two_connections_def gomap_wf_def)

theorem reap_closes_exactly_the_idle_witness:
  "ep_connections (snd (ReapIdle (NewEndpoint tiny_fragments) 10 two_connections)) = [(2, 2)]"
  using reap_closes_exactly_the_idle [OF two_connections_ok, of "NewEndpoint tiny_fragments" 10]
  by (simp add: NewEndpoint_def two_connections_def example_endpoint_def stale_def IdleFor_def)

text \<open>The connection found for a PID is one of that player's registered connections, the one with the highest id,
  and none is found only when the player has none; the answer does not depend on the order in which the table is
  visited.\<close>

theorem newest_connection_in_any_order:
  assumes "table_ok e" "mset cs = mset (ep_connections e)"
  shows "FindConnectionByPID pid (e\<lparr>ep_connections := cs\<rparr>) = FindConnectionByPID pid e \<and>
    (case FindConnectionByPID pid e of
       None \<Rightarrow> \<forall>(i, h) \<in> set (ep_connections e). c_PID (ep_heap e h) \<noteq> pid
     | Some g \<Rightarrow> g \<in> snd ` set (ep_connections e) \<and> c_PID (ep_heap e g) = pid \<and>
         (\<forall>(i, h) \<in> set (ep_connections e). c_PID (ep_heap e h) = pid \<longrightarrow> c_ID (ep_heap e h) \<le> c_ID (ep_heap e g)))"
  using FindConnectionByPID_order [OF assms] FindConnectionByPID_newest by blast

theorem newest_connection_in_any_order_witness:
  "FindConnectionByPID 0 (two_connections\<lparr>ep_connections := [(2, 2), (1, 1)]\<rparr>) = FindConnectionByPID 0 two_connections"
  using newest_connection_in_any_order [OF two_connections_ok, of "[(2, 2), (1, 1)]" 0]
  by (simp add: two_connections_def)

text \<open>Registering an open connection keeps the table consistent, makes it findable under its new id, and closing
  it removes it.\<close>

theorem register_then_close:
  assumes "table_ok e" "h \<notin> snd ` set (ep_connections e)" "c_state (ep_heap e h) = stateConnected"
    and "ep_connCounter e + 1 \<noteq> 0" "hk_OnDisconnect hk = None"
  shows "let e1 = registerConnection h e; e2 = close_conn hk h e1 in
     table_ok e1 \<and> FindConnectionByID (ep_connCounter e + 1) e1 = Some h \<and>
     table_ok e2 \<and> ep_connections e2 = ep_connections e"
proof -
  let ?e1 = "registerConnection h e"
  note r = table_ok_register [OF assms(1-4)]
  have mem: "(ep_connCounter e + 1, h) \<in> set (ep_connections ?e1)"
    using r(2) by (auto simp: FindConnectionByID_def dest: map_of_SomeD)
  note c = table_ok_close [OF r(1) assms(5) mem]
  have "filter (\<lambda>(j, g). g \<noteq> h) (ep_connections e) = ep_connections e"
    using assms(2) by (induction "ep_connections e") (auto simp: filter_id_conv rev_image_eqI)
  moreover have "ep_connCounter e + 1 \<notin> fst ` set (ep_connections e)"
  proof
    assume "ep_connCounter e + 1 \<in> fst ` set (ep_connections e)"
    then obtain g where "(ep_connCounter e + 1, g) \<in> set (ep_connections e)" by auto
    from table_okD(4) [OF assms(1) this] assms(4) show False
      using unatSuc [of "ep_connCounter e"] by (simp add: word_le_nat_alt add.commute)
  qed
  ultimately have "ep_connections (close_conn hk h ?e1) = ep_connections e"
    unfolding c(1) by (simp add: registerConnection_def Let_def update_fresh)
  then show ?thesis using r c(2) by simp
qed

theorem register_then_close_witness:
  "ep_connections (close_conn (NewEndpoint tiny_fragments) 3 (registerConnection 3 two_connections)) = [(1, 1), (2, 2)]"
proof -
  have "3 \<notin> snd ` set (ep_connections two_connections)" "c_state (ep_heap two_connections 3) = stateConnected"
    "ep_connCounter two_connections + 1 \<noteq> 0" "hk_OnDisconnect (NewEndpoint tiny_fragments :: unit hooks) = None"
    by (simp_all add: two_connections_def NewEndpoint_def)
  from register_then_close [OF two_connections_ok this] show ?thesis by (simp add: two_connections_def Let_def)
qed

text \<open>A second CONNECT on one connection leaks a table entry: the connection is registered again under the next
  id, and closing it removes only that id.  The first id still finds the closed connection, and no later close
  removes it.\<close>

theorem second_connect_leaks_an_entry:
  assumes "\<not> hk_Secure hk" "hk_OnConnect hk = None" "hk_OnDisconnect hk = None"
    and "\<not> HasFlag p FlagNeedACK" "pk_Signature p = []" "ep_connCounter e + 1 \<noteq> 0" "ep_connCounter e + 2 \<noteq> 0"
    and "c_state (ep_heap e h) = stateConnected"
    and "e1 = snd (processCONNECT hk h p e)" "e2 = close_conn hk h (snd (processCONNECT hk h p e1))"
  shows "FindConnectionByID (ep_connCounter e + 1) e2 = Some h \<and> c_state (ep_heap e2 h) = stateClosed \<and>
    close_conn hk h e2 = e2"
proof -
  note sig = signature_only_with_need_ack [OF assms(4)]
  obtain a where a: "processCONNECT hk h p e =
      (None, registerConnection h (on_conn h (\<lambda>c. (c_send (EncodePacket a) c)\<lparr>c_state := stateConnected\<rparr>) e))"
    using connect_insecure [OF assms(1,2)] sig assms(5) by metis
  obtain b where b: "processCONNECT hk h p e1 =
      (None, registerConnection h (on_conn h (\<lambda>c. (c_send (EncodePacket b) c)\<lparr>c_state := stateConnected\<rparr>) e1))"
    using connect_insecure [OF assms(1,2)] sig assms(5) by metis
  let ?e0 = "on_conn h (\<lambda>c. (c_send (EncodePacket a) c)\<lparr>c_state := stateConnected\<rparr>) e"
  have e1: "e1 = registerConnection h ?e0" using a assms(9) by simp
  have b': "snd (processCONNECT hk h p e1) =
      registerConnection h (on_conn h (\<lambda>c. (c_send (EncodePacket b) c)\<lparr>c_state := stateConnected\<rparr>) (registerConnection h ?e0))"
    using b e1 by simp
  show ?thesis
    using double_register [of ?e0 h hk "snd (processCONNECT hk h p e1)" "\<lambda>c. (c_send (EncodePacket b) c)\<lparr>c_state := stateConnected\<rparr>", OF _ assms(3)]
      b' assms(6,7,10) by simp
qed

theorem second_connect_leaks_an_entry_witness:
  "let hk = NewEndpoint tiny_fragments; e1 = snd (processCONNECT hk 1 empty_connect two_connections);
       e2 = close_conn hk 1 (snd (processCONNECT hk 1 empty_connect e1))
   in FindConnectionByID 3 e2 = Some 1 \<and> c_state (ep_heap e2 1) = stateClosed"
proof -
  have "\<not> hk_Secure (NewEndpoint tiny_fragments :: unit hooks)" "hk_OnConnect (NewEndpoint tiny_fragments :: unit hooks) = None"
    "hk_OnDisconnect (NewEndpoint tiny_fragments :: unit hooks) = None" "\<not> HasFlag empty_connect FlagNeedACK" "pk_Signature empty_connect = []"
    "ep_connCounter two_connections + 1 \<noteq> 0" "ep_connCounter two_connections + 2 \<noteq> 0" "c_state (ep_heap two_connections 1) = stateConnected"
    by (simp_all add: NewEndpoint_def empty_connect_def packet_zero_def HasFlag_def two_connections_def)
  from second_connect_leaks_an_entry [OF this refl refl] show ?thesis
    by (simp add: Let_def two_connections_def)
qed

text \<open>Decoding undoes encoding on PRUDP-Lite: the bytes of any sequence of well-formed packets decode to the same
  packets, with nothing left over, no error and, appended to any further bytes, the same packets first.\<close>

theorem lite_packets_round_trip:
  assumes "\<And>p. p \<in> set ps \<Longrightarrow> lite_packet_ok p"
  shows "DecodePackets (concat (map EncodePacket ps)) = (ps, [], None) \<and>
    DecodePackets (concat (map EncodePacket ps) @ rest) = (case DecodePackets rest of (qs, r, e) \<Rightarrow> (ps @ qs, r, e))"
  using decode_packets [OF assms] DecodePackets_append [of _ ps "[]" rest] by simp

lemma empty_connect_ok: "lite_packet_ok empty_connect"
  by (simp add: lite_packet_ok_def empty_connect_def packet_zero_def packet_types HasFlag_def)

lemma example_data_ok: "lite_packet_ok (data_packet [1, 2, 3] 0 (NewConnection [] None))"
  by (rule data_packet_ok) (simp_all add: NewConnection_def)

theorem lite_packets_round_trip_witness:
  "DecodePackets (EncodePacket empty_connect @ EncodePacket (data_packet [1, 2, 3] 0 (NewConnection [] None))) =
     ([empty_connect, data_packet [1, 2, 3] 0 (NewConnection [] None)], [], None)"
proof -
  have "lite_packet_ok p" if "p \<in> set [empty_connect, data_packet [1, 2, 3] 0 (NewConnection [] None)]" for p
    using that empty_connect_ok example_data_ok by auto
  from lite_packets_round_trip [of "[empty_connect, data_packet [1, 2, 3] 0 (NewConnection [] None)]" "[]", OF this]
  show ?thesis by simp
qed

text \<open>C8: How the transport cuts the byte stream into frames does not matter: decoding one piece, keeping what is left
  over and decoding it with the next piece gives the packets and the rest of decoding both pieces at once.\<close>

theorem decoding_ignores_frame_boundaries:
  assumes "DecodePackets a = (ps, rest, None)"
  shows "DecodePackets (a @ b) = (case DecodePackets (rest @ b) of (qs, rest', e) \<Rightarrow> (ps @ qs, rest', e))"
  by (rule DecodePackets_append [OF assms])

theorem decoding_ignores_frame_boundaries_witness:
  "DecodePackets (take 9 (EncodePacket empty_connect) @ drop 9 (EncodePacket empty_connect)) = ([empty_connect], [], None)"
proof -
  have "DecodePackets (take 9 (EncodePacket empty_connect)) = ([], take 9 (EncodePacket empty_connect), None)"
    by (rule DecodePackets_short) (simp add: liteHeaderSize_def)
  from decoding_ignores_frame_boundaries [OF this, of "drop 9 (EncodePacket empty_connect)"]
    decode_packets [of "[empty_connect]"] empty_connect_ok
  show ?thesis by simp
qed

text \<open>C9: Decoding undoes encoding on PRUDP V1 over UDP, for any sequence of well-formed packets in one datagram.\<close>

theorem udp_packets_round_trip:
  assumes "\<And>p. p \<in> set ps \<Longrightarrow> udp_packet_ok p"
  shows "DecodeUDPPackets (concat (map EncodeUDPPacket ps)) = (ps, None)"
  by (rule decode_udp_packets [OF assms])

theorem udp_packets_round_trip_witness:
  "DecodeUDPPackets (EncodeUDPPacket (udp_zero\<lparr>u_Type := PacketDATA, u_FragmentID := 3, u_Payload := [1, 2], u_Signature := replicate 16 7\<rparr>))
     = ([udp_zero\<lparr>u_Type := PacketDATA, u_FragmentID := 3, u_Payload := [1, 2], u_Signature := replicate 16 7\<rparr>], None)"
  using udp_packets_round_trip [of "[udp_zero\<lparr>u_Type := PacketDATA, u_FragmentID := 3, u_Payload := [1, 2], u_Signature := replicate 16 7\<rparr>]"]
  by (simp add: udp_packet_ok_def udp_zero_def packet_types udpSignatureSize_def)

text \<open>C10: Parsing undoes encoding for every RMC message the constructors build on a protocol other than 0x7F: requests,
  success responses (whose method does not use the response bit) and error responses.\<close>

theorem rmc_round_trip:
  assumes "rmc_ok m"
  shows "ParseRMC (Encode m) = Inr m"
  by (rule parse_encode [OF assms])

theorem rmc_round_trip_witness:
  "ParseRMC (Encode (NewRMCRequest 0x73 1 2 [3, 4])) = Inr (NewRMCRequest 0x73 1 2 [3, 4])"
proof -
  have "rmc_ok (NewRMCRequest 0x73 1 2 [3, 4])"
    unfolding rmc_ok_def by (auto simp: NewRMCRequest_def rmc_zero_def)
  from rmc_round_trip [OF this] show ?thesis .
qed

text \<open>Protocol 0x7F is the escape of the long form but is written in the short form, so the parser takes the first
  bytes of the call id for a protocol number: the request it was given is never what it returns.\<close>

theorem rmc_protocol_7F_is_misread:
  assumes "length b < 2 ^ 32 - 16"
  shows "ParseRMC (Encode (NewRMCRequest 0x7F m c b)) \<noteq> Inr (NewRMCRequest 0x7F m c b) \<and>
    (length b < 2 \<longrightarrow> ParseRMC (Encode (NewRMCRequest 0x7F m c b)) = Inl ErrUnexpectedEOF)"
proof (cases "length b < 2")
  case True
  then show ?thesis using parse_7F [OF assms, of m c] by simp
next
  case False
  then obtain x where "ParseRMC (Encode (NewRMCRequest 0x7F m c b)) = Inr x" "rm_Body x = drop 2 b"
    using parse_7F [OF assms, of m c] by auto
  moreover have "drop 2 b \<noteq> b" using False by (metis diff_less length_drop less_imp_le_nat linorder_not_le zero_less_numeral less_le_trans nat_neq_iff)
  ultimately show ?thesis using False by (auto simp: NewRMCRequest_def)
qed

theorem rmc_protocol_7F_is_misread_witness:
  "ParseRMC (Encode (NewRMCRequest 0x7F 1 2 [])) = Inl ErrUnexpectedEOF"
  using rmc_protocol_7F_is_misread [of "[]" 1 2] by simp

text \<open>C11: A list read from the wire can never be longer than the bytes that were left: a length prefix larger than
  that is refused before anything is read.  The reader stays inside the data, only moves forward, and does nothing
  once an error is recorded, when the element reader does so.\<close>

theorem list_reader_is_bounded:
  assumes "safe_reader f" "run_state (ReadList f) s = (xs, s')"
  shows "length xs \<le> nat (Remaining s) \<and> safe_step s s'"
  using ReadList_length [OF assms(2)] safe_readerD [OF safe_ReadList [OF assms(1)] assms(2)] by simp

theorem list_reader_is_bounded_witness:
  "length (fst (run_state (ReadList r_U8) (NewStreamIn [255, 255, 255, 255, 1]))) \<le> 5"
  using list_reader_is_bounded [OF safe_U8 prod.collapse [symmetric], of "NewStreamIn [255, 255, 255, 255, 1]"]
  by (simp add: Remaining_def NewStreamIn_def)

text \<open>A station URL survives the wire: rendering it and parsing the text gives it back, with the order of its
  parameters, and reading what was written from a stream gives it back and leaves the stream right behind it.\<close>

theorem station_round_trip:
  assumes "station_wire_ok u"
  shows "ParseStationURL (su_String u) = u \<and>
    run_state r_StationURL (cursor pre (w_StationURL u @ post)) = (u, cursor (pre @ w_StationURL u) post)"
  using assms parse_render [of u] cStation.dec_enc [of u] by (simp add: station_wire_ok_def)

lemma nat_str_77: "nat_str 77 = ''77''"
  by code_simp

theorem station_round_trip_witness:
  "ParseStationURL (su_String (su_SetInt ''port'' 77 (NewStationURL prudp_scheme))) = su_SetInt ''port'' 77 (NewStationURL prudp_scheme)"
proof -
  have "station_wire_ok (su_SetInt ''port'' 77 (NewStationURL prudp_scheme))"
    using nat_str_77 by (auto simp: station_wire_ok_def url_ok_def station_inv_def su_SetInt_def su_Set_def NewStationURL_def station_empty_def
        prudp_scheme_def string_ok_def su_String_def kv_str_def su_Get_def Itoa_def split: if_splits)
  from station_round_trip [OF this] show ?thesis by simp
qed

text \<open>A ticketless CONNECT can inherit only the last login from its own address: in any history of logins and
  recalls with a clock that never goes back, the recall returns the PID of the last login from the same host when
  that login is at most 24 hours old and its PID is not zero, and nothing otherwise.\<close>

theorem recall_returns_last_login_of_host:
  assumes "sorted_wrt (\<lambda>a b. ev_time b \<le> ev_time a) evs" "\<And>ev. ev \<in> set evs \<Longrightarrow> ev_time ev \<le> now"
  shows "fst (RecallAuthPID now addr (auth_run evs)) = (case last_login (ipHost addr) evs of
      Some (p, t) \<Rightarrow> if p \<noteq> 0 \<and> now - t \<le> authRecallTTL then Some p else None | None \<Rightarrow> None)"
  by (rule recall_last_login [OF assms])

theorem recall_returns_last_login_of_host_witness:
  "fst (RecallAuthPID 30 ''1.2.3.4:9'' (auth_run [Recall 25 ''1.2.3.4:1'', Login 20 ''1.2.3.4:5'' 8, Login 10 ''1.2.3.4:6'' 7])) = Some 8"
proof -
  let ?evs = "[Recall 25 ''1.2.3.4:1'', Login 20 ''1.2.3.4:5'' 8, Login 10 ''1.2.3.4:6'' 7]"
  have "sorted_wrt (\<lambda>a b. ev_time b \<le> ev_time a) ?evs" "\<And>ev. ev \<in> set ?evs \<Longrightarrow> ev_time ev \<le> 30" by auto
  from recall_returns_last_login_of_host [of ?evs 30 "''1.2.3.4:9''", OF this] show ?thesis
    by (simp add: ipHost_def SplitHostPort_def last_colon_def authRecallTTL_def)
qed

text \<open>C12: Kerberos decryption accepts a buffer under a key exactly when it is the encryption of the data it returns
  under that key: nothing else passes the checksum, and nothing encrypted is refused.\<close>

theorem kerberos_accepts_exactly_encryptions:
  "kerberosDecrypt key buffer = Inr data \<longleftrightarrow> kerberosEncrypt key data = Inr buffer"
  by (rule decrypt_eq_encrypt)

text \<open>An acknowledgement removes from the packets kept for retransmission every one whose number is at most the
  base, compared as plain 16-bit numbers, and the listed extras, and keeps every other.  A single acknowledgement of
  one packet is treated as a base, so it also drops the earlier packets the peer never acknowledged.\<close>

theorem acknowledgement_is_cumulative:
  "map_of (c_pending (ackPackets base extra c)) n = (if n \<le> base \<or> n \<in> set extra then None else map_of (c_pending c) n) \<and>
   (HasFlag p FlagACK \<and> \<not> HasFlag p FlagMultiACK \<longrightarrow> receiveData p c = (None, ackPackets (pk_PacketID p) [] c))"
  by (simp add: ackPackets_pending receiveData_def)

theorem acknowledgement_is_cumulative_witness:
  "c_pending (snd (receiveData (packet_zero\<lparr>pk_Type := PacketDATA, pk_Flags := FlagACK, pk_PacketID := 13\<rparr>)
      ((NewConnection [] None)\<lparr>c_pending := [(12, [1])]\<rparr>))) = []"
  using acknowledgement_is_cumulative [of 13 "[]" "(NewConnection [] None)\<lparr>c_pending := [(12, [1])]\<rparr>" 12
      "packet_zero\<lparr>pk_Type := PacketDATA, pk_Flags := FlagACK, pk_PacketID := 13\<rparr>"]
  by (simp add: packet_flags HasFlag_def packet_zero_def ackPackets_def NewConnection_def)

text \<open>A CONNECT without the NEED\_ACK flag needs no proof of the access key: with an empty signature it is accepted
  on an endpoint that is not secure, whatever the access key is.\<close>

theorem connect_without_need_ack_skips_the_access_key:
  assumes "\<not> hk_Secure hk" "hk_OnConnect hk = None" "pk_Type p = PacketCONNECT" "\<not> HasFlag p FlagACK" "\<not> HasFlag p FlagNeedACK"
    "pk_Signature p = []"
  shows "c_state (ep_heap (snd (handlePacket hk rnd h p e)) h) = stateConnected \<and>
    FindConnectionByID (ep_connCounter e + 1) (snd (handlePacket hk rnd h p e)) = Some h"
proof -
  let ?e = "on_conn h (\<lambda>c. c\<lparr>c_lastSeen := ep_now e\<rparr>) e"
  have "PacketCONNECT \<noteq> PacketSYN" by (simp add: packet_types)
  then have "handlePacket hk rnd h p e = processCONNECT hk h p ?e" using assms by (simp add: handlePacket_def Let_def)
  then show ?thesis
    using connect_insecure [OF assms(1,2), of p ?e h] signature_only_with_need_ack [OF assms(5)] assms(6)
    by (auto simp: registerConnection_def FindConnectionByID_def Let_def)
qed

theorem connect_without_need_ack_skips_the_access_key_witness:
  "c_state (ep_heap (snd (handlePacket (NewEndpoint (NewSwitchSettings ''secret'' 40000)) [] 0 empty_connect example_endpoint)) 0) = stateConnected"
  using connect_without_need_ack_skips_the_access_key [of "NewEndpoint (NewSwitchSettings ''secret'' 40000)" empty_connect "[]" 0 example_endpoint]
  by (simp add: NewEndpoint_def empty_connect_def packet_zero_def HasFlag_def)

end
